(* ===== verification/Go_Prelude.thy ===== *)
theory Go_Prelude
  imports Main "HOL-Library.Word" "HOL-Library.State_Monad" "HOL-Library.Sublist"
    "HOL-Library.Signed_Division"
begin

text \<open>
  What the Go sources use of their language and of its standard library, shared by every
  component: byte strings and the functions of package \<^verbatim>\<open>strings\<close>, decimal
  formatting and parsing of package \<^verbatim>\<open>strconv\<close>, sized integers, and the rules by
  which a relation between the states before and after a program is carried through the
  state monad.

  A Go string and a Go \<^verbatim>\<open>[]byte\<close> are both a \<^typ>\<open>string\<close> (a list of bytes).
  Case folding and white space are those of ASCII: bytes from 128 on are left alone.
  A Go function returning \<^verbatim>\<open>(T, error)\<close> returns a sum here (\<open>Inl\<close> is the error),
  one returning \<^verbatim>\<open>error\<close> returns an option (\<open>None\<close> is nil).
\<close>

type_synonym int32 = "32 word"
type_synonym int64 = "64 word"
type_synonym bytes = string

named_theorems io_rules \<open>introduction rules for relations between initial and final states\<close>
named_theorems str_simps \<open>evaluation of the string functions\<close>


section \<open>Package strings\<close>

definition strings_HasPrefix :: "string \<Rightarrow> string \<Rightarrow> bool" where
  "strings_HasPrefix s p = (take (length p) s = p)"

fun strings_Index :: "string \<Rightarrow> string \<Rightarrow> nat option" where
  "strings_Index [] sub = (if sub = [] then Some 0 else None)"
| "strings_Index (c # cs) sub =
     (if strings_HasPrefix (c # cs) sub then Some 0
      else map_option Suc (strings_Index cs sub))"

definition strings_Contains :: "string \<Rightarrow> string \<Rightarrow> bool" where
  "strings_Contains s sub = (strings_Index s sub \<noteq> None)"

definition ascii_lower :: "char \<Rightarrow> char" where
  "ascii_lower c =
     (let n = (of_char c :: nat) in if 65 \<le> n \<and> n \<le> 90 then char_of (n + 32) else c)"

definition strings_ToLower :: "string \<Rightarrow> string" where
  "strings_ToLower = map ascii_lower"

definition strings_EqualFold :: "string \<Rightarrow> string \<Rightarrow> bool" where
  "strings_EqualFold s t = (strings_ToLower s = strings_ToLower t)"

definition is_space :: "char \<Rightarrow> bool" where
  "is_space c = (let n = (of_char c :: nat) in n = 32 \<or> (9 \<le> n \<and> n \<le> 13))"

definition strings_TrimSpace :: "string \<Rightarrow> string" where
  "strings_TrimSpace s = rev (dropWhile is_space (rev (dropWhile is_space s)))"

definition strings_TrimRight :: "string \<Rightarrow> char \<Rightarrow> string" where
  "strings_TrimRight s c = rev (dropWhile (\<lambda>x. x = c) (rev s))"

text \<open>\<^verbatim>\<open>strings.Split(s, sep)\<close> for a one-byte separator: never the empty list.\<close>

fun strings_Split :: "char \<Rightarrow> string \<Rightarrow> string list" where
  "strings_Split sep [] = [[]]"
| "strings_Split sep (c # cs) =
     (if c = sep then [] # strings_Split sep cs
      else (case strings_Split sep cs of [] \<Rightarrow> [[c]] | p # ps \<Rightarrow> (c # p) # ps))"

text \<open>\<^verbatim>\<open>strings.SplitN(s, sep, 2)\<close>: the part before the first separator and the rest,
  or \<open>None\<close> where Go returns a single part.\<close>

fun strings_SplitN2 :: "char \<Rightarrow> string \<Rightarrow> (string \<times> string) option" where
  "strings_SplitN2 sep [] = None"
| "strings_SplitN2 sep (c # cs) =
     (if c = sep then Some ([], cs)
      else map_option (\<lambda>(a, b). (c # a, b)) (strings_SplitN2 sep cs))"

fun strings_Join :: "string list \<Rightarrow> string \<Rightarrow> string" where
  "strings_Join [] sep = []"
| "strings_Join [x] sep = x"
| "strings_Join (x # y # xs) sep = x @ sep @ strings_Join (y # xs) sep"

text \<open>\<^verbatim>\<open>strings.Fields\<close>: the maximal runs of non-space bytes.\<close>

fun fields_acc :: "string \<Rightarrow> string \<Rightarrow> string list" where
  "fields_acc acc [] = (if acc = [] then [] else [rev acc])"
| "fields_acc acc (c # cs) =
     (if is_space c then (if acc = [] then fields_acc [] cs else rev acc # fields_acc [] cs)
      else fields_acc (c # acc) cs)"

definition strings_Fields :: "string \<Rightarrow> string list" where
  "strings_Fields s = fields_acc [] s"

definition strings_ReplaceAll :: "string \<Rightarrow> char \<Rightarrow> string \<Rightarrow> string" where
  "strings_ReplaceAll s old new = concat (map (\<lambda>c. if c = old then new else [c]) s)"

text \<open>\<^verbatim>\<open>strings.LastIndex\<close> for a one-byte pattern.\<close>

fun strings_LastIndex :: "string \<Rightarrow> char \<Rightarrow> nat option" where
  "strings_LastIndex [] p = None"
| "strings_LastIndex (c # cs) p =
     (case strings_LastIndex cs p of
        Some i \<Rightarrow> Some (Suc i)
      | None \<Rightarrow> if c = p then Some 0 else None)"

lemmas strings_defs [str_simps] =
  strings_HasPrefix_def strings_Contains_def strings_ToLower_def ascii_lower_def
  strings_EqualFold_def is_space_def strings_TrimSpace_def strings_TrimRight_def
  strings_Fields_def strings_ReplaceAll_def


section \<open>Package strconv and the verbs of package fmt\<close>

fun dec_digits :: "nat \<Rightarrow> string" where
  "dec_digits n =
     (if n < 10 then [char_of (48 + n)] else dec_digits (n div 10) @ [char_of (48 + n mod 10)])"

declare dec_digits.simps [simp del]
declare dec_digits.simps [str_simps]

definition fmt_d :: "int \<Rightarrow> string" where
  "fmt_d i = (if i < 0 then CHR ''-'' # dec_digits (nat (- i)) else dec_digits (nat i))"

text \<open>The verb \<^verbatim>\<open>%q\<close>: Go quotes the string and escapes the quote, the backslash and the
  control bytes.\<close>

definition hex_digit :: "nat \<Rightarrow> char" where
  "hex_digit n = (if n < 10 then char_of (48 + n) else char_of (87 + n))"

definition quote_char :: "char \<Rightarrow> string" where
  "quote_char c =
     (let n = (of_char c :: nat); bs = CHR 0x5C in
      if n = 34 \<or> n = 92 then [bs, c]
      else if n = 7 then [bs, CHR ''a''] else if n = 8 then [bs, CHR ''b'']
      else if n = 12 then [bs, CHR ''f''] else if n = 10 then [bs, CHR ''n'']
      else if n = 13 then [bs, CHR ''r''] else if n = 9 then [bs, CHR ''t'']
      else if n = 11 then [bs, CHR ''v'']
      else if n < 32 \<or> n = 127 then [bs, CHR ''x'', hex_digit (n div 16), hex_digit (n mod 16)]
      else [c])"

definition fmt_q :: "string \<Rightarrow> string" where
  "fmt_q s = [CHR 0x22] @ concat (map quote_char s) @ [CHR 0x22]"

definition is_digit :: "char \<Rightarrow> bool" where
  "is_digit c = (let n = (of_char c :: nat) in 48 \<le> n \<and> n \<le> 57)"

definition digits_value :: "string \<Rightarrow> int" where
  "digits_value s = foldl (\<lambda>acc c. 10 * acc + int (of_char c - 48)) 0 s"

text \<open>
  \<^verbatim>\<open>strconv.ParseInt(s, 10, bits)\<close>. The result is the pair of the value Go returns and
  whether it also returns an error: a syntax error comes with 0, a value out of range with
  the nearest representable one.
\<close>

definition strconv_ParseInt :: "string \<Rightarrow> nat \<Rightarrow> int \<times> bool" where
  "strconv_ParseInt s bits =
     (let neg = (s \<noteq> [] \<and> hd s = CHR ''-'');
          ds = (if s \<noteq> [] \<and> (hd s = CHR ''-'' \<or> hd s = CHR ''+'') then tl s else s);
          v = digits_value ds
      in if ds = [] \<or> \<not> list_all is_digit ds then (0, True)
         else if \<not> neg \<and> v > 2 ^ (bits - 1) - 1 then (2 ^ (bits - 1) - 1, True)
         else if neg \<and> v > 2 ^ (bits - 1) then (- (2 ^ (bits - 1)), True)
         else (if neg then - v else v, False))"

text \<open>Package hex: two lower-case digits per byte.\<close>

definition hex_EncodeToString :: "bytes \<Rightarrow> string" where
  "hex_EncodeToString bs =
     concat (map (\<lambda>c. let n = (of_char c :: nat) in [hex_digit (n div 16), hex_digit (n mod 16)]) bs)"

lemmas strconv_defs [str_simps] =
  fmt_d_def hex_digit_def quote_char_def fmt_q_def is_digit_def digits_value_def
  strconv_ParseInt_def hex_EncodeToString_def


section \<open>Facts about the string functions\<close>

lemma HasPrefix_iff_prefix: "strings_HasPrefix s p \<longleftrightarrow> prefix p s"
proof
  assume "strings_HasPrefix s p"
  then have "s = p @ drop (length p) s"
    unfolding strings_HasPrefix_def by (metis append_take_drop_id)
  then show "prefix p s" by (metis prefixI)
qed (auto simp: strings_HasPrefix_def prefix_def)

lemma HasPrefix_append [simp]: "strings_HasPrefix (p @ s) p"
  by (simp add: strings_HasPrefix_def)

lemma Index_Some_iff:
  "strings_Index s sub = Some i \<longleftrightarrow>
     i \<le> length s \<and> prefix sub (drop i s) \<and> (\<forall>j < i. \<not> prefix sub (drop j s))"
proof (induction s arbitrary: i)
  case Nil
  then show ?case by auto
next
  case (Cons c cs)
  show ?case
  proof (cases i)
    case 0
    then show ?thesis by (auto simp: HasPrefix_iff_prefix)
  next
    case (Suc k)
    have "(\<forall>j < Suc k. \<not> prefix sub (drop j (c # cs))) \<longleftrightarrow>
        \<not> prefix sub (c # cs) \<and> (\<forall>j < k. \<not> prefix sub (drop j cs))"
      by (auto simp: less_Suc_eq_0_disj)
    then show ?thesis using Cons.IH Suc by (auto simp: HasPrefix_iff_prefix)
  qed
qed

lemma Contains_iff: "strings_Contains s sub \<longleftrightarrow> (\<exists>a b. s = a @ sub @ b)"
proof (induction s)
  case Nil
  then show ?case by (auto simp: strings_Contains_def)
next
  case (Cons c cs)
  have "(\<exists>a b. c # cs = a @ sub @ b) \<longleftrightarrow> prefix sub (c # cs) \<or> (\<exists>a b. cs = a @ sub @ b)"
    by (auto simp: prefix_def Cons_eq_append_conv)
  then show ?case using Cons.IH
    by (auto simp: strings_Contains_def HasPrefix_iff_prefix)
qed

lemma Contains_append [simp]:
  "strings_Contains s sub \<Longrightarrow> strings_Contains (a @ s) sub"
  "strings_Contains s sub \<Longrightarrow> strings_Contains (s @ b) sub"
  by (auto simp: Contains_iff) (metis append.assoc)+

lemma Split_nonempty [simp]: "strings_Split sep s \<noteq> []"
  by (induction s) (auto split: list.splits)

lemma Split_no_sep: "p \<in> set (strings_Split sep s) \<Longrightarrow> sep \<notin> set p"
proof (induction s arbitrary: p)
  case (Cons c cs)
  then show ?case by (cases "strings_Split sep cs") (auto split: if_splits)
qed simp

lemma Join_Cons: "xs \<noteq> [] \<Longrightarrow> strings_Join (x # xs) sep = x @ sep @ strings_Join xs sep"
  by (cases xs) auto

lemma Split_append_sep:
  "sep \<notin> set x \<Longrightarrow> strings_Split sep (x @ sep # s) = x # strings_Split sep s"
  by (induction x) auto

lemma Split_no_sep_single: "sep \<notin> set x \<Longrightarrow> strings_Split sep x = [x]"
  by (induction x) auto

lemma Split_Join:
  "xs \<noteq> [] \<Longrightarrow> \<forall>x \<in> set xs. sep \<notin> set x \<Longrightarrow> strings_Split sep (strings_Join xs [sep]) = xs"
proof (induction xs)
  case (Cons x xs)
  then show ?case
    by (cases "xs = []") (auto simp: Join_Cons Split_append_sep Split_no_sep_single)
qed simp

lemma Join_Split: "strings_Join (strings_Split sep s) [sep] = s"
proof (induction s)
  case (Cons c cs)
  obtain p ps where ps: "strings_Split sep cs = p # ps"
    by (cases "strings_Split sep cs") auto
  then show ?case using Cons.IH
    by (cases ps) auto
qed simp

lemma Index_char: "sep \<notin> set a \<Longrightarrow> strings_Index (a @ sep # b) [sep] = Some (length a)"
  by (induction a) (auto simp: strings_HasPrefix_def)

lemma Index_char_None: "strings_Index s [c] = None \<longleftrightarrow> c \<notin> set s"
  by (induction s) (auto simp: strings_HasPrefix_def)

lemma SplitN2_Some_iff:
  "strings_SplitN2 sep s = Some (a, b) \<longleftrightarrow> s = a @ sep # b \<and> sep \<notin> set a"
proof (induction s arbitrary: a b)
  case (Cons c cs)
  show ?case
    by (cases a) (auto simp: Cons.IH)
qed simp

lemma SplitN2_None_iff: "strings_SplitN2 sep s = None \<longleftrightarrow> sep \<notin> set s"
  by (induction s) auto

lemma dec_digits_nonempty [simp]: "dec_digits n \<noteq> []"
  by (subst dec_digits.simps) simp

lemma fmt_d_nonempty [simp]: "fmt_d i \<noteq> []"
  by (simp add: fmt_d_def)

lemma of_char_char_of_digit: "n < 10 \<Longrightarrow> of_char (char_of (48 + n) :: char) = (48 + n :: nat)"
  by (simp add: of_char_of)

lemma is_digit_char_of: "(n::nat) < 10 \<Longrightarrow> is_digit (char_of (48 + n))"
  by (simp add: is_digit_def Let_def of_char_of)

lemma dec_digits_are_digits: "list_all is_digit (dec_digits n)"
proof (induction n rule: dec_digits.induct)
  case (1 n)
  show ?case
  proof (cases "n < 10")
    case True
    then show ?thesis
      by (subst dec_digits.simps) (simp add: is_digit_char_of)
  next
    case False
    then show ?thesis using "1.IH"
      by (subst dec_digits.simps) (simp add: is_digit_char_of)
  qed
qed

lemma digits_value_snoc:
  "digits_value (ds @ [c]) = 10 * digits_value ds + int (of_char c - 48)"
  by (simp add: digits_value_def)

lemma digits_value_dec_digits: "digits_value (dec_digits n) = int n"
proof (induction n rule: dec_digits.induct)
  case (1 n)
  show ?case
  proof (cases "n < 10")
    case True
    then show ?thesis
      by (subst dec_digits.simps) (simp add: digits_value_def of_char_char_of_digit)
  next
    case False
    then have "digits_value (dec_digits n) = 10 * int (n div 10) + int (n mod 10)"
      using "1.IH" by (subst dec_digits.simps)
        (simp add: digits_value_snoc of_char_char_of_digit)
    then show ?thesis by presburger
  qed
qed

text \<open>Formatting a number and parsing it again gives the number, within the width.\<close>

lemma hd_dec_digits: "is_digit (hd (dec_digits n))"
  using dec_digits_are_digits [of n] by (cases "dec_digits n") auto

lemma ParseInt_fmt_d:
  assumes "0 \<le> v" "v \<le> 2 ^ (bits - 1) - 1"
  shows "strconv_ParseInt (fmt_d v) bits = (v, False)"
proof -
  from assms(1) have eq: "fmt_d v = dec_digits (nat v)" by (simp add: fmt_d_def)
  have "hd (dec_digits (nat v)) \<noteq> CHR ''-''" "hd (dec_digits (nat v)) \<noteq> CHR ''+''"
    using hd_dec_digits [of "nat v"] by (auto simp: is_digit_def)
  with assms show ?thesis
    by (simp add: strconv_ParseInt_def eq Let_def dec_digits_are_digits digits_value_dec_digits)
qed

lemma sint_int32: "- (2 ^ 31) \<le> i \<Longrightarrow> i < 2 ^ 31 \<Longrightarrow> sint (word_of_int i :: int32) = i"
  by (simp add: sint_sbintrunc' signed_take_bit_int_eq_self)

lemma sint_int64: "- (2 ^ 63) \<le> i \<Longrightarrow> i < 2 ^ 63 \<Longrightarrow> sint (word_of_int i :: int64) = i"
  by (simp add: sint_sbintrunc' signed_take_bit_int_eq_self)

lemma ToLower_idem [simp]: "strings_ToLower (strings_ToLower s) = strings_ToLower s"
proof -
  have "ascii_lower (ascii_lower c) = ascii_lower c" for c
    by (auto simp: ascii_lower_def Let_def of_char_of)
  then show ?thesis by (simp add: strings_ToLower_def)
qed

lemma EqualFold_refl [simp]: "strings_EqualFold s s"
  by (simp add: strings_EqualFold_def)

lemma ascii_lower_hex_digit: "n < 16 \<Longrightarrow> ascii_lower (hex_digit n) = hex_digit n"
  by (auto simp: ascii_lower_def hex_digit_def Let_def of_char_of)

lemma ToLower_hex [simp]: "strings_ToLower (hex_EncodeToString bs) = hex_EncodeToString bs"
proof (induction bs)
  case Nil
  then show ?case by (simp add: strings_ToLower_def hex_EncodeToString_def)
next
  case (Cons c cs)
  have "of_char c div 16 < (16::nat)" by (simp add: div_less_iff_less_mult)
  then show ?case using Cons.IH
    by (simp add: strings_ToLower_def hex_EncodeToString_def Let_def ascii_lower_hex_digit)
qed


section \<open>Relations between the states before and after a program\<close>

text \<open>
  A contract that every step of a program keeps is a preorder \<open>R\<close> between the state
  before and the state after it. The library's \<^const>\<open>state_io_rel\<close> says that a program
  of the state monad satisfies it from every state. The locale carries such a contract
  through the sequencing of the monad, once for all contracts.
\<close>

locale io_preorder =
  fixes R :: "'s \<Rightarrow> 's \<Rightarrow> bool"
  assumes io_refl: "R s s"
    and io_trans: "R s t \<Longrightarrow> R t u \<Longrightarrow> R s u"
begin

lemma io_return: "state_io_rel R (State_Monad.return x)"
  by (simp add: state_io_rel_def io_refl)

lemma io_get: "state_io_rel R State_Monad.get"
  by (simp add: state_io_rel_def io_refl)

lemma io_bind:
  assumes "state_io_rel R m" "\<And>x. state_io_rel R (f x)"
  shows "state_io_rel R (State_Monad.bind m f)"
proof
  fix a s s'
  assume "run_state (State_Monad.bind m f) s = (a, s')"
  then obtain x t where "run_state m s = (x, t)" "run_state (f x) t = (a, s')"
    by (auto split: prod.splits)
  with assms show "R s s'" by (meson io_trans state_io_relD)
qed

lemma io_if: "state_io_rel R m \<Longrightarrow> state_io_rel R n \<Longrightarrow> state_io_rel R (if b then m else n)"
  by simp

lemma io_case_sum:
  "(\<And>e. state_io_rel R (f e)) \<Longrightarrow> (\<And>x. state_io_rel R (g x)) \<Longrightarrow>
   state_io_rel R (case r of Inl e \<Rightarrow> f e | Inr x \<Rightarrow> g x)"
  by (cases r) auto

lemma io_case_option:
  "state_io_rel R m \<Longrightarrow> (\<And>x. state_io_rel R (g x)) \<Longrightarrow>
   state_io_rel R (case r of None \<Rightarrow> m | Some x \<Rightarrow> g x)"
  by (cases r) auto

lemma io_case_prod:
  "(\<And>x y. state_io_rel R (g x y)) \<Longrightarrow> state_io_rel R (case p of (x, y) \<Rightarrow> g x y)"
  by (cases p) auto

lemma io_update: "(\<And>s. R s (f s)) \<Longrightarrow> state_io_rel R (State_Monad.update f)"
  by (simp add: state_io_rel_def State_Monad.update_def)

lemma io_Let: "state_io_rel R (f x) \<Longrightarrow> state_io_rel R (let y = x in f y)"
  by simp

lemmas io_intros = io_return io_get io_bind io_if io_case_sum io_case_option io_case_prod
  io_Let

end

end
