(* ===== verification/Libvirt_Errors.thy ===== *)
theory Libvirt_Errors
  imports Go_Prelude
begin

text \<open>
  Errors: the error values of the program and \<^verbatim>\<open>internal/libvirt/errors.go\<close>, which
  classifies what virsh prints on its standard error into terminal, transient and
  not-found errors.

  A Go error is a chain: \<open>ErrorText\<close> is \<^verbatim>\<open>errors.New\<close> or \<^verbatim>\<open>fmt.Errorf\<close> without
  \<^verbatim>\<open>%w\<close>, \<open>Wrapf\<close> is \<^verbatim>\<open>fmt.Errorf("<text>%w", err)\<close> (every wrapping of the
  sources ends in \<^verbatim>\<open>%w\<close>), \<open>LibvirtError\<close> is the type of \<^verbatim>\<open>errors.go\<close>, and
  \<open>ApiError\<close> is an error of the Kubernetes client with what \<^verbatim>\<open>apierrors.IsNotFound\<close>
  says of it and its text.
\<close>

section \<open>Error values\<close>

datatype ErrorCategory = ErrorTerminal | ErrorTransient | ErrorNotFound

datatype go_error =
    ErrorText string
  | Wrapf string go_error
  | LibvirtError (Category: ErrorCategory) (Op: string) (Resource: string) (Err: go_error)
  | ApiError bool string

fun error_string :: "go_error \<Rightarrow> string" where
  "error_string (ErrorText s) = s"
| "error_string (Wrapf s e) = s @ error_string e"
| "error_string (LibvirtError c op res e) =
     ''libvirt '' @ op @ '' '' @ res @ '': '' @ error_string e"
| "error_string (ApiError nf s) = s"

text \<open>\<^verbatim>\<open>errors.As(err, &le)\<close> for \<^verbatim>\<open>*LibvirtError\<close>: the first one of the chain.\<close>

fun errors_As_Libvirt :: "go_error \<Rightarrow> ErrorCategory option" where
  "errors_As_Libvirt (ErrorText s) = None"
| "errors_As_Libvirt (Wrapf s e) = errors_As_Libvirt e"
| "errors_As_Libvirt (LibvirtError c op res e) = Some c"
| "errors_As_Libvirt (ApiError nf s) = None"

definition IsNotFound :: "go_error \<Rightarrow> bool" where
  "IsNotFound err =
     (case errors_As_Libvirt err of Some c \<Rightarrow> c = ErrorNotFound | None \<Rightarrow> False)"

definition IsTerminal :: "go_error \<Rightarrow> bool" where
  "IsTerminal err =
     (case errors_As_Libvirt err of Some c \<Rightarrow> c = ErrorTerminal | None \<Rightarrow> False)"

fun apierrors_IsNotFound :: "go_error \<Rightarrow> bool" where
  "apierrors_IsNotFound (ErrorText s) = False"
| "apierrors_IsNotFound (Wrapf s e) = apierrors_IsNotFound e"
| "apierrors_IsNotFound (LibvirtError c op res e) = apierrors_IsNotFound e"
| "apierrors_IsNotFound (ApiError nf s) = nf"


section \<open>Classification of what virsh prints\<close>

definition not_found_phrases :: "string list" where
  "not_found_phrases = [''not found'', ''no domain'', ''failed to get domain'',
     ''no storage vol'', ''storage volume not found'']"

definition exists_phrases :: "string list" where
  "exists_phrases = [''already exists'']"

definition auth_phrases :: "string list" where
  "auth_phrases = [''not authorized'', ''permission denied'', ''authentication failed'']"

definition ClassifyVirshError :: "string \<Rightarrow> string \<Rightarrow> string \<Rightarrow> go_error" where
  "ClassifyVirshError stderr op resource =
     (let lower = strings_ToLower stderr;
          category =
            (if list_ex (strings_Contains lower) not_found_phrases then ErrorNotFound
             else if list_ex (strings_Contains lower) exists_phrases then ErrorTerminal
             else if list_ex (strings_Contains lower) auth_phrases then ErrorTerminal
             else ErrorTransient)
      in LibvirtError category op resource (ErrorText stderr))"


section \<open>Facts\<close>

lemma IsNotFound_simps [simp]:
  "\<not> IsNotFound (ErrorText s)" "\<not> IsNotFound (ApiError nf s)"
  "IsNotFound (Wrapf s e) = IsNotFound e"
  "IsNotFound (LibvirtError c op res e) = (c = ErrorNotFound)"
  by (simp_all add: IsNotFound_def)

lemma IsTerminal_simps [simp]:
  "\<not> IsTerminal (ErrorText s)" "\<not> IsTerminal (ApiError nf s)"
  "IsTerminal (Wrapf s e) = IsTerminal e"
  "IsTerminal (LibvirtError c op res e) = (c = ErrorTerminal)"
  by (simp_all add: IsTerminal_def)

lemma not_found_not_terminal: "IsNotFound e \<Longrightarrow> \<not> IsTerminal e"
  by (auto simp: IsNotFound_def IsTerminal_def split: option.splits)

lemma Contains_mono:
  "strings_Contains s sub \<Longrightarrow> strings_Contains sub p \<Longrightarrow> strings_Contains s p"
  unfolding Contains_iff by (metis append.assoc)

lemma storage_volume_phrase: "strings_Contains ''storage volume not found'' ''not found''"
  by (simp add: str_simps)

lemmas phrase_defs = not_found_phrases_def exists_phrases_def auth_phrases_def

text \<open>The category depends on the phrases found, case-insensitively, not-found first.\<close>

lemma Category_Classify:
  "Category (ClassifyVirshError stderr op res) =
     (let has = (\<lambda>ps. \<exists>p \<in> set ps. strings_Contains (strings_ToLower stderr) p) in
      if has not_found_phrases then ErrorNotFound
      else if has exists_phrases \<or> has auth_phrases then ErrorTerminal
      else ErrorTransient)"
  by (simp add: ClassifyVirshError_def Let_def list_ex_iff)

lemma Category_Classify_lower:
  "Category (ClassifyVirshError (strings_ToLower stderr) op res) =
   Category (ClassifyVirshError stderr op' res')"
  by (simp add: Category_Classify)

end
