(* ===== verification/Api_Types.thy ===== *)
theory Api_Types
  imports Libvirt_Errors "HOL-Library.Finite_Map"
begin

text \<open>
  The custom resources of \<^verbatim>\<open>api/v1alpha1\<close>: \<open>LibvirtMachine\<close>, \<open>LibvirtHost\<close> and
  \<open>LibvirtCluster\<close> with their specs and statuses, the condition types and reasons, and the
  parts of the Cluster API and core objects the controllers read.

  Go distinguishes a nil slice or map from an empty one, and so does
  \<^verbatim>\<open>reflect.DeepEqual\<close>, which the admission webhook uses: a slice or map of a spec is an
  option, with \<open>elems\<close> and \<open>entries\<close> reading it. A \<^verbatim>\<open>resource.Quantity\<close> is the number
  its \<^verbatim>\<open>Value\<close> method returns together with the rest of its representation.
  Timestamps are not modelled; a deletion timestamp is whether it is set.
\<close>

section \<open>Constants of conditions.go\<close>

abbreviation "HostReachableCondition \<equiv> ''Reachable''"
abbreviation "InfrastructureReadyCondition \<equiv> ''InfrastructureReady''"
abbreviation "HostReachableForMachineCondition \<equiv> ''HostReachable''"
abbreviation "BootstrapDataReadyCondition \<equiv> ''BootstrapDataReady''"
abbreviation "BaseImageStagedCondition \<equiv> ''BaseImageStaged''"
abbreviation "CleanupStalledCondition \<equiv> ''CleanupStalled''"
abbreviation "NodeLabelledCondition \<equiv> ''NodeLabelled''"

abbreviation "ReasonBaseImageNotFound \<equiv> ''BaseImageNotFound''"
abbreviation "ReasonBaseImagePoolNotFound \<equiv> ''BaseImagePoolNotFound''"
abbreviation "ReasonStoragePoolNotFound \<equiv> ''StoragePoolNotFound''"
abbreviation "ReasonInvalidBootstrapData \<equiv> ''InvalidBootstrapData''"
abbreviation "ReasonSpecMismatch \<equiv> ''SpecMismatch''"
abbreviation "ReasonNetworkTypeUnsupported \<equiv> ''NetworkTypeUnsupported''"
abbreviation "ReasonStorageInsufficient \<equiv> ''StorageInsufficient''"
abbreviation "ReasonConnectionFailed \<equiv> ''ConnectionFailed''"
abbreviation "ReasonHypervisorUnavailable \<equiv> ''HypervisorUnavailable''"
abbreviation "ReasonSessionModeMisconfigured \<equiv> ''SessionModeMisconfigured''"
abbreviation "ReasonBootstrapDataNotReady \<equiv> ''BootstrapDataNotReady''"
abbreviation "ReasonHostNotReady \<equiv> ''HostNotReady''"
abbreviation "ReasonNodeNotJoined \<equiv> ''NodeNotJoined''"
abbreviation "ReasonBaseImageStaging \<equiv> ''BaseImageStaging''"
abbreviation "ReasonConnectionSucceeded \<equiv> ''ConnectionSucceeded''"
abbreviation "ReasonProvisioned \<equiv> ''Provisioned''"
abbreviation "ReasonClusterReady \<equiv> ''ClusterReady''"
abbreviation "ReasonNodeLabelled \<equiv> ''NodeLabelled''"
abbreviation "ReasonBaseImageStaged \<equiv> ''BaseImageStaged''"
abbreviation "ReasonBootstrapDataReady \<equiv> ''BootstrapDataReady''"
abbreviation "ReasonCleanupStalled \<equiv> ''CleanupStalled''"

abbreviation "MachineFinalizer \<equiv> ''infrastructure.cluster.x-k8s.io/libvirt-machine''"
abbreviation "ManagedNodeLabelsAnnotation \<equiv>
  ''infrastructure.cluster.x-k8s.io/libvirt-managed-labels''"
abbreviation "ManagedNodeAnnotationsAnnotation \<equiv>
  ''infrastructure.cluster.x-k8s.io/libvirt-managed-annotations''"

abbreviation "BootstrapFormatIgnition \<equiv> ''ignition''"
abbreviation "BootstrapFormatCloudInit \<equiv> ''cloud-init''"
abbreviation "NetworkTypeBridge \<equiv> ''bridge''"
abbreviation "NetworkTypeNetwork \<equiv> ''network''"
abbreviation "CloneStrategyFullClone \<equiv> ''full-clone''"
abbreviation "CloneStrategyCopyOnWrite \<equiv> ''copy-on-write''"
abbreviation "FirmwareUEFI \<equiv> ''uefi''"
abbreviation "FirmwareBIOS \<equiv> ''bios''"
abbreviation "BootArtifactsSourceHTTPS \<equiv> ''HTTPS''"
abbreviation "BootArtifactsSourceOCI \<equiv> ''OCI''"
abbreviation "BootArtifactsSourceS3 \<equiv> ''S3''"


section \<open>Metadata, conditions, slices and maps\<close>

record ObjectMeta =
  om_Name :: string
  om_Namespace :: string
  om_Generation :: int64
  om_DeletionTimestamp :: bool
  om_Finalizers :: "string list"
  om_Labels :: "(string, string) fmap"

datatype ConditionStatus = ConditionTrue | ConditionFalse | ConditionUnknown

record Condition =
  cond_Type :: string
  cond_Status :: ConditionStatus
  cond_Reason :: string
  cond_Message :: string
  cond_ObservedGeneration :: int64

record Quantity =
  q_Value :: int64
  q_Repr :: string

type_synonym 'a slice = "'a list option"
type_synonym string_map = "(string, string) fmap option"

definition elems :: "'a slice \<Rightarrow> 'a list" where
  "elems s = (case s of None \<Rightarrow> [] | Some xs \<Rightarrow> xs)"

definition entries :: "string_map \<Rightarrow> (string, string) fmap" where
  "entries m = (case m of None \<Rightarrow> fmempty | Some f \<Rightarrow> f)"

lemma elems_simps [simp]: "elems None = []" "elems (Some xs) = xs"
  by (simp_all add: elems_def)

lemma entries_simps [simp]: "entries None = fmempty" "entries (Some m) = m"
  by (simp_all add: entries_def)


section \<open>LibvirtMachine\<close>

record DomainSpec =
  dom_VCPUs :: int32
  dom_MemoryMB :: int32
  dom_Machine :: string
  dom_Firmware :: string

record RootDiskSpec =
  rd_Size :: Quantity
  rd_StoragePool :: string
  rd_BaseImage :: string
  rd_BaseImagePool :: string
  rd_EphemeralPool :: bool
  rd_EphemeralPoolSize :: string
  rd_Bus :: string
  rd_CloneStrategy :: string

record AdditionalDiskSpec =
  ad_Name :: string
  ad_Size :: Quantity
  ad_StoragePool :: string
  ad_Bus :: string

record DNSSpec =
  dns_Nameservers :: "string slice"
  dns_SearchDomains :: "string slice"

record NetworkSpec =
  net_Type :: string
  net_Name :: string
  net_Model :: string
  net_Addresses :: "string slice"
  net_Gateway :: string
  net_DNS :: "DNSSpec option"
  net_MACAddress :: string

record ManagedArtifacts =
  ma_DomainName :: string
  ma_RootDiskVolume :: string
  ma_BootstrapISO :: string
  ma_IgnitionFile :: string
  ma_NVRAMPath :: string
  ma_EphemeralPoolName :: string
  ma_AdditionalDiskVolumes :: "string list"

record LibvirtMachineSpec =
  ms_HostRef :: string
  ms_Domain :: DomainSpec
  ms_RootDisk :: RootDiskSpec
  ms_AdditionalDisks :: "AdditionalDiskSpec slice"
  ms_Network :: NetworkSpec
  ms_BootstrapFormat :: string
  ms_ProviderID :: "string option"
  ms_NodeLabels :: string_map
  ms_NodeAnnotations :: string_map

record LibvirtMachineStatus =
  st_Ready :: bool
  st_Addresses :: "string list"
  st_DomainUUID :: string
  st_DomainState :: string
  st_ManagedArtifacts :: "ManagedArtifacts option"
  st_FailureReason :: "string option"
  st_FailureMessage :: "string option"
  st_Conditions :: "Condition list"

record LibvirtMachine =
  lm_Meta :: ObjectMeta
  lm_Spec :: LibvirtMachineSpec
  lm_Status :: LibvirtMachineStatus

abbreviation "lm_Name m \<equiv> om_Name (lm_Meta m)"
abbreviation "lm_Namespace m \<equiv> om_Namespace (lm_Meta m)"
abbreviation "lm_Generation m \<equiv> om_Generation (lm_Meta m)"
abbreviation "lm_RootDisk m \<equiv> ms_RootDisk (lm_Spec m)"


section \<open>LibvirtHost\<close>

record SecretReference =
  sref_Name :: string
  sref_Namespace :: string

record ReservedResources =
  rr_VCPUs :: int32
  rr_MemoryMB :: int32

record HostCapacity =
  hc_TotalVCPUs :: int32
  hc_TotalMemoryMB :: int32
  hc_AvailableVCPUs :: int32
  hc_AvailableMemoryMB :: int32

record LibvirtHostSpec =
  hs_URI :: string
  hs_SecretRef :: "SecretReference option"
  hs_HostKeyFingerprint :: string
  hs_FirmwarePath :: string
  hs_NVRAMTemplatePath :: string
  hs_ReservedResources :: "ReservedResources option"
  hs_HealthCheckIntervalSeconds :: int32

record LibvirtHostStatus =
  hst_Ready :: bool
  hst_Capacity :: "HostCapacity option"
  hst_Conditions :: "Condition list"

record LibvirtHost =
  lh_Meta :: ObjectMeta
  lh_Spec :: LibvirtHostSpec
  lh_Status :: LibvirtHostStatus

abbreviation "lh_Name h \<equiv> om_Name (lh_Meta h)"
abbreviation "lh_Namespace h \<equiv> om_Namespace (lh_Meta h)"


section \<open>LibvirtCluster and its artifact sources\<close>

record HTTPSBaseImageSource =
  hb_URL :: string
  hb_SHA256 :: string
  hb_CredentialsSecretRef :: "SecretReference option"
  hb_InsecureSkipTLSVerify :: bool

record OCIBaseImageSource =
  ob_Reference :: string
  ob_BlobTitle :: string
  ob_PlainHTTP :: bool
  ob_InsecureSkipTLSVerify :: bool
  ob_CredentialsSecretRef :: "SecretReference option"
  ob_SHA256 :: string

record S3BaseImageSource =
  sb_Endpoint :: string
  sb_Region :: string
  sb_Bucket :: string
  sb_Key :: string
  sb_UsePathStyle :: bool
  sb_Insecure :: bool
  sb_InsecureSkipTLSVerify :: bool
  sb_CredentialsSecretRef :: "SecretReference option"
  sb_SHA256 :: string

record BaseImageSource =
  bis_Type :: string
  bis_HTTPS :: "HTTPSBaseImageSource option"
  bis_OCI :: "OCIBaseImageSource option"
  bis_S3 :: "S3BaseImageSource option"

record BaseImageSpec =
  bi_Pool :: string
  bi_VolumeName :: string
  bi_Source :: BaseImageSource

record HTTPSBootArtifactsSource =
  ha_KernelURL :: string
  ha_InitramfsURL :: string
  ha_KernelSHA256 :: string
  ha_InitramfsSHA256 :: string

record OCIBootArtifactsSource =
  oa_Reference :: string
  oa_KernelLayerTitle :: string
  oa_InitramfsLayerTitle :: string
  oa_PlainHTTP :: bool
  oa_InsecureSkipTLSVerify :: bool
  oa_CredentialsSecretRef :: "SecretReference option"
  oa_KernelSHA256 :: string
  oa_InitramfsSHA256 :: string

record S3BootArtifactsSource =
  sa_Endpoint :: string
  sa_Region :: string
  sa_Bucket :: string
  sa_KernelKey :: string
  sa_InitramfsKey :: string
  sa_UsePathStyle :: bool
  sa_Insecure :: bool
  sa_InsecureSkipTLSVerify :: bool
  sa_CredentialsSecretRef :: "SecretReference option"
  sa_KernelSHA256 :: string
  sa_InitramfsSHA256 :: string

record BootArtifactsSource =
  bas_Type :: string
  bas_HTTPS :: "HTTPSBootArtifactsSource option"
  bas_OCI :: "OCIBootArtifactsSource option"
  bas_S3 :: "S3BootArtifactsSource option"

record BootArtifactsSpec =
  ba_HostPath :: string
  ba_KernelArgs :: string
  ba_Source :: BootArtifactsSource

record LibvirtClusterSpec =
  cs_EndpointHost :: string
  cs_EndpointPort :: int32
  cs_BootArtifacts :: "BootArtifactsSpec option"
  cs_BaseImage :: "BaseImageSpec option"

record LibvirtClusterStatus =
  cst_Ready :: bool
  cst_Conditions :: "Condition list"

record LibvirtCluster =
  lc_Meta :: ObjectMeta
  lc_Spec :: LibvirtClusterSpec
  lc_Status :: LibvirtClusterStatus


section \<open>What the controllers read of Cluster API and core objects\<close>

record Cluster =
  cl_Name :: string
  cl_Namespace :: string
  cl_InfrastructureRef :: "string option"

record InfrastructureRef =
  ir_Kind :: string
  ir_Namespace :: string
  ir_Name :: string

record Machine =
  mc_Namespace :: string
  mc_DataSecretName :: "string option"
  mc_InfrastructureRef :: InfrastructureRef
  mc_Labels :: "(string, string) fmap"

type_synonym Secret = "(string, bytes) fmap"

record Node =
  node_Name :: string
  node_Labels :: "(string, string) fmap"
  node_Annotations :: "(string, string) fmap"

record Result =
  RequeueAfter :: nat

abbreviation "empty_result \<equiv> \<lparr>RequeueAfter = 0\<rparr>"

end
