(* ===== verification/Examples.thy ===== *)
theory Examples
  imports Api_Types
begin

text \<open>
  Concrete objects that the witnesses of the properties apply them to: a machine on a host of a
  cluster, as a user would declare them.
\<close>

definition example_meta :: "string \<Rightarrow> ObjectMeta" where
  "example_meta name = \<lparr>om_Name = name, om_Namespace = ''ns'', om_Generation = 1,
     om_DeletionTimestamp = False, om_Finalizers = [], om_Labels = fmempty\<rparr>"

definition example_spec :: LibvirtMachineSpec where
  "example_spec = \<lparr>
     ms_HostRef = ''h0'',
     ms_Domain = \<lparr>dom_VCPUs = 4, dom_MemoryMB = 8192, dom_Machine = ''q35'', dom_Firmware = FirmwareUEFI\<rparr>,
     ms_RootDisk = \<lparr>rd_Size = \<lparr>q_Value = 10737418240, q_Repr = ''10Gi''\<rparr>, rd_StoragePool = ''pool'',
       rd_BaseImage = ''base.qcow2'', rd_BaseImagePool = '''', rd_EphemeralPool = False,
       rd_EphemeralPoolSize = '''', rd_Bus = ''virtio'', rd_CloneStrategy = CloneStrategyCopyOnWrite\<rparr>,
     ms_AdditionalDisks = Some [\<lparr>ad_Name = ''data'', ad_Size = \<lparr>q_Value = 1073741824, q_Repr = ''1Gi''\<rparr>,
       ad_StoragePool = ''pool'', ad_Bus = ''virtio''\<rparr>],
     ms_Network = \<lparr>net_Type = NetworkTypeBridge, net_Name = ''br0'', net_Model = ''virtio'',
       net_Addresses = Some [''10.0.0.5/24''], net_Gateway = ''10.0.0.1'', net_DNS = None,
       net_MACAddress = ''''\<rparr>,
     ms_BootstrapFormat = BootstrapFormatIgnition,
     ms_ProviderID = None,
     ms_NodeLabels = None,
     ms_NodeAnnotations = None\<rparr>"

definition example_status :: LibvirtMachineStatus where
  "example_status = \<lparr>st_Ready = False, st_Addresses = [], st_DomainUUID = '''',
     st_DomainState = '''', st_ManagedArtifacts = None, st_FailureReason = None,
     st_FailureMessage = None, st_Conditions = []\<rparr>"

definition example_machine :: "string \<Rightarrow> LibvirtMachine" where
  "example_machine name =
     \<lparr>lm_Meta = example_meta name, lm_Spec = example_spec, lm_Status = example_status\<rparr>"

definition example_host :: LibvirtHost where
  "example_host = \<lparr>lh_Meta = example_meta ''h0'',
     lh_Spec = \<lparr>hs_URI = ''qemu+ssh://core@h0/system'', hs_SecretRef = None,
       hs_HostKeyFingerprint = '''', hs_FirmwarePath = '''', hs_NVRAMTemplatePath = '''',
       hs_ReservedResources = Some \<lparr>rr_VCPUs = 2, rr_MemoryMB = 2048\<rparr>,
       hs_HealthCheckIntervalSeconds = 60\<rparr>,
     lh_Status = \<lparr>hst_Ready = True, hst_Capacity = None, hst_Conditions = []\<rparr>\<rparr>"

lemmas example_defs = example_meta_def example_spec_def example_status_def example_machine_def
  example_host_def

end
