(* ===== verification/Kube_Api.thy ===== *)
theory Kube_Api
  imports Examples
begin

text \<open>
  What the controllers rely on of the Kubernetes libraries, which are not part of the sources:
  the documented effect of \<^verbatim>\<open>apimeta.SetStatusCondition\<close> and
  \<^verbatim>\<open>apimeta.RemoveStatusCondition\<close> on a list of conditions, as predicates on the parameters
  that stand for them; and concrete functions that satisfy them, for the witnesses.
\<close>

type_synonym set_condition_fn = "Condition list \<Rightarrow> Condition \<Rightarrow> Condition list"
type_synonym remove_condition_fn = "Condition list \<Rightarrow> string \<Rightarrow> Condition list"

definition FindStatusCondition :: "Condition list \<Rightarrow> string \<Rightarrow> Condition option" where
  "FindStatusCondition cs t = find (\<lambda>c. cond_Type c = t) cs"

text \<open>Setting a condition makes it the condition of its type and leaves the others.\<close>

definition sets_condition :: "set_condition_fn \<Rightarrow> bool" where
  "sets_condition f \<longleftrightarrow>
     (\<forall>cs c t. FindStatusCondition (f cs c) t =
        (if t = cond_Type c then Some c else FindStatusCondition cs t))"

definition removes_condition :: "remove_condition_fn \<Rightarrow> bool" where
  "removes_condition f \<longleftrightarrow>
     (\<forall>cs t t'. FindStatusCondition (f cs t) t' =
        (if t' = t then None else FindStatusCondition cs t'))"

lemma find_after_set:
  "sets_condition f \<Longrightarrow> FindStatusCondition (f cs c) t =
     (if t = cond_Type c then Some c else FindStatusCondition cs t)"
  by (simp add: sets_condition_def)

fun example_set :: "Condition list \<Rightarrow> Condition \<Rightarrow> Condition list" where
  "example_set [] c = [c]"
| "example_set (x # xs) c = (if cond_Type x = cond_Type c then c # xs else x # example_set xs c)"

definition example_remove :: "Condition list \<Rightarrow> string \<Rightarrow> Condition list" where
  "example_remove cs t = filter (\<lambda>c. cond_Type c \<noteq> t) cs"

lemma example_set_sets: "sets_condition example_set"
  unfolding sets_condition_def
proof (intro allI)
  fix cs c t
  show "FindStatusCondition (example_set cs c) t =
      (if t = cond_Type c then Some c else FindStatusCondition cs t)"
    by (induction cs c rule: example_set.induct) (auto simp: FindStatusCondition_def)
qed

lemma example_remove_removes: "removes_condition example_remove"
  unfolding removes_condition_def
proof (intro allI)
  fix cs t t'
  show "FindStatusCondition (example_remove cs t) t' = (if t' = t then None else FindStatusCondition cs t')"
    by (induction cs) (auto simp: FindStatusCondition_def example_remove_def)
qed

end
