(* ===== verification/Libvirt_Client.thy ===== *)
theory Libvirt_Client
  imports Api_Types
begin

text \<open>
  \<^verbatim>\<open>internal/libvirt/client.go\<close>: the interface through which the controllers drive a
  libvirt host, as a record of programs over the world \<open>'w\<close>; and
  \<^verbatim>\<open>internal/libvirt/mock_client.go\<close>, its implementation by optional functions.

  \<open>GetNodeInfo\<close> returns an option: \<open>None\<close> is the run-time panic of
  \<^verbatim>\<open>virsh_client.go\<close> on a line without a value.
\<close>

section \<open>The interface\<close>

record DomainInfo =
  di_Name :: string
  di_UUID :: string
  di_State :: string

record NodeInfo =
  ni_CPUs :: int32
  ni_MemoryKB :: int64

record 'w Client =
  Ping :: "('w, go_error option) state"
  VerifyHypervisor :: "('w, go_error option) state"
  VerifySessionPrerequisites :: "('w, go_error option) state"
  GetNodeInfo :: "('w, (go_error + NodeInfo) option) state"
  DomainExists :: "string \<Rightarrow> ('w, go_error + bool) state"
  GetDomain :: "string \<Rightarrow> ('w, go_error + DomainInfo) state"
  DefineDomain :: "string \<Rightarrow> ('w, go_error + DomainInfo) state"
  StartDomain :: "string \<Rightarrow> ('w, go_error option) state"
  DestroyDomain :: "string \<Rightarrow> ('w, go_error option) state"
  UndefineDomain :: "string \<Rightarrow> ('w, go_error option) state"
  PoolExists :: "string \<Rightarrow> ('w, go_error + bool) state"
  PoolIsActive :: "string \<Rightarrow> ('w, go_error + bool) state"
  StartPool :: "string \<Rightarrow> ('w, go_error option) state"
  CreateTmpfsPool :: "string \<Rightarrow> string \<Rightarrow> string \<Rightarrow> ('w, go_error option) state"
  DestroyPool :: "string \<Rightarrow> ('w, go_error option) state"
  VolumeExists :: "string \<Rightarrow> string \<Rightarrow> ('w, go_error + bool) state"
  CreateVolumeFromBackingStore ::
    "string \<Rightarrow> string \<Rightarrow> string \<Rightarrow> int64 \<Rightarrow> ('w, go_error option) state"
  CloneVolume :: "string \<Rightarrow> string \<Rightarrow> string \<Rightarrow> ('w, go_error option) state"
  CreateVolume :: "string \<Rightarrow> string \<Rightarrow> int64 \<Rightarrow> ('w, go_error option) state"
  UploadVolumeFromBytes :: "string \<Rightarrow> string \<Rightarrow> bytes \<Rightarrow> ('w, go_error option) state"
  UploadQcow2Volume :: "string \<Rightarrow> string \<Rightarrow> bytes \<Rightarrow> int64 \<Rightarrow> ('w, go_error option) state"
  DeleteVolume :: "string \<Rightarrow> string \<Rightarrow> ('w, go_error option) state"
  GetVolumePath :: "string \<Rightarrow> string \<Rightarrow> ('w, go_error + string) state"
  WriteRemoteFile :: "string \<Rightarrow> bytes \<Rightarrow> ('w, go_error option) state"
  RemoteFileExists :: "string \<Rightarrow> ('w, go_error + bool) state"
  DeleteRemoteFile :: "string \<Rightarrow> ('w, go_error option) state"


section \<open>MockClient\<close>

text \<open>A field that is \<open>None\<close> is a nil function.\<close>

record 'w MockClient =
  PingFn :: "('w, go_error option) state option"
  VerifyHypervisorFn :: "('w, go_error option) state option"
  VerifySessionPrerequisitesFn :: "('w, go_error option) state option"
  GetNodeInfoFn :: "('w, (go_error + NodeInfo) option) state option"
  DomainExistsFn :: "(string \<Rightarrow> ('w, go_error + bool) state) option"
  GetDomainFn :: "(string \<Rightarrow> ('w, go_error + DomainInfo) state) option"
  DefineDomainFn :: "(string \<Rightarrow> ('w, go_error + DomainInfo) state) option"
  StartDomainFn :: "(string \<Rightarrow> ('w, go_error option) state) option"
  DestroyDomainFn :: "(string \<Rightarrow> ('w, go_error option) state) option"
  UndefineDomainFn :: "(string \<Rightarrow> ('w, go_error option) state) option"
  PoolExistsFn :: "(string \<Rightarrow> ('w, go_error + bool) state) option"
  PoolIsActiveFn :: "(string \<Rightarrow> ('w, go_error + bool) state) option"
  StartPoolFn :: "(string \<Rightarrow> ('w, go_error option) state) option"
  CreateTmpfsPoolFn :: "(string \<Rightarrow> string \<Rightarrow> string \<Rightarrow> ('w, go_error option) state) option"
  DestroyPoolFn :: "(string \<Rightarrow> ('w, go_error option) state) option"
  VolumeExistsFn :: "(string \<Rightarrow> string \<Rightarrow> ('w, go_error + bool) state) option"
  CreateVolumeFromBackingStoreFn ::
    "(string \<Rightarrow> string \<Rightarrow> string \<Rightarrow> int64 \<Rightarrow> ('w, go_error option) state) option"
  CloneVolumeFn :: "(string \<Rightarrow> string \<Rightarrow> string \<Rightarrow> ('w, go_error option) state) option"
  CreateVolumeFn :: "(string \<Rightarrow> string \<Rightarrow> int64 \<Rightarrow> ('w, go_error option) state) option"
  UploadVolumeFromBytesFn :: "(string \<Rightarrow> string \<Rightarrow> bytes \<Rightarrow> ('w, go_error option) state) option"
  UploadQcow2VolumeFn ::
    "(string \<Rightarrow> string \<Rightarrow> bytes \<Rightarrow> int64 \<Rightarrow> ('w, go_error option) state) option"
  DeleteVolumeFn :: "(string \<Rightarrow> string \<Rightarrow> ('w, go_error option) state) option"
  GetVolumePathFn :: "(string \<Rightarrow> string \<Rightarrow> ('w, go_error + string) state) option"
  WriteRemoteFileFn :: "(string \<Rightarrow> bytes \<Rightarrow> ('w, go_error option) state) option"
  RemoteFileExistsFn :: "(string \<Rightarrow> ('w, go_error + bool) state) option"
  DeleteRemoteFileFn :: "(string \<Rightarrow> ('w, go_error option) state) option"

definition delegate :: "'f option \<Rightarrow> 'f \<Rightarrow> 'f" where
  "delegate fn nilfn = (case fn of Some f \<Rightarrow> f | None \<Rightarrow> nilfn)"

lemma delegate_simps [simp]: "delegate (Some f) d = f" "delegate None d = d"
  by (simp_all add: delegate_def)

abbreviation "nil_error \<equiv> State_Monad.return (None :: go_error option)"
abbreviation "empty_domain \<equiv> \<lparr>di_Name = '''', di_UUID = '''', di_State = ''''\<rparr>"

definition mock_client :: "'w MockClient \<Rightarrow> 'w Client" where
  "mock_client m = \<lparr>
     Ping = delegate (PingFn m) nil_error,
     VerifyHypervisor = delegate (VerifyHypervisorFn m) nil_error,
     VerifySessionPrerequisites = delegate (VerifySessionPrerequisitesFn m) nil_error,
     GetNodeInfo = delegate (GetNodeInfoFn m)
       (State_Monad.return (Some (Inr \<lparr>ni_CPUs = 0, ni_MemoryKB = 0\<rparr>))),
     DomainExists = delegate (DomainExistsFn m) (\<lambda>name. State_Monad.return (Inr False)),
     GetDomain = delegate (GetDomainFn m) (\<lambda>name. State_Monad.return (Inr empty_domain)),
     DefineDomain = delegate (DefineDomainFn m) (\<lambda>xml. State_Monad.return (Inr empty_domain)),
     StartDomain = delegate (StartDomainFn m) (\<lambda>name. nil_error),
     DestroyDomain = delegate (DestroyDomainFn m) (\<lambda>name. nil_error),
     UndefineDomain = delegate (UndefineDomainFn m) (\<lambda>name. nil_error),
     PoolExists = delegate (PoolExistsFn m) (\<lambda>name. State_Monad.return (Inr False)),
     PoolIsActive = delegate (PoolIsActiveFn m) (\<lambda>name. State_Monad.return (Inr True)),
     StartPool = delegate (StartPoolFn m) (\<lambda>name. nil_error),
     CreateTmpfsPool = delegate (CreateTmpfsPoolFn m) (\<lambda>name path size. nil_error),
     DestroyPool = delegate (DestroyPoolFn m) (\<lambda>name. nil_error),
     VolumeExists = delegate (VolumeExistsFn m) (\<lambda>pool name. State_Monad.return (Inr False)),
     CreateVolumeFromBackingStore = delegate (CreateVolumeFromBackingStoreFn m)
       (\<lambda>pool name path size. nil_error),
     CloneVolume = delegate (CloneVolumeFn m) (\<lambda>pool source target. nil_error),
     CreateVolume = delegate (CreateVolumeFn m) (\<lambda>pool name size. nil_error),
     UploadVolumeFromBytes = delegate (UploadVolumeFromBytesFn m) (\<lambda>pool name data. nil_error),
     UploadQcow2Volume = delegate (UploadQcow2VolumeFn m) (\<lambda>pool name data size. nil_error),
     DeleteVolume = delegate (DeleteVolumeFn m) (\<lambda>pool name. nil_error),
     GetVolumePath = delegate (GetVolumePathFn m) (\<lambda>pool name. State_Monad.return (Inr '''')),
     WriteRemoteFile = delegate (WriteRemoteFileFn m) (\<lambda>path data. nil_error),
     RemoteFileExists = delegate (RemoteFileExistsFn m) (\<lambda>path. State_Monad.return (Inr False)),
     DeleteRemoteFile = delegate (DeleteRemoteFileFn m) (\<lambda>path. nil_error) \<rparr>"

definition no_mocks :: "'w MockClient" where
  "no_mocks = \<lparr>PingFn = None, VerifyHypervisorFn = None, VerifySessionPrerequisitesFn = None,
     GetNodeInfoFn = None, DomainExistsFn = None, GetDomainFn = None, DefineDomainFn = None,
     StartDomainFn = None, DestroyDomainFn = None, UndefineDomainFn = None, PoolExistsFn = None,
     PoolIsActiveFn = None, StartPoolFn = None, CreateTmpfsPoolFn = None, DestroyPoolFn = None,
     VolumeExistsFn = None, CreateVolumeFromBackingStoreFn = None, CloneVolumeFn = None,
     CreateVolumeFn = None, UploadVolumeFromBytesFn = None, UploadQcow2VolumeFn = None,
     DeleteVolumeFn = None, GetVolumePathFn = None, WriteRemoteFileFn = None,
     RemoteFileExistsFn = None, DeleteRemoteFileFn = None\<rparr>"


section \<open>The contract on missing objects\<close>

text \<open>
  What the controllers rely on: a query for existence answers \<^verbatim>\<open>false\<close> for a missing object
  instead of failing, and removing a missing object succeeds. So the error of such a call is
  never a not-found error.
\<close>

locale libvirt_contract =
  fixes cl :: "'w Client"
  assumes DomainExists_err:
      "fst (run_state (DomainExists cl name) w) = Inl e \<Longrightarrow> \<not> IsNotFound e"
    and PoolExists_err:
      "fst (run_state (PoolExists cl name) w) = Inl e \<Longrightarrow> \<not> IsNotFound e"
    and VolumeExists_err:
      "fst (run_state (VolumeExists cl pool name) w) = Inl e \<Longrightarrow> \<not> IsNotFound e"
    and DestroyDomain_err:
      "fst (run_state (DestroyDomain cl name) w) = Some e \<Longrightarrow> \<not> IsNotFound e"
    and UndefineDomain_err:
      "fst (run_state (UndefineDomain cl name) w) = Some e \<Longrightarrow> \<not> IsNotFound e"
    and DestroyPool_err:
      "fst (run_state (DestroyPool cl name) w) = Some e \<Longrightarrow> \<not> IsNotFound e"
    and DeleteVolume_err:
      "fst (run_state (DeleteVolume cl pool name) w) = Some e \<Longrightarrow> \<not> IsNotFound e"
begin

lemmas removal_errors = DestroyDomain_err UndefineDomain_err DestroyPool_err DeleteVolume_err

end

interpretation mq: libvirt_contract "mock_client no_mocks"
  by unfold_locales (auto simp: mock_client_def no_mocks_def)

end
