(* ===== verification/Go_Net.thy ===== *)
theory Go_Net
  imports Go_Prelude
begin

text \<open>
  The part of Go's \<^verbatim>\<open>net\<close> package that the sources use: whether \<^verbatim>\<open>net.ParseCIDR\<close>
  accepts a text (\<^verbatim>\<open>netip.ParseAddr\<close> for the address, \<^verbatim>\<open>dtoi\<close> for the length; only the
  error is used, never the address), and \<^verbatim>\<open>net.JoinHostPort\<close>.
\<close>

section \<open>Addresses\<close>

text \<open>\<^verbatim>\<open>parseIPv4Fields\<close>: the field being read, its value and number of digits so far, and
  the previous byte.\<close>

fun ipv4_fields :: "nat \<Rightarrow> int \<Rightarrow> nat \<Rightarrow> char option \<Rightarrow> string \<Rightarrow> bool" where
  "ipv4_fields pos val digLen prev [] = (pos = 3)"
| "ipv4_fields pos val digLen prev (c # cs) =
     (if is_digit c
      then if digLen = 1 \<and> val = 0 then False
           else let val' = val * 10 + (int (of_char c) - 48)
                in if val' > 255 then False else ipv4_fields pos val' (digLen + 1) (Some c) cs
      else if c = CHR ''.''
      then if prev = None \<or> cs = [] \<or> prev = Some (CHR ''.'') then False
           else if pos = 3 then False
           else ipv4_fields (pos + 1) 0 0 (Some c) cs
      else False)"

definition is_hex :: "char \<Rightarrow> bool" where
  "is_hex c = (is_digit c \<or> c \<in> set ''abcdefABCDEF'')"

text \<open>One group of an IPv6 address: the number of digits and the rest, \<open>None\<close> for a fifth
  digit. Four digits never pass 0xFFFF.\<close>

fun hex_scan :: "nat \<Rightarrow> string \<Rightarrow> (nat \<times> string) option" where
  "hex_scan off [] = Some (off, [])"
| "hex_scan off (c # cs) =
     (if is_hex c then if off > 3 then None else hex_scan (off + 1) cs
      else Some (off, c # cs))"

definition ipv6_end :: "nat \<Rightarrow> bool \<Rightarrow> string \<Rightarrow> bool" where
  "ipv6_end i ellipsis s = (s = [] \<and> (if i < 16 then ellipsis else \<not> ellipsis))"

function ipv6_loop :: "nat \<Rightarrow> bool \<Rightarrow> string \<Rightarrow> bool" where
  "ipv6_loop i ellipsis s =
     (if i \<ge> 16 then ipv6_end i ellipsis s
      else case hex_scan 0 s of
        None \<Rightarrow> False
      | Some (off, rest) \<Rightarrow>
          if off = 0 then False
          else if rest = [] then ipv6_end (i + 2) ellipsis []
          else if hd rest = CHR ''.''
          then if \<not> ellipsis \<and> i \<noteq> 12 then False
               else if i + 4 > 16 then False
               else ipv4_fields 0 0 0 None s \<and> ipv6_end (i + 4) ellipsis []
          else if hd rest \<noteq> CHR '':'' \<or> tl rest = [] then False
          else if hd (tl rest) = CHR '':''
          then if ellipsis then False
               else if tl (tl rest) = [] then ipv6_end (i + 2) True []
               else ipv6_loop (i + 2) True (tl (tl rest))
          else ipv6_loop (i + 2) ellipsis (tl rest))"
  by pat_completeness auto
termination by (relation "measure (\<lambda>(i, e, s). 16 - i)") auto

declare ipv6_loop.simps [simp del]

text \<open>An address with a zone is accepted by the address parser and then refused by
  \<^verbatim>\<open>ParseCIDR\<close>, and an empty zone is refused at once: a percent sign refuses the text
  either way.\<close>

definition ipv6_ok :: "string \<Rightarrow> bool" where
  "ipv6_ok s =
     (if CHR ''%'' \<in> set s then False
      else if take 2 s = ''::''
      then drop 2 s = [] \<or> ipv6_loop 0 True (drop 2 s)
      else ipv6_loop 0 False s)"

fun addr_bits :: "string \<Rightarrow> string \<Rightarrow> int option" where
  "addr_bits s [] = None"
| "addr_bits s (c # cs) =
     (if c = CHR ''.'' then if ipv4_fields 0 0 0 None s then Some 32 else None
      else if c = CHR '':'' then if ipv6_ok s then Some 128 else None
      else if c = CHR ''%'' then None
      else addr_bits s cs)"

definition net_ParseCIDR_ok :: "string \<Rightarrow> bool" where
  "net_ParseCIDR_ok s =
     (case strings_SplitN2 (CHR ''/'') s of
        None \<Rightarrow> False
      | Some (addr, len) \<Rightarrow>
          (case addr_bits addr addr of
             None \<Rightarrow> False
           | Some n \<Rightarrow>
               len \<noteq> [] \<and> list_all is_digit len \<and> digits_value len \<le> n))"

definition net_JoinHostPort :: "string \<Rightarrow> string \<Rightarrow> string" where
  "net_JoinHostPort host port =
     (if CHR '':'' \<in> set host then ''['' @ host @ '']:'' @ port else host @ '':'' @ port)"


section \<open>IPv4 addresses in CIDR notation\<close>

lemma is_digit_not_dot: "is_digit c \<Longrightarrow> c \<noteq> CHR ''.'' \<and> c \<noteq> CHR '':'' \<and> c \<noteq> CHR ''%'' \<and> c \<noteq> CHR ''/''"
  by (auto simp: is_digit_def)

lemma of_char_digit [simp]: "(n::nat) < 10 \<Longrightarrow> int (of_char (char_of (48 + n) :: char)) = 48 + int n"
  by (simp add: of_char_char_of_digit)

lemma dec_digits_small:
  "n < 10 \<Longrightarrow> dec_digits n = [char_of (48 + n)]"
  "10 \<le> n \<Longrightarrow> dec_digits n = dec_digits (n div 10) @ [char_of (48 + n mod 10)]"
  by (simp_all add: dec_digits.simps)

lemma ipv4_fields_octet:
  assumes "n < 256"
  shows "\<exists>k p. (\<forall>rest. ipv4_fields pos 0 0 prev (dec_digits n @ rest) = ipv4_fields pos (int n) k p rest) \<and>
    p \<noteq> None \<and> p \<noteq> Some (CHR ''.'')"
proof -
  have dot: "d < 10 \<Longrightarrow> char_of (48 + d) \<noteq> CHR ''.''" for d :: nat
    using is_digit_char_of [of d] is_digit_not_dot by blast
  have val: "int (m div 10) * 10 + int (m mod 10) = int m" for m
    by (simp add: zdiv_int zmod_int)
  have d3: "n div 10 div 10 < 10" "n div 10 mod 10 < 10" "n mod 10 < 10" using assms by auto
  consider "n < 10" | "10 \<le> n" "n < 100" | "100 \<le> n" by linarith
  then show ?thesis
  proof cases
    case 1
    then show ?thesis
      by (intro exI [of _ 1] exI [of _ "Some (char_of (48 + n))"])
         (use assms dot [of n] in \<open>auto simp: dec_digits_small is_digit_char_of\<close>)
  next
    case 2
    then have q: "n div 10 < 10" "n div 10 \<noteq> 0" by auto
    then show ?thesis
      by (intro exI [of _ 2] exI [of _ "Some (char_of (48 + n mod 10))"])
         (use 2 dot [of "n mod 10"] in \<open>auto simp: dec_digits_small is_digit_char_of Let_def numeral_2_eq_2 val\<close>)
  next
    case 3
    then have q: "10 \<le> n div 10" "n div 10 div 10 \<noteq> 0" "10 \<le> n" by auto
    then show ?thesis
      by (intro exI [of _ 3] exI [of _ "Some (char_of (48 + n mod 10))"])
         (use 3 d3 assms dot [of "n mod 10"] in
           \<open>auto simp: dec_digits_small is_digit_char_of Let_def numeral_3_eq_3 val\<close>)
  qed
qed

definition ipv4_text :: "nat \<Rightarrow> nat \<Rightarrow> nat \<Rightarrow> nat \<Rightarrow> string" where
  "ipv4_text a b c d =
     dec_digits a @ ''.'' @ dec_digits b @ ''.'' @ dec_digits c @ ''.'' @ dec_digits d"

lemma dot_step:
  assumes "p \<noteq> None" "p \<noteq> Some (CHR ''.'')" "pos < 3" "rest \<noteq> []"
  shows "ipv4_fields pos v k p (CHR ''.'' # rest) = ipv4_fields (pos + 1) 0 0 (Some (CHR ''.'')) rest"
  using assms by (auto simp: is_digit_def)

lemma ipv4_fields_text:
  assumes "a < 256" "b < 256" "c < 256" "d < 256"
  shows "ipv4_fields 0 0 0 None (ipv4_text a b c d)"
proof -
  obtain ka pa where a: "\<And>r. ipv4_fields 0 0 0 None (dec_digits a @ r) = ipv4_fields 0 (int a) ka pa r"
    "pa \<noteq> None" "pa \<noteq> Some (CHR ''.'')" using ipv4_fields_octet [OF assms(1)] by metis
  obtain kb pb where b: "\<And>r. ipv4_fields 1 0 0 (Some (CHR ''.'')) (dec_digits b @ r) = ipv4_fields 1 (int b) kb pb r"
    "pb \<noteq> None" "pb \<noteq> Some (CHR ''.'')" using ipv4_fields_octet [OF assms(2)] by metis
  obtain kc pc where c: "\<And>r. ipv4_fields 2 0 0 (Some (CHR ''.'')) (dec_digits c @ r) = ipv4_fields 2 (int c) kc pc r"
    "pc \<noteq> None" "pc \<noteq> Some (CHR ''.'')" using ipv4_fields_octet [OF assms(3)] by metis
  obtain kd pd where d: "\<And>r. ipv4_fields 3 0 0 (Some (CHR ''.'')) (dec_digits d @ r) = ipv4_fields 3 (int d) kd pd r"
    using ipv4_fields_octet [OF assms(4)] by metis
  show ?thesis
    using d [of "[]"]
    by (simp del: ipv4_fields.simps(2) One_nat_def add: ipv4_text_def a b c dot_step)
qed

lemma addr_bits_dot:
  "list_all is_digit ds \<Longrightarrow>
   addr_bits s (ds @ CHR ''.'' # r) = (if ipv4_fields 0 0 0 None s then Some 32 else None)"
  by (induction ds) (auto dest: is_digit_not_dot)

lemma ParseCIDR_ipv4:
  assumes "a < 256" "b < 256" "c < 256" "d < 256"
  shows "net_ParseCIDR_ok (ipv4_text a b c d @ ''/'' @ dec_digits n) \<longleftrightarrow> n \<le> 32"
proof -
  have no: "CHR ''/'' \<notin> set (dec_digits k)" for k
    using dec_digits_are_digits [of k] is_digit_not_dot by (auto simp: list_all_iff)
  have "strings_SplitN2 (CHR ''/'') (ipv4_text a b c d @ ''/'' @ dec_digits n) =
      Some (ipv4_text a b c d, dec_digits n)"
    using no by (auto simp: SplitN2_Some_iff ipv4_text_def)
  moreover have "addr_bits (ipv4_text a b c d) (ipv4_text a b c d) = Some 32"
    using addr_bits_dot [OF dec_digits_are_digits] ipv4_fields_text [OF assms]
    by (simp add: ipv4_text_def)
  ultimately show ?thesis
    by (simp add: net_ParseCIDR_ok_def dec_digits_are_digits digits_value_dec_digits)
qed

end
