(* ===== verification/Ssh_Client.thy ===== *)
theory Ssh_Client
  imports Api_Types Go_Net
begin

text \<open>
  \<^verbatim>\<open>internal/ssh/client.go\<close>, and \<^verbatim>\<open>LocalConnectionURI\<close> of
  \<^verbatim>\<open>internal/libvirt/virsh_client.go\<close>: from the URI of a host to the SSH connection and to
  the libvirt daemon virsh talks to there. Parsing a URL, parsing a private key, dialling and
  the handshake of \<^verbatim>\<open>golang.org/x/crypto/ssh\<close> are parameters.
\<close>

section \<open>Connection URIs\<close>

record URL =
  url_Path :: string
  url_Hostname :: string
  url_Port :: string
  url_User :: "string option"

abbreviation "ConnURISystem \<equiv> ''qemu:///system''"
abbreviation "ConnURISession \<equiv> ''qemu:///session''"

definition LocalConnectionURI :: "(string \<Rightarrow> go_error + URL) \<Rightarrow> string \<Rightarrow> go_error + string" where
  "LocalConnectionURI url_Parse hostURI =
     (case url_Parse hostURI of
        Inl err \<Rightarrow> Inl (Wrapf (''invalid libvirt URI '' @ fmt_q hostURI @ '': '') err)
      | Inr parsed \<Rightarrow>
          if url_Path parsed = '''' \<or> url_Path parsed = ''/'' \<or> url_Path parsed = ''/system''
          then Inr ConnURISystem
          else if url_Path parsed = ''/session'' then Inr ConnURISession
          else Inl (ErrorText (''unsupported libvirt connection path '' @ fmt_q (url_Path parsed) @
                 '' in URI '' @ fmt_q hostURI @ '' (expected /system or /session)'')))"

text \<open>\<^verbatim>\<open>strconv.Atoi\<close>: a syntax error comes with the value 0.\<close>

definition strconv_Atoi :: "string \<Rightarrow> go_error + int" where
  "strconv_Atoi s =
     (case strconv_ParseInt s 64 of (v, failed) \<Rightarrow>
        if failed
        then Inl (ErrorText (''strconv.Atoi: parsing '' @ fmt_q s @
               (if v = 0 then '': invalid syntax'' else '': value out of range'')))
        else Inr v)"

abbreviation "defaultSSHPort \<equiv> 22 :: int"

definition ParseLibvirtURI ::
  "(string \<Rightarrow> go_error + URL) \<Rightarrow> string \<Rightarrow> go_error + (string \<times> string \<times> int)" where
  "ParseLibvirtURI url_Parse uri =
     (if \<not> strings_Contains uri ''+ssh://'' then Inl (ErrorText (''not an SSH URI: '' @ uri)) else
      case url_Parse uri of
        Inl err \<Rightarrow> Inl (Wrapf (''invalid URI '' @ fmt_q uri @ '': '') err)
      | Inr parsed \<Rightarrow>
          if url_Hostname parsed = '''' then Inl (ErrorText (''no host in URI '' @ fmt_q uri)) else
          (case (if url_Port parsed \<noteq> '''' then strconv_Atoi (url_Port parsed)
                 else Inr defaultSSHPort) of
             Inl err \<Rightarrow> Inl (Wrapf (''invalid port in URI '' @ fmt_q uri @ '': '') err)
           | Inr port \<Rightarrow>
               let user = (case url_User parsed of
                             Some u \<Rightarrow> if u \<noteq> '''' then u else ''root''
                           | None \<Rightarrow> ''root'')
               in Inr (user, url_Hostname parsed, port)))"


section \<open>Host keys and the connection\<close>

text \<open>The callback is given the name of the host and the fingerprint of the key presented.\<close>

definition VerifyHostKey :: "string \<Rightarrow> string \<Rightarrow> string \<Rightarrow> go_error option" where
  "VerifyHostKey expectedFingerprint =
     (if expectedFingerprint = '''' then (\<lambda>hostname actual. None)
      else (\<lambda>hostname actual.
        if actual \<noteq> expectedFingerprint
        then Some (ErrorText (''host key mismatch for '' @ hostname @ '': expected '' @
               expectedFingerprint @ '', got '' @ actual))
        else None))"

record ('w, 'signer, 'conn, 'ssh) ssh_lib =
  lib_url_Parse :: "string \<Rightarrow> go_error + URL"
  lib_ParsePrivateKey :: "bytes \<Rightarrow> go_error + 'signer"
  lib_Dial :: "string \<Rightarrow> ('w, go_error + 'conn) state"
  lib_NewClientConn ::
    "'conn \<Rightarrow> string \<Rightarrow> string \<Rightarrow> 'signer \<Rightarrow> (string \<Rightarrow> string \<Rightarrow> go_error option) \<Rightarrow>
     ('w, go_error + 'ssh) state"
  lib_CloseConn :: "'conn \<Rightarrow> ('w, unit) state"

definition NewSSHClient ::
  "('w, 'signer, 'conn, 'ssh) ssh_lib \<Rightarrow> LibvirtHost \<Rightarrow> Secret \<Rightarrow> string \<Rightarrow>
   ('w, go_error + 'ssh) state" where
  "NewSSHClient lib host secret secretName =
     (case ParseLibvirtURI (lib_url_Parse lib) (hs_URI (lh_Spec host)) of
        Inl err \<Rightarrow> State_Monad.return (Inl (Wrapf ''parsing libvirt URI: '' err))
      | Inr (user, hostname, port) \<Rightarrow>
     (case fmlookup secret ''ssh-privatekey'' of
        None \<Rightarrow> State_Monad.return (Inl (ErrorText (''secret '' @ secretName @
                 '' missing 'ssh-privatekey' key'')))
      | Some privateKeyBytes \<Rightarrow>
     (case lib_ParsePrivateKey lib privateKeyBytes of
        Inl err \<Rightarrow> State_Monad.return (Inl (Wrapf ''parsing SSH private key: '' err))
      | Inr signer \<Rightarrow>
          let addr = net_JoinHostPort hostname (fmt_d port) in do {
            c \<leftarrow> lib_Dial lib addr;
            (case c of
               Inl err \<Rightarrow> State_Monad.return (Inl (Wrapf (''dialing '' @ addr @ '': '') err))
             | Inr conn \<Rightarrow> do {
                 r \<leftarrow> lib_NewClientConn lib conn addr user signer
                        (VerifyHostKey (hs_HostKeyFingerprint (lh_Spec host)));
                 (case r of
                    Inl err \<Rightarrow> do {
                      lib_CloseConn lib conn;
                      State_Monad.return
                        (Inl (Wrapf (''SSH handshake with '' @ addr @ '': '') err)) }
                  | Inr ssh \<Rightarrow> State_Monad.return (Inr ssh)) }) })))"


section \<open>Facts\<close>

lemma LocalConnectionURI_cases:
  assumes "LocalConnectionURI url_Parse uri = Inr c"
  shows "\<exists>u. url_Parse uri = Inr u \<and>
    (c = ConnURISystem \<and> url_Path u \<in> {'''', ''/'', ''/system''} \<or>
     c = ConnURISession \<and> url_Path u = ''/session'')"
  using assms by (auto simp: LocalConnectionURI_def split: sum.splits if_splits)

lemma VerifyHostKey_accepts:
  "VerifyHostKey fp hostname actual = None \<longleftrightarrow> fp = '''' \<or> actual = fp"
  by (simp add: VerifyHostKey_def)

end
