(* ===== verification/Virsh_Client.thy ===== *)
theory Virsh_Client
  imports Libvirt_Client Ssh_Client
begin

text \<open>
  \<^verbatim>\<open>internal/libvirt/virsh_client.go\<close>: the libvirt client that runs virsh and a few shell
  commands on the host over SSH. The SSH connection is a parameter: opening a session, running
  a command in it to its end, running it until it ends or the context is cancelled, and the
  clock that names temporary files. The commands themselves, the quoting of their arguments
  and the reading of their output are the code's.
\<close>

section \<open>Quoting\<close>

abbreviation "sq \<equiv> CHR 0x27"
abbreviation "bslash \<equiv> CHR 0x5C"

definition shellQuote :: "string \<Rightarrow> string" where
  "shellQuote s =
     (if s = '''' then [sq, sq]
      else [sq] @ strings_ReplaceAll s sq [sq, bslash, sq, sq] @ [sq])"

definition shellJoin :: "string list \<Rightarrow> string" where
  "shellJoin args = strings_Join (map shellQuote args) '' ''"


section \<open>Running commands\<close>

record RunResult =
  run_stdout :: string
  run_stderr :: string
  run_err :: "go_error option"

record 'w ssh =
  ssh_NewSession :: "('w, go_error option) state"
  ssh_Run :: "string \<Rightarrow> bytes \<Rightarrow> ('w, RunResult) state"
  ssh_RunCtx :: "string \<Rightarrow> ('w, (RunResult \<times> go_error) + RunResult) state"
  ssh_UnixNano :: "('w, int) state"

text \<open>\<open>ssh_RunCtx\<close> answers \<open>Inl\<close> when the context is cancelled first: what was printed so
  far and the error of the context.\<close>

record 'w VirshClient =
  vc_ssh :: "'w ssh"
  vc_connURI :: string
  vc_localMode :: bool

definition NewVirshClient :: "'w ssh \<Rightarrow> string \<Rightarrow> 'w VirshClient" where
  "NewVirshClient sshClient connURI =
     \<lparr>vc_ssh = sshClient, vc_connURI = (if connURI = '''' then ConnURISystem else connURI),
      vc_localMode = False\<rparr>"

definition NewLocalVirshClient :: "'w ssh \<Rightarrow> 'w VirshClient" where
  "NewLocalVirshClient nil_ssh =
     \<lparr>vc_ssh = nil_ssh, vc_connURI = ConnURISystem, vc_localMode = True\<rparr>"

definition getResourceArg :: "string list \<Rightarrow> string" where
  "getResourceArg args = (if length args > 1 then last args else '''')"

text \<open>The first argument of every call is the virsh command, so it is an argument of its
  own here.\<close>

definition virsh_command :: "'w VirshClient \<Rightarrow> string \<Rightarrow> string list \<Rightarrow> string" where
  "virsh_command c arg0 rest = shellJoin ([''virsh'', ''-c'', vc_connURI c] @ arg0 # rest)"

definition runVirsh ::
  "'w VirshClient \<Rightarrow> string \<Rightarrow> string list \<Rightarrow> ('w, go_error + string) state" where
  "runVirsh c arg0 rest =
     (if vc_localMode c
      then State_Monad.return (Inl (ErrorText ''local mode not implemented''))
      else do {
        s \<leftarrow> ssh_NewSession (vc_ssh c);
        (case s of
           Some err \<Rightarrow> State_Monad.return (Inl (Wrapf ''ssh session: '' err))
         | None \<Rightarrow> do {
             r \<leftarrow> ssh_RunCtx (vc_ssh c) (virsh_command c arg0 rest);
             State_Monad.return (case r of
               Inl (partial, ctxErr) \<Rightarrow> Inl ctxErr
             | Inr res \<Rightarrow>
                 (case run_err res of
                    Some err \<Rightarrow>
                      let stderrStr = strings_TrimSpace (run_stderr res)
                      in if stderrStr \<noteq> ''''
                         then Inl (ClassifyVirshError stderrStr arg0 (getResourceArg (arg0 # rest)))
                         else Inl (Wrapf (''virsh '' @ arg0 @ '': '') err)
                  | None \<Rightarrow> Inr (strings_TrimSpace (run_stdout res)))) }) })"

definition execSSH :: "'w VirshClient \<Rightarrow> string \<Rightarrow> ('w, string \<times> go_error option) state" where
  "execSSH c cmd = do {
     s \<leftarrow> ssh_NewSession (vc_ssh c);
     (case s of
        Some err \<Rightarrow> State_Monad.return ('''', Some (Wrapf ''ssh session: '' err))
      | None \<Rightarrow> do {
          r \<leftarrow> ssh_RunCtx (vc_ssh c) cmd;
          State_Monad.return (case r of
            Inl (partial, ctxErr) \<Rightarrow> (strings_TrimSpace (run_stderr partial), Some ctxErr)
          | Inr res \<Rightarrow> (strings_TrimSpace (run_stderr res), run_err res)) }) }"

definition runSSH :: "'w VirshClient \<Rightarrow> string \<Rightarrow> ('w, go_error option) state" where
  "runSSH c cmd = do {
     r \<leftarrow> execSSH c cmd;
     State_Monad.return (case r of (stderr, e) \<Rightarrow>
       (case e of
          None \<Rightarrow> None
        | Some err \<Rightarrow>
            if stderr \<noteq> '''' then Some (ErrorText (cmd @ '': '' @ stderr))
            else Some (Wrapf (cmd @ '': '') err))) }"

text \<open>Feeding data to \<^verbatim>\<open>cat > <tmp>\<close> and removing the file, as the uploads do.\<close>

definition streamTo :: "'w VirshClient \<Rightarrow> string \<Rightarrow> string \<Rightarrow> bytes \<Rightarrow> ('w, go_error option) state" where
  "streamTo c what tmpFile data = do {
     s \<leftarrow> ssh_NewSession (vc_ssh c);
     (case s of
        Some err \<Rightarrow> State_Monad.return (Some (Wrapf ''ssh session: '' err))
      | None \<Rightarrow> do {
          r \<leftarrow> ssh_Run (vc_ssh c) (''cat > '' @ shellQuote tmpFile) data;
          State_Monad.return (map_option (Wrapf what) (run_err r)) }) }"

definition cleanupTmp :: "'w VirshClient \<Rightarrow> string \<Rightarrow> ('w, unit) state" where
  "cleanupTmp c tmpFile = do {
     s \<leftarrow> ssh_NewSession (vc_ssh c);
     (case s of
        Some err \<Rightarrow> State_Monad.return ()
      | None \<Rightarrow> do {
          r \<leftarrow> ssh_Run (vc_ssh c) (''rm -f '' @ shellQuote tmpFile) '''';
          State_Monad.return () }) }"


section \<open>Probes of the host\<close>

definition as_error :: "go_error + 'a \<Rightarrow> go_error option" where
  "as_error r = (case r of Inl e \<Rightarrow> Some e | Inr x \<Rightarrow> None)"

definition virsh_Ping :: "'w VirshClient \<Rightarrow> ('w, go_error option) state" where
  "virsh_Ping c = do { r \<leftarrow> runVirsh c ''version'' []; State_Monad.return (as_error r) }"

definition virsh_VerifyHypervisor :: "'w VirshClient \<Rightarrow> ('w, go_error option) state" where
  "virsh_VerifyHypervisor c = do {
     r \<leftarrow> runVirsh c ''domcapabilities'' [''--virttype'', ''kvm''];
     State_Monad.return (as_error r) }"

definition helperCheck :: string where
  \<open>helperCheck =
     ''for h in /usr/libexec/qemu-bridge-helper /usr/lib/qemu/qemu-bridge-helper; do '' @
     ''if [ -e "$h" ]; then '' @
     ''if [ -u "$h" ] || getcap "$h" 2>/dev/null | grep -q cap_net_admin; then exit 0; fi; '' @
     ''echo "$h is not setuid root and lacks cap_net_admin; session-mode VMs cannot attach to bridges" >&2; exit 1; '' @
     ''fi; done; '' @
     ''echo "qemu-bridge-helper not found; is qemu-kvm installed?" >&2; exit 1''\<close>

text \<open>The message holds a dash of three bytes.\<close>

definition lingerCheck :: string where
  \<open>lingerCheck =
     ''u=$(id -un); '' @
     ''if [ "$(loginctl show-user "$u" --property=Linger 2>/dev/null)" != "Linger=yes" ]; then '' @
     ''echo "lingering is not enabled for $u '' @ [CHR 0xE2, CHR 0x80, CHR 0x94] @
     '' session VMs die when the last SSH session closes (run: loginctl enable-linger $u)" >&2; exit 1; '' @
     ''fi''\<close>

definition virsh_VerifySessionPrerequisites :: "'w VirshClient \<Rightarrow> ('w, go_error option) state" where
  "virsh_VerifySessionPrerequisites c =
     (if vc_localMode c then State_Monad.return (Some (ErrorText ''local mode not implemented''))
      else do {
        r \<leftarrow> execSSH c helperCheck;
        (case r of
           (stderr, Some err) \<Rightarrow>
             State_Monad.return (Some (if stderr \<noteq> '''' then ErrorText stderr
                                       else Wrapf ''qemu-bridge-helper check: '' err))
         | (stderr, None) \<Rightarrow> do {
             r2 \<leftarrow> execSSH c lingerCheck;
             State_Monad.return (case r2 of
               (stderr2, Some err) \<Rightarrow> Some (if stderr2 \<noteq> '''' then ErrorText stderr2
                                           else Wrapf ''linger check: '' err)
             | (stderr2, None) \<Rightarrow> None) }) })"

text \<open>\<^verbatim>\<open>virsh nodeinfo\<close>: one line per field. \<open>None\<close> is the panic of
  \<^verbatim>\<open>strings.Fields(val)[0]\<close> on a line whose value is empty.\<close>

record node_acc =
  na_sockets :: int
  na_cores :: int
  na_threads :: int
  na_info :: NodeInfo

definition nodeinfo_set :: "node_acc \<Rightarrow> string \<Rightarrow> string \<Rightarrow> node_acc" where
  "nodeinfo_set acc key val =
     (if key = ''CPU socket(s)'' then acc\<lparr>na_sockets := fst (strconv_ParseInt val 32)\<rparr>
      else if key = ''Core(s) per socket'' then acc\<lparr>na_cores := fst (strconv_ParseInt val 32)\<rparr>
      else if key = ''Thread(s) per core'' then acc\<lparr>na_threads := fst (strconv_ParseInt val 32)\<rparr>
      else if key = ''Memory size''
      then acc\<lparr>na_info := (na_info acc)\<lparr>ni_MemoryKB := word_of_int (fst (strconv_ParseInt val 64))\<rparr>\<rparr>
      else if key = ''CPU(s)''
      then acc\<lparr>na_info := (na_info acc)\<lparr>ni_CPUs := word_of_int (fst (strconv_ParseInt val 32))\<rparr>\<rparr>
      else acc)"

definition nodeinfo_line :: "node_acc \<Rightarrow> string \<Rightarrow> node_acc option" where
  "nodeinfo_line acc line =
     (case strings_SplitN2 (CHR '':'') line of
        None \<Rightarrow> Some acc
      | Some (k, v) \<Rightarrow>
          (case strings_Fields (strings_TrimSpace v) of
             [] \<Rightarrow> None
           | val # _ \<Rightarrow> Some (nodeinfo_set acc (strings_TrimSpace k) val)))"

fun nodeinfo_lines :: "node_acc \<Rightarrow> string list \<Rightarrow> node_acc option" where
  "nodeinfo_lines acc [] = Some acc"
| "nodeinfo_lines acc (l # ls) =
     (case nodeinfo_line acc l of None \<Rightarrow> None | Some acc' \<Rightarrow> nodeinfo_lines acc' ls)"

definition parseNodeInfo :: "string \<Rightarrow> NodeInfo option" where
  "parseNodeInfo output =
     (case nodeinfo_lines
             \<lparr>na_sockets = 0, na_cores = 0, na_threads = 0, na_info = \<lparr>ni_CPUs = 0, ni_MemoryKB = 0\<rparr>\<rparr>
             (strings_Split (CHR 0x0A) output) of
        None \<Rightarrow> None
      | Some acc \<Rightarrow>
          Some (if na_sockets acc > 0 \<and> na_cores acc > 0 \<and> na_threads acc > 0
                then (na_info acc)\<lparr>ni_CPUs :=
                       word_of_int (na_sockets acc * na_cores acc * na_threads acc)\<rparr>
                else na_info acc))"

definition virsh_GetNodeInfo :: "'w VirshClient \<Rightarrow> ('w, (go_error + NodeInfo) option) state" where
  "virsh_GetNodeInfo c = do {
     r \<leftarrow> runVirsh c ''nodeinfo'' [];
     State_Monad.return (case r of
       Inl err \<Rightarrow> Some (Inl err)
     | Inr output \<Rightarrow> map_option Inr (parseNodeInfo output)) }"


section \<open>Domains\<close>

definition exists_or_error :: "go_error + 'a \<Rightarrow> go_error + bool" where
  "exists_or_error r =
     (case r of Inl err \<Rightarrow> if IsNotFound err then Inr False else Inl err | Inr x \<Rightarrow> Inr True)"

definition ignore_not_found :: "go_error + 'a \<Rightarrow> go_error option" where
  "ignore_not_found r =
     (case r of Inl err \<Rightarrow> if IsNotFound err then None else Some err | Inr x \<Rightarrow> None)"

definition virsh_DomainExists :: "'w VirshClient \<Rightarrow> string \<Rightarrow> ('w, go_error + bool) state" where
  "virsh_DomainExists c name = do {
     r \<leftarrow> runVirsh c ''dominfo'' [name]; State_Monad.return (exists_or_error r) }"

definition dominfo_line :: "DomainInfo \<Rightarrow> string \<Rightarrow> DomainInfo" where
  "dominfo_line info line =
     (case strings_SplitN2 (CHR '':'') line of
        None \<Rightarrow> info
      | Some (k, v) \<Rightarrow>
          let key = strings_TrimSpace k; val = strings_TrimSpace v in
          if key = ''UUID'' then info\<lparr>di_UUID := val\<rparr>
          else if key = ''State'' then info\<lparr>di_State := val\<rparr>
          else info)"

definition parseDomInfo :: "string \<Rightarrow> string \<Rightarrow> DomainInfo" where
  "parseDomInfo name output =
     foldl dominfo_line \<lparr>di_Name = name, di_UUID = '''', di_State = ''''\<rparr>
       (strings_Split (CHR 0x0A) output)"

definition virsh_GetDomain :: "'w VirshClient \<Rightarrow> string \<Rightarrow> ('w, go_error + DomainInfo) state" where
  "virsh_GetDomain c name = do {
     r \<leftarrow> runVirsh c ''dominfo'' [name];
     State_Monad.return (case r of
       Inl err \<Rightarrow> Inl err | Inr output \<Rightarrow> Inr (parseDomInfo name output)) }"

definition extractXMLElement :: "string \<Rightarrow> string \<Rightarrow> string" where
  "extractXMLElement xml element =
     (case (strings_Index xml (''<'' @ element @ ''>''), strings_Index xml (''</'' @ element @ ''>'')) of
        (Some start, Some end') \<Rightarrow>
          if end' > start
          then take (end' - (start + length element + 2)) (drop (start + length element + 2) xml)
          else ''''
      | _ \<Rightarrow> '''')"

definition extractDomainNameFromXML :: "string \<Rightarrow> string" where
  "extractDomainNameFromXML xml =
     (case (strings_Index xml ''<name>'', strings_Index xml ''</name>'') of
        (Some start, Some end') \<Rightarrow>
          if end' > start then take (end' - (start + 6)) (drop (start + 6) xml) else ''''
      | _ \<Rightarrow> '''')"

definition virsh_DefineDomain :: "'w VirshClient \<Rightarrow> string \<Rightarrow> ('w, go_error + DomainInfo) state" where
  "virsh_DefineDomain c xmlDef = do {
     now \<leftarrow> ssh_UnixNano (vc_ssh c);
     let tmpFile = ''/tmp/caplv-domain-'' @ fmt_d now @ ''.xml'';
     up \<leftarrow> streamTo c ''upload domain XML: '' tmpFile xmlDef;
     (case up of
        Some err \<Rightarrow> State_Monad.return (Inl err)
      | None \<Rightarrow> do {
          r \<leftarrow> runVirsh c ''define'' [tmpFile];
          (case r of
             Inl err \<Rightarrow> State_Monad.return (Inl err)
           | Inr out \<Rightarrow> do {
               cleanupTmp c tmpFile;
               virsh_GetDomain c (extractDomainNameFromXML xmlDef) }) }) }"

definition virsh_StartDomain :: "'w VirshClient \<Rightarrow> string \<Rightarrow> ('w, go_error option) state" where
  "virsh_StartDomain c name = do {
     r \<leftarrow> runVirsh c ''start'' [name]; State_Monad.return (as_error r) }"

definition virsh_DestroyDomain :: "'w VirshClient \<Rightarrow> string \<Rightarrow> ('w, go_error option) state" where
  "virsh_DestroyDomain c name = do {
     r \<leftarrow> runVirsh c ''destroy'' [name]; State_Monad.return (ignore_not_found r) }"

definition virsh_UndefineDomain :: "'w VirshClient \<Rightarrow> string \<Rightarrow> ('w, go_error option) state" where
  "virsh_UndefineDomain c name = do {
     r \<leftarrow> runVirsh c ''undefine'' [name, ''--nvram'']; State_Monad.return (ignore_not_found r) }"


section \<open>Storage pools\<close>

definition virsh_PoolExists :: "'w VirshClient \<Rightarrow> string \<Rightarrow> ('w, go_error + bool) state" where
  "virsh_PoolExists c name = do {
     r \<leftarrow> runVirsh c ''pool-info'' [name]; State_Monad.return (exists_or_error r) }"

fun pool_state_running :: "string list \<Rightarrow> bool" where
  "pool_state_running [] = False"
| "pool_state_running (line # ls) =
     (if strings_HasPrefix line ''State:''
      then strings_TrimSpace (drop (length ''State:'') line) = ''running''
      else pool_state_running ls)"

definition virsh_PoolIsActive :: "'w VirshClient \<Rightarrow> string \<Rightarrow> ('w, go_error + bool) state" where
  "virsh_PoolIsActive c name = do {
     r \<leftarrow> runVirsh c ''pool-info'' [name];
     State_Monad.return (case r of
       Inl err \<Rightarrow> Inl err
     | Inr output \<Rightarrow> Inr (pool_state_running (strings_Split (CHR 0x0A) output))) }"

definition virsh_StartPool :: "'w VirshClient \<Rightarrow> string \<Rightarrow> ('w, go_error option) state" where
  "virsh_StartPool c name = do {
     r \<leftarrow> runVirsh c ''pool-start'' [name]; State_Monad.return (as_error r) }"

definition virsh_CreateTmpfsPool ::
  "'w VirshClient \<Rightarrow> string \<Rightarrow> string \<Rightarrow> string \<Rightarrow> ('w, go_error option) state" where
  "virsh_CreateTmpfsPool c name path sz = do {
     m \<leftarrow> runSSH c (''sudo mkdir -p '' @ shellQuote path);
     (case m of
        Some err \<Rightarrow> State_Monad.return (Some (Wrapf ''mkdir failed: '' err))
      | None \<Rightarrow> do {
          t \<leftarrow> runSSH c (if sz \<noteq> ''''
                 then ''sudo mount -t tmpfs -o '' @ shellQuote (''size='' @ sz) @ '' tmpfs '' @ shellQuote path
                 else ''sudo mount -t tmpfs tmpfs '' @ shellQuote path);
          (case t of
             Some err \<Rightarrow> State_Monad.return (Some (Wrapf ''tmpfs mount failed: '' err))
           | None \<Rightarrow> do {
               d \<leftarrow> runVirsh c ''pool-define-as'' [name, ''dir'', ''--target'', path];
               (case d of
                  Inl err \<Rightarrow> State_Monad.return (Some (Wrapf ''pool-define-as failed: '' err))
                | Inr out \<Rightarrow> do {
                    s \<leftarrow> runVirsh c ''pool-start'' [name];
                    State_Monad.return (case s of
                      Inl err \<Rightarrow> Some (Wrapf ''pool-start failed: '' err)
                    | Inr out \<Rightarrow> None) }) }) }) }"

definition virsh_DestroyPool :: "'w VirshClient \<Rightarrow> string \<Rightarrow> ('w, go_error option) state" where
  "virsh_DestroyPool c name = do {
     x \<leftarrow> runVirsh c ''pool-dumpxml'' [name];
     (case x of
        Inl err \<Rightarrow> State_Monad.return (if IsNotFound err then None else Some err)
      | Inr output \<Rightarrow> do {
          let poolPath = extractXMLElement output ''path'';
          d \<leftarrow> runVirsh c ''pool-destroy'' [name];
          u \<leftarrow> runVirsh c ''pool-undefine'' [name];
          if poolPath \<noteq> '''' then do {
            m \<leftarrow> runSSH c (''sudo umount '' @ shellQuote poolPath @ '' 2>/dev/null'');
            r \<leftarrow> runSSH c (''sudo rmdir '' @ shellQuote poolPath @ '' 2>/dev/null'');
            State_Monad.return None }
          else State_Monad.return None }) }"


section \<open>Volumes\<close>

abbreviation "bytesPerMB \<equiv> (1024 * 1024 :: int)"

definition virsh_VolumeExists :: "'w VirshClient \<Rightarrow> string \<Rightarrow> string \<Rightarrow> ('w, go_error + bool) state" where
  "virsh_VolumeExists c pool name = do {
     r \<leftarrow> runVirsh c ''vol-info'' [name, ''--pool'', pool];
     State_Monad.return (exists_or_error r) }"

definition virsh_CreateVolumeFromBackingStore ::
  "'w VirshClient \<Rightarrow> string \<Rightarrow> string \<Rightarrow> string \<Rightarrow> int64 \<Rightarrow> ('w, go_error option) state" where
  "virsh_CreateVolumeFromBackingStore c pool name backingPath sizeBytes = do {
     let sizeMB = sint sizeBytes sdiv bytesPerMB;
     r \<leftarrow> runVirsh c ''vol-create-as'' [pool, name, fmt_d sizeMB @ ''M'',
            ''--format'', ''qcow2'', ''--backing-vol-format'', ''qcow2'',
            ''--backing-vol'', backingPath];
     State_Monad.return (as_error r) }"

definition virsh_CloneVolume ::
  "'w VirshClient \<Rightarrow> string \<Rightarrow> string \<Rightarrow> string \<Rightarrow> ('w, go_error option) state" where
  "virsh_CloneVolume c pool sourceName targetName = do {
     r \<leftarrow> runVirsh c ''vol-clone'' [sourceName, targetName, ''--pool'', pool];
     State_Monad.return (as_error r) }"

definition virsh_CreateVolume ::
  "'w VirshClient \<Rightarrow> string \<Rightarrow> string \<Rightarrow> int64 \<Rightarrow> ('w, go_error option) state" where
  "virsh_CreateVolume c pool name sizeBytes = do {
     let sizeMB = sint sizeBytes sdiv bytesPerMB;
     r \<leftarrow> runVirsh c ''vol-create-as''
            [pool, name, fmt_d sizeMB @ ''M'', ''--format'', ''qcow2''];
     State_Monad.return (as_error r) }"

definition virsh_UploadVolumeFromBytes ::
  "'w VirshClient \<Rightarrow> string \<Rightarrow> string \<Rightarrow> bytes \<Rightarrow> ('w, go_error option) state" where
  "virsh_UploadVolumeFromBytes c pool name data = do {
     now \<leftarrow> ssh_UnixNano (vc_ssh c);
     let tmpFile = ''/tmp/caplv-upload-'' @ fmt_d now;
     up \<leftarrow> streamTo c ''upload data: '' tmpFile data;
     (case up of
        Some err \<Rightarrow> State_Monad.return (Some err)
      | None \<Rightarrow> do {
          r \<leftarrow> runVirsh c ''vol-create-as''
                 [pool, name, fmt_d (int (length data)), ''--format'', ''raw''];
          (case r of
             Inl err \<Rightarrow> State_Monad.return (Some err)
           | Inr out \<Rightarrow> do {
               u \<leftarrow> runVirsh c ''vol-upload'' [name, tmpFile, ''--pool'', pool];
               cleanupTmp c tmpFile;
               State_Monad.return (as_error u) }) }) }"

definition virsh_UploadQcow2Volume ::
  "'w VirshClient \<Rightarrow> string \<Rightarrow> string \<Rightarrow> bytes \<Rightarrow> int64 \<Rightarrow> ('w, go_error option) state" where
  "virsh_UploadQcow2Volume c pool name data virtualSizeBytes = do {
     now \<leftarrow> ssh_UnixNano (vc_ssh c);
     let tmpFile = ''/tmp/caplv-upload-'' @ fmt_d now;
     up \<leftarrow> streamTo c (''stream qcow2 to '' @ tmpFile @ '': '') tmpFile data;
     (case up of
        Some err \<Rightarrow> State_Monad.return (Some err)
      | None \<Rightarrow> do {
          r \<leftarrow> runVirsh c ''vol-create-as''
                 [pool, name, fmt_d (sint virtualSizeBytes), ''--format'', ''qcow2''];
          (case r of
             Inl err \<Rightarrow> do {
               cleanupTmp c tmpFile;
               State_Monad.return (Some (Wrapf (''vol-create-as '' @ pool @ ''/'' @ name @ '': '') err)) }
           | Inr out \<Rightarrow> do {
               u \<leftarrow> runVirsh c ''vol-upload'' [name, tmpFile, ''--pool'', pool];
               (case u of
                  Inl err \<Rightarrow> do {
                    d \<leftarrow> runVirsh c ''vol-delete'' [name, ''--pool'', pool];
                    cleanupTmp c tmpFile;
                    State_Monad.return (Some (Wrapf (''vol-upload '' @ pool @ ''/'' @ name @ '': '') err)) }
                | Inr out \<Rightarrow> do {
                    cleanupTmp c tmpFile;
                    State_Monad.return None }) }) }) }"

definition virsh_DeleteVolume :: "'w VirshClient \<Rightarrow> string \<Rightarrow> string \<Rightarrow> ('w, go_error option) state" where
  "virsh_DeleteVolume c pool name = do {
     r \<leftarrow> runVirsh c ''vol-delete'' [name, ''--pool'', pool];
     State_Monad.return (ignore_not_found r) }"

definition virsh_GetVolumePath :: "'w VirshClient \<Rightarrow> string \<Rightarrow> string \<Rightarrow> ('w, go_error + string) state" where
  "virsh_GetVolumePath c pool name = runVirsh c ''vol-path'' [name, ''--pool'', pool]"


section \<open>Files on the host\<close>

abbreviation "hostRunDir \<equiv> ''/run/caplv''"

text \<open>A path without a slash makes the Go slice expression panic; here it is an error of its
  own. The controller only writes below \<^verbatim>\<open>/run/caplv/\<close>.\<close>

definition write_mkdirCmd :: "string \<Rightarrow> string" where
  "write_mkdirCmd dir =
     (let repair = [dir] @ (if strings_HasPrefix dir (hostRunDir @ ''/'') then [hostRunDir] else [])
      in ''sudo install -d -m 0755 '' @ shellQuote dir @ '' && sudo chmod 0755 '' @ shellJoin repair)"

definition write_teeCmd :: "string \<Rightarrow> string" where
  "write_teeCmd path =
     ''sudo tee '' @ shellQuote path @ '' > /dev/null && sudo chmod 0644 '' @ shellQuote path"

definition virsh_WriteRemoteFile :: "'w VirshClient \<Rightarrow> string \<Rightarrow> bytes \<Rightarrow> ('w, go_error option) state" where
  "virsh_WriteRemoteFile c path data =
     (case strings_LastIndex path (CHR ''/'') of
        None \<Rightarrow> State_Monad.return (Some (ErrorText ''panic: slice bounds out of range''))
      | Some i \<Rightarrow> do {
          m \<leftarrow> runSSH c (write_mkdirCmd (take i path));
          (case m of
             Some err \<Rightarrow> State_Monad.return (Some (Wrapf ''mkdir failed: '' err))
           | None \<Rightarrow> do {
               s \<leftarrow> ssh_NewSession (vc_ssh c);
               (case s of
                  Some err \<Rightarrow> State_Monad.return (Some (Wrapf ''ssh session for write: '' err))
                | None \<Rightarrow> do {
                    r \<leftarrow> ssh_Run (vc_ssh c) (write_teeCmd path) data;
                    State_Monad.return
                      (map_option (Wrapf (''write remote file '' @ path @ '': '')) (run_err r)) }) }) })"

definition virsh_RemoteFileExists :: "'w VirshClient \<Rightarrow> string \<Rightarrow> ('w, go_error + bool) state" where
  "virsh_RemoteFileExists c path = do {
     s \<leftarrow> ssh_NewSession (vc_ssh c);
     (case s of
        Some err \<Rightarrow> State_Monad.return (Inl (Wrapf ''ssh session: '' err))
      | None \<Rightarrow> do {
          r \<leftarrow> ssh_RunCtx (vc_ssh c)
                 (''test -e '' @ shellQuote path @ '' && echo present || echo missing'');
          State_Monad.return (case r of
            Inl (partial, ctxErr) \<Rightarrow> Inl ctxErr
          | Inr res \<Rightarrow>
              (case run_err res of
                 Some err \<Rightarrow> Inl (Wrapf (''remote file check '' @ path @ '': '') err)
               | None \<Rightarrow> Inr (strings_TrimSpace (run_stdout res) = ''present''))) }) }"

definition virsh_DeleteRemoteFile :: "'w VirshClient \<Rightarrow> string \<Rightarrow> ('w, go_error option) state" where
  "virsh_DeleteRemoteFile c path = runSSH c (''sudo rm -f '' @ shellQuote path)"

text \<open>The virsh client as a client of the interface.\<close>

definition virsh_client :: "'w VirshClient \<Rightarrow> 'w Client" where
  "virsh_client c = \<lparr>
     Ping = virsh_Ping c, VerifyHypervisor = virsh_VerifyHypervisor c,
     VerifySessionPrerequisites = virsh_VerifySessionPrerequisites c,
     GetNodeInfo = virsh_GetNodeInfo c, DomainExists = virsh_DomainExists c,
     GetDomain = virsh_GetDomain c, DefineDomain = virsh_DefineDomain c,
     StartDomain = virsh_StartDomain c, DestroyDomain = virsh_DestroyDomain c,
     UndefineDomain = virsh_UndefineDomain c, PoolExists = virsh_PoolExists c,
     PoolIsActive = virsh_PoolIsActive c, StartPool = virsh_StartPool c,
     CreateTmpfsPool = virsh_CreateTmpfsPool c, DestroyPool = virsh_DestroyPool c,
     VolumeExists = virsh_VolumeExists c,
     CreateVolumeFromBackingStore = virsh_CreateVolumeFromBackingStore c,
     CloneVolume = virsh_CloneVolume c, CreateVolume = virsh_CreateVolume c,
     UploadVolumeFromBytes = virsh_UploadVolumeFromBytes c,
     UploadQcow2Volume = virsh_UploadQcow2Volume c, DeleteVolume = virsh_DeleteVolume c,
     GetVolumePath = virsh_GetVolumePath c, WriteRemoteFile = virsh_WriteRemoteFile c,
     RemoteFileExists = virsh_RemoteFileExists c, DeleteRemoteFile = virsh_DeleteRemoteFile c \<rparr>"


section \<open>What the remote shell reads\<close>

text \<open>
  How a POSIX shell splits a command line into words and operator characters, for the part of
  the language that the client's command lines use: blanks separate words, a single-quoted
  stretch is taken literally, a backslash takes the next character literally. An unquoted
  character that the shell would expand or treat otherwise has no reading (\<open>None\<close>).
\<close>

datatype sh_token = Word string | Oper char

definition sh_plain :: "char \<Rightarrow> bool" where
  "sh_plain ch = (ch \<in> set ''abcdefghijklmnopqrstuvwxyzABCDEFGHIJKLMNOPQRSTUVWXYZ0123456789/._-+:,@%='')"

definition sh_operator :: "char \<Rightarrow> bool" where
  "sh_operator ch = (ch \<in> set ''&|;<>()'')"

definition sh_end :: "string option \<Rightarrow> sh_token list" where
  "sh_end cur = (case cur of None \<Rightarrow> [] | Some w \<Rightarrow> [Word w])"

definition sh_current :: "string option \<Rightarrow> string" where
  "sh_current cur = (case cur of None \<Rightarrow> '''' | Some w \<Rightarrow> w)"

fun sh_lex :: "string option \<Rightarrow> string \<Rightarrow> sh_token list option"
and sh_quoted :: "string \<Rightarrow> string \<Rightarrow> sh_token list option"
and sh_escaped :: "string \<Rightarrow> string \<Rightarrow> sh_token list option" where
  "sh_lex cur [] = Some (sh_end cur)"
| "sh_lex cur (ch # cs) =
     (if ch = CHR '' '' then map_option (\<lambda>ts. sh_end cur @ ts) (sh_lex None cs)
      else if ch = sq then sh_quoted (sh_current cur) cs
      else if ch = bslash then sh_escaped (sh_current cur) cs
      else if sh_operator ch then map_option (\<lambda>ts. sh_end cur @ Oper ch # ts) (sh_lex None cs)
      else if sh_plain ch then sh_lex (Some (sh_current cur @ [ch])) cs
      else None)"
| "sh_quoted w [] = None"
| "sh_quoted w (ch # cs) = (if ch = sq then sh_lex (Some w) cs else sh_quoted (w @ [ch]) cs)"
| "sh_escaped w [] = None"
| "sh_escaped w (ch # cs) = sh_lex (Some (w @ [ch])) cs"

abbreviation "sh_tokens \<equiv> sh_lex None"

lemmas sh_defs = sh_end_def sh_current_def sh_plain_def sh_operator_def

lemma sh_quoted_escape:
  "sh_quoted w (strings_ReplaceAll s sq [sq, bslash, sq, sq] @ sq # rest) = sh_lex (Some (w @ s)) rest"
  by (induction s arbitrary: w) (simp_all add: strings_ReplaceAll_def sh_defs)

lemma sh_lex_shellQuote [simp]:
  "sh_lex None (shellQuote s @ rest) = sh_lex (Some s) rest"
  "sh_lex None (shellQuote s) = Some [Word s]"
  using sh_quoted_escape [of "''''" s rest] sh_quoted_escape [of "''''" s "''''"]
  by (auto simp: shellQuote_def sh_defs)

lemma sh_lex_blank [simp]:
  "sh_lex (Some w) (CHR '' '' # rest) = map_option ((#) (Word w)) (sh_lex None rest)"
  by (cases "sh_lex None rest") (simp_all add: sh_defs)

lemma shellJoin_Nil [simp]: "shellJoin [] = ''''"
  by (simp add: shellJoin_def)

lemma shellJoin_Cons:
  "shellJoin (a # as) = shellQuote a @ (if as = [] then '''' else CHR '' '' # shellJoin as)"
  by (cases as) (simp_all add: shellJoin_def)

lemma sh_tokens_shellJoin:
  "sh_tokens (shellJoin args) = Some (map Word args)"
  by (induction args) (simp_all add: shellJoin_Cons sh_defs)

section \<open>The commands that are run\<close>

text \<open>
  \<open>ssh_traces s log\<close>: a connection that stays up, with \<open>log\<close> the command lines that were run
  over it so far.
\<close>

definition ssh_traces :: "'w ssh \<Rightarrow> ('w \<Rightarrow> string list) \<Rightarrow> bool" where
  "ssh_traces s log \<longleftrightarrow>
     (\<forall>w r w'. run_state (ssh_NewSession s) w = (r, w') \<longrightarrow> r = None \<and> log w' = log w) \<and>
     (\<forall>cmd d w r w'. run_state (ssh_Run s cmd d) w = (r, w') \<longrightarrow> log w' = log w @ [cmd]) \<and>
     (\<forall>cmd w r w'. run_state (ssh_RunCtx s cmd) w = (r, w') \<longrightarrow> log w' = log w @ [cmd]) \<and>
     (\<forall>w r w'. run_state (ssh_UnixNano s) w = (r, w') \<longrightarrow> log w' = log w)"

lemma ssh_traces_dest:
  assumes "ssh_traces s log"
  shows "run_state (ssh_NewSession s) w = (e, w') \<Longrightarrow> e = None \<and> log w' = log w"
    and "run_state (ssh_Run s cmd d) w = (r, w') \<Longrightarrow> log w' = log w @ [cmd]"
    and "run_state (ssh_RunCtx s cmd) w = (rc, w') \<Longrightarrow> log w' = log w @ [cmd]"
    and "run_state (ssh_UnixNano s) w = (n, w') \<Longrightarrow> log w' = log w"
  using assms unfolding ssh_traces_def by blast+

lemma trace_outcomes:
  assumes "ssh_traces (vc_ssh c) log" "\<not> vc_localMode c"
  shows "run_state (runVirsh c a as) w = (r, w') \<Longrightarrow> log w' = log w @ [virsh_command c a as]"
    and "run_state (streamTo c what tmp d) w = (e, w') \<Longrightarrow> log w' = log w @ [''cat > '' @ shellQuote tmp]"
    and "run_state (cleanupTmp c tmp) w = (u, w') \<Longrightarrow> log w' = log w @ [''rm -f '' @ shellQuote tmp]"
    and "run_state (ssh_UnixNano (vc_ssh c)) w = (n, w') \<Longrightarrow> log w' = log w"
  using assms(2)
  by (auto simp: runVirsh_def streamTo_def cleanupTmp_def split: prod.splits option.splits
        dest!: ssh_traces_dest [OF assms(1)])

lemma UploadQcow2Volume_trace:
  assumes "ssh_traces (vc_ssh c) log" "\<not> vc_localMode c"
    and "run_state (virsh_UploadQcow2Volume c pool name data sz) w = (res, w')"
  obtains tmp cmds where "log w' = log w @ (''cat > '' @ shellQuote tmp) # cmds"
    "cmds = [] \<and> res \<noteq> None \<or>
     cmds = [virsh_command c ''vol-create-as'' [pool, name, fmt_d (sint sz), ''--format'', ''qcow2''],
             ''rm -f '' @ shellQuote tmp] \<and> res \<noteq> None \<or>
     cmds = [virsh_command c ''vol-create-as'' [pool, name, fmt_d (sint sz), ''--format'', ''qcow2''],
             virsh_command c ''vol-upload'' [name, tmp, ''--pool'', pool],
             virsh_command c ''vol-delete'' [name, ''--pool'', pool],
             ''rm -f '' @ shellQuote tmp] \<and> res \<noteq> None \<or>
     cmds = [virsh_command c ''vol-create-as'' [pool, name, fmt_d (sint sz), ''--format'', ''qcow2''],
             virsh_command c ''vol-upload'' [name, tmp, ''--pool'', pool],
             ''rm -f '' @ shellQuote tmp] \<and> res = None"
proof -
  note tr = trace_outcomes [OF assms(1,2)]
  obtain now w1 where w1: "run_state (ssh_UnixNano (vc_ssh c)) w = (now, w1)" by fastforce
  let ?tmp = "''/tmp/caplv-upload-'' @ fmt_d now"
  show thesis
    using assms(3) w1 tr(4) [OF w1]
    by (intro that [of ?tmp "drop (Suc (length (log w))) (log w')"])
       (auto simp: virsh_UploadQcow2Volume_def Let_def dest!: tr
             split: prod.splits option.splits sum.splits)
qed


section \<open>Errors of the client\<close>

lemma exists_or_error_not_found: "exists_or_error r = Inl e \<Longrightarrow> \<not> IsNotFound e"
  by (cases r) (auto simp: exists_or_error_def split: if_splits)

lemma ignore_not_found_not_found: "ignore_not_found r = Some e \<Longrightarrow> \<not> IsNotFound e"
  by (cases r) (auto simp: ignore_not_found_def split: if_splits)

lemmas not_found_dest = exists_or_error_not_found ignore_not_found_not_found

lemma DestroyPool_not_found:
  "fst (run_state (virsh_DestroyPool c n) w) = Some e \<Longrightarrow> \<not> IsNotFound e"
  by (auto simp: virsh_DestroyPool_def Let_def split: prod.splits sum.splits if_splits)

interpretation vq: libvirt_contract "virsh_client c" for c :: "'w VirshClient"
  by unfold_locales
     (auto simp: virsh_client_def virsh_DomainExists_def virsh_PoolExists_def virsh_VolumeExists_def
        virsh_DestroyDomain_def virsh_UndefineDomain_def virsh_DeleteVolume_def
        dest: not_found_dest DestroyPool_not_found split: prod.splits)


section \<open>Node information\<close>

lemma fields_acc_Nil_iff: "fields_acc acc s = [] \<longleftrightarrow> acc = [] \<and> list_all is_space s"
  by (induction acc s rule: fields_acc.induct) auto

lemma Fields_Nil_iff: "strings_Fields s = [] \<longleftrightarrow> list_all is_space s"
  by (simp add: strings_Fields_def fields_acc_Nil_iff)

lemma TrimSpace_space_iff: "list_all is_space (strings_TrimSpace s) \<longleftrightarrow> list_all is_space s"
proof -
  have drop: "list_all is_space (dropWhile is_space t) \<longleftrightarrow> list_all is_space t" for t
    by (induction t) auto
  show ?thesis
    using drop [of s] drop [of "rev (dropWhile is_space s)"]
    by (simp add: strings_TrimSpace_def list_all_rev)
qed

lemma nodeinfo_line_None_iff:
  "nodeinfo_line acc line = None \<longleftrightarrow>
   (\<exists>k v. strings_SplitN2 (CHR '':'') line = Some (k, v) \<and> list_all is_space v)"
proof (cases "strings_SplitN2 (CHR '':'') line")
  case (Some kv)
  then show ?thesis
    using Fields_Nil_iff [of "strings_TrimSpace (snd kv)"] TrimSpace_space_iff [of "snd kv"]
    by (cases kv; cases "strings_Fields (strings_TrimSpace (snd kv))")
       (simp_all add: nodeinfo_line_def Let_def)
qed (simp add: nodeinfo_line_def)

lemma nodeinfo_lines_None_iff:
  "nodeinfo_lines acc ls = None \<longleftrightarrow>
   (\<exists>line \<in> set ls. \<exists>k v. strings_SplitN2 (CHR '':'') line = Some (k, v) \<and> list_all is_space v)"
proof (induction ls arbitrary: acc)
  case (Cons l ls)
  then show ?case using nodeinfo_line_None_iff [of acc l] by (auto split: option.splits)
qed simp

lemma fields_acc_word:
  "list_all (\<lambda>c. \<not> is_space c) w \<Longrightarrow> acc @ w \<noteq> [] \<Longrightarrow>
   fields_acc acc (w @ CHR '' '' # rest) = (rev acc @ w) # fields_acc [] rest"
  by (induction w arbitrary: acc) (auto simp: is_space_def)

lemma Fields_word:
  "list_all (\<lambda>c. \<not> is_space c) w \<Longrightarrow> w \<noteq> [] \<Longrightarrow>
   strings_Fields (w @ CHR '' '' # rest) = w # strings_Fields rest"
  using fields_acc_word [of w "[]" rest] by (simp add: strings_Fields_def)

lemma fields_acc_last:
  "list_all (\<lambda>c. \<not> is_space c) w \<Longrightarrow> acc @ w \<noteq> [] \<Longrightarrow> fields_acc acc w = [rev acc @ w]"
  by (induction w arbitrary: acc) auto

lemma Fields_single: "list_all (\<lambda>c. \<not> is_space c) w \<Longrightarrow> w \<noteq> [] \<Longrightarrow> strings_Fields w = [w]"
  using fields_acc_last [of w "[]"] by (simp add: strings_Fields_def)

lemma dropWhile_spaces:
  "list_all is_space sp \<Longrightarrow> w \<noteq> [] \<Longrightarrow> \<not> is_space (hd w) \<Longrightarrow> dropWhile is_space (sp @ w) = w"
  by (induction sp) (auto simp: neq_Nil_conv)

lemma TrimSpace_spaces:
  assumes "list_all is_space sp" "w \<noteq> []" "\<not> is_space (hd w)" "\<not> is_space (last w)"
  shows "strings_TrimSpace (sp @ w) = w"
  using dropWhile_spaces [of sp w] dropWhile_spaces [of "[]" "rev w"] assms
  by (simp add: strings_TrimSpace_def hd_rev)

lemma dec_digits_no_space: "list_all (\<lambda>c. \<not> is_space c) (dec_digits n)"
  using dec_digits_are_digits [of n]
  by (auto simp: list_all_iff is_digit_def is_space_def Let_def)

lemma Fields_number:
  assumes "list_all is_space sp" "0 \<le> n"
  shows "strings_Fields (strings_TrimSpace (sp @ fmt_d n)) = [fmt_d n]"
    and "strings_Fields (strings_TrimSpace (sp @ fmt_d n @ '' KiB'')) = [fmt_d n, ''KiB'']"
proof -
  have d: "fmt_d n = dec_digits (nat n)" using assms(2) by (simp add: fmt_d_def)
  have ns: "list_all (\<lambda>c. \<not> is_space c) (dec_digits (nat n))" by (rule dec_digits_no_space)
  then have ends: "\<not> is_space (hd (dec_digits (nat n)))" "\<not> is_space (last (dec_digits (nat n)))"
    by (simp_all add: list_all_iff)
  show "strings_Fields (strings_TrimSpace (sp @ fmt_d n)) = [fmt_d n]"
    using TrimSpace_spaces [OF assms(1) _ ends] Fields_single [OF ns] by (simp add: d)
  have "strings_TrimSpace (sp @ dec_digits (nat n) @ '' KiB'') = dec_digits (nat n) @ '' KiB''"
    using TrimSpace_spaces [OF assms(1), of "dec_digits (nat n) @ '' KiB''"] ends
    by (simp add: is_space_def)
  moreover have "strings_Fields ''KiB'' = [''KiB'']" by (simp add: strings_Fields_def is_space_def)
  ultimately show "strings_Fields (strings_TrimSpace (sp @ fmt_d n @ '' KiB'')) = [fmt_d n, ''KiB'']"
    using Fields_word [OF ns, of "''KiB''"] by (simp add: d)
qed

text \<open>The report of \<^verbatim>\<open>virsh nodeinfo\<close>.\<close>

definition nodeinfo_report :: "int \<Rightarrow> int \<Rightarrow> int \<Rightarrow> int \<Rightarrow> string" where
  "nodeinfo_report sockets cores threads memory = strings_Join
     [''CPU model'' @ '':'' @ ''           '' @ ''x86_64'',
      ''CPU(s)'' @ '':'' @ ''              '' @ fmt_d (sockets * cores * threads),
      ''CPU frequency'' @ '':'' @ ''       '' @ ''2600 MHz'',
      ''CPU socket(s)'' @ '':'' @ ''       '' @ fmt_d sockets,
      ''Core(s) per socket'' @ '':'' @ ''  '' @ fmt_d cores,
      ''Thread(s) per core'' @ '':'' @ ''  '' @ fmt_d threads,
      ''NUMA cell(s)'' @ '':'' @ ''        '' @ ''1'',
      ''Memory size'' @ '':'' @ ''         '' @ fmt_d memory @ '' KiB''] [CHR 0x0A]"

lemma fmt_d_no_newline: "0 \<le> n \<Longrightarrow> CHR 0x0A \<notin> set (fmt_d n)"
  using dec_digits_no_space [of "nat n"] by (auto simp: fmt_d_def list_all_iff is_space_def)

lemma Split_nodeinfo_report:
  assumes "0 \<le> s" "0 \<le> c" "0 \<le> t" "0 \<le> m"
  shows "strings_Split (CHR 0x0A) (nodeinfo_report s c t m) =
     [''CPU model'' @ '':'' @ ''           '' @ ''x86_64'',
      ''CPU(s)'' @ '':'' @ ''              '' @ fmt_d (s * c * t),
      ''CPU frequency'' @ '':'' @ ''       '' @ ''2600 MHz'',
      ''CPU socket(s)'' @ '':'' @ ''       '' @ fmt_d s,
      ''Core(s) per socket'' @ '':'' @ ''  '' @ fmt_d c,
      ''Thread(s) per core'' @ '':'' @ ''  '' @ fmt_d t,
      ''NUMA cell(s)'' @ '':'' @ ''        '' @ ''1'',
      ''Memory size'' @ '':'' @ ''         '' @ fmt_d m @ '' KiB'']"
  unfolding nodeinfo_report_def using assms
  by (intro Split_Join) (simp_all add: fmt_d_no_newline)

lemma SplitN2_first: "sep \<notin> set k \<Longrightarrow> strings_SplitN2 sep (k @ sep # v) = Some (k, v)"
  by (simp add: SplitN2_Some_iff)

lemma nodeinfo_line_number:
  assumes "CHR '':'' \<notin> set k" "list_all is_space sp" "0 \<le> n"
  shows "nodeinfo_line acc (k @ '':'' @ sp @ fmt_d n) = Some (nodeinfo_set acc (strings_TrimSpace k) (fmt_d n))"
    and "nodeinfo_line acc (k @ '':'' @ sp @ fmt_d n @ '' KiB'') =
         Some (nodeinfo_set acc (strings_TrimSpace k) (fmt_d n))"
  using SplitN2_first [OF assms(1), of "sp @ fmt_d n"]
    SplitN2_first [OF assms(1), of "sp @ fmt_d n @ '' KiB''"] Fields_number [OF assms(2,3)]
  by (simp_all add: nodeinfo_line_def)

lemma nodeinfo_line_other:
  "nodeinfo_line acc (''CPU model'' @ '':'' @ ''           '' @ ''x86_64'') = Some acc"
  "nodeinfo_line acc (''CPU frequency'' @ '':'' @ ''       '' @ ''2600 MHz'') = Some acc"
  "nodeinfo_line acc (''NUMA cell(s)'' @ '':'' @ ''        '' @ ''1'') = Some acc"
  by (simp_all add: nodeinfo_line_def nodeinfo_set_def strings_TrimSpace_def strings_Fields_def is_space_def)

lemma nodeinfo_line_keys:
  assumes "0 \<le> n"
  shows "nodeinfo_line acc (''CPU(s)'' @ '':'' @ ''              '' @ fmt_d n) =
           Some (nodeinfo_set acc ''CPU(s)'' (fmt_d n))"
    and "nodeinfo_line acc (''CPU socket(s)'' @ '':'' @ ''       '' @ fmt_d n) =
           Some (nodeinfo_set acc ''CPU socket(s)'' (fmt_d n))"
    and "nodeinfo_line acc (''Core(s) per socket'' @ '':'' @ ''  '' @ fmt_d n) =
           Some (nodeinfo_set acc ''Core(s) per socket'' (fmt_d n))"
    and "nodeinfo_line acc (''Thread(s) per core'' @ '':'' @ ''  '' @ fmt_d n) =
           Some (nodeinfo_set acc ''Thread(s) per core'' (fmt_d n))"
    and "nodeinfo_line acc (''Memory size'' @ '':'' @ ''         '' @ fmt_d n @ '' KiB'') =
           Some (nodeinfo_set acc ''Memory size'' (fmt_d n))"
  by (subst nodeinfo_line_number; simp add: assms strings_TrimSpace_def is_space_def)+

lemma ParseInt_number:
  "0 \<le> n \<Longrightarrow> n < 2 ^ 31 \<Longrightarrow> fst (strconv_ParseInt (fmt_d n) 32) = n"
  "0 \<le> n \<Longrightarrow> n < 2 ^ 63 \<Longrightarrow> fst (strconv_ParseInt (fmt_d n) 64) = n"
  using ParseInt_fmt_d [of n 32] ParseInt_fmt_d [of n 64] by simp_all

lemma mult3_bounds:
  fixes s c t :: int
  assumes "0 < s" "0 < c" "0 < t"
  shows "s \<le> s * c * t" "c \<le> s * c * t" "t \<le> s * c * t"
proof -
  have "1 \<le> s * c" "1 \<le> c * t" "1 \<le> s * t" using assms by (simp_all add: int_one_le_iff_zero_less)
  then show "s \<le> s * c * t" "c \<le> s * c * t" "t \<le> s * c * t"
    using assms mult_left_mono [of 1 "c * t" s] mult_left_mono [of 1 "s * t" c] mult_right_mono [of 1 "s * c" t]
    by (simp_all add: ac_simps)
qed

lemma parseNodeInfo_report_aux:
  assumes "0 < s" "0 < c" "0 < t" "s * c * t < 2 ^ 31" "0 \<le> m" "m < 2 ^ 63"
  shows "parseNodeInfo (nodeinfo_report s c t m) =
     Some \<lparr>ni_CPUs = word_of_int (s * c * t), ni_MemoryKB = word_of_int m\<rparr>"
proof -
  have b: "s < 2 ^ 31" "c < 2 ^ 31" "t < 2 ^ 31" "0 \<le> s * c * t"
    using mult3_bounds [OF assms(1-3)] assms(1-4) by linarith+
  have set: "nodeinfo_set acc ''CPU(s)'' (fmt_d (s * c * t)) =
      acc\<lparr>na_info := (na_info acc)\<lparr>ni_CPUs := word_of_int (s * c * t)\<rparr>\<rparr>"
    "nodeinfo_set acc ''CPU socket(s)'' (fmt_d s) = acc\<lparr>na_sockets := s\<rparr>"
    "nodeinfo_set acc ''Core(s) per socket'' (fmt_d c) = acc\<lparr>na_cores := c\<rparr>"
    "nodeinfo_set acc ''Thread(s) per core'' (fmt_d t) = acc\<lparr>na_threads := t\<rparr>"
    "nodeinfo_set acc ''Memory size'' (fmt_d m) =
      acc\<lparr>na_info := (na_info acc)\<lparr>ni_MemoryKB := word_of_int m\<rparr>\<rparr>" for acc
    using assms b by (simp_all add: nodeinfo_set_def ParseInt_number)
  show ?thesis
    using assms b
    by (simp only: parseNodeInfo_def Split_nodeinfo_report less_imp_le nodeinfo_lines.simps
          nodeinfo_line_other nodeinfo_line_keys set option.case) simp
qed


section \<open>Properties\<close>

text \<open>C5: whatever the names and paths of a call hold, quotes, blanks and shell operators
  included, the shell on the host splits the command line of \<open>runVirsh\<close> into exactly the
  words virsh was meant to get.\<close>

theorem virsh_command_words:
  "sh_tokens (virsh_command c arg0 rest) =
   Some (map Word (''virsh'' # ''-c'' # vc_connURI c # arg0 # rest))"
  unfolding virsh_command_def by (subst sh_tokens_shellJoin) simp

text \<open>The command lines of \<open>WriteRemoteFile\<close> are read as the two commands joined by
  \<^verbatim>\<open>&&\<close> that the code means, with the path and its directory one word each whatever they
  hold: create and repair the directory (and \<^verbatim>\<open>/run/caplv\<close> when the directory is below it),
  then write the file and set its mode.\<close>

theorem WriteRemoteFile_words:
  "sh_tokens (write_mkdirCmd dir) =
     Some (map Word [''sudo'', ''install'', ''-d'', ''-m'', ''0755'', dir] @
           [Oper (CHR ''&''), Oper (CHR ''&'')] @
           map Word ([''sudo'', ''chmod'', ''0755'', dir] @
                     (if prefix (hostRunDir @ ''/'') dir then [hostRunDir] else []))) \<and>
   sh_tokens (write_teeCmd path) =
     Some (map Word [''sudo'', ''tee'', path] @ Oper (CHR ''>'') # Word ''/dev/null'' #
           [Oper (CHR ''&''), Oper (CHR ''&'')] @ map Word [''sudo'', ''chmod'', ''0644'', path])"
  using sh_tokens_shellJoin [of "[dir]"] sh_tokens_shellJoin [of "[dir, hostRunDir]"]
  by (simp add: write_mkdirCmd_def write_teeCmd_def Let_def HasPrefix_iff_prefix sh_defs)


definition recording_ssh :: "(string \<Rightarrow> RunResult) \<Rightarrow> string list ssh" where
  "recording_ssh answer =
     \<lparr>ssh_NewSession = State_Monad.return None,
      ssh_Run = (\<lambda>cmd d. State (\<lambda>l. (answer cmd, l @ [cmd]))),
      ssh_RunCtx = (\<lambda>cmd. State (\<lambda>l. (Inr (answer cmd), l @ [cmd]))),
      ssh_UnixNano = State_Monad.return 17\<rparr>"

lemma recording_ssh_traces: "ssh_traces (recording_ssh answer) (\<lambda>l. l)"
  by (simp add: ssh_traces_def recording_ssh_def)


text \<open>The virsh client keeps the contract on missing objects: an existence query that
  fails, or a removal that fails, never fails with a not-found error.\<close>

theorem virsh_missing_objects:
  "fst (run_state (virsh_DomainExists c name) w) \<in> Inr ` UNIV \<union> Inl ` {e. \<not> IsNotFound e} \<and>
   fst (run_state (virsh_PoolExists c name) w) \<in> Inr ` UNIV \<union> Inl ` {e. \<not> IsNotFound e} \<and>
   fst (run_state (virsh_VolumeExists c pool name) w) \<in> Inr ` UNIV \<union> Inl ` {e. \<not> IsNotFound e} \<and>
   fst (run_state (virsh_DestroyDomain c name) w) \<in> {None} \<union> Some ` {e. \<not> IsNotFound e} \<and>
   fst (run_state (virsh_UndefineDomain c name) w) \<in> {None} \<union> Some ` {e. \<not> IsNotFound e} \<and>
   fst (run_state (virsh_DestroyPool c name) w) \<in> {None} \<union> Some ` {e. \<not> IsNotFound e} \<and>
   fst (run_state (virsh_DeleteVolume c pool name) w) \<in> {None} \<union> Some ` {e. \<not> IsNotFound e}"
proof -
  have sum: "r \<in> Inr ` UNIV \<union> Inl ` {e. \<not> IsNotFound e}" if "\<And>e. r = Inl e \<Longrightarrow> \<not> IsNotFound e"
    for r :: "go_error + bool" using that by (cases r) auto
  have opt: "r \<in> {None} \<union> Some ` {e. \<not> IsNotFound e}" if "\<And>e. r = Some e \<Longrightarrow> \<not> IsNotFound e"
    for r using that by (cases r) auto
  show ?thesis
    using vq.DomainExists_err [of c name w] vq.PoolExists_err [of c name w]
      vq.VolumeExists_err [of c pool name w] vq.DestroyDomain_err [of c name w]
      vq.UndefineDomain_err [of c name w] vq.DestroyPool_err [of c name w]
      vq.DeleteVolume_err [of c pool name w]
    by (intro conjI sum opt) (simp_all add: virsh_client_def)
qed

text \<open>The report of \<^verbatim>\<open>virsh nodeinfo\<close> is read back: the processors are sockets times
  cores times threads as long as that fits an int32, the memory is the number of KiB.\<close>

theorem parseNodeInfo_report:
  assumes "0 < s" "0 < c" "0 < t" "s * c * t < 2 ^ 31" "0 \<le> m" "m < 2 ^ 63"
  shows "\<exists>info. parseNodeInfo (nodeinfo_report s c t m) = Some info \<and>
     sint (ni_CPUs info) = s * c * t \<and> sint (ni_MemoryKB info) = m"
proof -
  have "- (2 ^ 31) \<le> s * c * t"
    by (rule order_trans [OF _ mult3_bounds(1) [OF assms(1-3)]]) (use assms(1) in simp)
  with assms have "sint (word_of_int (s * c * t) :: int32) = s * c * t"
      and "sint (word_of_int m :: int64) = m"
    by (blast intro: sint_int32, intro sint_int64) simp_all
  then show ?thesis using parseNodeInfo_report_aux [OF assms] by (metis NodeInfo.select_convs)
qed

theorem parseNodeInfo_report_witness:
  "\<exists>info. parseNodeInfo (nodeinfo_report 2 8 2 65886208) = Some info \<and>
     sint (ni_CPUs info) = 32 \<and> sint (ni_MemoryKB info) = 65886208"
  using parseNodeInfo_report [of 2 8 2 65886208] by simp

text \<open>Reading the report panics exactly when some line has nothing but blanks after its
  first colon.\<close>

theorem parseNodeInfo_panics:
  "parseNodeInfo output = None \<longleftrightarrow>
   (\<exists>line k v. line \<in> set (strings_Split (CHR 0x0A) output) \<and>
      line = k @ '':'' @ v \<and> CHR '':'' \<notin> set k \<and> list_all is_space v)"
proof -
  have "parseNodeInfo output = None \<longleftrightarrow>
      nodeinfo_lines \<lparr>na_sockets = 0, na_cores = 0, na_threads = 0,
        na_info = \<lparr>ni_CPUs = 0, ni_MemoryKB = 0\<rparr>\<rparr> (strings_Split (CHR 0x0A) output) = None"
    by (simp add: parseNodeInfo_def split: option.splits)
  then show ?thesis unfolding nodeinfo_lines_None_iff by (auto simp: SplitN2_Some_iff)
qed

end
