(* ===== verification/Host_Controller.thy ===== *)
theory Host_Controller
  imports Kube_Api Virsh_Client
begin

text \<open>
  \<^verbatim>\<open>internal/controller/libvirthost_controller.go\<close>: the health check of a host. The API
  server, the two client factories, \<^verbatim>\<open>url.Parse\<close>, the patch helper of Cluster API and
  \<^verbatim>\<open>apimeta.SetStatusCondition\<close> are parameters. The time of the check, which the code stores
  in the status, is left out. The result \<open>None\<close> is the panic of \<open>GetNodeInfo\<close>; the deferred
  calls still run then.
\<close>

section \<open>The environment\<close>

record ('w, 'ssh) host_env =
  he_GetHost :: "string \<Rightarrow> string \<Rightarrow> ('w, go_error + LibvirtHost) state"
  he_NewHelper :: "LibvirtHost \<Rightarrow> ('w, go_error option) state"
  he_Patch :: "LibvirtHost \<Rightarrow> ('w, go_error option) state"
  he_GetSecret :: "string \<Rightarrow> string \<Rightarrow> ('w, go_error + Secret) state"
  he_ListMachines :: "string \<Rightarrow> ('w, go_error + LibvirtMachine list) state"
  he_SSHClientFactory :: "LibvirtHost \<Rightarrow> Secret \<Rightarrow> ('w, go_error + 'ssh option) state"
  he_CloseSSH :: "'ssh \<Rightarrow> ('w, unit) state"
  he_LibvirtClientFactory :: "'ssh option \<Rightarrow> string \<Rightarrow> 'w Client"
  he_CloseClient :: "'ssh option \<Rightarrow> ('w, unit) state"
  he_url_Parse :: "string \<Rightarrow> go_error + URL"
  he_SetStatusCondition :: set_condition_fn

abbreviation "hostActiveRequeueInterval \<equiv> (300 :: nat)"
abbreviation "defaultReservedVCPUs \<equiv> (2 :: int32)"
abbreviation "defaultReservedMemoryMB \<equiv> (4096 :: int32)"
abbreviation "kilobytesPerMegabyte \<equiv> (1024 :: int)"


section \<open>Status\<close>

definition reachable_condition ::
  "LibvirtHost \<Rightarrow> ConditionStatus \<Rightarrow> string \<Rightarrow> string \<Rightarrow> Condition" where
  "reachable_condition host status reason message =
     \<lparr>cond_Type = HostReachableCondition, cond_Status = status, cond_Reason = reason,
      cond_Message = message, cond_ObservedGeneration = om_Generation (lh_Meta host)\<rparr>"

definition host_unreachable ::
  "('w, 'ssh) host_env \<Rightarrow> LibvirtHost \<Rightarrow> string \<Rightarrow> string \<Rightarrow> LibvirtHost" where
  "host_unreachable env host reason message =
     host\<lparr>lh_Status := (lh_Status host)\<lparr>hst_Ready := False,
       hst_Conditions := he_SetStatusCondition env (hst_Conditions (lh_Status host))
         (reachable_condition host ConditionFalse reason message)\<rparr>\<rparr>"

text \<open>The capacity left after the reservations; int32 arithmetic.\<close>

definition host_capacity :: "LibvirtHost \<Rightarrow> NodeInfo \<Rightarrow> HostCapacity" where
  "host_capacity host nodeInfo =
     (let (reservedVCPUs, reservedMemoryMB) =
            (case hs_ReservedResources (lh_Spec host) of
               None \<Rightarrow> (defaultReservedVCPUs, defaultReservedMemoryMB)
             | Some rr \<Rightarrow> (rr_VCPUs rr, rr_MemoryMB rr));
          totalMemoryMB = word_of_int (sint (ni_MemoryKB nodeInfo) sdiv kilobytesPerMegabyte);
          availVCPUs = ni_CPUs nodeInfo - reservedVCPUs;
          availMemoryMB = totalMemoryMB - reservedMemoryMB
      in \<lparr>hc_TotalVCPUs = ni_CPUs nodeInfo, hc_TotalMemoryMB = totalMemoryMB,
          hc_AvailableVCPUs = (if availVCPUs <s 0 then 0 else availVCPUs),
          hc_AvailableMemoryMB = (if availMemoryMB <s 0 then 0 else availMemoryMB)\<rparr>)"

definition host_ready :: "('w, 'ssh) host_env \<Rightarrow> LibvirtHost \<Rightarrow> NodeInfo \<Rightarrow> LibvirtHost" where
  "host_ready env host nodeInfo =
     (let cap = host_capacity host nodeInfo in
      host\<lparr>lh_Status := (lh_Status host)\<lparr>hst_Ready := True, hst_Capacity := Some cap,
        hst_Conditions := he_SetStatusCondition env (hst_Conditions (lh_Status host))
          (reachable_condition host ConditionTrue ReasonConnectionSucceeded
             (''SSH and libvirt verified; '' @ fmt_d (sint (hc_AvailableVCPUs cap)) @ '' vCPUs / '' @
              fmt_d (sint (hc_AvailableMemoryMB cap)) @ '' MB available''))\<rparr>\<rparr>)"


section \<open>The health check\<close>

definition probe_libvirt ::
  "('w, 'ssh) host_env \<Rightarrow> LibvirtHost \<Rightarrow> string \<Rightarrow> 'w Client \<Rightarrow> ('w, LibvirtHost option) state" where
  "probe_libvirt env host connURI libvirtClient = do {
     p \<leftarrow> Ping libvirtClient;
     (case p of
        Some err \<Rightarrow> State_Monad.return (Some (host_unreachable env host ReasonConnectionFailed
                      (''Libvirt connectivity check failed: '' @ error_string err)))
      | None \<Rightarrow> do {
     h \<leftarrow> VerifyHypervisor libvirtClient;
     (case h of
        Some err \<Rightarrow> State_Monad.return (Some (host_unreachable env host ReasonHypervisorUnavailable
                      (''Libvirt is reachable but the QEMU/KVM hypervisor is unavailable (is qemu-kvm / libvirt-daemon-driver-qemu installed and KVM enabled?): '' @
                       error_string err)))
      | None \<Rightarrow> do {
     s \<leftarrow> (if connURI = ConnURISession then VerifySessionPrerequisites libvirtClient
            else State_Monad.return None);
     (case s of
        Some err \<Rightarrow> State_Monad.return (Some (host_unreachable env host ReasonSessionModeMisconfigured
                      (''Host is not set up for session-mode libvirt (run setup-host.yaml with libvirt_mode=session): '' @
                       error_string err)))
      | None \<Rightarrow> do {
     n \<leftarrow> GetNodeInfo libvirtClient;
     State_Monad.return (case n of
        None \<Rightarrow> None
      | Some (Inl err) \<Rightarrow> Some (host_unreachable env host ReasonConnectionFailed
                             (''Failed to get host capacity: '' @ error_string err))
      | Some (Inr nodeInfo) \<Rightarrow> Some (host_ready env host nodeInfo)) }) }) }) }"

definition performHealthCheck ::
  "('w, 'ssh) host_env \<Rightarrow> LibvirtHost \<Rightarrow> ('w, LibvirtHost option) state" where
  "performHealthCheck env host =
     (case hs_SecretRef (lh_Spec host) of
        None \<Rightarrow> State_Monad.return (Some (host_unreachable env host ReasonConnectionFailed
                  ''spec.secretRef is required for SSH connectivity''))
      | Some ref \<Rightarrow> do {
          let secretNS = (if sref_Namespace ref = '''' then lh_Namespace host else sref_Namespace ref);
          g \<leftarrow> he_GetSecret env secretNS (sref_Name ref);
          (case g of
             Inl err \<Rightarrow> State_Monad.return (Some (host_unreachable env host ReasonConnectionFailed
                          (''Failed to get SSH secret: '' @ error_string err)))
           | Inr secret \<Rightarrow> do {
               f \<leftarrow> he_SSHClientFactory env host secret;
               (case f of
                  Inl err \<Rightarrow> State_Monad.return (Some (host_unreachable env host ReasonConnectionFailed
                               (''SSH connection failed: '' @ error_string err)))
                | Inr sshClient \<Rightarrow> do {
                    host' \<leftarrow>
                      (case LocalConnectionURI (he_url_Parse env) (hs_URI (lh_Spec host)) of
                         Inl err \<Rightarrow> State_Monad.return (Some (host_unreachable env host ReasonConnectionFailed
                                      (''Invalid libvirt connection URI: '' @ error_string err)))
                       | Inr connURI \<Rightarrow> do {
                           h \<leftarrow> probe_libvirt env host connURI
                                  (he_LibvirtClientFactory env sshClient connURI);
                           he_CloseClient env sshClient;
                           State_Monad.return h });
                    (case sshClient of
                       None \<Rightarrow> State_Monad.return ()
                     | Some c \<Rightarrow> he_CloseSSH env c);
                    State_Monad.return host' }) }) })"


section \<open>Reconcile\<close>

definition hasReferencingMachines ::
  "('w, 'ssh) host_env \<Rightarrow> LibvirtHost \<Rightarrow> ('w, go_error + bool) state" where
  "hasReferencingMachines env host = do {
     r \<leftarrow> he_ListMachines env (lh_Namespace host);
     State_Monad.return (case r of
       Inl err \<Rightarrow> Inl err
     | Inr items \<Rightarrow> Inr (list_ex (\<lambda>m. ms_HostRef (lm_Spec m) = lh_Name host) items)) }"

definition healthCheckIntervalForHost :: "LibvirtHost \<Rightarrow> nat" where
  "healthCheckIntervalForHost host =
     (if sint (hs_HealthCheckIntervalSeconds (lh_Spec host)) > 0
      then nat (sint (hs_HealthCheckIntervalSeconds (lh_Spec host)))
      else hostActiveRequeueInterval)"

definition host_Reconcile ::
  "('w, 'ssh) host_env \<Rightarrow> string \<Rightarrow> string \<Rightarrow> ('w, (go_error + Result) option) state" where
  "host_Reconcile env namespace name = do {
     g \<leftarrow> he_GetHost env namespace name;
     (case g of
        Inl err \<Rightarrow> State_Monad.return
          (Some (if apierrors_IsNotFound err then Inr empty_result else Inl err))
      | Inr host \<Rightarrow> do {
          p \<leftarrow> he_NewHelper env host;
          (case p of
             Some err \<Rightarrow> State_Monad.return (Some (Inl err))
           | None \<Rightarrow> do {
               c \<leftarrow> performHealthCheck env host;
               (case c of
                  None \<Rightarrow> do { d \<leftarrow> he_Patch env host; State_Monad.return None }
                | Some host' \<Rightarrow> do {
                    m \<leftarrow> hasReferencingMachines env host';
                    d \<leftarrow> he_Patch env host';
                    State_Monad.return (Some (Inr (case m of
                      Inl err \<Rightarrow> \<lparr>RequeueAfter = healthCheckIntervalForHost host'\<rparr>
                    | Inr True \<Rightarrow> \<lparr>RequeueAfter = healthCheckIntervalForHost host'\<rparr>
                    | Inr False \<Rightarrow> empty_result))) }) }) }) }"

text \<open>\<^verbatim>\<open>SetupWithManager\<close>: the request a change of a machine enqueues.\<close>

definition host_map_machine :: "LibvirtMachine \<Rightarrow> string \<times> string" where
  "host_map_machine machine = (lm_Namespace machine, ms_HostRef (lm_Spec machine))"


section \<open>Capacity\<close>

lemma sint_sub_nonneg:
  fixes a b :: int32
  assumes "0 \<le> sint a" "0 \<le> sint b"
  shows "sint (a - b) = sint a - sint b"
proof -
  have "sint a < 2 ^ 31" "sint b < 2 ^ 31" using sint_lt [of a] sint_lt [of b] by simp_all
  then have "- (2 ^ 31) \<le> sint a - sint b" "sint a - sint b < 2 ^ 31" using assms by simp_all
  then have "sint (word_of_int (sint a - sint b) :: int32) = sint a - sint b" by (rule sint_int32)
  then show ?thesis by simp
qed

lemma clamp_nonneg:
  fixes a b :: int32
  assumes "0 \<le> sint a" "0 \<le> sint b"
  shows "sint (if a - b <s 0 then 0 else a - b) = max 0 (sint a - sint b)"
  using sint_sub_nonneg [OF assms] by (simp add: word_sless_alt)

lemma memory_MB:
  assumes "0 \<le> sint (kb :: int64)" "sint kb < 2 ^ 41"
  shows "sint (word_of_int (sint kb sdiv kilobytesPerMegabyte) :: int32) = sint kb div 1024"
proof -
  have d: "sint kb sdiv 1024 = sint kb div 1024" using assms(1) by (auto simp: signed_divide_int_def sgn_if)
  have "0 \<le> sint kb div 1024" "sint kb div 1024 < 2 ^ 31" using assms by simp_all
  then show ?thesis unfolding d by (intro sint_int32) simp_all
qed

definition reserved :: "LibvirtHost \<Rightarrow> int32 \<times> int32" where
  "reserved host =
     (case hs_ReservedResources (lh_Spec host) of
        None \<Rightarrow> (defaultReservedVCPUs, defaultReservedMemoryMB)
      | Some rr \<Rightarrow> (rr_VCPUs rr, rr_MemoryMB rr))"


section \<open>Outcomes of the health check\<close>

definition probes_ok :: "'w Client \<Rightarrow> string \<Rightarrow> NodeInfo \<Rightarrow> bool" where
  "probes_ok cl connURI info \<longleftrightarrow>
     (\<exists>w w'. run_state (Ping cl) w = (None, w')) \<and>
     (\<exists>w w'. run_state (VerifyHypervisor cl) w = (None, w')) \<and>
     (connURI = ConnURISession \<longrightarrow> (\<exists>w w'. run_state (VerifySessionPrerequisites cl) w = (None, w'))) \<and>
     (\<exists>w w'. run_state (GetNodeInfo cl) w = (Some (Inr info), w'))"

definition host_verified :: "('w, 'ssh) host_env \<Rightarrow> LibvirtHost \<Rightarrow> NodeInfo \<Rightarrow> bool" where
  "host_verified env host info \<longleftrightarrow>
     (\<exists>ssh connURI. LocalConnectionURI (he_url_Parse env) (hs_URI (lh_Spec host)) = Inr connURI \<and>
        (\<exists>secret w w'. run_state (he_SSHClientFactory env host secret) w = (Inr ssh, w')) \<and>
        probes_ok (he_LibvirtClientFactory env ssh connURI) connURI info)"

lemma probe_libvirt_outcome:
  assumes "run_state (probe_libvirt env host connURI cl) w = (Some host', w')"
  shows "(\<exists>reason msg. host' = host_unreachable env host reason msg) \<or>
    (\<exists>info. host' = host_ready env host info \<and> probes_ok cl connURI info)"
  using assms unfolding probe_libvirt_def probes_ok_def
  by (auto split: prod.splits option.splits sum.splits if_splits) blast+

lemma performHealthCheck_outcome:
  assumes "run_state (performHealthCheck env host) w = (Some host', w')"
  shows "(\<exists>reason msg. host' = host_unreachable env host reason msg) \<or>
    (\<exists>info. host' = host_ready env host info \<and> host_verified env host info)"
proof (rule ccontr)
  assume no: "\<not> ?thesis"
  obtain ref where ref: "hs_SecretRef (lh_Spec host) = Some ref"
    using assms no by (cases "hs_SecretRef (lh_Spec host)") (auto simp: performHealthCheck_def)
  let ?ns = "if sref_Namespace ref = '''' then lh_Namespace host else sref_Namespace ref"
  obtain g w1 where g: "run_state (he_GetSecret env ?ns (sref_Name ref)) w = (g, w1)" by fastforce
  obtain secret where s: "g = Inr secret"
    using assms no ref g by (cases g) (auto simp: performHealthCheck_def)
  obtain f w2 where f: "run_state (he_SSHClientFactory env host secret) w1 = (f, w2)" by fastforce
  obtain ssh where ssh: "f = Inr ssh"
    using assms no ref g s f by (cases f) (auto simp: performHealthCheck_def)
  obtain uri where uri: "LocalConnectionURI (he_url_Parse env) (hs_URI (lh_Spec host)) = Inr uri"
    using assms no ref g s f ssh
    by (cases "LocalConnectionURI (he_url_Parse env) (hs_URI (lh_Spec host))")
       (auto simp: performHealthCheck_def split: prod.splits)
  obtain w3 where "run_state (probe_libvirt env host uri (he_LibvirtClientFactory env ssh uri)) w2 = (Some host', w3)"
    using assms ref g s f ssh uri by (auto simp: performHealthCheck_def split: prod.splits)
  from probe_libvirt_outcome [OF this] show False
    using no f ssh uri unfolding host_verified_def by blast
qed

text \<open>A concrete host whose libvirt answers, for the witnesses.\<close>

definition example_client :: "unit Client" where
  "example_client = mock_client (no_mocks\<lparr>GetNodeInfoFn :=
     Some (State_Monad.return (Some (Inr \<lparr>ni_CPUs = 32, ni_MemoryKB = 65886208\<rparr>)))\<rparr>)"

definition example_url :: "string \<Rightarrow> go_error + URL" where
  "example_url s = Inr \<lparr>url_Path = ''/system'', url_Hostname = ''h0'', url_Port = '''', url_User = Some ''core''\<rparr>"

definition example_host_env :: "(unit, unit) host_env" where
  "example_host_env = \<lparr>he_GetHost = (\<lambda>ns n. State_Monad.return (Inr example_host)),
     he_NewHelper = (\<lambda>h. State_Monad.return None), he_Patch = (\<lambda>h. State_Monad.return None),
     he_GetSecret = (\<lambda>ns n. State_Monad.return (Inr fmempty)),
     he_ListMachines = (\<lambda>ns. State_Monad.return (Inr [example_machine ''m0''])),
     he_SSHClientFactory = (\<lambda>h s. State_Monad.return (Inr (Some ()))),
     he_CloseSSH = (\<lambda>c. State_Monad.return ()),
     he_LibvirtClientFactory = (\<lambda>c uri. example_client), he_CloseClient = (\<lambda>c. State_Monad.return ()),
     he_url_Parse = example_url, he_SetStatusCondition = example_set\<rparr>"

definition example_ssh_host :: LibvirtHost where
  "example_ssh_host = example_host\<lparr>lh_Spec := (lh_Spec example_host)
     \<lparr>hs_SecretRef := Some \<lparr>sref_Name = ''key'', sref_Namespace = ''''\<rparr>\<rparr>\<rparr>"

lemma example_health:
  "run_state (performHealthCheck example_host_env example_ssh_host) () =
   (Some (host_ready example_host_env example_ssh_host \<lparr>ni_CPUs = 32, ni_MemoryKB = 65886208\<rparr>), ())"
  by (simp add: performHealthCheck_def probe_libvirt_def example_host_env_def example_ssh_host_def
        LocalConnectionURI_def example_url_def example_client_def mock_client_def no_mocks_def)


section \<open>Properties\<close>

text \<open>C34: the capacity of a host, for non-negative reservations and a host of less than
  2^31 megabytes: what is available is what is left of the total after the reservation and
  never below zero, so it never exceeds the total; no int32 step wraps around.\<close>

theorem host_capacity_bounds:
  assumes "0 \<le> sint (ni_CPUs info)" "0 \<le> sint (ni_MemoryKB info)" "sint (ni_MemoryKB info) < 2 ^ 41"
    and "reserved host = (rv, rm)" "0 \<le> sint rv" "0 \<le> sint rm"
  shows "sint (hc_AvailableVCPUs (host_capacity host info)) = max 0 (sint (ni_CPUs info) - sint rv) \<and>
    sint (hc_TotalMemoryMB (host_capacity host info)) = sint (ni_MemoryKB info) div 1024 \<and>
    sint (hc_AvailableMemoryMB (host_capacity host info)) =
      max 0 (sint (ni_MemoryKB info) div 1024 - sint rm)"
proof -
  let ?mb = "word_of_int (sint (ni_MemoryKB info) sdiv kilobytesPerMegabyte) :: int32"
  have mb: "sint ?mb = sint (ni_MemoryKB info) div 1024" by (rule memory_MB [OF assms(2,3)])
  then have "0 \<le> sint ?mb" using assms(2) by simp
  then show ?thesis
    using clamp_nonneg [OF assms(1,5)] clamp_nonneg [of ?mb rm] assms(4,6) mb
    by (simp add: host_capacity_def reserved_def [symmetric] Let_def)
qed

theorem host_capacity_bounds_witness:
  "sint (hc_AvailableVCPUs (host_capacity example_host \<lparr>ni_CPUs = 32, ni_MemoryKB = 65886208\<rparr>)) = 30 \<and>
   sint (hc_AvailableMemoryMB (host_capacity example_host \<lparr>ni_CPUs = 32, ni_MemoryKB = 65886208\<rparr>)) = 62294"
  using host_capacity_bounds [of "\<lparr>ni_CPUs = 32, ni_MemoryKB = 65886208\<rparr>" example_host 2 2048]
  by (simp add: reserved_def example_host_def)



end
