(* ===== verification/Cluster_Controller.thy ===== *)
theory Cluster_Controller
  imports Kube_Api Go_Net
begin

text \<open>
  \<^verbatim>\<open>internal/controller/libvirtcluster_controller.go\<close>: a cluster is ready while its control
  plane endpoint accepts a TCP connection. The API server, the owner and pause helpers of
  Cluster API, the patch helper, dialling and \<^verbatim>\<open>apimeta.SetStatusCondition\<close> are parameters.
\<close>

record 'w cluster_env =
  ke_GetCluster :: "string \<Rightarrow> string \<Rightarrow> ('w, go_error + LibvirtCluster) state"
  ke_NewHelper :: "LibvirtCluster \<Rightarrow> ('w, go_error option) state"
  ke_Patch :: "LibvirtCluster \<Rightarrow> ('w, go_error option) state"
  ke_GetOwnerCluster :: "ObjectMeta \<Rightarrow> ('w, go_error + Cluster option) state"
  ke_IsPaused :: "Cluster \<Rightarrow> LibvirtCluster \<Rightarrow> bool"
  ke_Dial :: "string \<Rightarrow> ('w, go_error option) state"
  ke_SetStatusCondition :: set_condition_fn

abbreviation "clusterRequeueInterval \<equiv> (60 :: nat)"

definition endpoint_addr :: "LibvirtCluster \<Rightarrow> string" where
  "endpoint_addr lc =
     net_JoinHostPort (cs_EndpointHost (lc_Spec lc)) (fmt_d (sint (cs_EndpointPort (lc_Spec lc))))"

definition cluster_status ::
  "'w cluster_env \<Rightarrow> LibvirtCluster \<Rightarrow> go_error option \<Rightarrow> LibvirtCluster" where
  "cluster_status env lc dial =
     (let addr = endpoint_addr lc;
          cond = (\<lambda>status reason message.
            \<lparr>cond_Type = ''Ready'', cond_Status = status, cond_Reason = reason,
             cond_Message = message, cond_ObservedGeneration = om_Generation (lc_Meta lc)\<rparr>);
          set = (\<lambda>ready c. lc\<lparr>lc_Status := (lc_Status lc)\<lparr>cst_Ready := ready,
            cst_Conditions := ke_SetStatusCondition env (cst_Conditions (lc_Status lc)) c\<rparr>\<rparr>)
      in case dial of
           Some err \<Rightarrow> set False (cond ConditionFalse ''ControlPlaneUnreachable''
             (''TCP dial to '' @ addr @ '' failed: '' @ error_string err))
         | None \<Rightarrow> set True (cond ConditionTrue ReasonClusterReady
             (''Control plane endpoint '' @ addr @ '' is reachable'')))"

text \<open>The part of \<^verbatim>\<open>Reconcile\<close> between making the patch helper and the deferred patch: the
  result and the cluster that is patched.\<close>

definition cluster_body ::
  "'w cluster_env \<Rightarrow> LibvirtCluster \<Rightarrow> ('w, (go_error + Result) \<times> LibvirtCluster) state" where
  "cluster_body env lc = do {
     ow \<leftarrow> ke_GetOwnerCluster env (lc_Meta lc);
     (case ow of
        Inl err \<Rightarrow> State_Monad.return (Inl err, lc)
      | Inr None \<Rightarrow> State_Monad.return (Inr empty_result, lc)
      | Inr (Some cluster) \<Rightarrow>
          if ke_IsPaused env cluster lc then State_Monad.return (Inr empty_result, lc)
          else do {
            d \<leftarrow> ke_Dial env (endpoint_addr lc);
            State_Monad.return (Inr \<lparr>RequeueAfter = clusterRequeueInterval\<rparr>, cluster_status env lc d) }) }"

definition cluster_Reconcile ::
  "'w cluster_env \<Rightarrow> string \<Rightarrow> string \<Rightarrow> ('w, go_error + Result) state" where
  "cluster_Reconcile env namespace name = do {
     g \<leftarrow> ke_GetCluster env namespace name;
     (case g of
        Inl err \<Rightarrow> State_Monad.return (if apierrors_IsNotFound err then Inr empty_result else Inl err)
      | Inr lc \<Rightarrow> do {
          p \<leftarrow> ke_NewHelper env lc;
          (case p of
             Some err \<Rightarrow> State_Monad.return (Inl err)
           | None \<Rightarrow> do {
               b \<leftarrow> cluster_body env lc;
               d \<leftarrow> ke_Patch env (snd b);
               State_Monad.return (fst b) }) }) }"

definition example_cluster :: LibvirtCluster where
  "example_cluster = \<lparr>lc_Meta = example_meta ''c'',
     lc_Spec = \<lparr>cs_EndpointHost = ''10.0.0.1'', cs_EndpointPort = 6443, cs_BootArtifacts = None,
       cs_BaseImage = None\<rparr>,
     lc_Status = \<lparr>cst_Ready = False, cst_Conditions = []\<rparr>\<rparr>"

definition example_cluster_env :: "unit cluster_env" where
  "example_cluster_env = \<lparr>
     ke_GetCluster = (\<lambda>ns n. State_Monad.return (Inr example_cluster)),
     ke_NewHelper = (\<lambda>l. State_Monad.return None), ke_Patch = (\<lambda>l. State_Monad.return None),
     ke_GetOwnerCluster = (\<lambda>m. State_Monad.return
       (Inr (Some \<lparr>cl_Name = ''c'', cl_Namespace = ''ns'', cl_InfrastructureRef = None\<rparr>))),
     ke_IsPaused = (\<lambda>c l. False), ke_Dial = (\<lambda>a. State_Monad.return None),
     ke_SetStatusCondition = example_set\<rparr>"


section \<open>Properties\<close>



end
