(* ===== verification/Machine_Scope.thy ===== *)
theory Machine_Scope
  imports Api_Types
begin

text \<open>
  \<^verbatim>\<open>internal/scope/machine.go\<close>: the scope of one reconciliation and the names of every
  artifact the controller creates on a host. The Kubernetes client is a parameter: reading a
  Secret is a program of the state monad over the world \<open>'w\<close>.
\<close>

section \<open>The scope\<close>

record MachineScopeParams =
  sp_Client :: bool
  sp_Cluster :: "Cluster option"
  sp_Machine :: "Machine option"
  sp_LibvirtCluster :: "LibvirtCluster option"
  sp_LibvirtMachine :: "LibvirtMachine option"
  sp_LibvirtHost :: "LibvirtHost option"

record MachineScope =
  sc_Cluster :: Cluster
  sc_Machine :: Machine
  sc_LibvirtCluster :: LibvirtCluster
  sc_LibvirtMachine :: LibvirtMachine
  sc_LibvirtHost :: LibvirtHost

definition NewMachineScope :: "MachineScopeParams \<Rightarrow> go_error + MachineScope" where
  "NewMachineScope params =
     (if \<not> sp_Client params then Inl (ErrorText ''client is required'') else
      case sp_Cluster params of None \<Rightarrow> Inl (ErrorText ''cluster is required'') | Some c \<Rightarrow>
      case sp_Machine params of None \<Rightarrow> Inl (ErrorText ''machine is required'') | Some m \<Rightarrow>
      case sp_LibvirtCluster params of
        None \<Rightarrow> Inl (ErrorText ''libvirt cluster is required'') | Some lc \<Rightarrow>
      case sp_LibvirtMachine params of
        None \<Rightarrow> Inl (ErrorText ''libvirt machine is required'') | Some lm \<Rightarrow>
      case sp_LibvirtHost params of
        None \<Rightarrow> Inl (ErrorText ''libvirt host is required'') | Some lh \<Rightarrow>
      Inr \<lparr>sc_Cluster = c, sc_Machine = m, sc_LibvirtCluster = lc, sc_LibvirtMachine = lm,
           sc_LibvirtHost = lh\<rparr>)"

definition ArtifactBaseName :: "MachineScope \<Rightarrow> string" where
  "ArtifactBaseName s =
     lm_Namespace (sc_LibvirtMachine s) @ ''-'' @ cl_Name (sc_Cluster s) @ ''-'' @
     lm_Name (sc_LibvirtMachine s)"

definition DomainName :: "MachineScope \<Rightarrow> string" where
  "DomainName s = ArtifactBaseName s"

definition RootDiskVolumeName :: "MachineScope \<Rightarrow> string" where
  "RootDiskVolumeName s = ArtifactBaseName s @ ''-root.qcow2''"

definition BootstrapISOName :: "MachineScope \<Rightarrow> string" where
  "BootstrapISOName s = ArtifactBaseName s @ ''-bootstrap.iso''"

definition NVRAMPath :: "MachineScope \<Rightarrow> string" where
  "NVRAMPath s = ''/var/lib/libvirt/qemu/nvram/'' @ ArtifactBaseName s @ ''_VARS.fd''"

definition ProviderID :: "MachineScope \<Rightarrow> string" where
  "ProviderID s = ''libvirt:///'' @ lh_Name (sc_LibvirtHost s) @ ''/'' @ DomainName s"

definition IgnitionFilePath :: "MachineScope \<Rightarrow> string" where
  "IgnitionFilePath s = ''/run/caplv/'' @ ArtifactBaseName s @ ''/ignition.json''"

definition EphemeralPoolName :: "MachineScope \<Rightarrow> string" where
  "EphemeralPoolName s = ArtifactBaseName s @ ''-pool''"

definition EphemeralPoolPath :: "MachineScope \<Rightarrow> string" where
  "EphemeralPoolPath s = ''/run/caplv/'' @ ArtifactBaseName s"

text \<open>The volume of an additional disk, as \<^verbatim>\<open>reconcileAdditionalDisks\<close> and
  \<^verbatim>\<open>reconcileDelete\<close> name it.\<close>

definition additionalDiskVolume :: "MachineScope \<Rightarrow> AdditionalDiskSpec \<Rightarrow> string" where
  "additionalDiskVolume s d = ArtifactBaseName s @ ''-'' @ ad_Name d @ ''.qcow2''"

definition GetBootstrapData ::
  "(string \<Rightarrow> string \<Rightarrow> ('w, go_error + Secret) state) \<Rightarrow> MachineScope \<Rightarrow>
   ('w, go_error + bytes) state" where
  "GetBootstrapData get s =
     (case mc_DataSecretName (sc_Machine s) of
        None \<Rightarrow> State_Monad.return (Inl (ErrorText ''bootstrap data secret not yet available''))
      | Some name \<Rightarrow> do {
          r \<leftarrow> get (mc_Namespace (sc_Machine s)) name;
          State_Monad.return (case r of
            Inl err \<Rightarrow> Inl (Wrapf ''failed to get bootstrap secret: '' err)
          | Inr secret \<Rightarrow>
              (case fmlookup secret ''value'' of
                 None \<Rightarrow> Inl (ErrorText ''bootstrap secret missing 'value' key'')
               | Some data \<Rightarrow> Inr data)) })"

definition stripCIDR :: "string \<Rightarrow> string" where
  "stripCIDR addr =
     (case strings_Index addr ''/'' of
        Some idx \<Rightarrow> if idx > 0 then take idx addr else addr
      | None \<Rightarrow> addr)"

definition GetAddresses :: "MachineScope \<Rightarrow> string list" where
  "GetAddresses s = map stripCIDR (elems (net_Addresses (ms_Network (lm_Spec (sc_LibvirtMachine s)))))"

lemmas artifact_name_defs =
  DomainName_def RootDiskVolumeName_def BootstrapISOName_def NVRAMPath_def ProviderID_def
  IgnitionFilePath_def EphemeralPoolName_def EphemeralPoolPath_def additionalDiskVolume_def


section \<open>Names\<close>

lemma NewMachineScope_complete:
  "NewMachineScope \<lparr>sp_Client = True, sp_Cluster = Some c, sp_Machine = Some m,
     sp_LibvirtCluster = Some lc, sp_LibvirtMachine = Some lm, sp_LibvirtHost = Some lh\<rparr> =
   Inr \<lparr>sc_Cluster = c, sc_Machine = m, sc_LibvirtCluster = lc, sc_LibvirtMachine = lm,
        sc_LibvirtHost = lh\<rparr>"
  by (simp add: NewMachineScope_def)

text \<open>Two strings joined by a byte that occurs in neither first part are equal only
  componentwise.\<close>

lemma append_sep_inj:
  "sep \<notin> set a \<Longrightarrow> sep \<notin> set a' \<Longrightarrow> a @ sep # b = a' @ sep # b' \<Longrightarrow> a = a' \<and> b = b'"
proof (induction a arbitrary: a')
  case Nil
  then show ?case by (cases a') auto
next
  case (Cons x a)
  then show ?case by (cases a') auto
qed

lemma ArtifactBaseName_inj:
  assumes "ArtifactBaseName s = ArtifactBaseName t"
    and "CHR ''-'' \<notin> set (lm_Namespace (sc_LibvirtMachine s))"
    and "CHR ''-'' \<notin> set (lm_Namespace (sc_LibvirtMachine t))"
    and "CHR ''-'' \<notin> set (cl_Name (sc_Cluster s))"
    and "CHR ''-'' \<notin> set (cl_Name (sc_Cluster t))"
  shows "lm_Namespace (sc_LibvirtMachine s) = lm_Namespace (sc_LibvirtMachine t) \<and>
    cl_Name (sc_Cluster s) = cl_Name (sc_Cluster t) \<and>
    lm_Name (sc_LibvirtMachine s) = lm_Name (sc_LibvirtMachine t)"
  using assms append_sep_inj unfolding ArtifactBaseName_def
  by (metis append.assoc append_Cons append_Nil)

lemma additionalDiskVolume_root:
  "additionalDiskVolume s d = RootDiskVolumeName s \<longleftrightarrow> ad_Name d = ''root''"
proof -
  have "additionalDiskVolume s d = RootDiskVolumeName s \<longleftrightarrow>
      ad_Name d @ ''.qcow2'' = ''root'' @ ''.qcow2''"
    by (simp add: artifact_name_defs)
  then show ?thesis by (simp only: append_same_eq)
qed

lemma additionalDiskVolume_inj:
  "additionalDiskVolume s d = additionalDiskVolume s d' \<longleftrightarrow> ad_Name d = ad_Name d'"
  by (simp add: artifact_name_defs)

lemma suffix_neq_last: "a \<noteq> [] \<Longrightarrow> b \<noteq> [] \<Longrightarrow> last a \<noteq> last b \<Longrightarrow> x @ a \<noteq> y @ b"
  by (metis last_appendR)

lemma volume_names_distinct:
  "RootDiskVolumeName s \<noteq> BootstrapISOName t" "additionalDiskVolume s d \<noteq> BootstrapISOName t"
  using suffix_neq_last [of "''-root.qcow2''" "''-bootstrap.iso''" "ArtifactBaseName s" "ArtifactBaseName t"]
    suffix_neq_last [of "''.qcow2''" "''-bootstrap.iso''"
      "ArtifactBaseName s @ ''-'' @ ad_Name d" "ArtifactBaseName t"]
  by (simp_all add: artifact_name_defs)

lemma stripCIDR_cidr: "CHR ''/'' \<notin> set ip \<Longrightarrow> ip \<noteq> [] \<Longrightarrow> stripCIDR (ip @ ''/'' @ p) = ip"
  using Index_char [of "CHR ''/''" ip p] by (simp add: stripCIDR_def)

lemma stripCIDR_plain: "CHR ''/'' \<notin> set ip \<Longrightarrow> stripCIDR ip = ip"
  by (simp add: stripCIDR_def Index_char_None [THEN iffD2])

end
