(* ===== verification/Domain_Xml.thy ===== *)
theory Domain_Xml
  imports Virsh_Client
begin

text \<open>
  \<^verbatim>\<open>internal/libvirt/domain_xml.go\<close>: the libvirt domain a machine is defined with. The
  structs of the source are records, the functions that fill them are the source's, and
  \<^verbatim>\<open>xml.MarshalIndent\<close> is the tree each struct is marshalled to (\<open>domain_tree\<close>, after the
  tags of its fields) together with the printer of \<^verbatim>\<open>encoding/xml\<close>.
\<close>

section \<open>Parameters and structs\<close>

record DiskParam =
  dp_Path :: string
  dp_Bus :: string

record DomainXMLParams =
  px_Name :: string
  px_UUID :: string
  px_VCPUs :: int32
  px_MemoryKB :: int64
  px_Machine :: string
  px_Firmware :: string
  px_FirmwarePath :: string
  px_NVRAMPath :: string
  px_NVRAMTemplate :: string
  px_RootDiskPath :: string
  px_RootDiskBus :: string
  px_IgnitionPath :: string
  px_BootstrapISOPath :: string
  px_AdditionalDisks :: "DiskParam list"
  px_NetworkType :: string
  px_NetworkName :: string
  px_NetworkModel :: string
  px_MACAddress :: string
  px_KernelPath :: string
  px_InitrdPath :: string
  px_KernelCmdline :: string

record domainSysInfoEntry =
  se_Name :: string
  se_File :: string

record domainSysInfo =
  si_Type :: string
  si_Entries :: "domainSysInfoEntry list"

record domainLoader =
  ld_ReadOnly :: string
  ld_Type :: string
  ld_Value :: string

record domainNVRAM =
  nv_Template :: string
  nv_Value :: string

record domainOSType =
  ot_Arch :: string
  ot_Machine :: string
  ot_Value :: string

record domainOS =
  os_Firmware :: string
  os_Type :: domainOSType
  os_Loader :: "domainLoader option"
  os_NVRAM :: "domainNVRAM option"
  os_Kernel :: string
  os_Initrd :: string
  os_Cmdline :: string
  os_BootDev :: string

record domainDisk =
  dk_Type :: string
  dk_Device :: string
  dk_DriverName :: string
  dk_DriverType :: string
  dk_SourceFile :: string
  dk_TargetDev :: string
  dk_TargetBus :: string
  dk_Serial :: string
  dk_ReadOnly :: bool

record domainInterface =
  if_Type :: string
  if_SourceBridge :: string
  if_SourceNetwork :: string
  if_ModelType :: string
  if_MAC :: "string option"

record domainDevices =
  dv_Disks :: "domainDisk list"
  dv_Interfaces :: "domainInterface list"
  dv_Serials :: "(string \<times> string) list"
  dv_Consoles :: "(string \<times> string \<times> string) list"
  dv_Channels :: "(string \<times> string \<times> string) list"

record domainXML =
  dx_Type :: string
  dx_Name :: string
  dx_UUID :: string
  dx_MemoryUnit :: string
  dx_MemoryValue :: int64
  dx_VCPUPlacement :: string
  dx_VCPUValue :: int32
  dx_SysInfo :: "domainSysInfo option"
  dx_OS :: domainOS
  dx_CPUMode :: string
  dx_Devices :: domainDevices


section \<open>Filling them\<close>

definition buildSysInfo :: "DomainXMLParams \<Rightarrow> domainSysInfo option" where
  "buildSysInfo params =
     (if px_IgnitionPath params = '''' \<or> px_KernelPath params \<noteq> '''' then None
      else Some \<lparr>si_Type = ''fwcfg'',
        si_Entries = [\<lparr>se_Name = ''opt/com.coreos/config'', se_File = px_IgnitionPath params\<rparr>]\<rparr>)"

definition os_base :: "DomainXMLParams \<Rightarrow> domainOS" where
  "os_base params =
     \<lparr>os_Firmware = '''',
      os_Type = \<lparr>ot_Arch = ''x86_64'', ot_Machine = px_Machine params, ot_Value = ''hvm''\<rparr>,
      os_Loader = None, os_NVRAM = None, os_Kernel = '''', os_Initrd = '''', os_Cmdline = '''',
      os_BootDev = ''hd''\<rparr>"

definition os_firmware :: "DomainXMLParams \<Rightarrow> domainOS \<Rightarrow> domainOS" where
  "os_firmware params os =
     (if px_Firmware params = ''uefi''
      then if px_FirmwarePath params \<noteq> ''''
           then os\<lparr>os_Loader := Some \<lparr>ld_ReadOnly = ''yes'', ld_Type = ''pflash'',
                     ld_Value = px_FirmwarePath params\<rparr>,
                   os_NVRAM := (if px_NVRAMPath params \<noteq> '''' \<or> px_NVRAMTemplate params \<noteq> ''''
                     then Some \<lparr>nv_Template = px_NVRAMTemplate params, nv_Value = px_NVRAMPath params\<rparr>
                     else None)\<rparr>
           else os\<lparr>os_Firmware := ''efi''\<rparr>
      else os)"

definition os_kernel :: "DomainXMLParams \<Rightarrow> domainOS \<Rightarrow> domainOS" where
  "os_kernel params os =
     (if px_KernelPath params \<noteq> ''''
      then os\<lparr>os_Kernel := px_KernelPath params, os_Initrd := px_InitrdPath params,
              os_Cmdline := px_KernelCmdline params\<rparr>
      else os)"

definition buildOS :: "DomainXMLParams \<Rightarrow> domainOS" where
  "buildOS params = os_kernel params (os_firmware params (os_base params))"

text \<open>\<^verbatim>\<open>string(rune(n))\<close>: the UTF-8 encoding of a code point below 0x800, which covers every
  index a machine's disks can reach.\<close>

definition rune_string :: "nat \<Rightarrow> string" where
  "rune_string n =
     (if n < 128 then [char_of n]
      else [char_of (192 + n div 64), char_of (128 + n mod 64)])"

definition virtioDevName :: "nat \<Rightarrow> string \<Rightarrow> string" where
  "virtioDevName idx bus =
     (let letter = rune_string (97 + idx) in
      if bus = ''virtio'' then ''vd'' @ letter
      else if bus = ''sata'' \<or> bus = ''scsi'' then ''sd'' @ letter
      else ''vd'' @ letter)"

definition file_disk :: "string \<Rightarrow> string \<Rightarrow> string \<Rightarrow> string \<Rightarrow> string \<Rightarrow> domainDisk" where
  "file_disk device format file dev bus =
     \<lparr>dk_Type = ''file'', dk_Device = device, dk_DriverName = ''qemu'', dk_DriverType = format,
      dk_SourceFile = file, dk_TargetDev = dev, dk_TargetBus = bus, dk_Serial = '''',
      dk_ReadOnly = False\<rparr>"

fun additional_disks :: "nat \<Rightarrow> DiskParam list \<Rightarrow> domainDisk list" where
  "additional_disks idx [] = []"
| "additional_disks idx (disk # disks) =
     (let bus = (if dp_Bus disk = '''' then ''virtio'' else dp_Bus disk)
      in file_disk ''disk'' ''qcow2'' (dp_Path disk) (virtioDevName idx bus) bus
         # additional_disks (idx + 1) disks)"

definition build_disks :: "DomainXMLParams \<Rightarrow> domainDisk list" where
  "build_disks params =
     (let root = file_disk ''disk'' ''qcow2'' (px_RootDiskPath params)
                   (virtioDevName 0 (px_RootDiskBus params)) (px_RootDiskBus params);
          cdrom = (if px_BootstrapISOPath params \<noteq> ''''
                   then [(file_disk ''cdrom'' ''raw'' (px_BootstrapISOPath params) ''sda'' ''sata'')
                           \<lparr>dk_ReadOnly := True\<rparr>]
                   else []);
          direct = (px_KernelPath params \<noteq> '''' \<and> px_IgnitionPath params \<noteq> '''');
          ignition = (if direct
                      then [(file_disk ''disk'' ''raw'' (px_IgnitionPath params)
                              (virtioDevName 1 ''virtio'') ''virtio'')
                              \<lparr>dk_Serial := ''ignition'', dk_ReadOnly := True\<rparr>]
                      else []);
          next = (if direct then 2 else 1)
      in root # cdrom @ ignition @ additional_disks next (px_AdditionalDisks params))"

definition build_interface :: "DomainXMLParams \<Rightarrow> domainInterface" where
  "build_interface params =
     \<lparr>if_Type = px_NetworkType params,
      if_SourceBridge = (if px_NetworkType params = ''bridge'' then px_NetworkName params else ''''),
      if_SourceNetwork = (if px_NetworkType params = ''bridge'' then '''' else px_NetworkName params),
      if_ModelType = px_NetworkModel params,
      if_MAC = (if px_MACAddress params \<noteq> '''' then Some (px_MACAddress params) else None)\<rparr>"

definition buildDevices :: "DomainXMLParams \<Rightarrow> domainDevices" where
  "buildDevices params =
     \<lparr>dv_Disks = build_disks params,
      dv_Interfaces = [build_interface params],
      dv_Serials = [(''pty'', ''0'')],
      dv_Consoles = [(''pty'', ''serial'', ''0'')],
      dv_Channels = [(''unix'', ''virtio'', ''org.qemu.guest_agent.0'')]\<rparr>"

definition build_domain :: "DomainXMLParams \<Rightarrow> domainXML" where
  "build_domain params =
     \<lparr>dx_Type = ''kvm'', dx_Name = px_Name params, dx_UUID = px_UUID params,
      dx_MemoryUnit = ''KiB'', dx_MemoryValue = px_MemoryKB params,
      dx_VCPUPlacement = ''static'', dx_VCPUValue = px_VCPUs params,
      dx_SysInfo = buildSysInfo params, dx_OS = buildOS params,
      dx_CPUMode = ''host-passthrough'', dx_Devices = buildDevices params\<rparr>"


section \<open>Marshalling\<close>

text \<open>An element has its attributes and either character data or child elements.\<close>

datatype xml_tree =
    XText string "(string \<times> string) list" string
  | XElem string "(string \<times> string) list" "xml_tree list"

definition attr_omitempty :: "string \<Rightarrow> string \<Rightarrow> (string \<times> string) list" where
  "attr_omitempty name v = (if v = '''' then [] else [(name, v)])"

definition elem_omitempty :: "string \<Rightarrow> string \<Rightarrow> xml_tree list" where
  "elem_omitempty name v = (if v = '''' then [] else [XText name [] v])"

definition sysinfo_tree :: "domainSysInfo \<Rightarrow> xml_tree" where
  "sysinfo_tree si = XElem ''sysinfo'' [(''type'', si_Type si)]
     (map (\<lambda>e. XElem ''entry'' [(''name'', se_Name e), (''file'', se_File e)] []) (si_Entries si))"

definition os_tree :: "domainOS \<Rightarrow> xml_tree" where
  "os_tree os = XElem ''os'' (attr_omitempty ''firmware'' (os_Firmware os))
     ([XText ''type'' [(''arch'', ot_Arch (os_Type os)), (''machine'', ot_Machine (os_Type os))]
         (ot_Value (os_Type os))] @
      (case os_Loader os of None \<Rightarrow> []
       | Some l \<Rightarrow> [XText ''loader'' [(''readonly'', ld_ReadOnly l), (''type'', ld_Type l)] (ld_Value l)]) @
      (case os_NVRAM os of None \<Rightarrow> []
       | Some n \<Rightarrow> [XText ''nvram'' (attr_omitempty ''template'' (nv_Template n)) (nv_Value n)]) @
      elem_omitempty ''kernel'' (os_Kernel os) @
      elem_omitempty ''initrd'' (os_Initrd os) @
      elem_omitempty ''cmdline'' (os_Cmdline os) @
      [XElem ''boot'' [(''dev'', os_BootDev os)] []])"

definition disk_tree :: "domainDisk \<Rightarrow> xml_tree" where
  "disk_tree d = XElem ''disk'' [(''type'', dk_Type d), (''device'', dk_Device d)]
     ([XElem ''driver'' [(''name'', dk_DriverName d), (''type'', dk_DriverType d)] [],
       XElem ''source'' [(''file'', dk_SourceFile d)] [],
       XElem ''target'' [(''dev'', dk_TargetDev d), (''bus'', dk_TargetBus d)] []] @
      elem_omitempty ''serial'' (dk_Serial d) @
      (if dk_ReadOnly d then [XElem ''readonly'' [] []] else []))"

definition interface_tree :: "domainInterface \<Rightarrow> xml_tree" where
  "interface_tree i = XElem ''interface'' [(''type'', if_Type i)]
     ([XElem ''source'' (attr_omitempty ''bridge'' (if_SourceBridge i) @
                          attr_omitempty ''network'' (if_SourceNetwork i)) [],
       XElem ''model'' [(''type'', if_ModelType i)] []] @
      (case if_MAC i of None \<Rightarrow> [] | Some a \<Rightarrow> [XElem ''mac'' [(''address'', a)] []]))"

definition devices_tree :: "domainDevices \<Rightarrow> xml_tree" where
  "devices_tree dv = XElem ''devices'' []
     (map disk_tree (dv_Disks dv) @ map interface_tree (dv_Interfaces dv) @
      map (\<lambda>(t, port). XElem ''serial'' [(''type'', t)] [XElem ''target'' [(''port'', port)] []])
        (dv_Serials dv) @
      map (\<lambda>(t, tt, port). XElem ''console'' [(''type'', t)]
             [XElem ''target'' [(''type'', tt), (''port'', port)] []]) (dv_Consoles dv) @
      map (\<lambda>(t, tt, name). XElem ''channel'' [(''type'', t)]
             [XElem ''target'' [(''type'', tt), (''name'', name)] []]) (dv_Channels dv))"

definition domain_tree :: "domainXML \<Rightarrow> xml_tree" where
  "domain_tree d = XElem ''domain'' [(''type'', dx_Type d)]
     ([XText ''name'' [] (dx_Name d)] @
      elem_omitempty ''uuid'' (dx_UUID d) @
      [XText ''memory'' [(''unit'', dx_MemoryUnit d)] (fmt_d (sint (dx_MemoryValue d))),
       XText ''vcpu'' [(''placement'', dx_VCPUPlacement d)] (fmt_d (sint (dx_VCPUValue d)))] @
      (case dx_SysInfo d of None \<Rightarrow> [] | Some si \<Rightarrow> [sysinfo_tree si]) @
      [os_tree (dx_OS d),
       XElem ''features'' [] [XElem ''acpi'' [] [], XElem ''apic'' [] []],
       XElem ''cpu'' [(''mode'', dx_CPUMode d)] [],
       devices_tree (dx_Devices d)])"

text \<open>\<^verbatim>\<open>xml.EscapeText\<close>. Bytes from 0x80 on, the parts of other UTF-8 characters, are left
  alone; a control character becomes the replacement character.\<close>

definition escape_char :: "char \<Rightarrow> string" where
  "escape_char c =
     (if c = CHR 0x22 then ''&#34;''
      else if c = CHR 0x27 then ''&#39;''
      else if c = CHR ''&'' then ''&amp;''
      else if c = CHR ''<'' then ''&lt;''
      else if c = CHR ''>'' then ''&gt;''
      else if c = CHR 0x09 then ''&#x9;''
      else if c = CHR 0x0A then ''&#xA;''
      else if c = CHR 0x0D then ''&#xD;''
      else if (of_char c :: nat) < 32 then [CHR 0xEF, CHR 0xBF, CHR 0xBD]
      else [c])"

definition EscapeText :: "string \<Rightarrow> string" where
  "EscapeText s = concat (map escape_char s)"

definition write_start :: "string \<Rightarrow> (string \<times> string) list \<Rightarrow> string" where
  "write_start name attrs =
     ''<'' @ name @
     concat (map (\<lambda>(k, v). '' '' @ k @ ''='' @ [CHR 0x22] @ EscapeText v @ [CHR 0x22]) attrs) @ ''>''"

definition write_end :: "string \<Rightarrow> string" where
  "write_end name = ''</'' @ name @ ''>''"

abbreviation "newline \<equiv> CHR 0x0A"

definition indent :: "nat \<Rightarrow> string" where
  "indent depth = concat (replicate depth ''  '')"

text \<open>Every element but the first starts on a line of its own, indented by its depth; the
  end tag does too unless it follows the start tag or character data directly.\<close>

fun marshal :: "nat \<Rightarrow> xml_tree \<Rightarrow> string"
and marshal_children :: "nat \<Rightarrow> xml_tree list \<Rightarrow> string" where
  "marshal depth (XText name attrs txt) =
     indent depth @ write_start name attrs @ EscapeText txt @ write_end name"
| "marshal depth (XElem name attrs []) = indent depth @ write_start name attrs @ write_end name"
| "marshal depth (XElem name attrs (c # cs)) =
     indent depth @ write_start name attrs @ marshal_children (depth + 1) (c # cs) @
     newline # indent depth @ write_end name"
| "marshal_children depth [] = []"
| "marshal_children depth (c # cs) = newline # marshal depth c @ marshal_children depth cs"

definition xml_Header :: string where
  \<open>xml_Header = ''<?xml version="1.0" encoding="UTF-8"?>'' @ [newline]\<close>

definition GenerateDomainXML :: "DomainXMLParams \<Rightarrow> go_error + string" where
  "GenerateDomainXML params = Inr (xml_Header @ marshal 0 (domain_tree (build_domain params)))"


section \<open>The name in the text\<close>

definition xml_plain :: "char \<Rightarrow> bool" where
  "xml_plain c = (32 \<le> (of_char c :: nat) \<and> c \<noteq> CHR 0x22 \<and> c \<noteq> CHR 0x27 \<and> c \<noteq> CHR ''&'' \<and>
     c \<noteq> CHR ''<'' \<and> c \<noteq> CHR ''>'')"

lemma escape_char_no_markup: "CHR ''<'' \<notin> set (escape_char c)" "CHR 0x22 \<notin> set (escape_char c)"
  by (simp_all add: escape_char_def)

lemma printable_not_control:
  assumes "32 \<le> (of_char c :: nat)"
  shows "c \<noteq> CHR 0x09 \<and> c \<noteq> CHR 0x0A \<and> c \<noteq> CHR 0x0D"
proof (intro conjI notI)
  assume "c = CHR 0x09" then show False using assms by simp
next
  assume "c = CHR 0x0A" then show False using assms by simp
next
  assume "c = CHR 0x0D" then show False using assms by simp
qed

lemma escape_char_plain: "xml_plain c \<Longrightarrow> escape_char c = [c]"
  using printable_not_control [of c] by (simp add: xml_plain_def escape_char_def)

lemma EscapeText_no_markup: "CHR ''<'' \<notin> set (EscapeText s)" "CHR 0x22 \<notin> set (EscapeText s)"
  using escape_char_no_markup by (auto simp: EscapeText_def)

lemma EscapeText_plain: "list_all xml_plain s \<Longrightarrow> EscapeText s = s"
  by (induction s) (simp_all add: EscapeText_def escape_char_plain)


definition domain_prefix :: string where
  \<open>domain_prefix = xml_Header @ ''<domain type="kvm">'' @ [newline] @ ''  ''\<close>

lemma GenerateDomainXML_text:
  obtains rest where
    "GenerateDomainXML params =
     Inr (domain_prefix @ ''<name>'' @ EscapeText (px_Name params) @ ''</name>'' @ rest)"
proof -
  obtain kids where "domain_tree (build_domain params) =
      XElem ''domain'' [(''type'', ''kvm'')] (XText ''name'' [] (px_Name params) # kids)"
    by (simp add: domain_tree_def build_domain_def)
  moreover have "EscapeText ''kvm'' = ''kvm''" by (simp add: EscapeText_def escape_char_def)
  ultimately show thesis
    by (intro that) (simp add: GenerateDomainXML_def domain_prefix_def write_start_def
          write_end_def indent_def)
qed

lemma Index_skip:
  "c \<notin> set e \<Longrightarrow> strings_Index (e @ s) (c # t) = map_option ((+) (length e)) (strings_Index s (c # t))"
  by (induction e; cases "strings_Index s (c # t)") (simp_all add: HasPrefix_iff_prefix)

lemma Index_domain_prefix:
  "strings_Index (domain_prefix @ ''<name>'' @ s) ''<name>'' = Some (length domain_prefix)"
  "strings_Index (domain_prefix @ ''<name>'' @ s) ''</name>'' =
     map_option ((+) (length domain_prefix + 6)) (strings_Index s ''</name>'')"
  by (cases "strings_Index s ''</name>''";
      simp add: domain_prefix_def xml_Header_def HasPrefix_iff_prefix)+

lemma extractDomainName_text:
  assumes "CHR ''<'' \<notin> set e"
  shows "extractDomainNameFromXML (domain_prefix @ ''<name>'' @ e @ ''</name>'' @ rest) = e"
proof -
  let ?xml = "domain_prefix @ ''<name>'' @ e @ ''</name>'' @ rest"
  have "strings_Index (''</name>'' @ rest) ''</name>'' = Some 0" by (simp add: HasPrefix_iff_prefix)
  then have "strings_Index (e @ ''</name>'' @ rest) ''</name>'' = Some (length e)"
    using Index_skip [OF assms] by simp
  then have "strings_Index ?xml ''</name>'' = Some (length domain_prefix + 6 + length e)"
    using Index_domain_prefix(2) by simp
  moreover have "strings_Index ?xml ''<name>'' = Some (length domain_prefix)"
    by (rule Index_domain_prefix(1))
  moreover have "take (length e) (drop (length domain_prefix + 6) ?xml) = e" by simp
  ultimately show ?thesis unfolding extractDomainNameFromXML_def by simp
qed


section \<open>Disk targets\<close>

lemma rune_string_inj: "i < 26 \<Longrightarrow> j < 26 \<Longrightarrow> rune_string (97 + i) = rune_string (97 + j) \<Longrightarrow> i = j"
  unfolding rune_string_def by simp

lemma virtioDevName_inj:
  "i < 26 \<Longrightarrow> j < 26 \<Longrightarrow> virtioDevName i b = virtioDevName j b' \<Longrightarrow> i = j"
  by (rule rune_string_inj) (auto simp: virtioDevName_def Let_def split: if_splits)

lemma virtioDevName_0:
  "virtioDevName 0 b = (if b = ''sata'' \<or> b = ''scsi'' then ''sda'' else ''vda'')"
proof -
  have "rune_string 97 = ''a''" by code_simp
  then show ?thesis by (simp add: virtioDevName_def Let_def)
qed

lemma virtioDevName_sda:
  assumes "virtioDevName i b = ''sda''" "i < 26"
  shows "i = 0 \<and> (b = ''sata'' \<or> b = ''scsi'')"
proof -
  have "virtioDevName i b = virtioDevName 0 ''sata''" using assms(1) by (simp add: virtioDevName_0)
  then have "i = 0" using assms(2) by (intro virtioDevName_inj [of i 0]) simp_all
  then show ?thesis using assms(1) by (simp add: virtioDevName_0 split: if_splits)
qed

lemma file_disk_dev [simp]: "dk_TargetDev (file_disk dv f p dev b) = dev" "dk_Serial (file_disk dv f p dev b) = ''''"
  by (simp_all add: file_disk_def)

lemma additional_devs:
  "dev \<in> set (map dk_TargetDev (additional_disks idx ds)) \<Longrightarrow>
   \<exists>j b. idx \<le> j \<and> j < idx + length ds \<and> dev = virtioDevName j b"
proof (induction ds arbitrary: idx)
  case (Cons disk ds)
  show ?case
  proof (cases "dev \<in> set (map dk_TargetDev (additional_disks (idx + 1) ds))")
    case True
    then obtain j b where "idx + 1 \<le> j" "j < idx + 1 + length ds" "dev = virtioDevName j b"
      using Cons.IH by blast
    then show ?thesis by (intro exI [of _ j] exI [of _ b]) simp
  next
    case False
    with Cons.prems have "dev = virtioDevName idx (if dp_Bus disk = '''' then ''virtio'' else dp_Bus disk)"
      by (simp add: Let_def)
    then show ?thesis by (intro exI [of _ idx] exI conjI) simp_all
  qed
qed simp

lemma additional_distinct:
  "idx + length ds \<le> 26 \<Longrightarrow> distinct (map dk_TargetDev (additional_disks idx ds))"
proof (induction ds arbitrary: idx)
  case (Cons disk ds)
  have "virtioDevName idx b \<notin> set (map dk_TargetDev (additional_disks (idx + 1) ds))" for b
  proof
    assume "virtioDevName idx b \<in> set (map dk_TargetDev (additional_disks (idx + 1) ds))"
    then obtain j b' where "idx + 1 \<le> j" "j < idx + 1 + length ds" "virtioDevName idx b = virtioDevName j b'"
      using additional_devs by blast
    then show False using virtioDevName_inj [of idx j b b'] Cons.prems by simp
  qed
  with Cons.IH [of "idx + 1"] Cons.prems show ?case by (simp add: Let_def)
qed simp

lemma build_disks_devs:
  "map dk_TargetDev (build_disks params) =
     virtioDevName 0 (px_RootDiskBus params) #
     (if px_BootstrapISOPath params \<noteq> '''' then [''sda''] else []) @
     (if px_KernelPath params \<noteq> '''' \<and> px_IgnitionPath params \<noteq> '''' then [virtioDevName 1 ''virtio''] else []) @
     map dk_TargetDev (additional_disks
       (if px_KernelPath params \<noteq> '''' \<and> px_IgnitionPath params \<noteq> '''' then 2 else 1)
       (px_AdditionalDisks params))"
  by (simp add: build_disks_def Let_def)


lemma additional_avoid:
  assumes "idx + length ds \<le> 26" "i < idx"
  shows "virtioDevName i b \<notin> set (map dk_TargetDev (additional_disks idx ds))"
proof
  assume "virtioDevName i b \<in> set (map dk_TargetDev (additional_disks idx ds))"
  then obtain j b' where "idx \<le> j" "j < idx + length ds" "virtioDevName i b = virtioDevName j b'"
    using additional_devs by blast
  then show False using virtioDevName_inj [of i j b b'] assms by simp
qed

lemma additional_avoid_sda:
  "idx + length ds \<le> 26 \<Longrightarrow> 0 < idx \<Longrightarrow> ''sda'' \<notin> set (map dk_TargetDev (additional_disks idx ds))"
  using additional_avoid [of idx ds 0 "''sata''"] by (simp add: virtioDevName_0)

lemma additional_serial: "d \<in> set (additional_disks idx ds) \<Longrightarrow> dk_Serial d = ''''"
  by (induction ds arbitrary: idx) (auto simp: Let_def)

lemma root_ignition_devs: "virtioDevName 0 b \<noteq> virtioDevName 1 b'" "virtioDevName 1 b \<noteq> ''sda''"
  using virtioDevName_inj [of 0 1 b b'] virtioDevName_sda [of 1 b] by auto


definition example_params :: DomainXMLParams where
  "example_params = \<lparr>px_Name = ''ns-c-m0'', px_UUID = '''', px_VCPUs = 4, px_MemoryKB = 8388608,
     px_Machine = ''q35'', px_Firmware = ''uefi'', px_FirmwarePath = '''', px_NVRAMPath = '''',
     px_NVRAMTemplate = '''', px_RootDiskPath = ''/pool/root.qcow2'', px_RootDiskBus = ''virtio'',
     px_IgnitionPath = '''', px_BootstrapISOPath = ''/pool/bootstrap.iso'',
     px_AdditionalDisks = [\<lparr>dp_Path = ''/pool/data.qcow2'', dp_Bus = ''sata''\<rparr>],
     px_NetworkType = ''bridge'', px_NetworkName = ''br0'', px_NetworkModel = ''virtio'',
     px_MACAddress = '''', px_KernelPath = '''', px_InitrdPath = '''', px_KernelCmdline = ''''\<rparr>"


section \<open>Properties\<close>

text \<open>C31: \<open>DefineDomain\<close> asks libvirt about the domain it just defined: the name it reads
  back from the generated XML is the name of the domain, for every name without characters
  that XML escapes, and the escaped name otherwise; nothing else in the parameters can get in
  its way.\<close>

theorem extractDomainName_GenerateDomainXML:
  "\<exists>xml. GenerateDomainXML params = Inr xml \<and>
     extractDomainNameFromXML xml = EscapeText (px_Name params) \<and>
     (\<not> list_all xml_plain (px_Name params) \<or> extractDomainNameFromXML xml = px_Name params)"
proof (rule GenerateDomainXML_text [of params])
  fix rest
  assume "GenerateDomainXML params =
    Inr (domain_prefix @ ''<name>'' @ EscapeText (px_Name params) @ ''</name>'' @ rest)"
  moreover have "extractDomainNameFromXML
      (domain_prefix @ ''<name>'' @ EscapeText (px_Name params) @ ''</name>'' @ rest) = EscapeText (px_Name params)"
    by (rule extractDomainName_text [OF EscapeText_no_markup(1)])
  ultimately show ?thesis using EscapeText_plain by metis
qed

theorem extractDomainName_GenerateDomainXML_witness:
  "\<exists>xml. GenerateDomainXML example_params = Inr xml \<and> extractDomainNameFromXML xml = ''ns-c-m0''"
  using extractDomainName_GenerateDomainXML [of example_params]
  by (auto simp: xml_plain_def example_params_def)

text \<open>C32: the disks of a domain, at most 24 additional ones, get different target names
  exactly when a bootstrap CD-ROM, which is always \<^verbatim>\<open>sda\<close>, does not meet a root disk on the
  sata or scsi bus, which is \<^verbatim>\<open>sda\<close> too.\<close>

theorem disk_targets_distinct:
  assumes "length (px_AdditionalDisks params) \<le> 24"
  shows "distinct (map dk_TargetDev (dv_Disks (buildDevices params))) \<longleftrightarrow>
    px_BootstrapISOPath params = '''' \<or>
    px_RootDiskBus params \<noteq> ''sata'' \<and> px_RootDiskBus params \<noteq> ''scsi''"
proof -
  let ?ds = "px_AdditionalDisks params"
  have "distinct (map dk_TargetDev (additional_disks 1 ?ds))" "distinct (map dk_TargetDev (additional_disks 2 ?ds))"
    using assms by (intro additional_distinct; simp)+
  moreover have "''sda'' \<notin> set (map dk_TargetDev (additional_disks 1 ?ds))"
      "''sda'' \<notin> set (map dk_TargetDev (additional_disks 2 ?ds))"
    using assms by (intro additional_avoid_sda; simp)+
  moreover have "virtioDevName 0 b \<notin> set (map dk_TargetDev (additional_disks 1 ?ds))"
      "virtioDevName 0 b \<notin> set (map dk_TargetDev (additional_disks 2 ?ds))"
      "virtioDevName 1 b \<notin> set (map dk_TargetDev (additional_disks 2 ?ds))" for b
    using assms by (intro additional_avoid; simp)+
  moreover have "virtioDevName 0 b = ''sda'' \<longleftrightarrow> b = ''sata'' \<or> b = ''scsi''" for b
    by (simp add: virtioDevName_0)
  ultimately show ?thesis
    using root_ignition_devs
    by (simp add: buildDevices_def build_disks_devs del: set_map) metis
qed

theorem disk_targets_distinct_witness:
  "distinct (map dk_TargetDev (dv_Disks (buildDevices example_params)))"
  using disk_targets_distinct [of example_params] by (simp add: example_params_def)


end
