(* ===== verification/Ignition.thy ===== *)
theory Ignition
  imports Libvirt_Errors "HOL-Library.Finite_Map"
begin

text \<open>
  \<^verbatim>\<open>internal/ignition/hostname.go\<close> and \<^verbatim>\<open>internal/ignition/network.go\<close>: adding files to an
  Ignition config. A decoded JSON document is a Go value of type \<^verbatim>\<open>any\<close>; decoding and
  encoding (\<^verbatim>\<open>encoding/json\<close>) are parameters. \<^verbatim>\<open>url.PathEscape\<close> is modelled, with the
  decoding that a data URL gets.
\<close>

section \<open>Decoded documents\<close>

text \<open>A number read from JSON is a float64, of which only the identity matters; the modes the
  code adds are ints.\<close>

datatype go_any =
    Nil_any
  | Bool_any bool
  | Float64_any string
  | Int_any int
  | String_any string
  | Slice_any "go_any list"
  | Map_any "(string, go_any) fmap"

type_synonym go_map = "(string, go_any) fmap"

definition as_map :: "go_any option \<Rightarrow> go_map option" where
  "as_map v = (case v of Some (Map_any m) \<Rightarrow> Some m | _ \<Rightarrow> None)"

definition as_slice :: "go_any option \<Rightarrow> go_any list option" where
  "as_slice v = (case v of Some (Slice_any xs) \<Rightarrow> Some xs | _ \<Rightarrow> None)"

definition as_string :: "go_any option \<Rightarrow> string" where
  "as_string v = (case v of Some (String_any s) \<Rightarrow> s | _ \<Rightarrow> '''')"

record json_lib =
  json_Unmarshal :: "bytes \<Rightarrow> go_error + go_map"
  json_Marshal :: "go_map \<Rightarrow> go_error + bytes"


section \<open>PathEscape\<close>

definition hex_upper :: "nat \<Rightarrow> char" where
  "hex_upper n = char_of (if n < 10 then 48 + n else 55 + n)"

definition path_unreserved :: "char \<Rightarrow> bool" where
  "path_unreserved c =
     (c \<in> set ''ABCDEFGHIJKLMNOPQRSTUVWXYZabcdefghijklmnopqrstuvwxyz0123456789-_.~$&+:=@'')"

definition escape_byte :: "char \<Rightarrow> string" where
  "escape_byte c =
     (if path_unreserved c then [c]
      else [CHR ''%'', hex_upper (of_char c div 16), hex_upper (of_char c mod 16)])"

definition url_PathEscape :: "string \<Rightarrow> string" where
  "url_PathEscape s = concat (map escape_byte s)"

text \<open>Percent decoding, as the reader of a data URL does it.\<close>

definition hex_value :: "char \<Rightarrow> nat" where
  "hex_value c = (let n = of_char c in
     if n < 58 then n - 48 else if n < 91 then n - 55 else n - 87)"

fun percent_decode :: "string \<Rightarrow> string" where
  "percent_decode [] = []"
| "percent_decode (c # cs) =
     (if c = CHR ''%''
      then case cs of
             h # l # rest \<Rightarrow> char_of (hex_value h * 16 + hex_value l) # percent_decode rest
           | _ \<Rightarrow> c # percent_decode cs
      else c # percent_decode cs)"


section \<open>injectFile\<close>

definition ensureStorage :: "go_map \<Rightarrow> go_map" where
  "ensureStorage config =
     (case as_map (fmlookup config ''storage'') of None \<Rightarrow> fmempty | Some storage \<Rightarrow> storage)"

definition getFiles :: "go_map \<Rightarrow> go_any list" where
  "getFiles storage = (case as_slice (fmlookup storage ''files'') of None \<Rightarrow> [] | Some files \<Rightarrow> files)"

definition at_path :: "string \<Rightarrow> go_any \<Rightarrow> bool" where
  "at_path path f = (case f of Map_any fm \<Rightarrow> as_string (fmlookup fm ''path'') = path | _ \<Rightarrow> False)"

definition file_entry :: "string \<Rightarrow> string \<Rightarrow> int \<Rightarrow> bool \<Rightarrow> go_any" where
  "file_entry path source mode isV3 =
     (let entry = fmap_of_list [(''path'', String_any path), (''mode'', Int_any mode),
            (''contents'', Map_any (fmap_of_list [(''source'', String_any source)]))]
      in Map_any (if isV3 then fmupd ''overwrite'' (Bool_any True) entry
                  else fmupd ''filesystem'' (String_any ''root'') entry))"

text \<open>The storage map is shared with the config, so storing into it changes the config.\<close>

definition injectFile :: "go_map \<Rightarrow> string \<Rightarrow> string \<Rightarrow> int \<Rightarrow> bool \<Rightarrow> go_map" where
  "injectFile config path source mode isV3 =
     (let storage = ensureStorage config;
          filtered = filter (\<lambda>f. \<not> at_path path f) (getFiles storage);
          storage' = fmupd ''files'' (Slice_any (filtered @ [file_entry path source mode isV3])) storage
      in fmupd ''storage'' (Map_any storage') config)"


section \<open>Machine metadata\<close>

abbreviation "mode_0644 \<equiv> (420 :: int)"
abbreviation "mode_0600 \<equiv> (384 :: int)"
abbreviation "hostnamePath \<equiv> ''/etc/hostname''"
abbreviation "providerIDPath \<equiv> ''/etc/systemd/system/kubelet.service.d/90-provider-id.conf''"
abbreviation "annotationPath \<equiv> ''/etc/kubernetes/caplv-provider-id''"
abbreviation "nmConnectionPath \<equiv> ''/etc/NetworkManager/system-connections/enp1s0.nmconnection''"

definition ignition_isV3 :: "go_map \<Rightarrow> go_error + bool" where
  "ignition_isV3 config =
     (case as_map (fmlookup config ''ignition'') of
        None \<Rightarrow> Inl (ErrorText ''ignition config missing 'ignition' section'')
      | Some ignSection \<Rightarrow>
          let version = as_string (fmlookup ignSection ''version'') in
          if length version \<ge> 1 \<and> version ! 0 = CHR ''3'' then Inr True
          else if length version \<ge> 1 \<and> version ! 0 = CHR ''2'' then Inr False
          else Inl (ErrorText (''unsupported ignition version: '' @ version)))"

definition dropinContents :: "string \<Rightarrow> string" where
  \<open>dropinContents providerID =
     ''[Service]'' @ [CHR 0x0A] @ ''Environment="KUBELET_PROVIDERID_FLAG=--provider-id='' @ providerID @
     ''"'' @ [CHR 0x0A]\<close>

definition injectKubeletProviderIDEnv :: "go_map \<Rightarrow> string \<Rightarrow> bool \<Rightarrow> go_map" where
  "injectKubeletProviderIDEnv config providerID isV3 =
     injectFile config annotationPath
       (''data:,'' @ url_PathEscape (''KUBELET_PROVIDER_ID='' @ providerID)) mode_0644 isV3"

definition inject_metadata :: "go_map \<Rightarrow> string \<Rightarrow> string \<Rightarrow> bool \<Rightarrow> go_map" where
  "inject_metadata config hostname providerID isV3 =
     (let config1 = (if hostname \<noteq> ''''
                     then injectFile config hostnamePath (''data:,'' @ hostname) mode_0644 isV3
                     else config)
      in if providerID \<noteq> ''''
         then injectKubeletProviderIDEnv
                (injectFile config1 providerIDPath
                   (''data:,'' @ url_PathEscape (dropinContents providerID)) mode_0644 isV3)
                providerID isV3
         else config1)"

definition InjectMachineMetadata :: "json_lib \<Rightarrow> bytes \<Rightarrow> string \<Rightarrow> string \<Rightarrow> go_error + bytes" where
  "InjectMachineMetadata json ignitionData hostname providerID =
     (case json_Unmarshal json ignitionData of
        Inl err \<Rightarrow> Inl (Wrapf ''failed to parse ignition config: '' err)
      | Inr config \<Rightarrow>
          (case ignition_isV3 config of
             Inl err \<Rightarrow> Inl err
           | Inr isV3 \<Rightarrow> json_Marshal json (inject_metadata config hostname providerID isV3)))"

definition InjectHostname :: "json_lib \<Rightarrow> bytes \<Rightarrow> string \<Rightarrow> go_error + bytes" where
  "InjectHostname json ignitionData hostname = InjectMachineMetadata json ignitionData hostname ''''"


section \<open>Static network\<close>

record NetworkConfig =
  nc_Addresses :: "string list"
  nc_Gateway :: string
  nc_DNSServers :: "string list"
  nc_DNSSearch :: "string list"

abbreviation "nl \<equiv> CHR 0x0A"

fun address_lines :: "nat \<Rightarrow> string list \<Rightarrow> string" where
  "address_lines i [] = []"
| "address_lines i (addr # addrs) =
     ''address'' @ fmt_d (int (i + 1)) @ ''='' @ addr @ [nl] @ address_lines (i + 1) addrs"

definition generateNMConnection :: "NetworkConfig \<Rightarrow> string" where
  "generateNMConnection net =
     ''[connection]'' @ [nl] @ ''id=enp1s0'' @ [nl] @ ''type=ethernet'' @ [nl] @
     ''interface-name=enp1s0'' @ [nl] @ ''autoconnect=true'' @ [nl] @ ''autoconnect-priority=1'' @ [nl] @
     [nl] @ ''[ipv4]'' @ [nl] @ ''method=manual'' @ [nl] @
     address_lines 0 (nc_Addresses net) @
     (if nc_Gateway net \<noteq> '''' then ''gateway='' @ nc_Gateway net @ [nl] else '''') @
     (if length (nc_DNSServers net) > 0
      then ''dns='' @ strings_Join (nc_DNSServers net) '';'' @ '';'' @ [nl] else '''') @
     (if length (nc_DNSSearch net) > 0
      then ''dns-search='' @ strings_Join (nc_DNSSearch net) '';'' @ '';'' @ [nl] else '''') @
     [nl] @ ''[ipv6]'' @ [nl] @ ''method=disabled'' @ [nl]"

definition default_dns :: "NetworkConfig \<Rightarrow> NetworkConfig" where
  "default_dns net =
     (if length (nc_DNSServers net) = 0 \<and> nc_Gateway net \<noteq> ''''
      then net\<lparr>nc_DNSServers := [nc_Gateway net]\<rparr> else net)"

definition InjectStaticNetwork :: "json_lib \<Rightarrow> bytes \<Rightarrow> NetworkConfig \<Rightarrow> go_error + bytes" where
  "InjectStaticNetwork json ignitionData net =
     (if length (nc_Addresses net) = 0 then Inr ignitionData
      else case json_Unmarshal json ignitionData of
        Inl err \<Rightarrow> Inl (Wrapf ''failed to parse ignition config: '' err)
      | Inr config \<Rightarrow>
          (case ignition_isV3 config of
             Inl err \<Rightarrow> Inl err
           | Inr isV3 \<Rightarrow>
               json_Marshal json (injectFile config nmConnectionPath
                 (''data:,'' @ url_PathEscape (generateNMConnection (default_dns net))) mode_0600 isV3)))"


section \<open>Escaping is undone by decoding\<close>

lemma hex_value_upper: "n < 16 \<Longrightarrow> hex_value (hex_upper n) = n"
  by (simp add: hex_value_def hex_upper_def Let_def)

lemma not_unreserved_percent: "path_unreserved c \<Longrightarrow> c \<noteq> CHR ''%''"
  by (auto simp: path_unreserved_def)

lemma percent_decode_byte: "percent_decode (escape_byte c @ t) = c # percent_decode t"
proof (cases "path_unreserved c")
  case True
  then show ?thesis using not_unreserved_percent by (simp add: escape_byte_def)
next
  case False
  have "(of_char c :: nat) < 256" by simp
  then have "hex_value (hex_upper (of_char c div 16)) = of_char c div 16"
      "hex_value (hex_upper (of_char c mod 16)) = of_char c mod 16"
    by (simp_all add: hex_value_upper less_mult_imp_div_less)
  then show ?thesis using False by (simp add: escape_byte_def)
qed

lemma percent_decode_PathEscape: "percent_decode (url_PathEscape s) = s"
  by (induction s) (simp_all add: url_PathEscape_def percent_decode_byte)


section \<open>The files of a config\<close>

definition config_files :: "go_map \<Rightarrow> go_any list" where
  "config_files config = getFiles (ensureStorage config)"

definition files_at :: "string \<Rightarrow> go_map \<Rightarrow> go_any list" where
  "files_at path config = filter (at_path path) (config_files config)"

lemma config_files_inject:
  "config_files (injectFile config path source mode v3) =
   filter (\<lambda>f. \<not> at_path path f) (config_files config) @ [file_entry path source mode v3]"
  by (simp add: config_files_def injectFile_def Let_def ensureStorage_def getFiles_def as_map_def as_slice_def)

lemma at_path_entry [simp]: "at_path p (file_entry path source mode v3) \<longleftrightarrow> path = p"
  by (simp add: at_path_def file_entry_def Let_def as_string_def fmlookup_of_list)

lemma at_path_unique: "at_path p f \<Longrightarrow> at_path q f \<Longrightarrow> p = q"
  by (simp add: at_path_def split: go_any.splits)

lemma files_at_inject [simp]:
  "files_at p (injectFile config path source mode v3) =
   (if p = path then [file_entry path source mode v3] else files_at p config)"
proof -
  have "filter (at_path p) (filter (\<lambda>f. \<not> at_path path f) fs) = (if p = path then [] else filter (at_path p) fs)" for fs
    using at_path_unique by (induction fs) auto
  then show ?thesis by (auto simp: files_at_def config_files_inject)
qed

lemma other_files_inject:
  "filter (\<lambda>f. \<not> at_path path f) (config_files (injectFile config path source mode v3)) =
   filter (\<lambda>f. \<not> at_path path f) (config_files config)"
  by (simp add: config_files_inject)

lemma lookup_inject [simp]:
  "k \<noteq> ''storage'' \<Longrightarrow> fmlookup (injectFile config path source mode v3) k = fmlookup config k"
  by (simp add: injectFile_def Let_def)

lemma ensureStorage_inject [simp]:
  "k \<noteq> ''files'' \<Longrightarrow> fmlookup (ensureStorage (injectFile config path source mode v3)) k =
   fmlookup (ensureStorage config) k"
  by (simp add: injectFile_def Let_def ensureStorage_def as_map_def)

lemma isV3_inject [simp]: "ignition_isV3 (injectFile config path source mode v3) = ignition_isV3 config"
  by (simp add: ignition_isV3_def)

lemma metadata_files:
  "files_at p (inject_metadata config hostname providerID v3) =
     (if providerID \<noteq> '''' \<and> p = annotationPath
      then [file_entry p (''data:,'' @ url_PathEscape (''KUBELET_PROVIDER_ID='' @ providerID)) mode_0644 v3]
      else if providerID \<noteq> '''' \<and> p = providerIDPath
      then [file_entry p (''data:,'' @ url_PathEscape (dropinContents providerID)) mode_0644 v3]
      else if hostname \<noteq> '''' \<and> p = hostnamePath
      then [file_entry p (''data:,'' @ hostname) mode_0644 v3]
      else files_at p config)"
  by (simp add: inject_metadata_def injectKubeletProviderIDEnv_def Let_def)

lemma metadata_keys:
  "k \<noteq> ''storage'' \<Longrightarrow> fmlookup (inject_metadata config hostname providerID v3) k = fmlookup config k"
  by (simp add: inject_metadata_def injectKubeletProviderIDEnv_def Let_def)

lemma metadata_isV3 [simp]:
  "ignition_isV3 (inject_metadata config hostname providerID v3) = ignition_isV3 config"
  by (simp add: ignition_isV3_def metadata_keys)

text \<open>\<open>json_codec\<close>: what is encoded can be decoded again, to the same document. (A number
  that was read stays the same text.)\<close>

definition json_codec :: "json_lib \<Rightarrow> bool" where
  "json_codec json \<longleftrightarrow> (\<forall>m b. json_Marshal json m = Inr b \<longrightarrow> json_Unmarshal json b = Inr m)"


definition file_source :: "go_any \<Rightarrow> string" where
  "file_source f =
     (case f of Map_any m \<Rightarrow>
        (case as_map (fmlookup m ''contents'') of None \<Rightarrow> '''' | Some c \<Rightarrow> as_string (fmlookup c ''source''))
      | _ \<Rightarrow> '''')"

lemma file_source_entry [simp]: "file_source (file_entry path source mode v3) = source"
  by (simp add: file_source_def file_entry_def Let_def as_string_def as_map_def fmlookup_of_list)

text \<open>A codec for the witnesses: documents are numbered.\<close>

definition example_config :: go_map where
  "example_config = fmap_of_list [(''ignition'', Map_any (fmap_of_list [(''version'', String_any ''3.2.0'')]))]"

definition example_net :: NetworkConfig where
  "example_net = \<lparr>nc_Addresses = [''10.0.0.5/24''], nc_Gateway = ''10.0.0.1'', nc_DNSServers = [], nc_DNSSearch = []\<rparr>"

definition example_config1 :: go_map where
  "example_config1 = inject_metadata example_config ''ns-c-m0'' ''libvirt:///h0/ns-c-m0'' True"

definition example_config2 :: go_map where
  "example_config2 = injectFile example_config1 nmConnectionPath
     (''data:,'' @ url_PathEscape (generateNMConnection (default_dns example_net))) mode_0600 True"

definition example_json :: json_lib where
  "example_json = \<lparr>
     json_Unmarshal = (\<lambda>b. if b = ''0'' then Inr example_config else if b = ''1'' then Inr example_config1
        else if b = ''2'' then Inr example_config2 else Inl (ErrorText ''json'')),
     json_Marshal = (\<lambda>m. if m = example_config then Inr ''0'' else if m = example_config1 then Inr ''1''
        else if m = example_config2 then Inr ''2'' else Inl (ErrorText ''json''))\<rparr>"

lemma example_codec: "json_codec example_json"
  by (simp add: json_codec_def example_json_def)

lemma example_files:
  "files_at hostnamePath example_config = []" "files_at nmConnectionPath example_config1 = []"
  "files_at hostnamePath example_config1 \<noteq> []" "files_at nmConnectionPath example_config2 \<noteq> []"
  "files_at hostnamePath example_config2 \<noteq> []"
proof -
  have none: "files_at p example_config = []" for p
    by (simp add: files_at_def config_files_def ensureStorage_def getFiles_def as_map_def as_slice_def
          example_config_def fmlookup_of_list)
  show "files_at hostnamePath example_config = []" "files_at nmConnectionPath example_config1 = []"
    "files_at hostnamePath example_config1 \<noteq> []" "files_at nmConnectionPath example_config2 \<noteq> []"
    "files_at hostnamePath example_config2 \<noteq> []"
    by (simp_all add: none example_config1_def example_config2_def metadata_files)
qed

lemma example_documents_differ:
  "example_config1 \<noteq> example_config" "example_config2 \<noteq> example_config" "example_config2 \<noteq> example_config1"
  using example_files by metis+

lemma example_version: "ignition_isV3 example_config = Inr True" "ignition_isV3 example_config1 = Inr True"
proof -
  show "ignition_isV3 example_config = Inr True"
    by (simp add: ignition_isV3_def example_config_def as_map_def as_string_def fmlookup_of_list Let_def)
  then show "ignition_isV3 example_config1 = Inr True" by (simp add: example_config1_def)
qed

lemma example_json_simps:
  "json_Unmarshal example_json ''0'' = Inr example_config"
  "json_Unmarshal example_json ''1'' = Inr example_config1"
  "json_Marshal example_json example_config1 = Inr ''1''"
  "json_Marshal example_json example_config2 = Inr ''2''"
  using example_documents_differ by (simp_all add: example_json_def)

lemma example_injections:
  "InjectMachineMetadata example_json ''0'' ''ns-c-m0'' ''libvirt:///h0/ns-c-m0'' = Inr ''1''"
  "InjectStaticNetwork example_json ''1'' example_net = Inr ''2''"
proof -
  show "InjectMachineMetadata example_json ''0'' ''ns-c-m0'' ''libvirt:///h0/ns-c-m0'' = Inr ''1''"
    unfolding InjectMachineMetadata_def
    by (simp only: example_json_simps sum.case example_version example_config1_def [symmetric])
  have "length (nc_Addresses example_net) \<noteq> 0" by (simp add: example_net_def)
  then show "InjectStaticNetwork example_json ''1'' example_net = Inr ''2''"
    unfolding InjectStaticNetwork_def
    by (simp only: example_json_simps sum.case example_version example_config2_def [symmetric] if_False)
qed


section \<open>Properties\<close>

text \<open>Injecting a file leaves exactly one entry for its path, the new one, whatever was
  there before; every other entry stays, in order; and so do every other section of the config
  and every other field of its storage section.\<close>

theorem injectFile_replaces:
  "files_at path (injectFile config path source mode v3) = [file_entry path source mode v3] \<and>
   filter (\<lambda>f. \<not> at_path path f) (config_files (injectFile config path source mode v3)) =
     filter (\<lambda>f. \<not> at_path path f) (config_files config) \<and>
   fmdrop ''storage'' (injectFile config path source mode v3) = fmdrop ''storage'' config \<and>
   fmdrop ''files'' (ensureStorage (injectFile config path source mode v3)) =
     fmdrop ''files'' (ensureStorage config)"
proof (intro conjI)
  show "fmdrop ''storage'' (injectFile config path source mode v3) = fmdrop ''storage'' config"
    by (intro fmap_ext) simp
  show "fmdrop ''files'' (ensureStorage (injectFile config path source mode v3)) =
     fmdrop ''files'' (ensureStorage config)"
    by (intro fmap_ext) simp
qed (simp_all add: other_files_inject)



end
