(* ===== verification/Artifact_Transport.thy ===== *)
theory Artifact_Transport
  imports Api_Types
begin

text \<open>
  The libraries behind \<^verbatim>\<open>internal/bootartifacts\<close> and \<^verbatim>\<open>internal/imagecache\<close>, as parameters:
  the HTTP client, the OCI registry client (oras), the S3 client (minio), gzip and SHA-256; and
  what both packages share: credentials, readers and the selection of a layer.

  A reader is what reading it to its end gives: the bytes, and the error that ended them if it
  was not the end of the stream.
\<close>

section \<open>Parameters\<close>

type_synonym reader = "bytes \<times> go_error option"

definition io_ReadAll :: "reader \<Rightarrow> go_error + bytes" where
  "io_ReadAll r = (case snd r of None \<Rightarrow> Inr (fst r) | Some err \<Rightarrow> Inl err)"

record Credentials =
  cred_Username :: string
  cred_Password :: string
  cred_AccessKeyID :: string
  cred_SecretAccessKey :: string
  cred_SessionToken :: string

record http_request =
  rq_URL :: string
  rq_Authorization :: "string option"
  rq_InsecureSkipVerify :: bool

record http_response =
  rs_StatusCode :: int
  rs_Body :: reader

record oci_reference =
  oci_Registry :: string
  oci_Tag :: string

record oci_repo =
  or_Reference :: oci_reference
  or_PlainHTTP :: bool
  or_InsecureSkipVerify :: bool
  or_Credential :: "(string \<times> string) option"

record Descriptor =
  desc_Digest :: string
  desc_Annotations :: "(string, string) fmap"

record s3_options =
  so_Endpoint :: string
  so_Creds :: "string \<times> string \<times> string"
  so_Secure :: bool
  so_Region :: string
  so_PathStyle :: bool
  so_InsecureSkipVerify :: bool

record 'w transport =
  tr_NewRequest :: "string \<Rightarrow> go_error option"
  tr_Do :: "http_request \<Rightarrow> ('w, go_error + http_response) state"
  tr_NewRepository :: "string \<Rightarrow> go_error + oci_reference"
  tr_FetchReference :: "oci_repo \<Rightarrow> string \<Rightarrow> ('w, go_error + reader) state"
  tr_FetchBlob :: "oci_repo \<Rightarrow> Descriptor \<Rightarrow> ('w, go_error + reader) state"
  tr_ParseManifest :: "bytes \<Rightarrow> go_error + Descriptor list"
  tr_minio_New :: "s3_options \<Rightarrow> go_error option"
  tr_GetObject :: "s3_options \<Rightarrow> string \<Rightarrow> string \<Rightarrow> ('w, go_error + reader) state"
  tr_gzip_NewReader :: "reader \<Rightarrow> go_error + reader"
  tr_sha256 :: "bytes \<Rightarrow> bytes"

abbreviation "StatusOK \<equiv> (200 :: int)"
abbreviation "AnnotationTitle \<equiv> ''org.opencontainers.image.title''"


section \<open>Shared code\<close>

definition has_gzip_magic :: "bytes \<Rightarrow> bool" where
  "has_gzip_magic raw =
     (\<not> (length raw < 2 \<or> raw ! 0 \<noteq> CHR 0x1F \<or> raw ! 1 \<noteq> CHR 0x8B))"

definition desc_title :: "Descriptor \<Rightarrow> string" where
  "desc_title d = (case fmlookup (desc_Annotations d) AnnotationTitle of None \<Rightarrow> '''' | Some t \<Rightarrow> t)"

text \<open>The loop of \<^verbatim>\<open>pickLayerByTitle\<close> and \<^verbatim>\<open>pickQcow2Layer\<close>, with the match so far.\<close>

fun pick_loop :: "string \<Rightarrow> Descriptor option \<Rightarrow> Descriptor list \<Rightarrow> go_error + Descriptor" where
  "pick_loop title match [] =
     (case match of
        None \<Rightarrow> Inl (ErrorText (''no layer titled '' @ fmt_q title @ '' in manifest''))
      | Some d \<Rightarrow> Inr d)"
| "pick_loop title match (l # ls) =
     (if desc_title l = title
      then if match \<noteq> None
           then Inl (ErrorText (''ambiguous: multiple layers titled '' @ fmt_q title))
           else pick_loop title (Some l) ls
      else pick_loop title match ls)"

definition fetchManifest :: "'w transport \<Rightarrow> oci_repo \<Rightarrow> string \<Rightarrow> ('w, go_error + bytes) state" where
  "fetchManifest tr repo ref = do {
     r \<leftarrow> tr_FetchReference tr repo ref;
     State_Monad.return (case r of Inl err \<Rightarrow> Inl err | Inr rc \<Rightarrow> io_ReadAll rc) }"

definition oci_credential :: "Credentials option \<Rightarrow> (string \<times> string) option" where
  "oci_credential creds =
     (case creds of
        None \<Rightarrow> None
      | Some c \<Rightarrow> if cred_Username c \<noteq> '''' \<or> cred_Password c \<noteq> ''''
                  then Some (cred_Username c, cred_Password c) else None)"

definition s3_credential :: "Credentials option \<Rightarrow> string \<times> string \<times> string" where
  "s3_credential creds =
     (case creds of
        None \<Rightarrow> ('''', '''', '''')
      | Some c \<Rightarrow> if cred_AccessKeyID c \<noteq> ''''
                  then (cred_AccessKeyID c, cred_SecretAccessKey c, cred_SessionToken c)
                  else ('''', '''', ''''))"

definition lookupStyle :: "bool \<Rightarrow> bool" where
  "lookupStyle usePath = (if usePath then True else False)"

text \<open>The check of a digest against an optional expected one, as every fetch ends.\<close>

definition sha_hex :: "'w transport \<Rightarrow> bytes \<Rightarrow> string" where
  "sha_hex tr body = hex_EncodeToString (tr_sha256 tr body)"

definition digest_matches :: "string \<Rightarrow> string \<Rightarrow> bool" where
  "digest_matches digest expected = (\<not> (expected \<noteq> '''' \<and> \<not> strings_EqualFold digest expected))"


section \<open>Layers\<close>

lemma pick_loop_Some:
  "pick_loop title (Some m) ls = Inr d \<longleftrightarrow> d = m \<and> list_all (\<lambda>l. desc_title l \<noteq> title) ls"
  by (induction ls) auto

lemma pick_loop_Inr:
  "pick_loop title None ls = Inr d \<longleftrightarrow> filter (\<lambda>l. desc_title l = title) ls = [d]"
proof (induction ls)
  case (Cons l ls)
  have "filter (\<lambda>l. desc_title l = title) ls = [] \<longleftrightarrow> list_all (\<lambda>l. desc_title l \<noteq> title) ls"
    by (simp add: filter_empty_conv list_all_iff)
  with Cons show ?case by (auto simp: pick_loop_Some)
qed simp

text \<open>A transport that answers every request with a fixed body, hands archives through, and
  whose digest of some bytes is their reversal.\<close>

definition example_transport :: "bytes \<Rightarrow> 'w transport" where
  "example_transport body =
     \<lparr>tr_NewRequest = (\<lambda>url. None),
      tr_Do = (\<lambda>req. State_Monad.return (Inr \<lparr>rs_StatusCode = 200, rs_Body = (body, None)\<rparr>)),
      tr_NewRepository = (\<lambda>ref. Inr \<lparr>oci_Registry = ''registry'', oci_Tag = ''v1''\<rparr>),
      tr_FetchReference = (\<lambda>repo ref. State_Monad.return (Inr (body, None))),
      tr_FetchBlob = (\<lambda>repo d. State_Monad.return (Inr (body, None))),
      tr_ParseManifest = (\<lambda>b. Inr []),
      tr_minio_New = (\<lambda>opts. None),
      tr_GetObject = (\<lambda>opts bucket key. State_Monad.return (Inr (body, None))),
      tr_gzip_NewReader = Inr,
      tr_sha256 = rev\<rparr>"

end
