(* ===== verification/Boot_Artifacts.thy ===== *)
theory Boot_Artifacts
  imports Artifact_Transport
begin

text \<open>
  \<^verbatim>\<open>internal/bootartifacts\<close>: fetching the kernel and initramfs that machines of a cluster boot
  directly, over HTTPS, from an OCI artifact or from an S3 bucket, with verification of their
  digests.
\<close>

section \<open>gzip.go and resolver.go\<close>

definition decompressIfGzip :: "'w transport \<Rightarrow> bytes \<Rightarrow> go_error + bytes" where
  "decompressIfGzip tr raw =
     (if length raw < 2 \<or> raw ! 0 \<noteq> CHR 0x1F \<or> raw ! 1 \<noteq> CHR 0x8B then Inr raw
      else case tr_gzip_NewReader tr (raw, None) of
        Inl err \<Rightarrow> Inl err
      | Inr r \<Rightarrow> io_ReadAll r)"

record Artifacts =
  art_KernelBytes :: bytes
  art_KernelSHA256 :: string
  art_InitramfsBytes :: bytes
  art_InitramfsSHA256 :: string

type_synonym 'w Resolver =
  "BootArtifactsSource \<Rightarrow> Credentials option \<Rightarrow> ('w, go_error + Artifacts) state"

text \<open>Two fetches in a row, with the error texts of the three resolvers.\<close>

definition fetch_both ::
  "('w, go_error + bytes \<times> string) state \<Rightarrow> ('w, go_error + bytes \<times> string) state \<Rightarrow>
   ('w, go_error + Artifacts) state" where
  "fetch_both getKernel getInitramfs = do {
     k \<leftarrow> getKernel;
     (case k of
        Inl err \<Rightarrow> State_Monad.return (Inl (Wrapf ''kernel: '' err))
      | Inr (kernelBytes, kernelDigest) \<Rightarrow> do {
          i \<leftarrow> getInitramfs;
          State_Monad.return (case i of
            Inl err \<Rightarrow> Inl (Wrapf ''initramfs: '' err)
          | Inr (initramfsBytes, initramfsDigest) \<Rightarrow>
              Inr \<lparr>art_KernelBytes = kernelBytes, art_KernelSHA256 = kernelDigest,
                   art_InitramfsBytes = initramfsBytes, art_InitramfsSHA256 = initramfsDigest\<rparr>) }) }"

text \<open>From the raw body to the verified one; \<open>what\<close> names it in the error texts, \<open>where\<close> in
  the text of a mismatch.\<close>

definition verify_body ::
  "'w transport \<Rightarrow> string \<Rightarrow> string \<Rightarrow> reader \<Rightarrow> string \<Rightarrow> go_error + bytes \<times> string" where
  "verify_body tr what whr rc expected =
     (case io_ReadAll rc of
        Inl err \<Rightarrow> Inl (Wrapf (''read '' @ what @ '': '') err)
      | Inr raw \<Rightarrow>
     (case decompressIfGzip tr raw of
        Inl err \<Rightarrow> Inl (Wrapf (''decompress '' @ what @ '': '') err)
      | Inr body \<Rightarrow>
          let digest = sha_hex tr body in
          if expected \<noteq> '''' \<and> \<not> strings_EqualFold digest expected
          then Inl (ErrorText (''sha256 mismatch for '' @ whr @ '': got '' @ digest @ '', expected '' @ expected))
          else Inr (body, digest)))"


section \<open>https.go\<close>

definition boot_fetchOne ::
  "'w transport \<Rightarrow> string \<Rightarrow> string \<Rightarrow> ('w, go_error + bytes \<times> string) state" where
  "boot_fetchOne tr url expectedDigest =
     (if \<not> strings_HasPrefix (strings_ToLower url) ''https://''
      then State_Monad.return (Inl (ErrorText (''only https:// URLs are supported, got '' @ fmt_q url)))
      else case tr_NewRequest tr url of
        Some err \<Rightarrow> State_Monad.return (Inl (Wrapf ''build request: '' err))
      | None \<Rightarrow> do {
          d \<leftarrow> tr_Do tr \<lparr>rq_URL = url, rq_Authorization = None, rq_InsecureSkipVerify = False\<rparr>;
          State_Monad.return (case d of
            Inl err \<Rightarrow> Inl (Wrapf (''get '' @ url @ '': '') err)
          | Inr resp \<Rightarrow>
              if rs_StatusCode resp \<noteq> StatusOK
              then Inl (ErrorText (''get '' @ url @ '': unexpected status '' @ fmt_d (rs_StatusCode resp)))
              else verify_body tr url url (rs_Body resp) expectedDigest) })"

definition boot_HTTPS_Resolve :: "'w transport \<Rightarrow> 'w Resolver" where
  "boot_HTTPS_Resolve tr src creds =
     (case bas_HTTPS src of
        None \<Rightarrow> State_Monad.return (Inl (ErrorText ''https source not set''))
      | Some spec \<Rightarrow>
          fetch_both (boot_fetchOne tr (ha_KernelURL spec) (ha_KernelSHA256 spec))
            (boot_fetchOne tr (ha_InitramfsURL spec) (ha_InitramfsSHA256 spec)))"


section \<open>oci.go\<close>

abbreviation "defaultKernelLayerTitle \<equiv> ''vmlinuz''"
abbreviation "defaultInitramfsLayerTitle \<equiv> ''initramfs.img''"

definition pickLayerByTitle :: "Descriptor list \<Rightarrow> string \<Rightarrow> go_error + Descriptor" where
  "pickLayerByTitle layers title = pick_loop title None layers"

definition fetchLayer ::
  "'w transport \<Rightarrow> oci_repo \<Rightarrow> Descriptor \<Rightarrow> string \<Rightarrow> ('w, go_error + bytes \<times> string) state" where
  "fetchLayer tr repo desc expectedSHA256 = do {
     f \<leftarrow> tr_FetchBlob tr repo desc;
     State_Monad.return (case f of
       Inl err \<Rightarrow> Inl (Wrapf (''fetch blob '' @ desc_Digest desc @ '': '') err)
     | Inr rc \<Rightarrow> verify_body tr (''blob '' @ desc_Digest desc) (''layer '' @ desc_Digest desc) rc expectedSHA256) }"

definition boot_OCI_Resolve :: "'w transport \<Rightarrow> 'w Resolver" where
  "boot_OCI_Resolve tr src creds =
     (case bas_OCI src of
        None \<Rightarrow> State_Monad.return (Inl (ErrorText ''oci source not set''))
      | Some spec \<Rightarrow>
     (case tr_NewRepository tr (oa_Reference spec) of
        Inl err \<Rightarrow> State_Monad.return
          (Inl (Wrapf (''parse oci reference '' @ fmt_q (oa_Reference spec) @ '': '') err))
      | Inr ref \<Rightarrow>
          let repo = \<lparr>or_Reference = ref, or_PlainHTTP = oa_PlainHTTP spec,
                      or_InsecureSkipVerify = oa_InsecureSkipTLSVerify spec,
                      or_Credential = oci_credential creds\<rparr>;
              tag = oci_Tag ref in
          if tag = ''''
          then State_Monad.return (Inl (ErrorText
                 (''oci reference '' @ fmt_q (oa_Reference spec) @ '' has no tag or digest'')))
          else do {
            m \<leftarrow> fetchManifest tr repo tag;
            (case m of
               Inl err \<Rightarrow> State_Monad.return (Inl (Wrapf (''fetch manifest '' @ oa_Reference spec @ '': '') err))
             | Inr manifestBytes \<Rightarrow>
            (case tr_ParseManifest tr manifestBytes of
               Inl err \<Rightarrow> State_Monad.return (Inl (Wrapf (''parse manifest '' @ oa_Reference spec @ '': '') err))
             | Inr layers \<Rightarrow>
                 let kernelTitle = (if oa_KernelLayerTitle spec = '''' then defaultKernelLayerTitle
                                    else oa_KernelLayerTitle spec);
                     initramfsTitle = (if oa_InitramfsLayerTitle spec = '''' then defaultInitramfsLayerTitle
                                       else oa_InitramfsLayerTitle spec) in
                 (case pickLayerByTitle layers kernelTitle of
                    Inl err \<Rightarrow> State_Monad.return (Inl (Wrapf ''kernel layer: '' err))
                  | Inr kernelLayer \<Rightarrow>
                 (case pickLayerByTitle layers initramfsTitle of
                    Inl err \<Rightarrow> State_Monad.return (Inl (Wrapf ''initramfs layer: '' err))
                  | Inr initramfsLayer \<Rightarrow>
                      fetch_both (fetchLayer tr repo kernelLayer (oa_KernelSHA256 spec))
                        (fetchLayer tr repo initramfsLayer (oa_InitramfsSHA256 spec)))))) }))"


section \<open>s3.go\<close>

definition fetchObject ::
  "'w transport \<Rightarrow> s3_options \<Rightarrow> string \<Rightarrow> string \<Rightarrow> string \<Rightarrow> ('w, go_error + bytes \<times> string) state" where
  "fetchObject tr client bucket key expectedSHA256 = do {
     g \<leftarrow> tr_GetObject tr client bucket key;
     let name = ''s3://'' @ bucket @ ''/'' @ key;
     State_Monad.return (case g of
       Inl err \<Rightarrow> Inl (Wrapf (''get '' @ name @ '': '') err)
     | Inr obj \<Rightarrow> verify_body tr name name obj expectedSHA256) }"

definition boot_S3_Resolve :: "'w transport \<Rightarrow> 'w Resolver" where
  "boot_S3_Resolve tr src creds =
     (case bas_S3 src of
        None \<Rightarrow> State_Monad.return (Inl (ErrorText ''s3 source not set''))
      | Some spec \<Rightarrow>
          let client = \<lparr>so_Endpoint = sa_Endpoint spec, so_Creds = s3_credential creds,
                        so_Secure = (\<not> sa_Insecure spec), so_Region = sa_Region spec,
                        so_PathStyle = lookupStyle (sa_UsePathStyle spec),
                        so_InsecureSkipVerify = sa_InsecureSkipTLSVerify spec\<rparr> in
          (case tr_minio_New tr client of
             Some err \<Rightarrow> State_Monad.return
               (Inl (Wrapf (''init s3 client for '' @ sa_Endpoint spec @ '': '') err))
           | None \<Rightarrow>
               fetch_both (fetchObject tr client (sa_Bucket spec) (sa_KernelKey spec) (sa_KernelSHA256 spec))
                 (fetchObject tr client (sa_Bucket spec) (sa_InitramfsKey spec) (sa_InitramfsSHA256 spec))))"


section \<open>MultiResolver\<close>

record 'w MultiResolver =
  mr_HTTPS :: "'w Resolver"
  mr_OCI :: "'w Resolver"
  mr_S3 :: "'w Resolver"

definition boot_NewMultiResolver :: "'w transport \<Rightarrow> 'w MultiResolver" where
  "boot_NewMultiResolver tr =
     \<lparr>mr_HTTPS = boot_HTTPS_Resolve tr, mr_OCI = boot_OCI_Resolve tr, mr_S3 = boot_S3_Resolve tr\<rparr>"

definition boot_Multi_Resolve :: "'w MultiResolver \<Rightarrow> 'w Resolver" where
  "boot_Multi_Resolve m src creds =
     (if bas_Type src = BootArtifactsSourceHTTPS
      then if bas_HTTPS src = None
           then State_Monad.return (Inl (ErrorText ''bootArtifacts.source.https is required when type=HTTPS''))
           else mr_HTTPS m src creds
      else if bas_Type src = BootArtifactsSourceOCI
      then if bas_OCI src = None
           then State_Monad.return (Inl (ErrorText ''bootArtifacts.source.oci is required when type=OCI''))
           else mr_OCI m src creds
      else if bas_Type src = BootArtifactsSourceS3
      then if bas_S3 src = None
           then State_Monad.return (Inl (ErrorText ''bootArtifacts.source.s3 is required when type=S3''))
           else mr_S3 m src creds
      else State_Monad.return (Inl (ErrorText
             (''unsupported bootArtifacts source type '' @ fmt_q (bas_Type src)))))"


section \<open>The contract of a resolver\<close>

text \<open>\<open>verified sha expected body digest\<close>: the digest is that of the body, and it is the
  expected one when one was given.\<close>

definition verified :: "(bytes \<Rightarrow> bytes) \<Rightarrow> string \<Rightarrow> bytes \<Rightarrow> string \<Rightarrow> bool" where
  "verified sha expected body digest =
     (digest = hex_EncodeToString (sha body) \<and> (expected = '''' \<or> strings_ToLower expected = digest))"

definition artifacts_verified :: "(bytes \<Rightarrow> bytes) \<Rightarrow> string \<times> string \<Rightarrow> Artifacts \<Rightarrow> bool" where
  "artifacts_verified sha expected a =
     (verified sha (fst expected) (art_KernelBytes a) (art_KernelSHA256 a) \<and>
      verified sha (snd expected) (art_InitramfsBytes a) (art_InitramfsSHA256 a))"

text \<open>The digests a source declares, for the transport its type selects.\<close>

definition https_digests :: "BootArtifactsSource \<Rightarrow> string \<times> string" where
  "https_digests src = (case bas_HTTPS src of None \<Rightarrow> ('''', '''')
     | Some s \<Rightarrow> (ha_KernelSHA256 s, ha_InitramfsSHA256 s))"

definition oci_digests :: "BootArtifactsSource \<Rightarrow> string \<times> string" where
  "oci_digests src = (case bas_OCI src of None \<Rightarrow> ('''', '''')
     | Some s \<Rightarrow> (oa_KernelSHA256 s, oa_InitramfsSHA256 s))"

definition s3_digests :: "BootArtifactsSource \<Rightarrow> string \<times> string" where
  "s3_digests src = (case bas_S3 src of None \<Rightarrow> ('''', '''')
     | Some s \<Rightarrow> (sa_KernelSHA256 s, sa_InitramfsSHA256 s))"

definition declared_digests :: "BootArtifactsSource \<Rightarrow> string \<times> string" where
  "declared_digests src =
     (if bas_Type src = BootArtifactsSourceHTTPS then https_digests src
      else if bas_Type src = BootArtifactsSourceOCI then oci_digests src
      else s3_digests src)"

text \<open>What the controller relies on: artifacts a resolver returns are verified. From it:
  artifacts with the same digests are the same bytes, as far as SHA-256 tells bytes apart, so
  a digest can name a file.\<close>

locale verifying_resolver =
  fixes resolve :: "'w Resolver"
    and sha :: "bytes \<Rightarrow> bytes"
    and expected :: "BootArtifactsSource \<Rightarrow> string \<times> string"
  assumes resolve_verified:
    "run_state (resolve src creds) w = (Inr a, w') \<Longrightarrow> artifacts_verified sha (expected src) a"
begin

lemma resolve_digests:
  assumes "run_state (resolve src creds) w = (Inr a, w')"
  shows "art_KernelSHA256 a = hex_EncodeToString (sha (art_KernelBytes a))"
    and "art_InitramfsSHA256 a = hex_EncodeToString (sha (art_InitramfsBytes a))"
  using resolve_verified [OF assms] by (simp_all add: artifacts_verified_def verified_def)

lemma same_digest_same_bytes:
  assumes "run_state (resolve src creds) w = (Inr a, w')" "run_state (resolve src' creds') v = (Inr b, v')"
    and "\<And>x y. hex_EncodeToString (sha x) = hex_EncodeToString (sha y) \<Longrightarrow> x = y"
  shows "art_KernelSHA256 a = art_KernelSHA256 b \<Longrightarrow> art_KernelBytes a = art_KernelBytes b"
    and "art_InitramfsSHA256 a = art_InitramfsSHA256 b \<Longrightarrow> art_InitramfsBytes a = art_InitramfsBytes b"
  using resolve_digests [OF assms(1)] resolve_digests [OF assms(2)] assms(3) by auto

end


section \<open>The resolvers keep it\<close>

lemma EqualFold_iff: "strings_EqualFold a b \<longleftrightarrow> strings_ToLower a = strings_ToLower b"
  by (simp add: strings_EqualFold_def)

lemma verify_body_verified:
  "verify_body tr what whr rc expected = Inr (body, digest) \<Longrightarrow> verified (tr_sha256 tr) expected body digest"
  by (auto simp: verify_body_def verified_def sha_hex_def Let_def EqualFold_iff split: sum.splits if_splits)

lemma fetch_both_verified:
  assumes "run_state (fetch_both k i) w = (Inr a, w')"
    and "\<And>w w' b d. run_state k w = (Inr (b, d), w') \<Longrightarrow> verified sha ek b d"
    and "\<And>w w' b d. run_state i w = (Inr (b, d), w') \<Longrightarrow> verified sha ei b d"
  shows "artifacts_verified sha (ek, ei) a"
  using assms by (auto simp: fetch_both_def artifacts_verified_def split: prod.splits sum.splits)

lemma boot_fetchOne_verified:
  "run_state (boot_fetchOne tr url e) w = (Inr (b, d), w') \<Longrightarrow> verified (tr_sha256 tr) e b d"
  by (auto simp: boot_fetchOne_def split: if_splits option.splits prod.splits sum.splits
        dest: verify_body_verified)

lemma fetchLayer_verified:
  "run_state (fetchLayer tr repo desc e) w = (Inr (b, d), w') \<Longrightarrow> verified (tr_sha256 tr) e b d"
  by (auto simp: fetchLayer_def split: prod.splits sum.splits dest: verify_body_verified)

lemma fetchObject_verified:
  "run_state (fetchObject tr c bucket key e) w = (Inr (b, d), w') \<Longrightarrow> verified (tr_sha256 tr) e b d"
  by (auto simp: fetchObject_def Let_def split: prod.splits sum.splits dest: verify_body_verified)

interpretation hr: verifying_resolver "boot_HTTPS_Resolve tr" "tr_sha256 tr" https_digests for tr :: "'w transport"
proof
  fix src creds w a w'
  assume "run_state (boot_HTTPS_Resolve tr src creds) w = (Inr a, w')"
  then show "artifacts_verified (tr_sha256 tr) (https_digests src) a"
    by (cases "bas_HTTPS src")
       (auto simp: boot_HTTPS_Resolve_def https_digests_def intro: fetch_both_verified boot_fetchOne_verified)
qed

interpretation sr: verifying_resolver "boot_S3_Resolve tr" "tr_sha256 tr" s3_digests for tr :: "'w transport"
proof
  fix src creds w a w'
  assume "run_state (boot_S3_Resolve tr src creds) w = (Inr a, w')"
  then show "artifacts_verified (tr_sha256 tr) (s3_digests src) a"
    by (cases "bas_S3 src")
       (auto simp: boot_S3_Resolve_def s3_digests_def Let_def split: option.splits
          intro: fetch_both_verified fetchObject_verified)
qed

lemma boot_OCI_Resolve_fetch:
  assumes "run_state (boot_OCI_Resolve tr src creds) w = (Inr a, w')"
  obtains spec repo kl il v where "bas_OCI src = Some spec"
    "run_state (fetch_both (fetchLayer tr repo kl (oa_KernelSHA256 spec))
       (fetchLayer tr repo il (oa_InitramfsSHA256 spec))) v = (Inr a, w')"
  using assms unfolding boot_OCI_Resolve_def Let_def
  by (auto split: option.splits sum.splits if_splits prod.splits)

interpretation ocr: verifying_resolver "boot_OCI_Resolve tr" "tr_sha256 tr" oci_digests for tr :: "'w transport"
proof
  fix src creds w a w'
  assume "run_state (boot_OCI_Resolve tr src creds) w = (Inr a, w')"
  then show "artifacts_verified (tr_sha256 tr) (oci_digests src) a"
    by (rule boot_OCI_Resolve_fetch)
       (auto simp: oci_digests_def intro: fetch_both_verified fetchLayer_verified)
qed

interpretation mrr: verifying_resolver "boot_Multi_Resolve (boot_NewMultiResolver tr)" "tr_sha256 tr"
    declared_digests for tr :: "'w transport"
proof
  fix src creds w a w'
  assume "run_state (boot_Multi_Resolve (boot_NewMultiResolver tr) src creds) w = (Inr a, w')"
  then show "artifacts_verified (tr_sha256 tr) (declared_digests src) a"
    using hr.resolve_verified ocr.resolve_verified sr.resolve_verified
    by (auto simp: boot_Multi_Resolve_def boot_NewMultiResolver_def declared_digests_def split: if_splits)
qed


section \<open>Properties\<close>

text \<open>C15: whatever the transport, HTTPS, OCI or S3, and whatever the server sent, artifacts
  that are returned carry the SHA-256 of their bytes, and a digest the source declares for the
  kernel or the initramfs is that SHA-256 up to upper case.\<close>

theorem resolved_artifacts_verified:
  assumes "run_state (boot_Multi_Resolve (boot_NewMultiResolver tr) src creds) w = (Inr a, w')"
  shows "art_KernelSHA256 a = hex_EncodeToString (tr_sha256 tr (art_KernelBytes a)) \<and>
    art_InitramfsSHA256 a = hex_EncodeToString (tr_sha256 tr (art_InitramfsBytes a)) \<and>
    (fst (declared_digests src) = '''' \<or> strings_ToLower (fst (declared_digests src)) = art_KernelSHA256 a) \<and>
    (snd (declared_digests src) = '''' \<or> strings_ToLower (snd (declared_digests src)) = art_InitramfsSHA256 a)"
  using mrr.resolve_verified [OF assms] by (auto simp: artifacts_verified_def verified_def)

definition example_source :: BootArtifactsSource where
  "example_source =
     \<lparr>bas_Type = BootArtifactsSourceHTTPS,
      bas_HTTPS = Some \<lparr>ha_KernelURL = ''https://m/vmlinuz'', ha_InitramfsURL = ''HTTPS://m/initramfs'',
        ha_KernelSHA256 = ''4B4D'', ha_InitramfsSHA256 = ''''\<rparr>,
      bas_OCI = None, bas_S3 = None\<rparr>"

definition example_artifacts :: Artifacts where
  "example_artifacts =
     \<lparr>art_KernelBytes = ''MK'', art_KernelSHA256 = ''4b4d'', art_InitramfsBytes = ''MK'',
      art_InitramfsSHA256 = ''4b4d''\<rparr>"

theorem resolved_artifacts_verified_witness:
  "run_state (boot_Multi_Resolve (boot_NewMultiResolver (example_transport ''MK'')) example_source None) () =
     (Inr example_artifacts, ()) \<and>
   art_KernelSHA256 example_artifacts =
     hex_EncodeToString (tr_sha256 (example_transport ''MK'' :: unit transport) (art_KernelBytes example_artifacts))"
proof -
  have run: "run_state (boot_Multi_Resolve (boot_NewMultiResolver (example_transport ''MK'')) example_source None) () =
     (Inr example_artifacts, ())"
    by code_simp
  show ?thesis using run resolved_artifacts_verified [OF run] by blast
qed

text \<open>A layer is picked exactly when it is the only one with its title, so an ambiguous
  manifest is refused rather than resolved by order.\<close>

theorem pickLayerByTitle_unique:
  "pickLayerByTitle layers title = Inr d \<longleftrightarrow> filter (\<lambda>l. desc_title l = title) layers = [d]"
  unfolding pickLayerByTitle_def by (rule pick_loop_Inr)

end
