(* ===== verification/Pull_Secrets.thy ===== *)
theory Pull_Secrets
  imports Artifact_Transport
begin

text \<open>
  The part of \<^verbatim>\<open>internal/controller/libvirtmachine_controller.go\<close> that turns a Kubernetes Secret
  into the credentials of a registry or an object store (\<^verbatim>\<open>ociCredentialsFromSecret\<close> to
  \<^verbatim>\<open>registryHostFromReference\<close>, \<^verbatim>\<open>resolveBaseImageCredentials\<close>,
  \<^verbatim>\<open>resolveBootArtifactsCredentials\<close>), and the base64 coding of the Go library.

  Decoding the JSON of a docker configuration and the order in which Go ranges over a map are
  parameters.
\<close>

section \<open>base64.StdEncoding\<close>

definition base64_alphabet :: string where
  "base64_alphabet = ''ABCDEFGHIJKLMNOPQRSTUVWXYZabcdefghijklmnopqrstuvwxyz0123456789+/''"

definition base64_char :: "nat \<Rightarrow> char" where
  "base64_char n = base64_alphabet ! (n mod 64)"

fun base64_Encode :: "bytes \<Rightarrow> string" where
  "base64_Encode [] = []"
| "base64_Encode [a] =
     (let n = of_char a * 16 in [base64_char (n div 64), base64_char n, CHR ''='', CHR ''=''])"
| "base64_Encode [a, b] =
     (let n = (of_char a * 256 + of_char b) * 4
      in [base64_char (n div 4096), base64_char (n div 64), base64_char n, CHR ''=''])"
| "base64_Encode (a # b # c # rest) =
     (let n = (of_char a * 256 + of_char b) * 256 + of_char c
      in [base64_char (n div 262144), base64_char (n div 4096), base64_char (n div 64), base64_char n]
         @ base64_Encode rest)"

fun index_of :: "char \<Rightarrow> string \<Rightarrow> nat option" where
  "index_of c [] = None"
| "index_of c (x # xs) = (if c = x then Some 0 else map_option Suc (index_of c xs))"

definition base64_value :: "char \<Rightarrow> nat option" where
  "base64_value c = index_of c base64_alphabet"

definition is_newline :: "char \<Rightarrow> bool" where
  "is_newline c = (c = CHR 0x0A \<or> c = CHR 0x0D)"

text \<open>The bytes of a group of two, three or four digits.\<close>

fun base64_group :: "nat list \<Rightarrow> bytes" where
  "base64_group [a, b] = [char_of (a * 4 + b div 16)]"
| "base64_group [a, b, c] =
     (let n = (a * 64 + b) * 64 + c in [char_of (n div 1024), char_of (n div 4)])"
| "base64_group [a, b, c, d] =
     (let n = ((a * 64 + b) * 64 + c) * 64 + d in
      [char_of (n div 65536), char_of (n div 256), char_of n])"
| "base64_group _ = []"

text \<open>What may follow the padding: line breaks. The left result is the offset of the error.\<close>

definition base64_end :: "nat \<Rightarrow> string \<Rightarrow> bytes \<Rightarrow> nat + bytes" where
  "base64_end si rest out =
     (let trailing = dropWhile is_newline rest;
          si' = si + length (takeWhile is_newline rest) in
      if trailing \<noteq> [] then Inl si' else Inr out)"

text \<open>The loop of the decoder: the offset \<open>si\<close>, the digits of the group so far, the input.\<close>

fun base64_loop :: "nat \<Rightarrow> nat list \<Rightarrow> string \<Rightarrow> nat + bytes" where
  "base64_loop si buf [] = (if buf = [] then Inr [] else Inl (si - length buf))"
| "base64_loop si buf (c # cs) =
     (case base64_value c of
        Some v \<Rightarrow>
          if length buf = 3
          then (case base64_loop (Suc si) [] cs of
                  Inl off \<Rightarrow> Inl off
                | Inr out \<Rightarrow> Inr (base64_group (buf @ [v]) @ out))
          else base64_loop (Suc si) (buf @ [v]) cs
      | None \<Rightarrow>
          if is_newline c then base64_loop (Suc si) buf cs
          else if c \<noteq> CHR ''='' then Inl si
          else if length buf \<le> 1 then Inl si
          else if length buf = 2
          then (let rest = dropWhile is_newline cs;
                    si' = Suc si + length (takeWhile is_newline cs) in
                case rest of
                  [] \<Rightarrow> Inl si'
                | d # ds \<Rightarrow> if d \<noteq> CHR ''='' then Inl (si' - 1) else base64_end (Suc si') ds (base64_group buf))
          else base64_end (Suc si) cs (base64_group buf))"

definition base64_Decode :: "string \<Rightarrow> go_error + bytes" where
  "base64_Decode s =
     (case base64_loop 0 [] s of
        Inl off \<Rightarrow> Inl (ErrorText (''illegal base64 data at input byte '' @ fmt_d (int off)))
      | Inr out \<Rightarrow> Inr out)"


section \<open>Docker configurations\<close>

record docker_auth =
  da_Username :: string
  da_Password :: string
  da_Auth :: string

definition decodeDockerAuth :: "string \<Rightarrow> string \<Rightarrow> string \<Rightarrow> go_error + (string \<times> string)" where
  "decodeDockerAuth user pass encoded =
     (if user \<noteq> '''' \<or> pass \<noteq> '''' then Inr (user, pass)
      else if encoded = '''' then Inl (ErrorText ''empty auth entry'')
      else case base64_Decode encoded of
        Inl err \<Rightarrow> Inl (Wrapf ''decode auth: '' err)
      | Inr decoded \<Rightarrow>
          (case strings_SplitN2 (CHR '':'') decoded of
             None \<Rightarrow> Inl (ErrorText ''malformed auth entry'')
           | Some (u, p) \<Rightarrow> Inr (u, p)))"

definition decode_entry :: "docker_auth \<Rightarrow> go_error + (string \<times> string)" where
  "decode_entry e = decodeDockerAuth (da_Username e) (da_Password e) (da_Auth e)"

definition registryHostFromReference :: "string \<Rightarrow> string" where
  "registryHostFromReference ref =
     (case strings_Index ref ''/'' of
        Some i \<Rightarrow> if i > 0 then take i ref else ref
      | None \<Rightarrow> ref)"

text \<open>The two ranges over the map of entries may go in different orders.\<close>

record docker_json =
  dj_Unmarshal :: "bytes \<Rightarrow> go_error + (string, docker_auth) fmap"
  dj_range :: "(string, docker_auth) fmap \<Rightarrow> (string \<times> docker_auth) list"
  dj_range2 :: "(string, docker_auth) fmap \<Rightarrow> (string \<times> docker_auth) list"

definition lookupDockerConfigAuth ::
  "docker_json \<Rightarrow> bytes \<Rightarrow> string \<Rightarrow> go_error + (string \<times> string)" where
  "lookupDockerConfigAuth dj raw reference =
     (case dj_Unmarshal dj raw of
        Inl err \<Rightarrow> Inl err
      | Inr auths \<Rightarrow>
          let host = registryHostFromReference reference in
          (case fmlookup auths host of
             Some entry \<Rightarrow> decode_entry entry
           | None \<Rightarrow>
          (case find (\<lambda>(h, entry). strings_Contains h host \<or> strings_Contains host h) (dj_range dj auths) of
             Some (h, entry) \<Rightarrow> decode_entry entry
           | None \<Rightarrow>
          (case dj_range2 dj auths of
             (h, entry) # _ \<Rightarrow> decode_entry entry
           | [] \<Rightarrow> Inl (ErrorText ''no auth entries in dockerconfigjson'')))))"


section \<open>Credentials from a Secret\<close>

abbreviation "DockerConfigJsonKey \<equiv> ''.dockerconfigjson''"

abbreviation "no_credentials \<equiv>
  \<lparr>cred_Username = '''', cred_Password = '''', cred_AccessKeyID = '''',
   cred_SecretAccessKey = '''', cred_SessionToken = ''''\<rparr>"

definition secret_data :: "Secret \<Rightarrow> string \<Rightarrow> bytes" where
  "secret_data secret k = (case fmlookup secret k of None \<Rightarrow> '''' | Some b \<Rightarrow> b)"

definition ociCredentialsFromSecret ::
  "docker_json \<Rightarrow> Secret \<Rightarrow> string \<Rightarrow> go_error + Credentials" where
  "ociCredentialsFromSecret dj secret reference =
     (let raw = secret_data secret DockerConfigJsonKey in
      if raw \<noteq> ''''
      then (case lookupDockerConfigAuth dj raw reference of
              Inl err \<Rightarrow> Inl (Wrapf (''parse '' @ DockerConfigJsonKey @ '': '') err)
            | Inr (user, pass) \<Rightarrow> Inr (no_credentials\<lparr>cred_Username := user, cred_Password := pass\<rparr>))
      else
        let user = secret_data secret ''username''; pass = secret_data secret ''password'' in
        if user = '''' \<and> pass = ''''
        then Inl (ErrorText (''secret has neither '' @ DockerConfigJsonKey @ '' nor username/password keys''))
        else Inr (no_credentials\<lparr>cred_Username := user, cred_Password := pass\<rparr>))"

fun firstNonEmptyString :: "bytes list \<Rightarrow> string" where
  "firstNonEmptyString [] = ''''"
| "firstNonEmptyString (c # cs) = (if length c > 0 then c else firstNonEmptyString cs)"

definition s3CredentialsFromSecret :: "Secret \<Rightarrow> go_error + Credentials" where
  "s3CredentialsFromSecret secret =
     (let keyID = firstNonEmptyString [secret_data secret ''accessKeyID'', secret_data secret ''AWS_ACCESS_KEY_ID''];
          secretKey = firstNonEmptyString
            [secret_data secret ''secretAccessKey'', secret_data secret ''AWS_SECRET_ACCESS_KEY''];
          sessionToken = firstNonEmptyString
            [secret_data secret ''sessionToken'', secret_data secret ''AWS_SESSION_TOKEN''] in
      if keyID = '''' \<or> secretKey = ''''
      then Inl (ErrorText ''secret missing accessKeyID and/or secretAccessKey'')
      else Inr (no_credentials\<lparr>cred_AccessKeyID := keyID, cred_SecretAccessKey := secretKey,
             cred_SessionToken := sessionToken\<rparr>))"


section \<open>Credentials of a source\<close>

definition baseImageExpectedSHA256 :: "BaseImageSource \<Rightarrow> string" where
  "baseImageExpectedSHA256 src =
     (if bis_Type src = BootArtifactsSourceHTTPS
      then (case bis_HTTPS src of Some s \<Rightarrow> hb_SHA256 s | None \<Rightarrow> '''')
      else if bis_Type src = BootArtifactsSourceOCI
      then (case bis_OCI src of Some s \<Rightarrow> ob_SHA256 s | None \<Rightarrow> '''')
      else if bis_Type src = BootArtifactsSourceS3
      then (case bis_S3 src of Some s \<Rightarrow> sb_SHA256 s | None \<Rightarrow> '''')
      else '''')"

definition base_image_secretRef :: "BaseImageSource \<Rightarrow> SecretReference option" where
  "base_image_secretRef src =
     (if bis_Type src = BootArtifactsSourceHTTPS
      then (case bis_HTTPS src of Some s \<Rightarrow> hb_CredentialsSecretRef s | None \<Rightarrow> None)
      else if bis_Type src = BootArtifactsSourceOCI
      then (case bis_OCI src of Some s \<Rightarrow> ob_CredentialsSecretRef s | None \<Rightarrow> None)
      else if bis_Type src = BootArtifactsSourceS3
      then (case bis_S3 src of Some s \<Rightarrow> sb_CredentialsSecretRef s | None \<Rightarrow> None)
      else None)"

text \<open>Which fields of the Secret's credentials the image cache gets.\<close>

definition base_image_credentials ::
  "docker_json \<Rightarrow> BaseImageSource \<Rightarrow> Secret \<Rightarrow> go_error + Credentials option" where
  "base_image_credentials dj src secret =
     (if bis_Type src = BootArtifactsSourceOCI
      then (case ociCredentialsFromSecret dj secret
                   (case bis_OCI src of Some s \<Rightarrow> ob_Reference s | None \<Rightarrow> '''') of
              Inl err \<Rightarrow> Inl err
            | Inr creds \<Rightarrow> Inr (Some (no_credentials\<lparr>cred_Username := cred_Username creds,
                                                     cred_Password := cred_Password creds\<rparr>)))
      else if bis_Type src = BootArtifactsSourceS3
      then (case s3CredentialsFromSecret secret of
              Inl err \<Rightarrow> Inl err
            | Inr creds \<Rightarrow> Inr (Some (no_credentials\<lparr>cred_AccessKeyID := cred_AccessKeyID creds,
                     cred_SecretAccessKey := cred_SecretAccessKey creds,
                     cred_SessionToken := cred_SessionToken creds\<rparr>)))
      else if bis_Type src = BootArtifactsSourceHTTPS
      then (case ociCredentialsFromSecret dj secret '''' of
              Inl err \<Rightarrow> Inl err
            | Inr creds \<Rightarrow> Inr (Some (no_credentials\<lparr>cred_Username := cred_Username creds,
                                                     cred_Password := cred_Password creds\<rparr>)))
      else Inr None)"

definition resolveBaseImageCredentials ::
  "docker_json \<Rightarrow> (string \<Rightarrow> string \<Rightarrow> ('w, go_error + Secret) state) \<Rightarrow> LibvirtCluster \<Rightarrow>
   ('w, go_error + Credentials option) state" where
  "resolveBaseImageCredentials dj get libvirtCluster =
     (case cs_BaseImage (lc_Spec libvirtCluster) of
        None \<Rightarrow> State_Monad.return (Inr None)
      | Some bi \<Rightarrow>
     (case base_image_secretRef (bi_Source bi) of
        None \<Rightarrow> State_Monad.return (Inr None)
      | Some ref \<Rightarrow> do {
          let ns = (if sref_Namespace ref = '''' then om_Namespace (lc_Meta libvirtCluster)
                    else sref_Namespace ref);
          g \<leftarrow> get ns (sref_Name ref);
          State_Monad.return (case g of
            Inl err \<Rightarrow> Inl (Wrapf (''get secret '' @ ns @ ''/'' @ sref_Name ref @ '': '') err)
          | Inr secret \<Rightarrow> base_image_credentials dj (bi_Source bi) secret) }))"

definition boot_artifacts_secretRef :: "BootArtifactsSource \<Rightarrow> SecretReference option" where
  "boot_artifacts_secretRef src =
     (if bas_Type src = BootArtifactsSourceOCI
      then (case bas_OCI src of Some s \<Rightarrow> oa_CredentialsSecretRef s | None \<Rightarrow> None)
      else if bas_Type src = BootArtifactsSourceS3
      then (case bas_S3 src of Some s \<Rightarrow> sa_CredentialsSecretRef s | None \<Rightarrow> None)
      else None)"

definition resolveBootArtifactsCredentials ::
  "docker_json \<Rightarrow> (string \<Rightarrow> string \<Rightarrow> ('w, go_error + Secret) state) \<Rightarrow> LibvirtCluster \<Rightarrow>
   BootArtifactsSource \<Rightarrow> ('w, go_error + Credentials option) state" where
  "resolveBootArtifactsCredentials dj get libvirtCluster src =
     (case boot_artifacts_secretRef src of
        None \<Rightarrow> State_Monad.return (Inr None)
      | Some ref \<Rightarrow> do {
          let ns = (if sref_Namespace ref = '''' then om_Namespace (lc_Meta libvirtCluster)
                    else sref_Namespace ref);
          g \<leftarrow> get ns (sref_Name ref);
          State_Monad.return (case g of
            Inl err \<Rightarrow> Inl (Wrapf (''get secret '' @ ns @ ''/'' @ sref_Name ref @ '': '') err)
          | Inr secret \<Rightarrow>
              if bas_Type src = BootArtifactsSourceOCI
              then map_sum id Some (ociCredentialsFromSecret dj secret
                     (case bas_OCI src of Some s \<Rightarrow> oa_Reference s | None \<Rightarrow> ''''))
              else if bas_Type src = BootArtifactsSourceS3
              then map_sum id Some (s3CredentialsFromSecret secret)
              else Inl (ErrorText (''credentials not supported for source type '' @ fmt_q (bas_Type src)))) })"


section \<open>Encoding and decoding are inverse\<close>

lemma base64_value_char: "base64_value (base64_char n) = Some (n mod 64)"
proof -
  have "list_all (\<lambda>m. base64_value (base64_char m) = Some m) [0..<64]" by code_simp
  moreover have "n mod 64 \<in> set [0..<64]" by simp
  ultimately have "base64_value (base64_char (n mod 64)) = Some (n mod 64)" by (simp only: list_all_iff)
  then show ?thesis by (simp add: base64_char_def)
qed

lemma base64_pad: "base64_value (CHR ''='') = None" "\<not> is_newline (CHR ''='')"
  by code_simp+

text \<open>Cutting a number into four digits of base 64, and into bytes.\<close>

lemma sextets4:
  fixes n :: nat
  assumes "n < 16777216"
  shows "((n div 262144 mod 64 * 64 + n div 4096 mod 64) * 64 + n div 64 mod 64) * 64 + n mod 64 = n"
proof -
  have "n div 262144 mod 64 = n div 262144" using assms by simp
  moreover have "n div 262144 = n div 4096 div 64" "n div 4096 = n div 64 div 64"
    by (simp_all add: div_mult2_eq [symmetric])
  ultimately show ?thesis by (metis div_mult_mod_eq)
qed

lemma char_of_bytes:
  fixes a b c :: char
  defines "n \<equiv> (of_char a * 256 + of_char b) * 256 + of_char c :: nat"
  shows "n < 16777216" "char_of (n div 65536) = a" "char_of (n div 256) = b" "char_of n = c"
proof -
  obtain x y z :: nat where xyz: "x = of_char a" "y = of_char b" "z = of_char c" "x < 256" "y < 256" "z < 256"
    by simp
  have n: "n = (x * 256 + y) * 256 + z" by (simp add: n_def xyz(1-3))
  show "n < 16777216" using xyz(4-6) unfolding n add_mult_distrib by linarith
  have "n div 256 = x * 256 + y" using xyz(6) unfolding n by simp
  moreover have "n div 65536 = n div 256 div 256" by (simp add: div_mult2_eq [symmetric])
  ultimately have "n div 65536 = x" "n div 256 mod 256 = y" using xyz(5) by simp_all
  moreover have "n mod 256 = z" unfolding n by (simp only: mod_mult_self3 mod_less xyz(6))
  ultimately show "char_of (n div 65536) = a" "char_of (n div 256) = b" "char_of n = c"
    by (metis char_of_mod_256 char_of_char xyz(1), metis char_of_mod_256 char_of_char xyz(2),
        metis char_of_mod_256 char_of_char xyz(3))
qed

lemma base64_group4: "n < 16777216 \<Longrightarrow>
    base64_group [n div 262144 mod 64, n div 4096 mod 64, n div 64 mod 64, n mod 64] =
    [char_of (n div 65536), char_of (n div 256), char_of n]"
  by (simp only: base64_group.simps Let_def sextets4)

lemma base64_group3:
  fixes a b :: char
  defines "n \<equiv> (of_char a * 256 + of_char b) * 4 :: nat"
  shows "base64_group [n div 4096 mod 64, n div 64 mod 64, n mod 64] = [a, b]"
proof -
  obtain x y :: nat where xy: "x = of_char a" "y = of_char b" "x < 256" "y < 256" by simp
  have n: "n = (x * 256 + y) * 4" by (simp add: n_def xy(1,2))
  then have "n div 4096 mod 64 = n div 4096" using xy(3,4) by simp
  moreover have "n div 4096 = n div 64 div 64" by (simp add: div_mult2_eq [symmetric])
  ultimately have "(n div 4096 mod 64 * 64 + n div 64 mod 64) * 64 + n mod 64 = n" by (metis div_mult_mod_eq)
  moreover have four: "n div 4 = x * 256 + y" unfolding n by simp
  moreover have "n div 1024 = n div 4 div 256" by (simp add: div_mult2_eq [symmetric])
  then have "n div 1024 = x" "n div 4 mod 256 = y" using xy(3,4) unfolding four by simp_all
  then have "char_of (n div 1024) = a" "char_of (n div 4) = b"
    by (metis char_of_mod_256 char_of_char xy(1), metis char_of_mod_256 char_of_char xy(2))
  ultimately show ?thesis by (simp only: base64_group.simps Let_def)
qed

lemma base64_group2:
  fixes a :: char
  defines "n \<equiv> of_char a * 16 :: nat"
  shows "base64_group [n div 64 mod 64, n mod 64] = [a]"
proof -
  obtain x :: nat where x: "x = of_char a" "x < 256" by simp
  have n: "n = x * 16" by (simp add: n_def x(1))
  have "n div 64 = x div 4" "n mod 64 = (x mod 4) * 16"
    using div_mult_mult2 [of 16 x 4] mod_mult_mult2 [of x 16 4] by (simp_all add: n)
  moreover have "x div 4 mod 64 = x div 4" using x(2) by simp
  ultimately have "n div 64 mod 64 * 4 + n mod 64 div 16 = x" by simp
  then have "char_of (n div 64 mod 64 * 4 + n mod 64 div 16) = a" by (simp add: x(1))
  then show ?thesis by (simp only: base64_group.simps)
qed

text \<open>One group of input.\<close>

lemma base64_loop_group:
  "base64_loop si [] (base64_char p # base64_char q # base64_char r # base64_char t # rest) =
     (case base64_loop (Suc (Suc (Suc (Suc si)))) [] rest of
        Inl off \<Rightarrow> Inl off
      | Inr out \<Rightarrow> Inr (base64_group [p mod 64, q mod 64, r mod 64, t mod 64] @ out))"
  "base64_loop si [] [base64_char p, base64_char q, base64_char r, CHR ''=''] =
     Inr (base64_group [p mod 64, q mod 64, r mod 64])"
  "base64_loop si [] [base64_char p, base64_char q, CHR ''='', CHR ''=''] = Inr (base64_group [p mod 64, q mod 64])"
  by (simp_all add: base64_value_char base64_pad base64_end_def Let_def del: base64_group.simps split: sum.splits)

lemma base64_loop_Encode: "base64_loop si [] (base64_Encode bs) = Inr bs"
proof (induction bs arbitrary: si rule: base64_Encode.induct)
  case 1
  then show ?case by simp
next
  case (2 a)
  show ?case by (simp only: base64_Encode.simps Let_def base64_loop_group base64_group2)
next
  case (3 a b)
  show ?case by (simp only: base64_Encode.simps Let_def base64_loop_group base64_group3)
next
  case (4 a b c rest)
  show ?case
    by (simp only: base64_Encode.simps Let_def base64_loop_group "4.IH" [OF refl] sum.case
          base64_group4 [OF char_of_bytes(1)] char_of_bytes(2-4) append.simps)
qed

lemma base64_Decode_Encode: "base64_Decode (base64_Encode bs) = Inr bs"
  by (simp add: base64_Decode_def base64_loop_Encode)



section \<open>Properties\<close>

lemma registryHost_reference:
  "CHR ''/'' \<notin> set host \<Longrightarrow> host \<noteq> '''' \<Longrightarrow> registryHostFromReference (host @ ''/'' @ path) = host"
  using Index_char [of "CHR ''/''" host path] by (simp add: registryHostFromReference_def)

text \<open>C39: a pull secret as \<^verbatim>\<open>kubectl create secret docker-registry\<close> or \<^verbatim>\<open>docker login\<close>
  writes it, with the base64 of user and password under the host of the registry, gives back
  that user and password for every reference into that registry, whatever else the secret holds
  and in whatever order Go ranges over its entries; the user name has no colon.\<close>

theorem pull_secret_roundtrip:
  assumes "fmlookup secret DockerConfigJsonKey = Some raw" "raw \<noteq> ''''"
    and "dj_Unmarshal dj raw = Inr auths"
    and "fmlookup auths host = Some \<lparr>da_Username = '''', da_Password = '''', da_Auth = base64_Encode (user @ '':'' @ pass)\<rparr>"
    and "CHR ''/'' \<notin> set host" "host \<noteq> ''''" "CHR '':'' \<notin> set user"
  shows "ociCredentialsFromSecret dj secret (host @ ''/'' @ path) =
    Inr \<lparr>cred_Username = user, cred_Password = pass, cred_AccessKeyID = '''', cred_SecretAccessKey = '''',
         cred_SessionToken = ''''\<rparr>"
proof -
  have "base64_Encode (user @ '':'' @ pass) \<noteq> ''''"
    using base64_Decode_Encode [of "user @ '':'' @ pass"] by (auto simp: base64_Decode_def)
  then have "decode_entry \<lparr>da_Username = '''', da_Password = '''', da_Auth = base64_Encode (user @ '':'' @ pass)\<rparr> =
      Inr (user, pass)"
    using SplitN2_Some_iff [of "CHR '':''" "user @ CHR '':'' # pass" user pass] assms(7)
      base64_Decode_Encode [of "user @ '':'' @ pass"]
    by (simp add: decode_entry_def decodeDockerAuth_def)
  then have "lookupDockerConfigAuth dj raw (host @ ''/'' @ path) = Inr (user, pass)"
    unfolding lookupDockerConfigAuth_def registryHost_reference [OF assms(5,6)] Let_def
    by (simp add: assms(3,4))
  then show ?thesis using assms(1,2) by (simp add: ociCredentialsFromSecret_def secret_data_def)
qed

definition example_auth :: docker_auth where
  "example_auth = \<lparr>da_Username = '''', da_Password = '''', da_Auth = base64_Encode (''bob'' @ '':'' @ ''s:1'')\<rparr>"

definition example_dj :: docker_json where
  "example_dj =
     \<lparr>dj_Unmarshal = \<lambda>raw. Inr (fmap_of_list [(''quay.io'', example_auth)]),
      dj_range = \<lambda>m. [(''quay.io'', example_auth)], dj_range2 = \<lambda>m. [(''quay.io'', example_auth)]\<rparr>"

theorem pull_secret_roundtrip_witness:
  "ociCredentialsFromSecret example_dj (fmap_of_list [(DockerConfigJsonKey, ''{}'')]) (''quay.io'' @ ''/'' @ ''org/boot:v1'') =
    Inr \<lparr>cred_Username = ''bob'', cred_Password = ''s:1'', cred_AccessKeyID = '''', cred_SecretAccessKey = '''',
         cred_SessionToken = ''''\<rparr>"
  by (rule pull_secret_roundtrip [where raw = "''{}''" and auths = "fmap_of_list [(''quay.io'', example_auth)]"])
     (simp_all add: example_dj_def example_auth_def fmlookup_of_list)

end
