(* ===== verification/Image_Resolvers.thy ===== *)
theory Image_Resolvers
  imports Pull_Secrets
begin

text \<open>
  The resolvers of \<^verbatim>\<open>internal/imagecache\<close>: opening a base image over HTTP, in an OCI artifact or
  in an S3 bucket. Each gives the reader the cache copies from.
\<close>

section \<open>Resolvers\<close>

type_synonym 'w ImageResolver =
  "BaseImageSource \<Rightarrow> Credentials option \<Rightarrow> ('w, go_error + reader) state"

definition image_HTTPS_Open :: "'w transport \<Rightarrow> 'w ImageResolver" where
  "image_HTTPS_Open tr src creds =
     (case bis_HTTPS src of
        None \<Rightarrow> State_Monad.return (Inl (ErrorText ''https source not set''))
      | Some spec \<Rightarrow>
          let url = hb_URL spec in
          if \<not> strings_HasPrefix (strings_ToLower url) ''http://'' \<and>
             \<not> strings_HasPrefix (strings_ToLower url) ''https://''
          then State_Monad.return (Inl (ErrorText (''baseImage URL '' @ fmt_q url @ '' is not http(s)'')))
          else case tr_NewRequest tr url of
            Some err \<Rightarrow> State_Monad.return (Inl (Wrapf ''build request: '' err))
          | None \<Rightarrow> do {
              let auth = (case creds of
                  None \<Rightarrow> None
                | Some c \<Rightarrow> if cred_Username c \<noteq> '''' \<or> cred_Password c \<noteq> ''''
                            then Some (''Basic '' @ base64_Encode (cred_Username c @ '':'' @ cred_Password c))
                            else None);
              d \<leftarrow> tr_Do tr \<lparr>rq_URL = url, rq_Authorization = auth,
                     rq_InsecureSkipVerify = hb_InsecureSkipTLSVerify spec\<rparr>;
              State_Monad.return (case d of
                Inl err \<Rightarrow> Inl (Wrapf (''get '' @ url @ '': '') err)
              | Inr resp \<Rightarrow>
                  if rs_StatusCode resp \<noteq> StatusOK
                  then Inl (ErrorText (''get '' @ url @ '': unexpected status '' @ fmt_d (rs_StatusCode resp)))
                  else Inr (rs_Body resp)) })"

definition pickQcow2Layer :: "Descriptor list \<Rightarrow> string \<Rightarrow> go_error + Descriptor" where
  "pickQcow2Layer layers title =
     (if title = ''''
      then if length layers \<noteq> 1
           then Inl (ErrorText (''manifest has '' @ fmt_d (int (length layers)) @
                  '' layers; set baseImage.source.oci.blobTitle to disambiguate''))
           else Inr (layers ! 0)
      else pick_loop title None layers)"

definition image_OCI_Open :: "'w transport \<Rightarrow> 'w ImageResolver" where
  "image_OCI_Open tr src creds =
     (case bis_OCI src of
        None \<Rightarrow> State_Monad.return (Inl (ErrorText ''oci source not set''))
      | Some spec \<Rightarrow>
     (case tr_NewRepository tr (ob_Reference spec) of
        Inl err \<Rightarrow> State_Monad.return
          (Inl (Wrapf (''parse oci reference '' @ fmt_q (ob_Reference spec) @ '': '') err))
      | Inr ref \<Rightarrow>
          let repo = \<lparr>or_Reference = ref, or_PlainHTTP = ob_PlainHTTP spec,
                      or_InsecureSkipVerify = ob_InsecureSkipTLSVerify spec,
                      or_Credential = oci_credential creds\<rparr>;
              tag = oci_Tag ref in
          if tag = ''''
          then State_Monad.return (Inl (ErrorText
                 (''oci reference '' @ fmt_q (ob_Reference spec) @ '' has no tag or digest'')))
          else do {
            m \<leftarrow> fetchManifest tr repo tag;
            (case m of
               Inl err \<Rightarrow> State_Monad.return (Inl (Wrapf (''fetch manifest '' @ ob_Reference spec @ '': '') err))
             | Inr manifestBytes \<Rightarrow>
            (case tr_ParseManifest tr manifestBytes of
               Inl err \<Rightarrow> State_Monad.return (Inl (Wrapf (''parse manifest '' @ ob_Reference spec @ '': '') err))
             | Inr layers \<Rightarrow>
                 (case pickQcow2Layer layers (ob_BlobTitle spec) of
                    Inl err \<Rightarrow> State_Monad.return (Inl err)
                  | Inr layer \<Rightarrow> tr_FetchBlob tr repo layer))) }))"

definition image_S3_Open :: "'w transport \<Rightarrow> 'w ImageResolver" where
  "image_S3_Open tr src creds =
     (case bis_S3 src of
        None \<Rightarrow> State_Monad.return (Inl (ErrorText ''s3 source not set''))
      | Some spec \<Rightarrow>
          let client = \<lparr>so_Endpoint = sb_Endpoint spec, so_Creds = s3_credential creds,
                        so_Secure = (\<not> sb_Insecure spec), so_Region = sb_Region spec,
                        so_PathStyle = lookupStyle (sb_UsePathStyle spec),
                        so_InsecureSkipVerify = sb_InsecureSkipTLSVerify spec\<rparr> in
          (case tr_minio_New tr client of
             Some err \<Rightarrow> State_Monad.return
               (Inl (Wrapf (''init s3 client for '' @ sb_Endpoint spec @ '': '') err))
           | None \<Rightarrow> do {
               g \<leftarrow> tr_GetObject tr client (sb_Bucket spec) (sb_Key spec);
               State_Monad.return (case g of
                 Inl err \<Rightarrow> Inl (Wrapf (''get s3://'' @ sb_Bucket spec @ ''/'' @ sb_Key spec @ '': '') err)
               | Inr obj \<Rightarrow> Inr obj) }))"

definition image_Multi_Open :: "'w transport \<Rightarrow> 'w ImageResolver" where
  "image_Multi_Open tr src creds =
     (if bis_Type src = BootArtifactsSourceHTTPS
      then if bis_HTTPS src = None
           then State_Monad.return (Inl (ErrorText ''baseImage.source.https is required when type=HTTPS''))
           else image_HTTPS_Open tr src creds
      else if bis_Type src = BootArtifactsSourceOCI
      then if bis_OCI src = None
           then State_Monad.return (Inl (ErrorText ''baseImage.source.oci is required when type=OCI''))
           else image_OCI_Open tr src creds
      else if bis_Type src = BootArtifactsSourceS3
      then if bis_S3 src = None
           then State_Monad.return (Inl (ErrorText ''baseImage.source.s3 is required when type=S3''))
           else image_S3_Open tr src creds
      else State_Monad.return (Inl (ErrorText
             (''unsupported baseImage source type '' @ fmt_q (bis_Type src)))))"

end
