(* ===== verification/Image_Cache.thy ===== *)
theory Image_Cache
  imports Image_Resolvers
begin

text \<open>
  \<^verbatim>\<open>cache.go\<close> and \<^verbatim>\<open>gzip.go\<close> of \<^verbatim>\<open>internal/imagecache\<close>: base images are fetched into a
  directory of the controller where each file is named after the SHA-256 of its bytes.

  The state is the world and the files, by cleaned path. What can fail in the operating system
  (creating, writing, closing, renaming and removing the temporary file) is a parameter; what
  these calls do to the files is modelled. Concurrent calls with one key are coalesced by
  \<^verbatim>\<open>singleflight\<close>, so that one of them runs: the model is that one call.
\<close>

section \<open>filepath.Join\<close>

fun clean_parts :: "bool \<Rightarrow> string list \<Rightarrow> string list \<Rightarrow> string list" where
  "clean_parts rooted acc [] = acc"
| "clean_parts rooted acc (p # ps) =
     (if p = '''' \<or> p = ''.'' then clean_parts rooted acc ps
      else if p = ''..''
      then if acc \<noteq> [] \<and> last acc \<noteq> ''..'' then clean_parts rooted (butlast acc) ps
           else if rooted then clean_parts rooted acc ps
           else clean_parts rooted (acc @ [p]) ps
      else clean_parts rooted (acc @ [p]) ps)"

definition is_rooted :: "string \<Rightarrow> bool" where
  "is_rooted path = strings_HasPrefix path ''/''"

definition render_path :: "bool \<Rightarrow> string list \<Rightarrow> string" where
  "render_path rooted parts =
     (if rooted then ''/'' @ strings_Join parts ''/''
      else if parts = [] then ''.'' else strings_Join parts ''/'')"

definition filepath_Clean :: "string \<Rightarrow> string" where
  "filepath_Clean path =
     render_path (is_rooted path) (clean_parts (is_rooted path) [] (strings_Split (CHR ''/'') path))"

definition filepath_Join :: "string \<Rightarrow> string \<Rightarrow> string" where
  "filepath_Join a b =
     (if a = '''' then if b = '''' then '''' else filepath_Clean b
      else if b = '''' then filepath_Clean a
      else filepath_Clean (a @ ''/'' @ b))"



section \<open>Files\<close>

datatype fs_node = File bytes | Dir

type_synonym files = "(string, fs_node) fmap"

text \<open>What the operating system decides: the random number in the name of a temporary file,
  how many bytes of a write reach the file, and which calls fail.\<close>

record 'w file_os =
  fo_MkdirAll :: "string \<Rightarrow> ('w, go_error option) state"
  fo_TempDir :: string
  fo_CreateTemp :: "('w, go_error + 32 word) state"
  fo_Write :: "bytes \<Rightarrow> ('w, nat \<times> go_error option) state"
  fo_Close :: "('w, go_error option) state"
  fo_Rename :: "string \<Rightarrow> string \<Rightarrow> ('w, go_error option) state"
  fo_Remove :: "string \<Rightarrow> ('w, go_error option) state"

definition in_world :: "('w, 'a) state \<Rightarrow> ('w \<times> files, 'a) state" where
  "in_world m = State (\<lambda>(w, fs). case run_state m w of (r, w') \<Rightarrow> (r, (w', fs)))"

definition os_Stat :: "string \<Rightarrow> ('w \<times> files, bool) state" where
  "os_Stat path = State (\<lambda>(w, fs). (fmlookup fs (filepath_Clean path) \<noteq> None, (w, fs)))"

text \<open>\<^verbatim>\<open>os.CreateTemp(dir, pattern)\<close> for a pattern that ends in its star: the file is created
  only when nothing is at its path.\<close>

definition temp_path :: "'w file_os \<Rightarrow> string \<Rightarrow> string \<Rightarrow> 32 word \<Rightarrow> string" where
  "temp_path fo dir pre n =
     (let d = (if dir = '''' then fo_TempDir fo else dir);
          name = pre @ fmt_d (uint n) in
      if d \<noteq> '''' \<and> last d = CHR ''/'' then d @ name else d @ ''/'' @ name)"

definition os_CreateTemp :: "'w file_os \<Rightarrow> string \<Rightarrow> string \<Rightarrow> ('w \<times> files, go_error + string) state" where
  "os_CreateTemp fo dir pre = do {
     r \<leftarrow> in_world (fo_CreateTemp fo);
     (case r of
        Inl err \<Rightarrow> State_Monad.return (Inl err)
      | Inr n \<Rightarrow> State (\<lambda>(w, fs).
          let path = temp_path fo dir pre n; key = filepath_Clean path in
          if fmlookup fs key \<noteq> None then (Inl (ErrorText ''file exists''), (w, fs))
          else (Inr path, (w, fmupd key (File []) fs)))) }"

text \<open>\<^verbatim>\<open>io.Copy\<close> from a stream to the temporary file and the hasher: the bytes that were
  hashed are those that were written. A failed write leaves a part of them.\<close>

definition io_Copy :: "'w file_os \<Rightarrow> string \<Rightarrow> reader \<Rightarrow> ('w \<times> files, go_error + bytes) state" where
  "io_Copy fo path stream = do {
     r \<leftarrow> in_world (fo_Write fo (fst stream));
     State (\<lambda>(w, fs).
       let written = (case snd r of None \<Rightarrow> fst stream | Some err \<Rightarrow> take (fst r) (fst stream));
           fs' = fmupd (filepath_Clean path) (File written) fs in
       (case snd r of
          Some err \<Rightarrow> (Inl err, (w, fs'))
        | None \<Rightarrow> (case snd stream of Some err \<Rightarrow> (Inl err, (w, fs')) | None \<Rightarrow> (Inr written, (w, fs'))))) }"

definition os_Remove :: "'w file_os \<Rightarrow> string \<Rightarrow> ('w \<times> files, go_error option) state" where
  "os_Remove fo path = do {
     r \<leftarrow> in_world (fo_Remove fo path);
     State (\<lambda>(w, fs). (r, (w, if r = None then fmdrop (filepath_Clean path) fs else fs))) }"

definition os_Rename :: "'w file_os \<Rightarrow> string \<Rightarrow> string \<Rightarrow> ('w \<times> files, go_error option) state" where
  "os_Rename fo old new = do {
     r \<leftarrow> in_world (fo_Rename fo old new);
     State (\<lambda>(w, fs).
       (case (r, fmlookup fs (filepath_Clean old)) of
          (Some err, _) \<Rightarrow> (Some err, (w, fs))
        | (None, None) \<Rightarrow> (Some (ErrorText ''no such file or directory''), (w, fs))
        | (None, Some node) \<Rightarrow>
            if fmlookup fs (filepath_Clean new) = Some Dir
            then (Some (ErrorText ''file exists''), (w, fs))
            else (None, (w, fmupd (filepath_Clean new) node (fmdrop (filepath_Clean old) fs))))) }"


section \<open>gzip.go\<close>

text \<open>Peeking two bytes fails with the error of the stream only when it ends before them.\<close>

definition maybeGunzipStream :: "'w transport \<Rightarrow> reader \<Rightarrow> go_error + reader" where
  "maybeGunzipStream tr r =
     (case (if length (fst r) < 2 then snd r else None) of
        Some err \<Rightarrow> Inl err
      | None \<Rightarrow>
          if length (fst r) < 2 \<or> fst r ! 0 \<noteq> CHR 0x1F \<or> fst r ! 1 \<noteq> CHR 0x8B then Inr r
          else tr_gzip_NewReader tr r)"


section \<open>cache.go\<close>

record 'w Cache =
  ca_Dir :: string
  ca_Resolver :: "'w ImageResolver"

record Entry =
  en_Path :: string
  en_SHA256 :: string

definition cache_New :: "'w file_os \<Rightarrow> string \<Rightarrow> 'w ImageResolver \<Rightarrow> ('w, go_error + 'w Cache) state" where
  "cache_New fo dir resolver = do {
     r \<leftarrow> fo_MkdirAll fo dir;
     State_Monad.return (case r of
       Some err \<Rightarrow> Inl (Wrapf (''create cache dir '' @ dir @ '': '') err)
     | None \<Rightarrow> Inr \<lparr>ca_Dir = dir, ca_Resolver = resolver\<rparr>) }"

definition pathFor :: "'w Cache \<Rightarrow> string \<Rightarrow> string" where
  "pathFor c sha = filepath_Join (ca_Dir c) (strings_ToLower sha)"

definition sourceKey :: "BaseImageSource \<Rightarrow> string" where
  "sourceKey src =
     bis_Type src @ ''|'' @
     (case bis_HTTPS src of None \<Rightarrow> '''' | Some h \<Rightarrow> hb_URL h) @
     (case bis_OCI src of None \<Rightarrow> '''' | Some x \<Rightarrow> ob_Reference x @ ''|'' @ ob_BlobTitle x) @
     (case bis_S3 src of None \<Rightarrow> ''''
      | Some x \<Rightarrow> sb_Endpoint x @ ''/'' @ sb_Bucket x @ ''/'' @ sb_Key x)"

text \<open>After a failed or refused step the temporary file is removed, best effort.\<close>

definition drop_temp :: "'w file_os \<Rightarrow> string \<Rightarrow> go_error \<Rightarrow> ('w \<times> files, go_error + 'a) state" where
  "drop_temp fo tmpPath err = do {
     _ \<leftarrow> os_Remove fo tmpPath;
     State_Monad.return (Inl err) }"

definition cache_commit ::
  "'w transport \<Rightarrow> 'w file_os \<Rightarrow> 'w Cache \<Rightarrow> string \<Rightarrow> string \<Rightarrow> bytes \<Rightarrow>
   ('w \<times> files, go_error + Entry) state" where
  "cache_commit tr fo c tmpPath expectedSHA256 hashed =
     (let digest = sha_hex tr hashed in
      if expectedSHA256 \<noteq> '''' \<and> \<not> strings_EqualFold digest expectedSHA256
      then drop_temp fo tmpPath (ErrorText
             (''sha256 mismatch: got '' @ digest @ '', expected '' @ expectedSHA256))
      else do {
        let finalPath = pathFor c digest;
        r \<leftarrow> os_Rename fo tmpPath finalPath;
        (case r of
           Some err \<Rightarrow> drop_temp fo tmpPath (Wrapf ''rename into cache: '' err)
         | None \<Rightarrow> State_Monad.return (Inr \<lparr>en_Path = finalPath, en_SHA256 = digest\<rparr>)) })"

definition cache_fetch ::
  "'w transport \<Rightarrow> 'w file_os \<Rightarrow> 'w Cache \<Rightarrow> BaseImageSource \<Rightarrow> Credentials option \<Rightarrow> string \<Rightarrow>
   ('w \<times> files, go_error + Entry) state" where
  "cache_fetch tr fo c src creds expectedSHA256 = do {
     rc \<leftarrow> in_world (ca_Resolver c src creds);
     (case rc of
        Inl err \<Rightarrow> State_Monad.return (Inl err)
      | Inr body \<Rightarrow>
     (case maybeGunzipStream tr body of
        Inl err \<Rightarrow> State_Monad.return (Inl (Wrapf ''decompress: '' err))
      | Inr stream \<Rightarrow> do {
          tmp \<leftarrow> os_CreateTemp fo (ca_Dir c) ''.part-'';
          (case tmp of
             Inl err \<Rightarrow> State_Monad.return (Inl (Wrapf ''create temp file: '' err))
           | Inr tmpPath \<Rightarrow> do {
               copied \<leftarrow> io_Copy fo tmpPath stream;
               (case copied of
                  Inl err \<Rightarrow> do {
                    _ \<leftarrow> in_world (fo_Close fo);
                    drop_temp fo tmpPath (Wrapf ''stream to cache: '' err) }
                | Inr hashed \<Rightarrow> do {
                    closed \<leftarrow> in_world (fo_Close fo);
                    (case closed of
                       Some err \<Rightarrow> drop_temp fo tmpPath (Wrapf ''close temp file: '' err)
                     | None \<Rightarrow> cache_commit tr fo c tmpPath expectedSHA256 hashed) }) }) })) }"

definition cache_Get ::
  "'w transport \<Rightarrow> 'w file_os \<Rightarrow> 'w Cache \<Rightarrow> BaseImageSource \<Rightarrow> Credentials option \<Rightarrow> string \<Rightarrow>
   ('w \<times> files, go_error + Entry) state" where
  "cache_Get tr fo c src creds expectedSHA256 =
     (if expectedSHA256 \<noteq> ''''
      then do {
        let path = pathFor c expectedSHA256;
        hit \<leftarrow> os_Stat path;
        (if hit then State_Monad.return (Inr \<lparr>en_Path = path, en_SHA256 = strings_ToLower expectedSHA256\<rparr>)
         else cache_fetch tr fo c src creds expectedSHA256) }
      else cache_fetch tr fo c src creds expectedSHA256)"


section \<open>Cleaned paths\<close>

definition plain_name :: "string \<Rightarrow> bool" where
  "plain_name n = (n \<noteq> '''' \<and> n \<noteq> ''.'' \<and> n \<noteq> ''..'' \<and> CHR ''/'' \<notin> set n)"

lemma clean_parts_append:
  "clean_parts r acc (xs @ ys) = clean_parts r (clean_parts r acc xs) ys"
  by (induction xs arbitrary: acc) auto

lemma clean_parts_plain: "plain_name n \<Longrightarrow> clean_parts r acc [n] = acc @ [n]"
  by (simp add: plain_name_def)

lemma length_clean_parts: "length (clean_parts r acc xs) \<le> length acc + length xs"
proof (induction xs arbitrary: acc)
  case (Cons x xs)
  show ?case using Cons.IH [of acc] Cons.IH [of "butlast acc"] Cons.IH [of "acc @ [x]"] by auto
qed simp

lemma set_clean_parts: "set (clean_parts r acc xs) \<subseteq> set acc \<union> (set xs - {''''})"
proof (induction xs arbitrary: acc)
  case (Cons x xs)
  show ?case
    using Cons.IH [of acc] Cons.IH [of "butlast acc"] Cons.IH [of "acc @ [x]"]
    by (auto dest: in_set_butlastD)
qed simp

text \<open>Cleaning is stable: the parts it leaves are cleaned to themselves.\<close>

lemma clean_parts_butlast:
  assumes "clean_parts r [] (b @ [l]) = b @ [l]"
  shows "clean_parts r [] b = b"
proof -
  define X where "X = clean_parts r [] b"
  have len: "length X \<le> length b" using length_clean_parts [of r "[]" b] by (simp add: X_def)
  have "b @ [l] = clean_parts r X [l]" using assms by (simp only: clean_parts_append X_def)
  also have "\<dots> \<in> {X, butlast X, X @ [l]}" by simp
  finally have "b @ [l] \<in> {X, butlast X, X @ [l]}" .
  moreover have "length (b @ [l]) \<noteq> length X" "length (b @ [l]) \<noteq> length (butlast X)"
    using len by simp_all
  ultimately have "b @ [l] = X @ [l]" by (metis empty_iff insert_iff)
  then show ?thesis by (simp add: X_def)
qed

lemma clean_parts_stable:
  "clean_parts r [] acc = acc \<Longrightarrow> clean_parts r [] (clean_parts r acc xs) = clean_parts r acc xs"
proof (induction xs arbitrary: acc)
  case (Cons x xs)
  have "clean_parts r [] (butlast acc) = butlast acc" if "acc \<noteq> []"
    using that Cons.prems clean_parts_butlast [of r "butlast acc" "last acc"] by simp
  moreover have "clean_parts r [] (acc @ [x]) = clean_parts r acc [x]"
    using Cons.prems by (simp add: clean_parts_append)
  ultimately show ?case using Cons by auto
qed simp

lemma Split_snoc: "sep \<notin> set n \<Longrightarrow> strings_Split sep (d @ sep # n) = strings_Split sep d @ [n]"
  by (induction d) (auto simp: Split_no_sep_single split: list.splits)


lemma Split_Join_parts:
  assumes "\<forall>p \<in> set ps. CHR ''/'' \<notin> set p" "ps \<noteq> []"
  shows "strings_Split (CHR ''/'') (strings_Join ps ''/'') = ps"
  using Split_Join [OF assms(2,1)] by simp

lemma is_rooted_simps [simp]: "is_rooted [] = False" "is_rooted (c # s) = (c = CHR ''/'')"
  by (simp_all add: is_rooted_def strings_HasPrefix_def)

lemma Join_first: "q \<noteq> '''' \<Longrightarrow> \<exists>t. strings_Join (q # qs) sep = hd q # t"
  by (cases q; cases qs) auto

lemma filepath_Clean_parts:
  assumes "clean_parts r [] ps = ps" "\<forall>p \<in> set ps. CHR ''/'' \<notin> set p" "'''' \<notin> set ps"
  shows "filepath_Clean (render_path r ps) = render_path r ps"
proof (cases "ps = []")
  case True
  then show ?thesis by (cases r) (simp_all add: filepath_Clean_def render_path_def)
next
  case False
  then have "hd ps \<noteq> ''''" "hd (hd ps) \<noteq> CHR ''/''"
    using assms(2,3) hd_in_set [OF False] by (metis, metis hd_in_set)
  then obtain c t where join: "strings_Join ps ''/'' = c # t" "c \<noteq> CHR ''/''"
    using Join_first [of "hd ps" "tl ps" "''/''"] False by auto
  have rooted: "is_rooted (render_path r ps) = r"
    using join False by (simp add: render_path_def)
  have "strings_Split (CHR ''/'') (render_path r ps) = (if r then '''' # ps else ps)"
    using False Split_Join_parts [OF assms(2) False] by (simp add: render_path_def)
  then show ?thesis unfolding filepath_Clean_def rooted using assms(1) by (cases r) simp_all
qed

lemma filepath_Clean_idem: "filepath_Clean (filepath_Clean p) = filepath_Clean p"
proof -
  let ?r = "is_rooted p" and ?ps = "strings_Split (CHR ''/'') p"
  have "clean_parts ?r [] (clean_parts ?r [] ?ps) = clean_parts ?r [] ?ps"
    by (rule clean_parts_stable) simp
  moreover have "\<forall>q \<in> set (clean_parts ?r [] ?ps). CHR ''/'' \<notin> set q" "'''' \<notin> set (clean_parts ?r [] ?ps)"
    using set_clean_parts [of ?r "[]" ?ps] Split_no_sep [of _ "CHR ''/''" p] by fastforce+
  ultimately show ?thesis unfolding filepath_Clean_def [of p] by (rule filepath_Clean_parts)
qed

text \<open>A plain name below a directory: its cleaned path is that of the directory, a slash and
  the name.\<close>

definition dir_prefix :: "string \<Rightarrow> string" where
  "dir_prefix d =
     (if is_rooted d then ''/'' else '''') @
     concat (map (\<lambda>p. p @ ''/'') (clean_parts (is_rooted d) [] (strings_Split (CHR ''/'') d)))"

lemma Join_snoc: "strings_Join (ps @ [n]) ''/'' = concat (map (\<lambda>p. p @ ''/'') ps) @ n"
proof (induction ps)
  case (Cons p ps)
  then show ?case by (cases ps) auto
qed simp

lemma Clean_child:
  assumes "d \<noteq> ''''" "plain_name n"
  shows "filepath_Clean (d @ ''/'' @ n) = dir_prefix d @ n"
proof -
  have "CHR ''/'' \<notin> set n" using assms(2) by (simp add: plain_name_def)
  then have "strings_Split (CHR ''/'') (d @ ''/'' @ n) = strings_Split (CHR ''/'') d @ [n]"
    using Split_snoc by simp
  moreover have "is_rooted (d @ ''/'' @ n) = is_rooted d"
    using assms(1) by (cases d) simp_all
  ultimately show ?thesis
    using clean_parts_plain [OF assms(2)]
    by (simp add: filepath_Clean_def dir_prefix_def render_path_def clean_parts_append Join_snoc)
qed

lemma Clean_child_slash:
  assumes "d \<noteq> ''''" "last d = CHR ''/''" "plain_name n"
  shows "filepath_Clean (d @ n) = dir_prefix d @ n"
proof -
  obtain e where d: "d = e @ ''/''" using assms(1,2) by (metis append_butlast_last_id)
  have "CHR ''/'' \<notin> set n" using assms(3) by (simp add: plain_name_def)
  then have "strings_Split (CHR ''/'') (d @ n) = strings_Split (CHR ''/'') e @ [n]"
    "strings_Split (CHR ''/'') d = strings_Split (CHR ''/'') e @ ['''']"
    using Split_snoc [of "CHR ''/''" n e] Split_snoc [of "CHR ''/''" "''''" e] by (simp_all add: d)
  moreover have "is_rooted (d @ n) = is_rooted d"
    using assms(1) by (cases d) simp_all
  ultimately show ?thesis
    using clean_parts_plain [OF assms(3)]
    by (simp add: filepath_Clean_def dir_prefix_def render_path_def clean_parts_append Join_snoc)
qed


section \<open>The names in the cache directory\<close>

definition hex_char :: "char \<Rightarrow> bool" where
  "hex_char c = (c \<in> set ''0123456789abcdef'')"

definition is_digest :: "string \<Rightarrow> bool" where
  "is_digest d = (length d = 64 \<and> list_all hex_char d)"

lemma hex_char_digit: "n < 16 \<Longrightarrow> hex_char (hex_digit n)"
proof -
  have "list_all (\<lambda>n. hex_char (hex_digit n)) [0..<16]" by code_simp
  then show "n < 16 \<Longrightarrow> hex_char (hex_digit n)" by (simp only: list_all_iff set_upt) simp
qed

lemma hex_is_digest: "length bs = 32 \<Longrightarrow> is_digest (hex_EncodeToString bs)"
proof -
  have "length (hex_EncodeToString bs) = 2 * length bs"
    by (induction bs) (simp_all add: hex_EncodeToString_def Let_def)
  moreover have "of_char c div 16 < (16::nat)" for c :: char by (simp add: div_less_iff_less_mult)
  then have "list_all hex_char (hex_EncodeToString bs)"
    by (induction bs) (simp_all add: hex_EncodeToString_def Let_def hex_char_digit)
  ultimately show "length bs = 32 \<Longrightarrow> is_digest (hex_EncodeToString bs)" by (simp add: is_digest_def)
qed

lemma hex_char_facts: "\<not> hex_char (CHR ''/'')" "\<not> hex_char (CHR ''.'')" "hex_char c \<Longrightarrow> ascii_lower c = c"
  by (auto simp: hex_char_def ascii_lower_def)

lemma plain_digest: "is_digest d \<Longrightarrow> plain_name d"
  by (cases d) (auto simp: is_digest_def plain_name_def list_all_iff hex_char_facts)

lemma ToLower_digest: "is_digest d \<Longrightarrow> strings_ToLower d = d"
  unfolding is_digest_def list_all_iff strings_ToLower_def by (intro map_idI) (auto simp: hex_char_facts)

lemma fmt_d_no_slash: "0 \<le> n \<Longrightarrow> CHR ''/'' \<notin> set (fmt_d n)"
  using dec_digits_are_digits [of "nat n"] by (auto simp: fmt_d_def list_all_iff is_digit_def)

definition temp_name :: "32 word \<Rightarrow> string" where
  "temp_name n = ''.part-'' @ fmt_d (uint n)"

lemma plain_temp: "plain_name (temp_name n)"
  using fmt_d_no_slash [of "uint n"] by (simp add: plain_name_def temp_name_def)

lemma temp_not_digest: "is_digest d \<Longrightarrow> d \<noteq> temp_name n"
  by (cases d) (auto simp: is_digest_def temp_name_def hex_char_facts)

text \<open>The two kinds of path \<^verbatim>\<open>fetch\<close> touches, as keys of the files.\<close>

lemma key_pathFor:
  assumes "ca_Dir c \<noteq> ''''" "is_digest (strings_ToLower d)"
  shows "filepath_Clean (pathFor c d) = dir_prefix (ca_Dir c) @ strings_ToLower d"
proof -
  have "strings_ToLower d \<noteq> ''''" using assms(2) by (auto simp: is_digest_def)
  then have "pathFor c d = filepath_Clean (ca_Dir c @ ''/'' @ strings_ToLower d)"
    using assms(1) by (simp add: pathFor_def filepath_Join_def)
  then show ?thesis
    using filepath_Clean_idem [of "ca_Dir c @ ''/'' @ strings_ToLower d"]
    unfolding Clean_child [OF assms(1) plain_digest [OF assms(2)]] by simp
qed

lemma key_temp:
  assumes "ca_Dir c \<noteq> ''''"
  shows "filepath_Clean (temp_path fo (ca_Dir c) ''.part-'' n) = dir_prefix (ca_Dir c) @ temp_name n"
  using Clean_child [OF assms plain_temp, of n] Clean_child_slash [OF assms _ plain_temp, of n] assms
  by (simp add: temp_path_def temp_name_def Let_def)

lemma key_temp_pathFor:
  assumes "ca_Dir c \<noteq> ''''" "is_digest (strings_ToLower d)"
  shows "filepath_Clean (pathFor c d) \<noteq> filepath_Clean (temp_path fo (ca_Dir c) ''.part-'' n)"
  unfolding key_pathFor [OF assms] key_temp [OF assms(1)] using temp_not_digest [OF assms(2)] by simp


section \<open>The cache is content-addressed\<close>

text \<open>What is found under the name of a digest is a file with that digest.\<close>

definition cache_ok :: "'w transport \<Rightarrow> 'w Cache \<Rightarrow> files \<Rightarrow> bool" where
  "cache_ok tr c fs \<longleftrightarrow>
     (\<forall>d. is_digest d \<longrightarrow>
        (case fmlookup fs (filepath_Clean (pathFor c d)) of
           None \<Rightarrow> True | Some (File b) \<Rightarrow> sha_hex tr b = d | Some Dir \<Rightarrow> False))"

lemma cache_okD:
  "cache_ok tr c fs \<Longrightarrow> is_digest d \<Longrightarrow> fmlookup fs (filepath_Clean (pathFor c d)) = Some x \<Longrightarrow>
   \<exists>b. x = File b \<and> sha_hex tr b = d"
  unfolding cache_ok_def by (cases x) (auto split: option.splits)

lemma cache_ok_empty: "cache_ok tr c fmempty"
  by (simp add: cache_ok_def)

text \<open>Files under other names do not matter to it.\<close>

lemma cache_ok_other:
  assumes "\<And>d. is_digest d \<Longrightarrow> fmlookup fs' (filepath_Clean (pathFor c d)) = fmlookup fs (filepath_Clean (pathFor c d))"
  shows "cache_ok tr c fs' = cache_ok tr c fs"
  unfolding cache_ok_def using assms by simp


lemma cache_ok_temp:
  assumes "ca_Dir c \<noteq> ''''"
  shows "cache_ok tr c (fmupd (filepath_Clean (temp_path fo (ca_Dir c) ''.part-'' n)) x fs) = cache_ok tr c fs"
    and "cache_ok tr c (fmdrop (filepath_Clean (temp_path fo (ca_Dir c) ''.part-'' n)) fs) = cache_ok tr c fs"
proof -
  have other: "(filepath_Clean (temp_path fo (ca_Dir c) ''.part-'' n) = filepath_Clean (pathFor c d)) = False"
    if "is_digest d" for d
    using key_temp_pathFor [OF assms, of d fo n] that by (auto simp: ToLower_digest)
  show "cache_ok tr c (fmupd (filepath_Clean (temp_path fo (ca_Dir c) ''.part-'' n)) x fs) = cache_ok tr c fs"
    and "cache_ok tr c (fmdrop (filepath_Clean (temp_path fo (ca_Dir c) ''.part-'' n)) fs) = cache_ok tr c fs"
    by (intro cache_ok_other; simp add: other eq_commute [THEN trans, OF other])+
qed

lemma cache_ok_commit:
  assumes "ca_Dir c \<noteq> ''''" "is_digest d" "sha_hex tr b = d" "cache_ok tr c fs"
  shows "cache_ok tr c (fmupd (filepath_Clean (pathFor c d)) (File b) fs)"
proof -
  have "filepath_Clean (pathFor c d') \<noteq> filepath_Clean (pathFor c d)" if "is_digest d'" "d' \<noteq> d" for d'
    using that assms(2) by (simp add: key_pathFor [OF assms(1)] ToLower_digest)
  then show ?thesis using assms(3,4) unfolding cache_ok_def by fastforce
qed

lemma in_world_simp [simp]:
  "run_state (in_world m) (w, fs) = (case run_state m w of (r, w') \<Rightarrow> (r, (w', fs)))"
  by (simp add: in_world_def)

lemma os_Stat_simp [simp]:
  "run_state (os_Stat p) (w, fs) = (fmlookup fs (filepath_Clean p) \<noteq> None, (w, fs))"
  by (simp add: os_Stat_def)

lemma drop_temp_files:
  assumes "run_state (drop_temp fo p err) (w, fs) = (r, (w', fs'))"
  shows "r = Inl err \<and> fs' \<in> {fs, fmdrop (filepath_Clean p) fs}"
  using assms by (auto simp: drop_temp_def os_Remove_def split: prod.splits if_splits)

text \<open>What a run of the cache promises: the files stay content-addressed, and an entry names
  a file with the digest it says, the expected one if one was expected.\<close>

definition entry_ok :: "'w transport \<Rightarrow> string \<Rightarrow> files \<Rightarrow> Entry \<Rightarrow> bool" where
  "entry_ok tr expected fs e =
     ((case fmlookup fs (filepath_Clean (en_Path e)) of
         Some (File b) \<Rightarrow> sha_hex tr b = en_SHA256 e | _ \<Rightarrow> False) \<and>
      (if expected = '''' then True else strings_ToLower expected = en_SHA256 e))"

definition cache_promise :: "'w transport \<Rightarrow> 'w Cache \<Rightarrow> string \<Rightarrow> go_error + Entry \<Rightarrow> files \<Rightarrow> bool" where
  "cache_promise tr c expected r fs =
     (cache_ok tr c fs \<and> (case r of Inl err \<Rightarrow> True | Inr e \<Rightarrow> entry_ok tr expected fs e))"

lemma drop_temp_promise:
  assumes "ca_Dir c \<noteq> ''''" "cache_ok tr c fs"
    and "run_state (drop_temp fo (temp_path fo (ca_Dir c) ''.part-'' n) err) (w, fs) = (r, (w', fs'))"
  shows "cache_promise tr c expected r fs'"
  using drop_temp_files [OF assms(3)] assms(2)
  by (auto simp: cache_promise_def cache_ok_temp [OF assms(1)])

text \<open>The commit drops the temporary file or moves it to the name of its digest.\<close>

lemma cache_commit_cases:
  assumes content: "fmlookup fs (filepath_Clean tmp) = Some (File b)"
    and run: "run_state (cache_commit tr fo c tmp expected b) (w, fs) = (r, (w', fs'))"
  obtains (drop) err v where "run_state (drop_temp fo tmp err) (v, fs) = (r, (w', fs'))"
  | (stored) "expected = '''' \<or> strings_EqualFold (sha_hex tr b) expected"
      "fs' = fmupd (filepath_Clean (pathFor c (sha_hex tr b))) (File b) (fmdrop (filepath_Clean tmp) fs)"
      "r = Inr \<lparr>en_Path = pathFor c (sha_hex tr b), en_SHA256 = sha_hex tr b\<rparr>"
  using assms
  by (auto simp: cache_commit_def Let_def os_Rename_def split: if_splits prod.splits option.splits)

lemma cache_commit_promise:
  assumes dir: "ca_Dir c \<noteq> ''''" and sha: "length (tr_sha256 tr b) = 32" and ok: "cache_ok tr c fs"
    and tmp: "tmp = temp_path fo (ca_Dir c) ''.part-'' n"
    and content: "fmlookup fs (filepath_Clean tmp) = Some (File b)"
    and run: "run_state (cache_commit tr fo c tmp expected b) (w, fs) = (r, (w', fs'))"
  shows "cache_promise tr c expected r fs'"
proof -
  let ?d = "sha_hex tr b"
  have digest: "is_digest ?d" using hex_is_digest [OF sha] by (simp add: sha_hex_def)
  then have lower: "strings_ToLower ?d = ?d" by (rule ToLower_digest)
  let ?moved = "fmupd (filepath_Clean (pathFor c ?d)) (File b) (fmdrop (filepath_Clean tmp) fs)"
  have moved: "cache_ok tr c ?moved"
    by (rule cache_ok_commit [OF dir digest refl]) (simp add: tmp cache_ok_temp [OF dir] ok)
  from content run show ?thesis
  proof (cases rule: cache_commit_cases)
    case drop
    then show ?thesis unfolding tmp by (rule drop_temp_promise [OF dir ok])
  next
    case stored
    then show ?thesis
      using moved lower by (auto simp: cache_promise_def entry_ok_def strings_EqualFold_def)
  qed
qed


text \<open>From the creation of the temporary file on: it is empty, then holds what was copied.\<close>

lemma os_CreateTemp_files:
  assumes "run_state (os_CreateTemp fo dir pre) (w, fs) = (Inr p, (w', fs'))"
  obtains n where "p = temp_path fo dir pre n" "fmlookup fs (filepath_Clean p) = None"
    "fs' = fmupd (filepath_Clean p) (File []) fs"
  using assms by (auto simp: os_CreateTemp_def Let_def split: prod.splits sum.splits if_splits)

lemma os_CreateTemp_fails:
  "run_state (os_CreateTemp fo dir pre) (w, fs) = (Inl err, (w', fs')) \<Longrightarrow> fs' = fs"
  by (auto simp: os_CreateTemp_def Let_def split: prod.splits sum.splits if_splits)

lemma io_Copy_files:
  assumes "run_state (io_Copy fo p stream) (w, fs) = (r, (w', fs'))"
  shows "\<exists>b. fs' = fmupd (filepath_Clean p) (File b) fs \<and>
    (case r of Inl err \<Rightarrow> True | Inr hashed \<Rightarrow> hashed = b \<and> b = fst stream)"
  using assms by (auto simp: io_Copy_def Let_def split: prod.splits option.splits)

lemma temp_copied:
  assumes "run_state (os_CreateTemp fo dir pre) (w, fs) = (Inr p, (v, fs1))"
    and "run_state (io_Copy fo p stream) (v, fs1) = (r, (w', fs2))"
  obtains n b where "p = temp_path fo dir pre n" "fmlookup fs (filepath_Clean p) = None"
    "fs2 = fmupd (filepath_Clean p) (File b) fs" "\<And>hashed. r = Inr hashed \<Longrightarrow> hashed = b"
proof -
  from assms(1) obtain n where n: "p = temp_path fo dir pre n" "fmlookup fs (filepath_Clean p) = None"
    "fs1 = fmupd (filepath_Clean p) (File []) fs" by (rule os_CreateTemp_files)
  obtain b where b: "fs2 = fmupd (filepath_Clean p) (File b) fs1"
    "case r of Inl err \<Rightarrow> True | Inr hashed \<Rightarrow> hashed = b \<and> b = fst stream"
    using io_Copy_files [OF assms(2)] by blast
  have "fs2 = fmupd (filepath_Clean p) (File b) fs" unfolding b(1) n(3) by (simp add: fmap_ext)
  with n(1,2) show thesis by (rule that) (use b(2) in auto)
qed

text \<open>A run of \<^verbatim>\<open>fetch\<close> ends before the temporary file exists, by dropping it, or in the
  commit.\<close>

lemma cache_fetch_cases:
  assumes "run_state (cache_fetch tr fo c src creds expected) (w, fs) = (r, (w', fs'))"
  obtains
    (early) err where "r = Inl err" "fs' = fs"
  | (drop) n b err v where
      "fmlookup fs (filepath_Clean (temp_path fo (ca_Dir c) ''.part-'' n)) = None"
      "run_state (drop_temp fo (temp_path fo (ca_Dir c) ''.part-'' n) err)
         (v, fmupd (filepath_Clean (temp_path fo (ca_Dir c) ''.part-'' n)) (File b) fs) = (r, (w', fs'))"
  | (commit) n b v where
      "fmlookup fs (filepath_Clean (temp_path fo (ca_Dir c) ''.part-'' n)) = None"
      "run_state (cache_commit tr fo c (temp_path fo (ca_Dir c) ''.part-'' n) expected b)
         (v, fmupd (filepath_Clean (temp_path fo (ca_Dir c) ''.part-'' n)) (File b) fs) = (r, (w', fs'))"
proof -
  consider (early) err where "r = Inl err" "fs' = fs"
    | (drop) v v' p fs1 stream copied v2 v3 fs2 err where
        "run_state (os_CreateTemp fo (ca_Dir c) ''.part-'') (v, fs) = (Inr p, (v', fs1))"
        "run_state (io_Copy fo p stream) (v', fs1) = (copied, (v2, fs2))"
        "run_state (drop_temp fo p err) (v3, fs2) = (r, (w', fs'))"
    | (commit) v v' p fs1 stream hashed v2 v3 fs2 where
        "run_state (os_CreateTemp fo (ca_Dir c) ''.part-'') (v, fs) = (Inr p, (v', fs1))"
        "run_state (io_Copy fo p stream) (v', fs1) = (Inr hashed, (v2, fs2))"
        "run_state (cache_commit tr fo c p expected hashed) (v3, fs2) = (r, (w', fs'))"
    using assms unfolding cache_fetch_def
    by (auto split: prod.splits sum.splits option.splits dest: os_CreateTemp_fails)
  then show thesis
  proof cases
    case early
    then show thesis by (rule that(1))
  next
    case drop
    from drop(1,2) obtain n b where "p = temp_path fo (ca_Dir c) ''.part-'' n"
      "fmlookup fs (filepath_Clean p) = None" "fs2 = fmupd (filepath_Clean p) (File b) fs"
      by (rule temp_copied)
    then show thesis using that(2) drop(3) by blast
  next
    case commit
    from commit(1,2) obtain n b where "p = temp_path fo (ca_Dir c) ''.part-'' n"
      "fmlookup fs (filepath_Clean p) = None" "fs2 = fmupd (filepath_Clean p) (File b) fs" "hashed = b"
      by (rule temp_copied) simp
    then show thesis using that(3) commit(3) by blast
  qed
qed

lemma cache_fetch_promise:
  assumes dir: "ca_Dir c \<noteq> ''''" and sha: "\<And>b. length (tr_sha256 tr b) = 32" and ok: "cache_ok tr c fs"
    and run: "run_state (cache_fetch tr fo c src creds expected) (w, fs) = (r, (w', fs'))"
  shows "cache_promise tr c expected r fs'"
  using run
proof (cases rule: cache_fetch_cases)
  case early
  then show ?thesis using ok by (simp add: cache_promise_def)
next
  case (drop n b err v)
  show ?thesis by (rule drop_temp_promise [OF dir _ drop(2)]) (simp add: cache_ok_temp [OF dir] ok)
next
  case (commit n b v)
  show ?thesis
    by (rule cache_commit_promise [OF dir sha _ refl _ commit(2)]) (simp_all add: cache_ok_temp [OF dir] ok)
qed

lemma cache_Get_promise:
  assumes dir: "ca_Dir c \<noteq> ''''" and sha: "\<And>b. length (tr_sha256 tr b) = 32" and ok: "cache_ok tr c fs"
    and expected: "expected = '''' \<or> is_digest (strings_ToLower expected)"
    and run: "run_state (cache_Get tr fo c src creds expected) (w, fs) = (r, (w', fs'))"
  shows "cache_promise tr c expected r fs'"
proof -
  consider (hit) x where "expected \<noteq> ''''" "fmlookup fs (filepath_Clean (pathFor c expected)) = Some x"
      "fs' = fs" "r = Inr \<lparr>en_Path = pathFor c expected, en_SHA256 = strings_ToLower expected\<rparr>"
    | (miss) "run_state (cache_fetch tr fo c src creds expected) (w, fs) = (r, (w', fs'))"
    using run by (auto simp: cache_Get_def Let_def split: if_splits)
  then show ?thesis
  proof cases
    case hit
    then have digest: "is_digest (strings_ToLower expected)" using expected by simp
    have same: "pathFor c (strings_ToLower expected) = pathFor c expected" by (simp add: pathFor_def)
    obtain b where "x = File b" "sha_hex tr b = strings_ToLower expected"
      using cache_okD [OF ok digest] hit(2) unfolding same by auto
    then show ?thesis using hit ok by (simp add: cache_promise_def entry_ok_def)
  next
    case miss
    then show ?thesis by (rule cache_fetch_promise [OF dir sha ok])
  qed
qed


section \<open>The contract the controller relies on\<close>

text \<open>A store of images: whatever is asked of it in a good state leaves it good, and an entry
  it returns names bytes with the digest of the entry.\<close>

locale image_store =
  fixes get :: "BaseImageSource \<Rightarrow> Credentials option \<Rightarrow> string \<Rightarrow> ('s, go_error + Entry) state"
    and ok :: "'s \<Rightarrow> bool"
    and content :: "'s \<Rightarrow> string \<Rightarrow> bytes option"
    and digest :: "bytes \<Rightarrow> string"
    and valid :: "string \<Rightarrow> bool"
  assumes get_ok: "ok s \<Longrightarrow> valid expected \<Longrightarrow> run_state (get src creds expected) s = (r, s') \<Longrightarrow> ok s'"
    and get_entry: "ok s \<Longrightarrow> valid expected \<Longrightarrow> run_state (get src creds expected) s = (Inr e, s') \<Longrightarrow>
      \<exists>b. content s' (en_Path e) = Some b \<and> digest b = en_SHA256 e \<and>
          (if expected = '''' then True else strings_ToLower expected = en_SHA256 e)"
begin

text \<open>The requests of many machines, one after the other.\<close>

fun get_all :: "(BaseImageSource \<times> Credentials option \<times> string) list \<Rightarrow> ('s, (go_error + Entry) list) state" where
  "get_all [] = State_Monad.return []"
| "get_all ((src, creds, expected) # rest) = do {
     r \<leftarrow> get src creds expected;
     rs \<leftarrow> get_all rest;
     State_Monad.return (r # rs) }"

lemma get_all_ok:
  "ok s \<Longrightarrow> \<forall>(src, creds, expected) \<in> set reqs. valid expected \<Longrightarrow> ok (snd (run_state (get_all reqs) s))"
proof (induction reqs arbitrary: s)
  case (Cons q reqs)
  obtain src creds expected where q: "q = (src, creds, expected)" by (cases q) auto
  obtain r s1 where run: "run_state (get src creds expected) s = (r, s1)" by (cases "run_state (get src creds expected) s")
  have "ok s1" by (rule get_ok [OF Cons.prems(1) _ run]) (use Cons.prems(2) in \<open>simp add: q\<close>)
  then have "ok (snd (run_state (get_all reqs) s1))" using Cons.IH [of s1] Cons.prems(2) by simp
  then show ?case by (auto simp: q run split: prod.splits)
qed simp

text \<open>Two machines that pin the same digest get the same bytes, as far as the digest tells
  bytes apart.\<close>

lemma same_pin_same_bytes:
  assumes "ok s" "valid expected" "expected \<noteq> ''''" "\<And>x y. digest x = digest y \<Longrightarrow> x = y"
    and "run_state (get src creds expected) s = (Inr e, s')"
    and "run_state (get src2 creds2 expected) s' = (Inr e2, s2)"
  shows "content s' (en_Path e) = content s2 (en_Path e2)"
proof -
  have "ok s'" using get_ok assms(1,2,5) by blast
  then show ?thesis
    using get_entry [OF assms(1,2,5)] get_entry [OF _ assms(2,6)] assms(3,4) by force
qed

end

definition file_content :: "'w \<times> files \<Rightarrow> string \<Rightarrow> bytes option" where
  "file_content s path =
     (case fmlookup (snd s) (filepath_Clean path) of Some (File b) \<Rightarrow> Some b | _ \<Rightarrow> None)"

definition sha_like :: "'w transport \<Rightarrow> bool" where
  "sha_like tr = (\<forall>b. length (tr_sha256 tr b) = 32)"

definition cache_good :: "'w transport \<Rightarrow> 'w Cache \<Rightarrow> 'w \<times> files \<Rightarrow> bool" where
  "cache_good tr c s \<longleftrightarrow> sha_like tr \<and> ca_Dir c \<noteq> '''' \<and> cache_ok tr c (snd s)"

definition valid_pin :: "string \<Rightarrow> bool" where
  "valid_pin expected = (if expected = '''' then True else is_digest (strings_ToLower expected))"

lemma cache_good_promise:
  assumes "cache_good tr c s" "valid_pin expected"
    and "run_state (cache_Get tr fo c src creds expected) s = (r, s')"
  shows "cache_good tr c s' \<and> cache_promise tr c expected r (snd s')"
proof -
  obtain w fs where s: "s = (w, fs)" by (cases s)
  obtain w' fs' where s': "s' = (w', fs')" by (cases s')
  have "cache_promise tr c expected r fs'"
    using assms unfolding s s' cache_good_def valid_pin_def sha_like_def
    by (intro cache_Get_promise) (auto split: if_splits)
  then show ?thesis using assms(1) unfolding s s' cache_good_def cache_promise_def snd_conv by blast
qed

interpretation cq: image_store "cache_Get tr fo c" "cache_good tr c" file_content "sha_hex tr" valid_pin
  for tr :: "'w transport" and fo c
proof
  fix s expected src creds r s'
  assume a: "cache_good tr c s" "valid_pin expected" "run_state (cache_Get tr fo c src creds expected) s = (r, s')"
  show "cache_good tr c s'" using cache_good_promise [OF a] by simp
next
  fix s expected src creds e s'
  assume a: "cache_good tr c s" "valid_pin expected" "run_state (cache_Get tr fo c src creds expected) s = (Inr e, s')"
  show "\<exists>b. file_content s' (en_Path e) = Some b \<and> sha_hex tr b = en_SHA256 e \<and>
      (if expected = '''' then True else strings_ToLower expected = en_SHA256 e)"
    using cache_good_promise [OF a]
    by (auto simp: cache_promise_def entry_ok_def file_content_def split: option.splits fs_node.splits if_splits)
qed

lemma cache_Get_fails:
  assumes "\<And>p v. fst (run_state (fo_Remove fo p) v) = None"
    and "run_state (cache_Get tr fo c src creds expected) (w, fs) = (Inl err, (w', fs'))"
  shows "fs' = fs"
proof -
  have gone: "fs2 = fmdrop (filepath_Clean p) fs1"
    if "run_state (drop_temp fo p e) (v, fs1) = (r, (v', fs2))" for p e v fs1 r v' fs2
    using that assms(1) by (auto simp: drop_temp_def os_Remove_def split: prod.splits if_splits)
       (metis fst_conv option.distinct(1))
  have restored: "fmdrop k (fmupd k x fs) = fs" if "fmlookup fs k = None" for k x
    using that by (intro fmap_ext) auto
  have "run_state (cache_fetch tr fo c src creds expected) (w, fs) = (Inl err, (w', fs'))"
    using assms(2) by (auto simp: cache_Get_def Let_def split: if_splits)
  then show ?thesis
  proof (cases rule: cache_fetch_cases)
    case (drop n b e v)
    show ?thesis using gone [OF drop(2)] restored [OF drop(1)] by simp
  next
    case (commit n b v)
    have "fmlookup (fmupd (filepath_Clean (temp_path fo (ca_Dir c) ''.part-'' n)) (File b) fs)
        (filepath_Clean (temp_path fo (ca_Dir c) ''.part-'' n)) = Some (File b)" by simp
    from this commit(2) show ?thesis
    proof (cases rule: cache_commit_cases)
      case (drop e v2)
      show ?thesis using gone [OF drop] restored [OF commit(1)] by simp
    qed simp
  qed simp
qed

lemma cache_Get_path:
  assumes "run_state (cache_Get tr fo c src creds expected) (w, fs) = (Inr e, (w', fs'))"
  shows "en_Path e = pathFor c (en_SHA256 e)"
proof -
  have lower: "pathFor c (strings_ToLower x) = pathFor c x" for x by (simp add: pathFor_def)
  have "e = \<lparr>en_Path = pathFor c expected, en_SHA256 = strings_ToLower expected\<rparr> \<or>
      run_state (cache_fetch tr fo c src creds expected) (w, fs) = (Inr e, (w', fs'))"
    using assms by (auto simp: cache_Get_def Let_def split: if_splits)
  then show ?thesis
  proof
    assume "run_state (cache_fetch tr fo c src creds expected) (w, fs) = (Inr e, (w', fs'))"
    then show ?thesis
    proof (cases rule: cache_fetch_cases)
      case (commit n b v)
      have "fmlookup (fmupd (filepath_Clean (temp_path fo (ca_Dir c) ''.part-'' n)) (File b) fs)
          (filepath_Clean (temp_path fo (ca_Dir c) ''.part-'' n)) = Some (File b)" by simp
      from this commit(2) show ?thesis
        by (cases rule: cache_commit_cases) (auto dest: drop_temp_files)
    qed (auto dest: drop_temp_files)
  qed (simp add: lower)
qed


section \<open>Properties\<close>


text \<open>C38: a request that fails, for whatever reason and after whatever part of the download,
  leaves the cache directory as it was, as long as the temporary file can be removed.\<close>

theorem cache_Get_fails_cleanly:
  assumes "\<forall>p v. fst (run_state (fo_Remove fo p) v) = None"
    and "run_state (cache_Get tr fo c src creds expected) (w, fs) = (Inl err, (w', fs'))"
  shows "fs' = fs"
  by (rule cache_Get_fails [OF _ assms(2)]) (use assms(1) in simp)

text \<open>Once a request was answered, a request that pins the digest of its entry, whatever
  its source, is answered with the same file and without the network.\<close>

theorem cache_Get_hits:
  assumes "\<forall>b. length (tr_sha256 tr b) = 32" "ca_Dir c \<noteq> ''''" "cache_ok tr c fs" "valid_pin expected"
    and "run_state (cache_Get tr fo c src creds expected) (w, fs) = (Inr e, (w', fs'))"
  shows "run_state (cache_Get tr fo c src2 creds2 (en_SHA256 e)) (v, fs') = (Inr e, (v, fs'))"
proof -
  have good: "cache_good tr c (w, fs)" using assms(1-3) by (simp add: cache_good_def sha_like_def)
  obtain b where b: "fmlookup fs' (filepath_Clean (en_Path e)) = Some (File b)" "sha_hex tr b = en_SHA256 e"
    using cq.get_entry [OF good assms(4,5)]
    by (auto simp: file_content_def split: option.splits fs_node.splits)
  have "is_digest (sha_hex tr b)" using hex_is_digest assms(1) by (simp add: sha_hex_def)
  then have "is_digest (en_SHA256 e)" by (simp add: b(2))
  then have lower: "strings_ToLower (en_SHA256 e) = en_SHA256 e" "en_SHA256 e \<noteq> ''''"
    by (auto simp: ToLower_digest is_digest_def)
  moreover have "en_Path e = pathFor c (en_SHA256 e)"
    using assms(5) by (rule cache_Get_path)
  ultimately show ?thesis using b(1) by (simp add: cache_Get_def Let_def)
qed


text \<open>A digest of 32 bytes, an operating system where everything works, and one where renaming
  fails.\<close>

definition example_images :: "unit transport" where
  "example_images = example_transport ''QFI''\<lparr>tr_sha256 := \<lambda>b. take 32 (b @ replicate 32 (CHR 0x00))\<rparr>"

definition example_os :: "go_error option \<Rightarrow> unit file_os" where
  "example_os rename =
     \<lparr>fo_MkdirAll = \<lambda>d. State_Monad.return None, fo_TempDir = ''/tmp'',
      fo_CreateTemp = State_Monad.return (Inr 7), fo_Write = \<lambda>b. State_Monad.return (length b, None),
      fo_Close = State_Monad.return None, fo_Rename = \<lambda>p q. State_Monad.return rename,
      fo_Remove = \<lambda>p. State_Monad.return None\<rparr>"

definition example_cache :: "unit Cache" where
  "example_cache = \<lparr>ca_Dir = ''/cache'', ca_Resolver = image_Multi_Open example_images\<rparr>"

definition example_image :: BaseImageSource where
  "example_image =
     \<lparr>bis_Type = BootArtifactsSourceHTTPS,
      bis_HTTPS = Some \<lparr>hb_URL = ''http://m/rhcos.qcow2'', hb_SHA256 = '''',
        hb_CredentialsSecretRef = None, hb_InsecureSkipTLSVerify = False\<rparr>,
      bis_OCI = None, bis_S3 = None\<rparr>"

lemma example_images_sha: "\<forall>b. length (tr_sha256 example_images b) = 32"
  by (auto simp: example_images_def min_def)

lemma example_cache_dir: "ca_Dir example_cache \<noteq> ''''"
  by (simp add: example_cache_def)

definition example_get :: "go_error option \<Rightarrow> (go_error + Entry) \<times> unit \<times> files" where
  "example_get rename =
     run_state (cache_Get example_images (example_os rename) example_cache example_image None '''') ((), fmempty)"

lemma example_get_ok:
  "\<exists>fs. example_get None =
     (Inr \<lparr>en_Path = ''/cache/5146490000000000000000000000000000000000000000000000000000000000'',
           en_SHA256 = ''5146490000000000000000000000000000000000000000000000000000000000''\<rparr>, ((), fs))"
proof -
  have "fst (example_get None) =
     Inr \<lparr>en_Path = ''/cache/5146490000000000000000000000000000000000000000000000000000000000'',
           en_SHA256 = ''5146490000000000000000000000000000000000000000000000000000000000''\<rparr>"
    by code_simp
  then show ?thesis by (metis prod.collapse old.unit.exhaust)
qed

lemma example_get_fails: "\<exists>fs. example_get (Some (ErrorText ''io'')) =
    (Inl (Wrapf ''rename into cache: '' (ErrorText ''io'')), ((), fs))"
proof -
  have "fst (example_get (Some (ErrorText ''io''))) = Inl (Wrapf ''rename into cache: '' (ErrorText ''io''))"
    by code_simp
  then show ?thesis by (metis prod.collapse old.unit.exhaust)
qed


theorem cache_Get_fails_cleanly_witness:
  "\<exists>err. example_get (Some (ErrorText ''io'')) = (Inl err, ((), fmempty))"
proof -
  obtain err fs where run: "example_get (Some (ErrorText ''io'')) = (Inl err, ((), fs))"
    using example_get_fails by blast
  have "fs = fmempty"
    by (rule cache_Get_fails_cleanly [OF _ run [unfolded example_get_def]]) (simp add: example_os_def)
  then show ?thesis using run by blast
qed

theorem cache_Get_hits_witness:
  "\<exists>e fs. example_get None = (Inr e, ((), fs)) \<and>
     run_state (cache_Get example_images (example_os None) example_cache example_image None (en_SHA256 e)) ((), fs) =
       (Inr e, ((), fs))"
proof -
  obtain e fs where run: "example_get None = (Inr e, ((), fs))" using example_get_ok by blast
  have "valid_pin ''''" by (simp add: valid_pin_def)
  from run cache_Get_hits [OF example_images_sha example_cache_dir cache_ok_empty this run [unfolded example_get_def]]
  show ?thesis by blast
qed

end
