(* ===== verification/Qcow2.thy ===== *)
theory Qcow2
  imports Libvirt_Errors
begin

text \<open>
  \<^verbatim>\<open>internal/libvirt/qcow2.go\<close>: reading the virtual size from the header of a qcow2 image.
  The file is what opening and reading it gives: an error, or its bytes.
\<close>

section \<open>Big-endian words\<close>

definition be_nat :: "bytes \<Rightarrow> nat" where
  "be_nat bs = foldl (\<lambda>acc b. acc * 256 + of_char b) 0 bs"

definition BigEndian_Uint32 :: "bytes \<Rightarrow> 32 word" where
  "BigEndian_Uint32 bs = of_nat (be_nat (take 4 bs))"

definition BigEndian_Uint64 :: "bytes \<Rightarrow> 64 word" where
  "BigEndian_Uint64 bs = of_nat (be_nat (take 8 bs))"

text \<open>\<^verbatim>\<open>%08x\<close>.\<close>

fun hex_digits :: "nat \<Rightarrow> nat \<Rightarrow> string" where
  "hex_digits 0 n = []"
| "hex_digits (Suc k) n = hex_digits k (n div 16) @ [hex_digit (n mod 16)]"

definition fmt_08x :: "32 word \<Rightarrow> string" where
  "fmt_08x w = hex_digits 8 (unat w)"


section \<open>Qcow2VirtualSize\<close>

definition qcow2Magic :: "32 word" where
  "qcow2Magic = 0x514649fb"

text \<open>\<^verbatim>\<open>io.ReadFull\<close> of 32 bytes fails with EOF on an empty file and with an unexpected EOF
  on a shorter one.\<close>

definition ReadFull32 :: "bytes \<Rightarrow> go_error + bytes" where
  "ReadFull32 content =
     (if content = [] then Inl (ErrorText ''EOF'')
      else if length content < 32 then Inl (ErrorText ''unexpected EOF'')
      else Inr (take 32 content))"

definition Qcow2VirtualSize :: "string \<Rightarrow> go_error + bytes \<Rightarrow> go_error + int64" where
  "Qcow2VirtualSize path file =
     (case file of
        Inl err \<Rightarrow> Inl (Wrapf (''open '' @ path @ '': '') err)
      | Inr content \<Rightarrow>
     (case ReadFull32 content of
        Inl err \<Rightarrow> Inl (Wrapf (''read header '' @ path @ '': '') err)
      | Inr hdr \<Rightarrow>
          let magic = BigEndian_Uint32 hdr in
          if magic \<noteq> qcow2Magic
          then Inl (ErrorText (path @ '' is not a qcow2 (magic 0x'' @ fmt_08x magic @ '')''))
          else
          let version = BigEndian_Uint32 (drop 4 hdr) in
          if version \<noteq> 2 \<and> version \<noteq> 3
          then Inl (ErrorText (path @ '' has unsupported qcow2 version '' @ fmt_d (uint version)))
          else
          let size = BigEndian_Uint64 (drop 24 hdr) in
          if size > push_bit 62 1
          then Inl (ErrorText (path @ '' declares implausible virtual size '' @ fmt_d (uint size)))
          else Inr size))"


section \<open>Header round trip\<close>

fun be_bytes :: "nat \<Rightarrow> nat \<Rightarrow> bytes" where
  "be_bytes 0 n = []"
| "be_bytes (Suc k) n = be_bytes k (n div 256) @ [char_of (n mod 256)]"

lemma length_be_bytes [simp]: "length (be_bytes k n) = k"
  by (induction k arbitrary: n) auto

lemma be_nat_snoc: "be_nat (bs @ [b]) = be_nat bs * 256 + of_char b"
  by (simp add: be_nat_def)

lemma be_nat_be_bytes: "n < 256 ^ k \<Longrightarrow> be_nat (be_bytes k n) = n"
proof (induction k arbitrary: n)
  case (Suc k)
  then have "n div 256 < 256 ^ k" by (simp add: less_mult_imp_div_less mult.commute)
  with Suc show ?case by (simp add: be_nat_snoc)
qed (simp add: be_nat_def)

text \<open>The header that the qcow2 format describes: magic, version, sixteen bytes about the
  backing file and clusters, and the size.\<close>

definition qcow2_header :: "nat \<Rightarrow> bytes \<Rightarrow> nat \<Rightarrow> bytes" where
  "qcow2_header version mid vsize =
     be_bytes 4 0x514649fb @ be_bytes 4 version @ mid @ be_bytes 8 vsize"

lemma header_fields:
  assumes "version < 2 ^ 32" "length mid = 16" "vsize < 2 ^ 64"
  shows "take 32 (qcow2_header version mid vsize @ rest) = qcow2_header version mid vsize"
    and "BigEndian_Uint32 (qcow2_header version mid vsize) = qcow2Magic"
    and "BigEndian_Uint32 (drop 4 (qcow2_header version mid vsize)) = of_nat version"
    and "BigEndian_Uint64 (drop 24 (qcow2_header version mid vsize)) = of_nat vsize"
  using assms be_nat_be_bytes [of "0x514649fb" 4] be_nat_be_bytes [of version 4]
    be_nat_be_bytes [of vsize 8]
  by (simp_all add: qcow2_header_def BigEndian_Uint32_def BigEndian_Uint64_def qcow2Magic_def)


lemma Qcow2VirtualSize_header:
  assumes "version < 2 ^ 32" "length mid = 16" "vsize < 2 ^ 64"
  shows "Qcow2VirtualSize path (Inr (qcow2_header version mid vsize @ rest)) =
     (if version \<noteq> 2 \<and> version \<noteq> 3
      then Inl (ErrorText (path @ '' has unsupported qcow2 version '' @ fmt_d (int version)))
      else if vsize > 2 ^ 62
      then Inl (ErrorText (path @ '' declares implausible virtual size '' @ fmt_d (int vsize)))
      else Inr (of_nat vsize))"
proof -
  define h where "h = qcow2_header version mid vsize"
  note f = header_fields [OF assms, folded h_def]
  have len: "length h = 32" using assms(2) by (simp add: h_def qcow2_header_def)
  then have "h \<noteq> []" by force
  then have "ReadFull32 (h @ rest) = Inr h"
    using f(1) [of rest] len by (simp add: ReadFull32_def)
  moreover have "(of_nat version :: 32 word) = 2 \<longleftrightarrow> version = 2" "(of_nat version :: 32 word) = 3 \<longleftrightarrow> version = 3"
    using assms(1) word_of_nat_eq_iff [where 'a = 32, of version 2] word_of_nat_eq_iff [where 'a = 32, of version 3]
    by (simp_all add: take_bit_nat_eq_self)
  moreover have "(of_nat vsize :: 64 word) > push_bit 62 1 \<longleftrightarrow> vsize > 2 ^ 62"
    using assms(3) by (simp add: word_less_nat_alt unat_of_nat take_bit_nat_eq_self push_bit_eq_mult)
  moreover have "uint (of_nat version :: 32 word) = int version" "uint (of_nat vsize :: 64 word) = int vsize"
    using assms(1,3) by (simp_all add: uint_nat unat_of_nat take_bit_nat_eq_self)
  ultimately show ?thesis unfolding h_def [symmetric] by (simp add: Qcow2VirtualSize_def f Let_def)
qed

text \<open>C33: from the header of a version 2 or 3 image the declared virtual size is read back,
  and it is never negative: a size above 2^62 is refused, as is any other version, whatever
  follows in the file.\<close>

theorem Qcow2VirtualSize_roundtrip:
  assumes "version = 2 \<or> version = 3" "length mid = 16" "vsize < 2 ^ 64"
  shows "case Qcow2VirtualSize path (Inr (qcow2_header version mid vsize @ rest)) of
      Inr n \<Rightarrow> vsize \<le> 2 ^ 62 \<and> sint n = int vsize
    | Inl err \<Rightarrow> vsize > 2 ^ 62"
proof -
  have "sint (of_nat vsize :: int64) = int vsize" if "vsize \<le> 2 ^ 62"
    using sint_int64 [of "int vsize"] that by simp
  moreover have "version < 2 ^ 32" using assms(1) by auto
  ultimately show ?thesis using assms Qcow2VirtualSize_header [of version mid vsize path rest] by auto
qed

theorem Qcow2VirtualSize_roundtrip_witness:
  "case Qcow2VirtualSize ''/img'' (Inr (qcow2_header 3 (replicate 16 (CHR 0x00)) 10737418240)) of
     Inr n \<Rightarrow> sint n = 10737418240 | Inl err \<Rightarrow> False"
  using Qcow2VirtualSize_roundtrip [of 3 "replicate 16 (CHR 0x00)" 10737418240 "''/img''" "[]"]
  by (auto split: sum.splits)

end
