(* ===== verification/Machine_Env.thy ===== *)
theory Machine_Env
  imports Kube_Api Machine_Scope Virsh_Client Domain_Xml Ignition Boot_Artifacts Image_Cache Qcow2
begin

text \<open>
  What the reconciler of \<^verbatim>\<open>internal/controller/libvirtmachine_controller.go\<close> works with: its
  environment, its state, and its helpers for errors and clients.

  The environment is the API server, the client factories, the ISO builder, the resolver of boot
  artifacts, the image cache, the controller's file system and the libraries behind them; they
  are programs over the world \<open>'w\<close>. The state adds to the world the machine object, which every
  step updates in place through one pointer, and the reconciler's cache of boot artifacts.
  The lock around an upload to a host serialises reconciliations; the model is one of them.
\<close>

section \<open>Environment and state\<close>

record ('w, 'ssh) machine_env =
  me_GetLibvirtMachine :: "string \<Rightarrow> string \<Rightarrow> ('w, go_error + LibvirtMachine) state"
  me_NewHelper :: "LibvirtMachine \<Rightarrow> ('w, go_error option) state"
  me_Patch :: "LibvirtMachine \<Rightarrow> ('w, go_error option) state"
  me_GetOwnerMachine :: "LibvirtMachine \<Rightarrow> ('w, go_error + Machine option) state"
  me_GetClusterFromMetadata :: "LibvirtMachine \<Rightarrow> ('w, go_error + Cluster) state"
  me_IsPaused :: "Cluster \<Rightarrow> LibvirtMachine \<Rightarrow> bool"
  me_GetLibvirtCluster :: "string \<Rightarrow> string \<Rightarrow> ('w, go_error + LibvirtCluster) state"
  me_GetLibvirtHost :: "string \<Rightarrow> string \<Rightarrow> ('w, go_error + LibvirtHost) state"
  me_GetSecret :: "string \<Rightarrow> string \<Rightarrow> ('w, go_error + Secret) state"
  me_GetNode :: "string \<Rightarrow> ('w, go_error + Node) state"
  me_PatchNode :: "Node \<Rightarrow> Node \<Rightarrow> ('w, go_error option) state"
  me_DeleteNode :: "Node \<Rightarrow> ('w, go_error option) state"
  me_SSHClientFactory :: "LibvirtHost \<Rightarrow> Secret \<Rightarrow> ('w, go_error + 'ssh) state"
  me_CloseSSH :: "'ssh \<Rightarrow> ('w, unit) state"
  me_LibvirtClientFactory :: "'ssh \<Rightarrow> string \<Rightarrow> 'w Client"
  me_CloseClient :: "'ssh \<Rightarrow> ('w, unit) state"
  me_BuildCloudInitISO :: "bytes \<Rightarrow> string \<Rightarrow> string \<Rightarrow> ('w, go_error + bytes) state"
  me_BootArtifactsResolver :: "'w Resolver option"
  me_BaseImageCache ::
    "(BaseImageSource \<Rightarrow> Credentials option \<Rightarrow> string \<Rightarrow> ('w, go_error + Entry) state) option"
  me_os_ReadFile :: "string \<Rightarrow> ('w, go_error + bytes) state"
  me_url_Parse :: "string \<Rightarrow> go_error + URL"
  me_json :: json_lib
  me_docker :: docker_json
  me_sha256 :: "bytes \<Rightarrow> bytes"
  me_SetStatusCondition :: set_condition_fn
  me_RemoveStatusCondition :: remove_condition_fn
  me_ContainsFinalizer :: "string list \<Rightarrow> string \<Rightarrow> bool"
  me_AddFinalizer :: "string list \<Rightarrow> string \<Rightarrow> string list"
  me_RemoveFinalizer :: "string list \<Rightarrow> string \<Rightarrow> string list"

abbreviation "hostNotReadyRequeueInterval \<equiv> (30 :: nat)"
abbreviation "bootstrapNotReadyRequeueInterval \<equiv> (10 :: nat)"
abbreviation "cleanupStalledRequeueInterval \<equiv> (60 :: nat)"
abbreviation "nodeJoinRequeueInterval \<equiv> (15 :: nat)"
abbreviation "memoryMBToKBMultiplier \<equiv> (1024 :: int64)"

record 'w mstate =
  s_world :: 'w
  s_machine :: LibvirtMachine
  s_artifactCache :: "(string, Artifacts) fmap"

definition io :: "('w, 'a) state \<Rightarrow> ('w mstate, 'a) state" where
  "io m = State (\<lambda>s. case run_state m (s_world s) of (r, w) \<Rightarrow> (r, s\<lparr>s_world := w\<rparr>))"

definition get_machine :: "('w mstate, LibvirtMachine) state" where
  "get_machine = State (\<lambda>s. (s_machine s, s))"

definition set_machine :: "(LibvirtMachine \<Rightarrow> LibvirtMachine) \<Rightarrow> ('w mstate, unit) state" where
  "set_machine f = State (\<lambda>s. ((), s\<lparr>s_machine := f (s_machine s)\<rparr>))"

lemma io_run [simp]:
  "run_state (io m) s = (case run_state m (s_world s) of (r, w) \<Rightarrow> (r, s\<lparr>s_world := w\<rparr>))"
  by (simp add: io_def)

lemma get_machine_run [simp]: "run_state get_machine s = (s_machine s, s)"
  by (simp add: get_machine_def)

lemma set_machine_run [simp]: "run_state (set_machine f) s = ((), s\<lparr>s_machine := f (s_machine s)\<rparr>)"
  by (simp add: set_machine_def)


section \<open>Conditions and errors\<close>

definition machine_condition ::
  "LibvirtMachine \<Rightarrow> string \<Rightarrow> ConditionStatus \<Rightarrow> string \<Rightarrow> string \<Rightarrow> Condition" where
  "machine_condition m ctype status reason message =
     \<lparr>cond_Type = ctype, cond_Status = status, cond_Reason = reason, cond_Message = message,
      cond_ObservedGeneration = lm_Generation m\<rparr>"

definition set_condition ::
  "('w, 'ssh) machine_env \<Rightarrow> string \<Rightarrow> ConditionStatus \<Rightarrow> string \<Rightarrow> string \<Rightarrow> ('w mstate, unit) state" where
  "set_condition env ctype status reason message =
     set_machine (\<lambda>m. m\<lparr>lm_Status := (lm_Status m)\<lparr>st_Conditions :=
       me_SetStatusCondition env (st_Conditions (lm_Status m))
         (machine_condition m ctype status reason message)\<rparr>\<rparr>)"

definition setTerminalError :: "string \<Rightarrow> string \<Rightarrow> ('w mstate, unit) state" where
  "setTerminalError reason message =
     set_machine (\<lambda>m. m\<lparr>lm_Status := (lm_Status m)\<lparr>st_FailureReason := Some reason,
       st_FailureMessage := Some message, st_Ready := False\<rparr>\<rparr>)"

definition handleLibvirtError :: "go_error \<Rightarrow> string \<Rightarrow> ('w mstate, go_error option) state" where
  "handleLibvirtError err operation =
     (if IsTerminal err
      then do {
        setTerminalError ReasonSpecMismatch
          (''terminal error during '' @ operation @ '': '' @ error_string err);
        State_Monad.return None }
      else State_Monad.return (Some (Wrapf (''error during '' @ operation @ '': '') err)))"


section \<open>Clients\<close>

definition createClients ::
  "('w, 'ssh) machine_env \<Rightarrow> LibvirtHost \<Rightarrow> ('w, go_error + ('ssh \<times> 'w Client)) state" where
  "createClients env host =
     (case hs_SecretRef (lh_Spec host) of
        None \<Rightarrow> State_Monad.return (Inl (ErrorText
                  (''LibvirtHost '' @ lh_Name host @ '' has no secretRef configured'')))
      | Some ref \<Rightarrow> do {
          let secretNS = (if sref_Namespace ref = '''' then lh_Namespace host else sref_Namespace ref);
          g \<leftarrow> me_GetSecret env secretNS (sref_Name ref);
          (case g of
             Inl err \<Rightarrow> State_Monad.return (Inl (Wrapf ''failed to get SSH secret: '' err))
           | Inr secret \<Rightarrow>
          (case LocalConnectionURI (me_url_Parse env) (hs_URI (lh_Spec host)) of
             Inl err \<Rightarrow> State_Monad.return (Inl (Wrapf ''invalid libvirt connection URI: '' err))
           | Inr connURI \<Rightarrow> do {
               c \<leftarrow> me_SSHClientFactory env host secret;
               State_Monad.return (case c of
                 Inl err \<Rightarrow> Inl (Wrapf ''failed to create SSH client: '' err)
               | Inr sshClient \<Rightarrow> Inr (sshClient, me_LibvirtClientFactory env sshClient connURI)) })) })"

text \<open>The deferred closing of both clients after a body that used them.\<close>

definition closing :: "('w, 'ssh) machine_env \<Rightarrow> 'ssh \<Rightarrow> ('w mstate, 'a) state \<Rightarrow> ('w mstate, 'a) state" where
  "closing env sshClient body = do {
     r \<leftarrow> body;
     io (me_CloseClient env sshClient);
     io (me_CloseSSH env sshClient);
     State_Monad.return r }"

end
