(* ===== verification/Machine_Steps.thy ===== *)
theory Machine_Steps
  imports Machine_Env
begin

text \<open>
  The steps of \<^verbatim>\<open>reconcileNormal\<close> in \<^verbatim>\<open>internal/controller/libvirtmachine_controller.go\<close>, in
  the order they run: bootstrap data, sizing, the two preflights, the base image, the root disk,
  the bootstrap artifacts, the additional disks, the boot artifacts and the domain. A step that
  updates the shared context returns it with its error.
\<close>

section \<open>reconcileCtx\<close>

record 'w reconcileCtx =
  rc_libvirtCluster :: "LibvirtCluster option"
  rc_machine :: Machine
  rc_libvirtHost :: LibvirtHost
  rc_machineScope :: MachineScope
  rc_libvirtClient :: "'w Client"
  rc_resolvedVCPUs :: int32
  rc_resolvedMemoryMB :: int32
  rc_storagePool :: string
  rc_baseImagePool :: string
  rc_domainName :: string
  rc_rootDiskVolume :: string
  rc_bootstrapISO :: string
  rc_nvramPath :: string
  rc_ignitionFilePath :: string
  rc_additionalDiskVolumes :: "string list"
  rc_additionalDiskParams :: "DiskParam list"
  rc_kernelPath :: string
  rc_initrdPath :: string
  rc_kernelCmdline :: string


section \<open>Bootstrap data and sizing\<close>

definition ensureBootstrapData ::
  "('w, 'ssh) machine_env \<Rightarrow> Machine \<Rightarrow> ('w mstate, (go_error + Result) option) state" where
  "ensureBootstrapData env machine =
     (case mc_DataSecretName machine of
        None \<Rightarrow> do {
          set_condition env BootstrapDataReadyCondition ConditionFalse ReasonBootstrapDataNotReady
            ''Waiting for bootstrap data secret'';
          State_Monad.return (Some (Inr \<lparr>RequeueAfter = bootstrapNotReadyRequeueInterval\<rparr>)) }
      | Some name \<Rightarrow> do {
          g \<leftarrow> io (me_GetSecret env (mc_Namespace machine) name);
          (case g of
             Inl err \<Rightarrow>
               if apierrors_IsNotFound err
               then do {
                 set_condition env BootstrapDataReadyCondition ConditionFalse ReasonBootstrapDataNotReady
                   (''Bootstrap secret '' @ fmt_q name @ '' not found'');
                 State_Monad.return (Some (Inr \<lparr>RequeueAfter = bootstrapNotReadyRequeueInterval\<rparr>)) }
               else State_Monad.return (Some (Inl (Wrapf ''failed to check bootstrap secret: '' err)))
           | Inr secret \<Rightarrow> do {
               set_condition env BootstrapDataReadyCondition ConditionTrue ReasonBootstrapDataReady
                 ''Bootstrap data secret is available'';
               State_Monad.return None }) })"

definition resolveAutoSizing :: "LibvirtHost \<Rightarrow> ('w mstate, Result + (int32 \<times> int32)) state" where
  "resolveAutoSizing libvirtHost = do {
     libvirtMachine \<leftarrow> get_machine;
     let vcpus = dom_VCPUs (ms_Domain (lm_Spec libvirtMachine));
     let memoryMB = dom_MemoryMB (ms_Domain (lm_Spec libvirtMachine));
     (if vcpus = 0 \<or> memoryMB = 0
      then (case hst_Capacity (lh_Status libvirtHost) of
              None \<Rightarrow> State_Monad.return (Inl \<lparr>RequeueAfter = hostNotReadyRequeueInterval\<rparr>)
            | Some capacity \<Rightarrow> do {
                let resolvedVCPUs = (if vcpus = 0 then hc_AvailableVCPUs capacity else vcpus);
                let resolvedMemoryMB = (if memoryMB = 0 then hc_AvailableMemoryMB capacity else memoryMB);
                (if resolvedVCPUs \<le>s 0 \<or> resolvedMemoryMB \<le>s 0
                 then do {
                   setTerminalError ReasonStorageInsufficient
                     (''host '' @ lh_Name libvirtHost @ '' has insufficient available resources: '' @
                      fmt_d (sint resolvedVCPUs) @ '' vCPUs, '' @ fmt_d (sint resolvedMemoryMB) @ '' MB'');
                   State_Monad.return (Inl empty_result) }
                 else State_Monad.return (Inr (resolvedVCPUs, resolvedMemoryMB))) })
      else State_Monad.return (Inr (vcpus, memoryMB))) }"


section \<open>Preflight\<close>

definition preflightSessionMode :: "('w, 'ssh) machine_env \<Rightarrow> 'w reconcileCtx \<Rightarrow> ('w mstate, unit) state" where
  "preflightSessionMode env rc = do {
     lm \<leftarrow> get_machine;
     (case LocalConnectionURI (me_url_Parse env) (hs_URI (lh_Spec (rc_libvirtHost rc))) of
        Inl err \<Rightarrow> State_Monad.return ()
      | Inr connURI \<Rightarrow>
          if connURI \<noteq> ConnURISession \<or> net_Type (ms_Network (lm_Spec lm)) \<noteq> NetworkTypeNetwork
          then State_Monad.return ()
          else do {
            let msg = ''Host '' @ fmt_q (lh_Name (rc_libvirtHost rc)) @ '' uses session-mode libvirt ('' @
              hs_URI (lh_Spec (rc_libvirtHost rc)) @
              ''), which cannot attach machines to libvirt-managed networks; use network.type=bridge or a /system host'';
            setTerminalError ReasonNetworkTypeUnsupported msg;
            set_condition env InfrastructureReadyCondition ConditionFalse ReasonNetworkTypeUnsupported msg }) }"

record requiredPool =
  rp_name :: string
  rp_label :: string
  rp_reason :: string

definition add_pool :: "requiredPool \<Rightarrow> requiredPool list \<Rightarrow> requiredPool list" where
  "add_pool p required =
     (if rp_name p = '''' \<or> rp_name p \<in> rp_name ` set required then required else required @ [p])"

definition required_pools :: "LibvirtMachine \<Rightarrow> 'w reconcileCtx \<Rightarrow> requiredPool list" where
  "required_pools lm rc =
     fold add_pool
       ((case Option.bind (rc_libvirtCluster rc) (\<lambda>c. cs_BaseImage (lc_Spec c)) of
           None \<Rightarrow> []
         | Some bi \<Rightarrow> [\<lparr>rp_name = bi_Pool bi, rp_label = ''base image'', rp_reason = ReasonBaseImagePoolNotFound\<rparr>]) @
        [\<lparr>rp_name = rc_baseImagePool rc, rp_label = ''base image'', rp_reason = ReasonBaseImagePoolNotFound\<rparr>] @
        (if rd_EphemeralPool (lm_RootDisk lm) then []
         else [\<lparr>rp_name = rc_storagePool rc, rp_label = ''root disk'', rp_reason = ReasonStoragePoolNotFound\<rparr>]) @
        map (\<lambda>d. \<lparr>rp_name = ad_StoragePool d, rp_label = ''additional disk'', rp_reason = ReasonStoragePoolNotFound\<rparr>)
          (elems (ms_AdditionalDisks (lm_Spec lm)))) []"

fun check_pools ::
  "('w, 'ssh) machine_env \<Rightarrow> 'w reconcileCtx \<Rightarrow> requiredPool list \<Rightarrow> ('w mstate, go_error option) state" where
  "check_pools env rc [] = State_Monad.return None"
| "check_pools env rc (p # ps) = do {
     r \<leftarrow> io (PoolExists (rc_libvirtClient rc) (rp_name p));
     (case r of
        Inl err \<Rightarrow> handleLibvirtError err (''checking '' @ rp_label p @ '' pool'')
      | Inr exists \<Rightarrow>
          if exists then check_pools env rc ps
          else do {
            let msg = ''Storage pool '' @ fmt_q (rp_name p) @ '' ('' @ rp_label p @ '') does not exist on host '' @
              fmt_q (lh_Name (rc_libvirtHost rc)) @
              ''; create it on the host or point the spec at an existing pool'';
            setTerminalError (rp_reason p) msg;
            set_condition env InfrastructureReadyCondition ConditionFalse (rp_reason p) msg;
            State_Monad.return None }) }"

definition preflightPools ::
  "('w, 'ssh) machine_env \<Rightarrow> 'w reconcileCtx \<Rightarrow> ('w mstate, go_error option) state" where
  "preflightPools env rc = do {
     lm \<leftarrow> get_machine;
     check_pools env rc (required_pools lm rc) }"


section \<open>Base image\<close>

definition upload_base_image ::
  "('w, 'ssh) machine_env \<Rightarrow> 'w reconcileCtx \<Rightarrow> BaseImageSpec \<Rightarrow> Entry \<Rightarrow> ('w mstate, go_error option) state" where
  "upload_base_image env rc bi entry = do {
     again \<leftarrow> io (VolumeExists (rc_libvirtClient rc) (bi_Pool bi) (bi_VolumeName bi));
     (case again of
        Inl err \<Rightarrow> handleLibvirtError err ''rechecking base image volume''
      | Inr exists \<Rightarrow>
          if exists then State_Monad.return None
          else do {
            header \<leftarrow> io (me_os_ReadFile env (en_Path entry));
            (case Qcow2VirtualSize (en_Path entry) header of
               Inl err \<Rightarrow> State_Monad.return (Some (Wrapf ''read qcow2 header: '' err))
             | Inr virtualSize \<Rightarrow> do {
                 f \<leftarrow> io (me_os_ReadFile env (en_Path entry));
                 (case f of
                    Inl err \<Rightarrow> State_Monad.return (Some (Wrapf ''open cached qcow2: '' err))
                  | Inr content \<Rightarrow> do {
                      u \<leftarrow> io (UploadQcow2Volume (rc_libvirtClient rc) (bi_Pool bi) (bi_VolumeName bi) content virtualSize);
                      (case u of
                         Some err \<Rightarrow> handleLibvirtError err ''uploading base image''
                       | None \<Rightarrow> do {
                           set_condition env BaseImageStagedCondition ConditionTrue ReasonBaseImageStaged
                             (''Base image staged in '' @ bi_Pool bi @ '' as '' @ bi_VolumeName bi);
                           State_Monad.return None }) }) }) }) }"

definition reconcileBaseImage ::
  "('w, 'ssh) machine_env \<Rightarrow> 'w reconcileCtx \<Rightarrow> ('w mstate, go_error option) state" where
  "reconcileBaseImage env rc =
     (case rc_libvirtCluster rc of
        None \<Rightarrow> State_Monad.return None
      | Some libvirtCluster \<Rightarrow>
     (case cs_BaseImage (lc_Spec libvirtCluster) of
        None \<Rightarrow> State_Monad.return None
      | Some bi \<Rightarrow>
     (case me_BaseImageCache env of
        None \<Rightarrow> State_Monad.return (Some (ErrorText ''baseImage requested but no image cache is wired''))
      | Some cacheGet \<Rightarrow> do {
          e \<leftarrow> io (VolumeExists (rc_libvirtClient rc) (bi_Pool bi) (bi_VolumeName bi));
          (case e of
             Inl err \<Rightarrow> handleLibvirtError err ''checking base image volume''
           | Inr exists \<Rightarrow>
               if exists then State_Monad.return None
               else do {
                 set_condition env BaseImageStagedCondition ConditionFalse ReasonBaseImageStaging
                   (''Staging base image to '' @ bi_Pool bi @ '' on '' @ lh_Name (rc_libvirtHost rc));
                 c \<leftarrow> io (resolveBaseImageCredentials (me_docker env) (me_GetSecret env) libvirtCluster);
                 (case c of
                    Inl err \<Rightarrow> State_Monad.return (Some (Wrapf ''resolving baseImage credentials: '' err))
                  | Inr creds \<Rightarrow> do {
                      g \<leftarrow> io (cacheGet (bi_Source bi) creds (baseImageExpectedSHA256 (bi_Source bi)));
                      (case g of
                         Inl err \<Rightarrow> State_Monad.return (Some (Wrapf ''fetching baseImage: '' err))
                       | Inr entry \<Rightarrow> upload_base_image env rc bi entry) }) }) })))"



section \<open>Root disk\<close>

text \<open>The ephemeral pool: present and active, or started, or destroyed and created again.\<close>

definition ensure_ephemeral_pool :: "'w reconcileCtx \<Rightarrow> LibvirtMachine \<Rightarrow> ('w mstate, go_error option \<times> bool) state" where
  "ensure_ephemeral_pool rc libvirtMachine = do {
     let cl = rc_libvirtClient rc;
     let ephPoolName = EphemeralPoolName (rc_machineScope rc);
     let ephPoolPath = EphemeralPoolPath (rc_machineScope rc);
     let failed = (\<lambda>err operation. do {
           e \<leftarrow> handleLibvirtError err operation;
           State_Monad.return (e, False) });
     let create = do {
           c \<leftarrow> io (CreateTmpfsPool cl ephPoolName ephPoolPath (rd_EphemeralPoolSize (lm_RootDisk libvirtMachine)));
           (case c of
              Some err \<Rightarrow> failed err ''creating ephemeral pool''
            | None \<Rightarrow> State_Monad.return (None, True)) };
     p \<leftarrow> io (PoolExists cl ephPoolName);
     (case p of
        Inl err \<Rightarrow> failed err ''checking ephemeral pool''
      | Inr poolExists \<Rightarrow>
          if \<not> poolExists then create
          else do {
            a \<leftarrow> io (PoolIsActive cl ephPoolName);
            (case a of
               Inl err \<Rightarrow> failed err ''checking ephemeral pool state''
             | Inr active \<Rightarrow>
                 if active then State_Monad.return (None, True)
                 else do {
                   s \<leftarrow> io (StartPool cl ephPoolName);
                   (case s of
                      None \<Rightarrow> State_Monad.return (None, True)
                    | Some _ \<Rightarrow> do {
                        d \<leftarrow> io (DestroyPool cl ephPoolName);
                        (case d of
                           Some err \<Rightarrow> failed err ''destroying stale ephemeral pool''
                         | None \<Rightarrow> create) }) }) }) }"

text \<open>The root volume, cloned or backed by the base image.\<close>

definition create_root_disk :: "'w reconcileCtx \<Rightarrow> LibvirtMachine \<Rightarrow> ('w mstate, go_error option) state" where
  "create_root_disk rc libvirtMachine = do {
     let cl = rc_libvirtClient rc;
     let root = lm_RootDisk libvirtMachine;
     let missing = do {
           setTerminalError ReasonBaseImageNotFound
             (''Base image '' @ fmt_q (rd_BaseImage root) @ '' not found in pool '' @ fmt_q (rc_baseImagePool rc));
           State_Monad.return None };
     (if rd_CloneStrategy root = CloneStrategyFullClone
      then do {
        c \<leftarrow> io (CloneVolume cl (rc_baseImagePool rc) (rd_BaseImage root) (rc_rootDiskVolume rc));
        (case c of
           Some err \<Rightarrow> if IsNotFound err then missing
                       else handleLibvirtError err ''cloning root disk (full-clone)''
         | None \<Rightarrow> State_Monad.return None) }
      else do {
        b \<leftarrow> io (GetVolumePath cl (rc_baseImagePool rc) (rd_BaseImage root));
        (case b of
           Inl err \<Rightarrow> if IsNotFound err then missing
                      else handleLibvirtError err ''getting base image path''
         | Inr backingPath \<Rightarrow> do {
             c \<leftarrow> io (CreateVolumeFromBackingStore cl (rc_storagePool rc) (rc_rootDiskVolume rc) backingPath
                        (q_Value (rd_Size root)));
             (case c of
                Some err \<Rightarrow> handleLibvirtError err ''creating root disk (copy-on-write)''
              | None \<Rightarrow> State_Monad.return None) }) }) }"

definition reconcileRootDisk :: "'w reconcileCtx \<Rightarrow> ('w mstate, go_error option \<times> 'w reconcileCtx) state" where
  "reconcileRootDisk rc = do {
     libvirtMachine \<leftarrow> get_machine;
     let cl = rc_libvirtClient rc;
     (err, ready) \<leftarrow> (if rd_EphemeralPool (lm_RootDisk libvirtMachine)
                    then ensure_ephemeral_pool rc libvirtMachine
                    else State_Monad.return (None, True));
     (if \<not> ready then State_Monad.return (err, rc)
      else do {
        let rc = (if rd_EphemeralPool (lm_RootDisk libvirtMachine)
                  then rc\<lparr>rc_storagePool := EphemeralPoolName (rc_machineScope rc)\<rparr> else rc);
        v \<leftarrow> io (VolumeExists cl (rc_storagePool rc) (rc_rootDiskVolume rc));
        (case v of
           Inl err \<Rightarrow> do {
             e \<leftarrow> handleLibvirtError err ''checking root disk'';
             State_Monad.return (e, rc) }
         | Inr rootExists \<Rightarrow>
             if rootExists then State_Monad.return (None, rc)
             else do {
               e \<leftarrow> create_root_disk rc libvirtMachine;
               State_Monad.return (e, rc) }) }) }"


section \<open>Bootstrap artifacts\<close>

definition network_config :: "NetworkSpec \<Rightarrow> NetworkConfig" where
  "network_config netSpec =
     \<lparr>nc_Addresses = elems (net_Addresses netSpec), nc_Gateway = net_Gateway netSpec,
      nc_DNSServers = (case net_DNS netSpec of None \<Rightarrow> [] | Some d \<Rightarrow> elems (dns_Nameservers d)),
      nc_DNSSearch = (case net_DNS netSpec of None \<Rightarrow> [] | Some d \<Rightarrow> elems (dns_SearchDomains d))\<rparr>"

text \<open>The ignition data with what could be injected; a failed injection keeps the data.\<close>

definition inject_bootstrap :: "json_lib \<Rightarrow> MachineScope \<Rightarrow> NetworkSpec \<Rightarrow> bytes \<Rightarrow> bytes" where
  "inject_bootstrap json sc netSpec bootstrapData =
     (let injected = (case InjectMachineMetadata json bootstrapData (DomainName sc) (ProviderID sc) of
                        Inl err \<Rightarrow> bootstrapData | Inr data \<Rightarrow> data) in
      if length (elems (net_Addresses netSpec)) > 0
      then (case InjectStaticNetwork json injected (network_config netSpec) of
              Inl err \<Rightarrow> injected | Inr data \<Rightarrow> data)
      else injected)"

definition reconcileBootstrapArtifacts ::
  "('w, 'ssh) machine_env \<Rightarrow> 'w reconcileCtx \<Rightarrow> ('w mstate, go_error option) state" where
  "reconcileBootstrapArtifacts env rc = do {
     libvirtMachine \<leftarrow> get_machine;
     let cl = rc_libvirtClient rc;
     b \<leftarrow> io (GetBootstrapData (me_GetSecret env) (rc_machineScope rc));
     (case b of
        Inl err \<Rightarrow> State_Monad.return (Some (Wrapf ''failed to get bootstrap data: '' err))
      | Inr bootstrapData \<Rightarrow>
          if ms_BootstrapFormat (lm_Spec libvirtMachine) = BootstrapFormatIgnition
          then do {
            w \<leftarrow> io (WriteRemoteFile cl (rc_ignitionFilePath rc)
                       (inject_bootstrap (me_json env) (rc_machineScope rc)
                          (ms_Network (lm_Spec libvirtMachine)) bootstrapData));
            (case w of
               Some err \<Rightarrow> handleLibvirtError err ''writing ignition file''
             | None \<Rightarrow> State_Monad.return None) }
          else if ms_BootstrapFormat (lm_Spec libvirtMachine) = BootstrapFormatCloudInit
          then do {
            e \<leftarrow> io (VolumeExists cl (rc_storagePool rc) (rc_bootstrapISO rc));
            (case e of
               Inl err \<Rightarrow> handleLibvirtError err ''checking bootstrap ISO''
             | Inr isoExists \<Rightarrow>
                 if isoExists then State_Monad.return None
                 else do {
                   i \<leftarrow> io (me_BuildCloudInitISO env bootstrapData (rc_domainName rc) (rc_domainName rc));
                   (case i of
                      Inl err \<Rightarrow> do {
                        setTerminalError ReasonInvalidBootstrapData
                          (''failed to build cloud-init ISO: '' @ error_string err);
                        State_Monad.return None }
                    | Inr isoData \<Rightarrow> do {
                        u \<leftarrow> io (UploadVolumeFromBytes cl (rc_storagePool rc) (rc_bootstrapISO rc) isoData);
                        (case u of
                           Some err \<Rightarrow> handleLibvirtError err ''uploading cloud-init ISO''
                         | None \<Rightarrow> State_Monad.return None) }) }) }
          else do {
            setTerminalError ReasonInvalidBootstrapData
              (''unsupported bootstrap format: '' @ ms_BootstrapFormat (lm_Spec libvirtMachine));
            State_Monad.return None }) }"


section \<open>Additional disks\<close>

fun ensure_disks ::
  "AdditionalDiskSpec list \<Rightarrow> 'w reconcileCtx \<Rightarrow> ('w mstate, go_error option \<times> 'w reconcileCtx) state" where
  "ensure_disks [] rc = State_Monad.return (None, rc)"
| "ensure_disks (disk # disks) rc = do {
     let cl = rc_libvirtClient rc;
     let volName = additionalDiskVolume (rc_machineScope rc) disk;
     let rc = rc\<lparr>rc_additionalDiskVolumes := rc_additionalDiskVolumes rc @ [volName]\<rparr>;
     let failed = (\<lambda>err operation. do {
           e \<leftarrow> handleLibvirtError err operation;
           State_Monad.return (e, rc) });
     v \<leftarrow> io (VolumeExists cl (ad_StoragePool disk) volName);
     (case v of
        Inl err \<Rightarrow> failed err ''checking additional disk''
      | Inr exists \<Rightarrow> do {
          c \<leftarrow> (if exists then State_Monad.return None
                else io (CreateVolume cl (ad_StoragePool disk) volName (q_Value (ad_Size disk))));
          (case c of
             Some err \<Rightarrow> failed err ''creating additional disk''
           | None \<Rightarrow> do {
               p \<leftarrow> io (GetVolumePath cl (ad_StoragePool disk) volName);
               (case p of
                  Inl err \<Rightarrow> failed err ''getting additional disk path''
                | Inr diskPath \<Rightarrow>
                    ensure_disks disks (rc\<lparr>rc_additionalDiskParams :=
                      rc_additionalDiskParams rc @ [\<lparr>dp_Path = diskPath, dp_Bus = ad_Bus disk\<rparr>]\<rparr>)) }) }) }"

definition reconcileAdditionalDisks ::
  "'w reconcileCtx \<Rightarrow> ('w mstate, go_error option \<times> 'w reconcileCtx) state" where
  "reconcileAdditionalDisks rc = do {
     libvirtMachine \<leftarrow> get_machine;
     ensure_disks (elems (ms_AdditionalDisks (lm_Spec libvirtMachine))) rc }"



section \<open>Boot artifacts\<close>

text \<open>\<^verbatim>\<open>path.Join\<close>\<close>

fun join_elems :: "string \<Rightarrow> string list \<Rightarrow> string" where
  "join_elems buf [] = buf"
| "join_elems buf (e # es) =
     join_elems (if buf \<noteq> '''' then buf @ ''/'' @ e else e) es"

definition path_Join :: "string list \<Rightarrow> string" where
  "path_Join es = (if concat es = '''' then '''' else filepath_Clean (join_elems '''' es))"

definition key_lines :: "(string \<times> string) list \<Rightarrow> string" where
  "key_lines kvs = concat (map (\<lambda>(k, v). k @ ''='' @ v @ [CHR 0x0A]) kvs)"

definition bootArtifactsCacheKey :: "(bytes \<Rightarrow> bytes) \<Rightarrow> BootArtifactsSource \<Rightarrow> string" where
  "bootArtifactsCacheKey sha src =
     hex_EncodeToString (sha
       (key_lines [(''type'', bas_Type src)] @
        (case bas_HTTPS src of None \<Rightarrow> '''' | Some h \<Rightarrow> key_lines
           [(''https.kernel'', ha_KernelURL h), (''https.initramfs'', ha_InitramfsURL h),
            (''https.kernel.sha256'', ha_KernelSHA256 h), (''https.initramfs.sha256'', ha_InitramfsSHA256 h)]) @
        (case bas_OCI src of None \<Rightarrow> '''' | Some x \<Rightarrow> key_lines
           [(''oci.ref'', oa_Reference x), (''oci.kernel.title'', oa_KernelLayerTitle x),
            (''oci.initramfs.title'', oa_InitramfsLayerTitle x), (''oci.kernel.sha256'', oa_KernelSHA256 x),
            (''oci.initramfs.sha256'', oa_InitramfsSHA256 x)]) @
        (case bas_S3 src of None \<Rightarrow> '''' | Some x \<Rightarrow> key_lines
           [(''s3.endpoint'', sa_Endpoint x), (''s3.region'', sa_Region x), (''s3.bucket'', sa_Bucket x),
            (''s3.kernel'', sa_KernelKey x), (''s3.initramfs'', sa_InitramfsKey x),
            (''s3.kernel.sha256'', sa_KernelSHA256 x), (''s3.initramfs.sha256'', sa_InitramfsSHA256 x)])))"

definition cache_load :: "string \<Rightarrow> ('w mstate, Artifacts option) state" where
  "cache_load key = State (\<lambda>s. (fmlookup (s_artifactCache s) key, s))"

definition cache_store :: "string \<Rightarrow> Artifacts \<Rightarrow> ('w mstate, unit) state" where
  "cache_store key a = State (\<lambda>s. ((), s\<lparr>s_artifactCache := fmupd key a (s_artifactCache s)\<rparr>))"

definition resolveCachedArtifacts ::
  "('w, 'ssh) machine_env \<Rightarrow> 'w Resolver \<Rightarrow> BootArtifactsSource \<Rightarrow> Credentials option \<Rightarrow>
   ('w mstate, go_error + Artifacts) state" where
  "resolveCachedArtifacts env resolve src creds = do {
     let key = bootArtifactsCacheKey (me_sha256 env) src;
     cached \<leftarrow> cache_load key;
     (case cached of
        Some artifacts \<Rightarrow> State_Monad.return (Inr artifacts)
      | None \<Rightarrow> do {
          r \<leftarrow> io (resolve src creds);
          (case r of
             Inl err \<Rightarrow> State_Monad.return (Inl err)
           | Inr artifacts \<Rightarrow> do {
               cache_store key artifacts;
               State_Monad.return (Inr artifacts) }) }) }"

definition ensureRemoteArtifact :: "'w Client \<Rightarrow> string \<Rightarrow> bytes \<Rightarrow> ('w, go_error option) state" where
  "ensureRemoteArtifact c remotePath data = do {
     e \<leftarrow> RemoteFileExists c remotePath;
     (case e of
        Inl err \<Rightarrow> State_Monad.return (Some err)
      | Inr exists \<Rightarrow> if exists then State_Monad.return None else WriteRemoteFile c remotePath data) }"

definition boot_kernel_path :: "BootArtifactsSpec \<Rightarrow> Artifacts \<Rightarrow> string" where
  "boot_kernel_path ba artifacts =
     path_Join [strings_TrimRight (ba_HostPath ba) (CHR ''/''), art_KernelSHA256 artifacts, ''vmlinuz'']"

definition boot_initrd_path :: "BootArtifactsSpec \<Rightarrow> Artifacts \<Rightarrow> string" where
  "boot_initrd_path ba artifacts =
     path_Join [strings_TrimRight (ba_HostPath ba) (CHR ''/''), art_InitramfsSHA256 artifacts, ''initramfs.img'']"

definition stage_boot_artifacts ::
  "'w reconcileCtx \<Rightarrow> BootArtifactsSpec \<Rightarrow> Artifacts \<Rightarrow> ('w mstate, go_error option \<times> 'w reconcileCtx) state" where
  "stage_boot_artifacts rc ba artifacts = do {
     let cl = rc_libvirtClient rc;
     let kernelPath = boot_kernel_path ba artifacts;
     let initrdPath = boot_initrd_path ba artifacts;
     k \<leftarrow> io (ensureRemoteArtifact cl kernelPath (art_KernelBytes artifacts));
     (case k of
        Some err \<Rightarrow> do {
          e \<leftarrow> handleLibvirtError err ''staging boot kernel'';
          State_Monad.return (e, rc) }
      | None \<Rightarrow> do {
          i \<leftarrow> io (ensureRemoteArtifact cl initrdPath (art_InitramfsBytes artifacts));
          (case i of
             Some err \<Rightarrow> do {
               e \<leftarrow> handleLibvirtError err ''staging boot initramfs'';
               State_Monad.return (e, rc) }
           | None \<Rightarrow> State_Monad.return (None, rc\<lparr>rc_kernelPath := kernelPath,
                rc_initrdPath := initrdPath, rc_kernelCmdline := ba_KernelArgs ba\<rparr>)) }) }"

definition reconcileBootArtifacts ::
  "('w, 'ssh) machine_env \<Rightarrow> 'w reconcileCtx \<Rightarrow> ('w mstate, go_error option \<times> 'w reconcileCtx) state" where
  "reconcileBootArtifacts env rc =
     (case rc_libvirtCluster rc of
        None \<Rightarrow> State_Monad.return (None, rc)
      | Some libvirtCluster \<Rightarrow>
     (case cs_BootArtifacts (lc_Spec libvirtCluster) of
        None \<Rightarrow> State_Monad.return (None, rc)
      | Some ba \<Rightarrow>
     (case me_BootArtifactsResolver env of
        None \<Rightarrow> State_Monad.return (Some (ErrorText ''bootArtifacts requested but no resolver is wired''), rc)
      | Some resolve \<Rightarrow> do {
          c \<leftarrow> io (resolveBootArtifactsCredentials (me_docker env) (me_GetSecret env) libvirtCluster (ba_Source ba));
          (case c of
             Inl err \<Rightarrow> State_Monad.return (Some (Wrapf ''resolving boot artifacts credentials: '' err), rc)
           | Inr creds \<Rightarrow> do {
               a \<leftarrow> resolveCachedArtifacts env resolve (ba_Source ba) creds;
               (case a of
                  Inl err \<Rightarrow> State_Monad.return (Some (Wrapf ''resolving boot artifacts: '' err), rc)
                | Inr artifacts \<Rightarrow> stage_boot_artifacts rc ba artifacts) }) })))"


section \<open>Domain\<close>

definition domain_error :: "go_error \<Rightarrow> string \<Rightarrow> ('w mstate, go_error + 'a option) state" where
  "domain_error err operation = do {
     e \<leftarrow> handleLibvirtError err operation;
     State_Monad.return (case e of Some x \<Rightarrow> Inl x | None \<Rightarrow> Inr None) }"

definition domain_params ::
  "'w reconcileCtx \<Rightarrow> LibvirtMachine \<Rightarrow> string \<Rightarrow> string \<Rightarrow> string \<Rightarrow> DomainXMLParams" where
  "domain_params rc libvirtMachine rootDiskPath ignitionPath isoPath =
     (let spec = lm_Spec libvirtMachine; host = lh_Spec (rc_libvirtHost rc) in
      \<lparr>px_Name = rc_domainName rc, px_UUID = '''', px_VCPUs = rc_resolvedVCPUs rc,
       px_MemoryKB = scast (rc_resolvedMemoryMB rc) * memoryMBToKBMultiplier,
       px_Machine = dom_Machine (ms_Domain spec), px_Firmware = dom_Firmware (ms_Domain spec),
       px_FirmwarePath = hs_FirmwarePath host, px_NVRAMPath = rc_nvramPath rc,
       px_NVRAMTemplate = hs_NVRAMTemplatePath host, px_RootDiskPath = rootDiskPath,
       px_RootDiskBus = rd_Bus (ms_RootDisk spec), px_IgnitionPath = ignitionPath,
       px_BootstrapISOPath = isoPath, px_AdditionalDisks = rc_additionalDiskParams rc,
       px_NetworkType = net_Type (ms_Network spec), px_NetworkName = net_Name (ms_Network spec),
       px_NetworkModel = net_Model (ms_Network spec), px_MACAddress = net_MACAddress (ms_Network spec),
       px_KernelPath = rc_kernelPath rc, px_InitrdPath = rc_initrdPath rc,
       px_KernelCmdline = rc_kernelCmdline rc\<rparr>)"

text \<open>Defining the domain; \<open>Inr False\<close> is the case where a terminal error was recorded.\<close>

definition define_domain ::
  "'w reconcileCtx \<Rightarrow> LibvirtMachine \<Rightarrow> ('w mstate, go_error + bool) state" where
  "define_domain rc libvirtMachine = do {
     let cl = rc_libvirtClient rc;
     let format = ms_BootstrapFormat (lm_Spec libvirtMachine);
     let failed = (\<lambda>err operation. do {
           e \<leftarrow> handleLibvirtError err operation;
           State_Monad.return (case e of Some x \<Rightarrow> Inl x | None \<Rightarrow> Inr False) });
     let define = (\<lambda>params. (case GenerateDomainXML params of
             Inl err \<Rightarrow> do {
               setTerminalError ReasonSpecMismatch (''failed to generate domain XML: '' @ error_string err);
               State_Monad.return (Inr False) }
           | Inr xmlDef \<Rightarrow> do {
               d \<leftarrow> io (DefineDomain cl xmlDef);
               (case d of
                  Inl err \<Rightarrow> failed err ''defining domain''
                | Inr _ \<Rightarrow> State_Monad.return (Inr True)) }));
     p \<leftarrow> io (GetVolumePath cl (rc_storagePool rc) (rc_rootDiskVolume rc));
     (case p of
        Inl err \<Rightarrow> failed err ''getting root disk path''
      | Inr rootDiskPath \<Rightarrow>
          if format = BootstrapFormatIgnition
          then define (domain_params rc libvirtMachine rootDiskPath (rc_ignitionFilePath rc) '''')
          else if format = BootstrapFormatCloudInit
          then do {
            i \<leftarrow> io (GetVolumePath cl (rc_storagePool rc) (rc_bootstrapISO rc));
            (case i of
               Inl err \<Rightarrow> failed err ''getting cloud-init ISO path''
             | Inr isoPath \<Rightarrow> define (domain_params rc libvirtMachine rootDiskPath '''' isoPath)) }
          else define (domain_params rc libvirtMachine rootDiskPath '''' '''')) }"

definition start_domain :: "'w reconcileCtx \<Rightarrow> ('w mstate, go_error + DomainInfo option) state" where
  "start_domain rc = do {
     let cl = rc_libvirtClient rc;
     g \<leftarrow> io (GetDomain cl (rc_domainName rc));
     (case g of
        Inl err \<Rightarrow> domain_error err ''getting domain info''
      | Inr domainInfo \<Rightarrow>
          if di_State domainInfo \<noteq> ''running''
          then do {
            s \<leftarrow> io (StartDomain cl (rc_domainName rc));
            (case s of
               Some err \<Rightarrow> domain_error err ''starting domain''
             | None \<Rightarrow> do {
                 g2 \<leftarrow> io (GetDomain cl (rc_domainName rc));
                 (case g2 of
                    Inl err \<Rightarrow> domain_error err ''getting domain info after start''
                  | Inr info \<Rightarrow> State_Monad.return (Inr (Some info))) }) }
          else State_Monad.return (Inr (Some domainInfo))) }"

definition reconcileDomain :: "'w reconcileCtx \<Rightarrow> ('w mstate, go_error + DomainInfo option) state" where
  "reconcileDomain rc = do {
     libvirtMachine \<leftarrow> get_machine;
     x \<leftarrow> io (DomainExists (rc_libvirtClient rc) (rc_domainName rc));
     (case x of
        Inl err \<Rightarrow> domain_error err ''checking domain''
      | Inr domainExists \<Rightarrow> do {
          d \<leftarrow> (if domainExists then State_Monad.return (Inr True) else define_domain rc libvirtMachine);
          (case d of
             Inl err \<Rightarrow> State_Monad.return (Inl err)
           | Inr defined \<Rightarrow> if defined then start_domain rc else State_Monad.return (Inr None)) }) }"

end
