(* ===== verification/Node_Labels.thy ===== *)
theory Node_Labels
  imports Machine_Env "HOL-Library.List_Lexorder" "HOL-Library.Char_ord"
begin

text \<open>
  \<^verbatim>\<open>reconcileNodeLabels\<close>, \<^verbatim>\<open>formatManagedKeys\<close> and \<^verbatim>\<open>parseManagedKeys\<close> of
  \<^verbatim>\<open>internal/controller/libvirtmachine_controller.go\<close>: the labels and annotations a machine
  declares for its Node, and the two annotations in which the controller remembers which keys
  are its own.
\<close>

section \<open>The lists of managed keys\<close>

definition formatManagedKeys :: "(string, string) fmap \<Rightarrow> string" where
  "formatManagedKeys m = strings_Join (sorted_list_of_fset (fmdom m)) '',''"

definition parseManagedKeys :: "string \<Rightarrow> string list" where
  "parseManagedKeys s = (if s = '''' then [] else filter (\<lambda>p. p \<noteq> '''') (strings_Split (CHR '','') s))"


section \<open>A Node brought up to date\<close>

text \<open>The keys of the last time that are no longer desired go, the desired ones are copied
  over what is there.\<close>

definition drop_stale :: "string list \<Rightarrow> (string, string) fmap \<Rightarrow> (string, string) fmap \<Rightarrow> (string, string) fmap" where
  "drop_stale prev desired current =
     fold (\<lambda>k m. if fmlookup desired k = None then fmdrop k m else m) prev current"

definition sync_keys :: "string list \<Rightarrow> (string, string) fmap \<Rightarrow> (string, string) fmap \<Rightarrow> (string, string) fmap" where
  "sync_keys prev desired current = fmadd (drop_stale prev desired current) desired"

definition annotation_of :: "Node \<Rightarrow> string \<Rightarrow> string" where
  "annotation_of node k = (case fmlookup (node_Annotations node) k of None \<Rightarrow> '''' | Some v \<Rightarrow> v)"

definition record_keys :: "string \<Rightarrow> (string, string) fmap \<Rightarrow> (string, string) fmap \<Rightarrow> (string, string) fmap" where
  "record_keys key desired anns =
     (if desired \<noteq> fmempty then fmupd key (formatManagedKeys desired) anns else fmdrop key anns)"

definition label_node :: "(string, string) fmap \<Rightarrow> (string, string) fmap \<Rightarrow> Node \<Rightarrow> Node" where
  "label_node desiredLabels desiredAnnotations node =
     (let prevLabelKeys = parseManagedKeys (annotation_of node ManagedNodeLabelsAnnotation);
          prevAnnotationKeys = parseManagedKeys (annotation_of node ManagedNodeAnnotationsAnnotation)
      in node\<lparr>
        node_Labels := sync_keys prevLabelKeys desiredLabels (node_Labels node),
        node_Annotations :=
          record_keys ManagedNodeAnnotationsAnnotation desiredAnnotations
            (record_keys ManagedNodeLabelsAnnotation desiredLabels
               (sync_keys prevAnnotationKeys desiredAnnotations (node_Annotations node)))\<rparr>)"


section \<open>The step\<close>

definition reconcileNodeLabels ::
  "('w, 'ssh) machine_env \<Rightarrow> string \<Rightarrow> ('w mstate, go_error + Result) state" where
  "reconcileNodeLabels env nodeName = do {
     libvirtMachine \<leftarrow> get_machine;
     let desiredLabels = entries (ms_NodeLabels (lm_Spec libvirtMachine));
     let desiredAnnotations = entries (ms_NodeAnnotations (lm_Spec libvirtMachine));
     (if desiredLabels = fmempty \<and> desiredAnnotations = fmempty
      then do {
        set_machine (\<lambda>m. m\<lparr>lm_Status := (lm_Status m)\<lparr>st_Conditions :=
          me_RemoveStatusCondition env (st_Conditions (lm_Status m)) NodeLabelledCondition\<rparr>\<rparr>);
        State_Monad.return (Inr empty_result) }
      else do {
        g \<leftarrow> io (me_GetNode env nodeName);
        (case g of
           Inl err \<Rightarrow>
             if apierrors_IsNotFound err
             then do {
               set_condition env NodeLabelledCondition ConditionFalse ReasonNodeNotJoined
                 (''waiting for Node '' @ fmt_q nodeName @ '' to join the cluster'');
               State_Monad.return (Inr \<lparr>RequeueAfter = nodeJoinRequeueInterval\<rparr>) }
             else State_Monad.return (Inl (Wrapf (''failed to get Node '' @ fmt_q nodeName @ '': '') err))
         | Inr node \<Rightarrow> do {
             p \<leftarrow> io (me_PatchNode env node (label_node desiredLabels desiredAnnotations node));
             (case p of
                Some err \<Rightarrow> State_Monad.return
                  (Inl (Wrapf (''failed to patch Node '' @ fmt_q nodeName @ '': '') err))
              | None \<Rightarrow> do {
                  set_condition env NodeLabelledCondition ConditionTrue ReasonNodeLabelled
                    ''Node labels and annotations applied'';
                  State_Monad.return (Inr empty_result) }) }) }) }"


section \<open>Keys and their lists\<close>

text \<open>What Kubernetes guarantees of a label or annotation key: it is not empty and has no comma.\<close>

definition key_names :: "(string, string) fmap \<Rightarrow> bool" where
  "key_names m = fBall (fmdom m) (\<lambda>k. k \<noteq> '''' \<and> CHR '','' \<notin> set k)"

lemma parse_format:
  assumes "key_names m"
  shows "parseManagedKeys (formatManagedKeys m) = sorted_list_of_fset (fmdom m)"
proof (cases "sorted_list_of_fset (fmdom m) = []")
  case True
  then show ?thesis by (simp add: formatManagedKeys_def parseManagedKeys_def)
next
  case False
  let ?ks = "sorted_list_of_fset (fmdom m)"
  have keys: "\<forall>k \<in> set ?ks. k \<noteq> '''' \<and> CHR '','' \<notin> set k"
    using assms by (auto simp: key_names_def)
  have split: "strings_Split (CHR '','') (strings_Join ?ks '','') = ?ks"
    using Split_Join [OF False] keys by blast
  have "strings_Join ?ks '','' \<noteq> ''''"
    using split keys False by (metis list.set_intros(1) strings_Split.simps(1))
  then show ?thesis
    unfolding formatManagedKeys_def parseManagedKeys_def split using keys by (simp add: filter_id_conv)
qed

lemma lookup_drop_stale:
  "fmlookup (drop_stale prev desired current) k =
     (if k \<in> set prev \<and> fmlookup desired k = None then None else fmlookup current k)"
  unfolding drop_stale_def by (induction prev arbitrary: current) auto

lemma lookup_sync_keys:
  "fmlookup (sync_keys prev desired current) k =
     (case fmlookup desired k of
        Some v \<Rightarrow> Some v
      | None \<Rightarrow> if k \<in> set prev then None else fmlookup current k)"
  by (simp add: sync_keys_def lookup_drop_stale fmlookup_dom_iff split: option.splits)

lemma lookup_record_keys:
  "fmlookup (record_keys key desired anns) k =
     (if k = key then if desired = fmempty then None else Some (formatManagedKeys desired)
      else fmlookup anns k)"
  by (simp add: record_keys_def)

lemma format_empty [simp]: "formatManagedKeys fmempty = ''''"
  by (simp add: formatManagedKeys_def sorted_list_of_fset.rep_eq)

lemma recorded_keys:
  "annotation_of (label_node labels anns node) ManagedNodeLabelsAnnotation = formatManagedKeys labels"
  "annotation_of (label_node labels anns node) ManagedNodeAnnotationsAnnotation = formatManagedKeys anns"
  by (simp_all add: annotation_of_def label_node_def Let_def lookup_record_keys)

lemma set_parse_format: "key_names m \<Longrightarrow> k \<in> set (parseManagedKeys (formatManagedKeys m)) \<longleftrightarrow> k |\<in>| fmdom m"
  by (simp add: parse_format)


section \<open>Properties\<close>

text \<open>The keys of a map written to the annotation of a Node are read back from it, each
  once and in order, for keys that are not empty and have no comma.\<close>

theorem managed_keys_roundtrip:
  assumes "key_names m"
  shows "set (parseManagedKeys (formatManagedKeys m)) = fset (fmdom m) \<and>
    distinct (parseManagedKeys (formatManagedKeys m)) \<and> sorted (parseManagedKeys (formatManagedKeys m))"
  unfolding parse_format [OF assms] by (simp add: sorted_list_of_fset.rep_eq)

theorem managed_keys_roundtrip_witness:
  "set (parseManagedKeys (formatManagedKeys (fmap_of_list [(''b/x'', ''1''), (''a'', '''')]))) = {''a'', ''b/x''}"
  using managed_keys_roundtrip [of "fmap_of_list [(''b/x'', ''1''), (''a'', '''')]"]
  by (simp add: key_names_def insert_commute)

text \<open>C40: ownership of the labels and annotations of a Node across two reconciliations, the
  first for some declared keys and the second for others. A key that neither of them declares
  and that the controller had not written before keeps the value the administrator gave it. A
  declared key has its declared value. A key the first declared and the second does not is
  gone. The two annotations that list the controller's keys are its own.\<close>

theorem node_key_ownership:
  assumes "key_names l1" "key_names a1"
    and "k \<noteq> ManagedNodeLabelsAnnotation" "k \<noteq> ManagedNodeAnnotationsAnnotation"
  shows
    "fmlookup (node_Labels (label_node l2 a2 (label_node l1 a1 node))) k =
       (case fmlookup l2 k of
          Some v \<Rightarrow> Some v
        | None \<Rightarrow> if k |\<in>| fmdom l1 \<or> k \<in> set (parseManagedKeys (annotation_of node ManagedNodeLabelsAnnotation))
                  then None else fmlookup (node_Labels node) k) \<and>
     fmlookup (node_Annotations (label_node l2 a2 (label_node l1 a1 node))) k =
       (case fmlookup a2 k of
          Some v \<Rightarrow> Some v
        | None \<Rightarrow> if k |\<in>| fmdom a1 \<or> k \<in> set (parseManagedKeys (annotation_of node ManagedNodeAnnotationsAnnotation))
                  then None else fmlookup (node_Annotations node) k)"
proof -
  have labels: "fmlookup (node_Labels (label_node l a n)) k =
      fmlookup (sync_keys (parseManagedKeys (annotation_of n ManagedNodeLabelsAnnotation)) l (node_Labels n)) k"
    for l a n by (simp add: label_node_def Let_def)
  have anns: "fmlookup (node_Annotations (label_node l a n)) k =
      fmlookup (sync_keys (parseManagedKeys (annotation_of n ManagedNodeAnnotationsAnnotation)) a (node_Annotations n)) k"
    for l a n using assms(3,4) by (simp add: label_node_def Let_def lookup_record_keys)
  show ?thesis
    unfolding labels anns recorded_keys lookup_sync_keys set_parse_format [OF assms(1)] set_parse_format [OF assms(2)]
    by (auto simp: fmlookup_dom_iff split: option.splits)
qed


definition example_node :: Node where
  "example_node =
     \<lparr>node_Name = ''n0'', node_Labels = fmap_of_list [(''admin'', ''yes''), (''role'', ''x'')],
      node_Annotations = fmempty\<rparr>"

theorem node_key_ownership_witness:
  "fmlookup (node_Labels (label_node fmempty (fmap_of_list [(''note'', ''2'')])
      (label_node (fmap_of_list [(''role'', ''worker'')]) fmempty example_node))) ''admin'' = Some ''yes'' \<and>
   fmlookup (node_Labels (label_node fmempty (fmap_of_list [(''note'', ''2'')])
      (label_node (fmap_of_list [(''role'', ''worker'')]) fmempty example_node))) ''role'' = None"
  using node_key_ownership [of "fmap_of_list [(''role'', ''worker'')]" fmempty "''admin''" fmempty
      "fmap_of_list [(''note'', ''2'')]" example_node]
    node_key_ownership [of "fmap_of_list [(''role'', ''worker'')]" fmempty "''role''" fmempty
      "fmap_of_list [(''note'', ''2'')]" example_node]
  by (simp add: key_names_def example_node_def fmlookup_of_list annotation_of_def parseManagedKeys_def)

end
