(* ===== verification/Machine_Controller.thy ===== *)
theory Machine_Controller
  imports Machine_Steps Node_Labels
begin

text \<open>
  \<^verbatim>\<open>Reconcile\<close>, \<^verbatim>\<open>reconcileNormal\<close> and \<^verbatim>\<open>reconcileDelete\<close> of
  \<^verbatim>\<open>internal/controller/libvirtmachine_controller.go\<close>: how the steps are composed, what is
  recorded of a machine that is up, and how a machine is taken down.
\<close>

section \<open>reconcileNormal\<close>

definition add_finalizer :: "('w, 'ssh) machine_env \<Rightarrow> ('w mstate, unit) state" where
  "add_finalizer env = set_machine (\<lambda>m.
     if me_ContainsFinalizer env (om_Finalizers (lm_Meta m)) MachineFinalizer then m
     else m\<lparr>lm_Meta := (lm_Meta m)\<lparr>om_Finalizers :=
            me_AddFinalizer env (om_Finalizers (lm_Meta m)) MachineFinalizer\<rparr>\<rparr>)"

definition new_ctx ::
  "('w, 'ssh) machine_env \<Rightarrow> MachineScope \<Rightarrow> 'w Client \<Rightarrow> int32 \<Rightarrow> int32 \<Rightarrow> 'w reconcileCtx" where
  "new_ctx env sc cl vcpus memoryMB =
     (let root = lm_RootDisk (sc_LibvirtMachine sc); host = sc_LibvirtHost sc in
      \<lparr>rc_libvirtCluster = Some (sc_LibvirtCluster sc), rc_machine = sc_Machine sc, rc_libvirtHost = host,
       rc_machineScope = sc, rc_libvirtClient = cl, rc_resolvedVCPUs = vcpus, rc_resolvedMemoryMB = memoryMB,
       rc_storagePool = rd_StoragePool root,
       rc_baseImagePool = (if rd_BaseImagePool root = '''' then rd_StoragePool root else rd_BaseImagePool root),
       rc_domainName = DomainName sc, rc_rootDiskVolume = RootDiskVolumeName sc,
       rc_bootstrapISO = BootstrapISOName sc,
       rc_nvramPath = (case LocalConnectionURI (me_url_Parse env) (hs_URI (lh_Spec host)) of
                         Inl err \<Rightarrow> NVRAMPath sc
                       | Inr connURI \<Rightarrow> if connURI = ConnURISession then '''' else NVRAMPath sc),
       rc_ignitionFilePath = IgnitionFilePath sc, rc_additionalDiskVolumes = [],
       rc_additionalDiskParams = [], rc_kernelPath = '''', rc_initrdPath = '''', rc_kernelCmdline = ''''\<rparr>)"

definition managed_artifacts :: "LibvirtMachine \<Rightarrow> 'w reconcileCtx \<Rightarrow> ManagedArtifacts" where
  "managed_artifacts libvirtMachine rc =
     (let format = ms_BootstrapFormat (lm_Spec libvirtMachine) in
      \<lparr>ma_DomainName = rc_domainName rc, ma_RootDiskVolume = rc_rootDiskVolume rc,
       ma_BootstrapISO = (if format = BootstrapFormatCloudInit then rc_bootstrapISO rc else ''''),
       ma_IgnitionFile = (if format = BootstrapFormatIgnition then rc_ignitionFilePath rc else ''''),
       ma_NVRAMPath = rc_nvramPath rc,
       ma_EphemeralPoolName = (if rd_EphemeralPool (lm_RootDisk libvirtMachine)
                               then EphemeralPoolName (rc_machineScope rc) else ''''),
       ma_AdditionalDiskVolumes = rc_additionalDiskVolumes rc\<rparr>)"

text \<open>The update of spec and status once the domain is there.\<close>

definition record_ready ::
  "('w, 'ssh) machine_env \<Rightarrow> 'w reconcileCtx \<Rightarrow> DomainInfo \<Rightarrow> ('w mstate, unit) state" where
  "record_ready env rc domainInfo = do {
     set_machine (\<lambda>m. m\<lparr>
       lm_Spec := (lm_Spec m)\<lparr>ms_ProviderID := Some (ProviderID (rc_machineScope rc))\<rparr>,
       lm_Status := (lm_Status m)\<lparr>
         st_Addresses := GetAddresses (rc_machineScope rc),
         st_ManagedArtifacts := Some (managed_artifacts m rc),
         st_DomainState := di_State domainInfo,
         st_DomainUUID := di_UUID domainInfo,
         st_Ready := True\<rparr>\<rparr>);
     set_condition env InfrastructureReadyCondition ConditionTrue ReasonProvisioned
       ''Machine infrastructure is ready'' }"

text \<open>The steps from the root disk on, each of which ends the reconciliation with its error.\<close>

definition provision ::
  "('w, 'ssh) machine_env \<Rightarrow> 'w reconcileCtx \<Rightarrow> ('w mstate, go_error + ('w reconcileCtx \<times> DomainInfo) option) state" where
  "provision env rc = do {
     b \<leftarrow> reconcileBaseImage env rc;
     (case b of Some err \<Rightarrow> State_Monad.return (Inl err) | None \<Rightarrow> do {
     (r, rc) \<leftarrow> reconcileRootDisk rc;
     (case r of Some err \<Rightarrow> State_Monad.return (Inl err) | None \<Rightarrow> do {
     s \<leftarrow> reconcileBootstrapArtifacts env rc;
     (case s of Some err \<Rightarrow> State_Monad.return (Inl err) | None \<Rightarrow> do {
     (a, rc) \<leftarrow> reconcileAdditionalDisks rc;
     (case a of Some err \<Rightarrow> State_Monad.return (Inl err) | None \<Rightarrow> do {
     (k, rc) \<leftarrow> reconcileBootArtifacts env rc;
     (case k of Some err \<Rightarrow> State_Monad.return (Inl err) | None \<Rightarrow> do {
     d \<leftarrow> reconcileDomain rc;
     State_Monad.return (case d of
       Inl err \<Rightarrow> Inl err
     | Inr None \<Rightarrow> Inr None
     | Inr (Some domainInfo) \<Rightarrow> Inr (Some (rc, domainInfo))) }) }) }) }) }) }"

definition reconcile_steps ::
  "('w, 'ssh) machine_env \<Rightarrow> 'w reconcileCtx \<Rightarrow> ('w mstate, go_error + Result) state" where
  "reconcile_steps env rc = do {
     preflightSessionMode env rc;
     m1 \<leftarrow> get_machine;
     (if st_FailureReason (lm_Status m1) \<noteq> None then State_Monad.return (Inr empty_result)
      else do {
        p \<leftarrow> preflightPools env rc;
        (case p of
           Some err \<Rightarrow> State_Monad.return (Inl err)
         | None \<Rightarrow> do {
             m2 \<leftarrow> get_machine;
             (if st_FailureReason (lm_Status m2) \<noteq> None then State_Monad.return (Inr empty_result)
              else do {
                d \<leftarrow> provision env rc;
                (case d of
                   Inl err \<Rightarrow> State_Monad.return (Inl err)
                 | Inr None \<Rightarrow> State_Monad.return (Inr empty_result)
                 | Inr (Some (rc', domainInfo)) \<Rightarrow> do {
                     record_ready env rc' domainInfo;
                     reconcileNodeLabels env (DomainName (rc_machineScope rc')) }) }) }) }) }"

definition reconcileNormal ::
  "('w, 'ssh) machine_env \<Rightarrow> Machine \<Rightarrow> Cluster \<Rightarrow> LibvirtCluster \<Rightarrow> LibvirtHost \<Rightarrow>
   ('w mstate, go_error + Result) state" where
  "reconcileNormal env machine cluster libvirtCluster libvirtHost = do {
     add_finalizer env;
     (if \<not> hst_Ready (lh_Status libvirtHost)
      then do {
        set_condition env HostReachableForMachineCondition ConditionFalse ReasonHostNotReady
          ''LibvirtHost is not ready'';
        State_Monad.return (Inr \<lparr>RequeueAfter = hostNotReadyRequeueInterval\<rparr>) }
      else do {
        c \<leftarrow> io (createClients env libvirtHost);
        (case c of
           Inl err \<Rightarrow> State_Monad.return (Inl (Wrapf ''failed to create clients: '' err))
         | Inr (sshClient, libvirtClient) \<Rightarrow> closing env sshClient (do {
             b \<leftarrow> ensureBootstrapData env machine;
             (case b of
                Some result \<Rightarrow> State_Monad.return result
              | None \<Rightarrow> do {
                  libvirtMachine \<leftarrow> get_machine;
                  (case NewMachineScope \<lparr>sp_Client = True, sp_Cluster = Some cluster, sp_Machine = Some machine,
                          sp_LibvirtCluster = Some libvirtCluster, sp_LibvirtMachine = Some libvirtMachine,
                          sp_LibvirtHost = Some libvirtHost\<rparr> of
                     Inl err \<Rightarrow> State_Monad.return (Inl (Wrapf ''failed to create machine scope: '' err))
                   | Inr machineScope \<Rightarrow> do {
                       z \<leftarrow> resolveAutoSizing libvirtHost;
                       (case z of
                          Inl result \<Rightarrow> State_Monad.return (Inr result)
                        | Inr (vcpus, memoryMB) \<Rightarrow>
                            reconcile_steps env (new_ctx env machineScope libvirtClient vcpus memoryMB)) }) }) })) }) }"


section \<open>reconcileDelete\<close>

text \<open>A removal that fails ends the cleanup, unless the object is gone already.\<close>

definition removal :: "string \<Rightarrow> ('w, go_error option) state \<Rightarrow> ('w mstate, go_error option) state" where
  "removal message m = do {
     r \<leftarrow> io m;
     State_Monad.return (case r of
       None \<Rightarrow> None
     | Some err \<Rightarrow> if IsNotFound err then None else Some (Wrapf message err)) }"

fun delete_disks ::
  "'w Client \<Rightarrow> MachineScope \<Rightarrow> AdditionalDiskSpec list \<Rightarrow> ('w mstate, go_error option) state" where
  "delete_disks cl sc [] = State_Monad.return None"
| "delete_disks cl sc (disk # disks) = do {
     let volName = additionalDiskVolume sc disk;
     e \<leftarrow> removal (''failed to delete additional disk '' @ volName @ '': '')
            (DeleteVolume cl (ad_StoragePool disk) volName);
     (case e of Some err \<Rightarrow> State_Monad.return (Some err) | None \<Rightarrow> delete_disks cl sc disks) }"

definition delete_bootstrap ::
  "'w Client \<Rightarrow> MachineScope \<Rightarrow> string \<Rightarrow> ('w mstate, go_error option) state" where
  "delete_bootstrap cl sc storagePool =
     (let format = ms_BootstrapFormat (lm_Spec (sc_LibvirtMachine sc)) in
      if format = BootstrapFormatIgnition
      then do {
        _ \<leftarrow> io (DeleteRemoteFile cl (IgnitionFilePath sc));
        State_Monad.return None }
      else if format = BootstrapFormatCloudInit
      then removal ''failed to delete cloud-init ISO: '' (DeleteVolume cl storagePool (BootstrapISOName sc))
      else State_Monad.return None)"

definition delete_artifacts :: "'w Client \<Rightarrow> MachineScope \<Rightarrow> ('w mstate, go_error option) state" where
  "delete_artifacts cl sc = do {
     let root = lm_RootDisk (sc_LibvirtMachine sc);
     let storagePool = (if rd_EphemeralPool root then EphemeralPoolName sc else rd_StoragePool root);
     e1 \<leftarrow> removal ''failed to destroy domain: '' (DestroyDomain cl (DomainName sc));
     (case e1 of Some err \<Rightarrow> State_Monad.return (Some err) | None \<Rightarrow> do {
     e2 \<leftarrow> removal ''failed to undefine domain: '' (UndefineDomain cl (DomainName sc));
     (case e2 of Some err \<Rightarrow> State_Monad.return (Some err) | None \<Rightarrow> do {
     e3 \<leftarrow> removal ''failed to delete root disk: '' (DeleteVolume cl storagePool (RootDiskVolumeName sc));
     (case e3 of Some err \<Rightarrow> State_Monad.return (Some err) | None \<Rightarrow> do {
     e4 \<leftarrow> delete_bootstrap cl sc storagePool;
     (case e4 of Some err \<Rightarrow> State_Monad.return (Some err) | None \<Rightarrow> do {
     e5 \<leftarrow> delete_disks cl sc (elems (ms_AdditionalDisks (lm_Spec (sc_LibvirtMachine sc))));
     (case e5 of Some err \<Rightarrow> State_Monad.return (Some err) | None \<Rightarrow>
       if rd_EphemeralPool root
       then removal ''failed to destroy ephemeral pool: '' (DestroyPool cl (EphemeralPoolName sc))
       else State_Monad.return None) }) }) }) }) }"

definition delete_node :: "('w, 'ssh) machine_env \<Rightarrow> string \<Rightarrow> ('w mstate, unit) state" where
  "delete_node env nodeName = do {
     g \<leftarrow> io (me_GetNode env nodeName);
     (case g of
        Inl err \<Rightarrow> State_Monad.return ()
      | Inr node \<Rightarrow> do {
          _ \<leftarrow> io (me_DeleteNode env node);
          State_Monad.return () }) }"

definition remove_finalizer :: "('w, 'ssh) machine_env \<Rightarrow> ('w mstate, unit) state" where
  "remove_finalizer env = set_machine (\<lambda>m. m\<lparr>lm_Meta := (lm_Meta m)\<lparr>om_Finalizers :=
     me_RemoveFinalizer env (om_Finalizers (lm_Meta m)) MachineFinalizer\<rparr>\<rparr>)"

abbreviation "empty_machine \<equiv>
  \<lparr>mc_Namespace = '''', mc_DataSecretName = None,
   mc_InfrastructureRef = \<lparr>ir_Kind = '''', ir_Namespace = '''', ir_Name = ''''\<rparr>, mc_Labels = fmempty\<rparr>"

definition reconcileDelete ::
  "('w, 'ssh) machine_env \<Rightarrow> Cluster \<Rightarrow> LibvirtCluster \<Rightarrow> LibvirtHost \<Rightarrow> ('w mstate, go_error + Result) state" where
  "reconcileDelete env cluster libvirtCluster libvirtHost = do {
     libvirtMachine \<leftarrow> get_machine;
     (if \<not> me_ContainsFinalizer env (om_Finalizers (lm_Meta libvirtMachine)) MachineFinalizer
      then State_Monad.return (Inr empty_result)
      else if \<not> hst_Ready (lh_Status libvirtHost)
      then do {
        set_condition env CleanupStalledCondition ConditionTrue ReasonCleanupStalled
          ''Cannot clean up: LibvirtHost is not reachable'';
        State_Monad.return (Inr \<lparr>RequeueAfter = cleanupStalledRequeueInterval\<rparr>) }
      else do {
        c \<leftarrow> io (createClients env libvirtHost);
        (case c of
           Inl err \<Rightarrow> do {
             set_condition env CleanupStalledCondition ConditionTrue ReasonCleanupStalled
               (''Cannot clean up: '' @ error_string err);
             State_Monad.return (Inr \<lparr>RequeueAfter = cleanupStalledRequeueInterval\<rparr>) }
         | Inr (sshClient, libvirtClient) \<Rightarrow> closing env sshClient
             (case NewMachineScope \<lparr>sp_Client = True, sp_Cluster = Some cluster, sp_Machine = Some empty_machine,
                     sp_LibvirtCluster = Some libvirtCluster, sp_LibvirtMachine = Some libvirtMachine,
                     sp_LibvirtHost = Some libvirtHost\<rparr> of
                Inl err \<Rightarrow> State_Monad.return (Inl (Wrapf ''failed to create machine scope for cleanup: '' err))
              | Inr machineScope \<Rightarrow> do {
                  e \<leftarrow> delete_artifacts libvirtClient machineScope;
                  (case e of
                     Some err \<Rightarrow> State_Monad.return (Inl err)
                   | None \<Rightarrow> do {
                       delete_node env (DomainName machineScope);
                       remove_finalizer env;
                       State_Monad.return (Inr empty_result) }) })) }) }"


section \<open>Reconcile\<close>

definition reconcile_machine ::
  "('w, 'ssh) machine_env \<Rightarrow> LibvirtMachine \<Rightarrow> ('w mstate, go_error + Result) state" where
  "reconcile_machine env libvirtMachine = do {
     o1 \<leftarrow> io (me_GetOwnerMachine env libvirtMachine);
     (case o1 of
        Inl err \<Rightarrow> State_Monad.return (Inl err)
      | Inr None \<Rightarrow> State_Monad.return (Inr empty_result)
      | Inr (Some machine) \<Rightarrow> do {
     o2 \<leftarrow> io (me_GetClusterFromMetadata env libvirtMachine);
     (case o2 of
        Inl err \<Rightarrow> State_Monad.return (Inl err)
      | Inr cluster \<Rightarrow>
     if me_IsPaused env cluster libvirtMachine then State_Monad.return (Inr empty_result)
     else (case cl_InfrastructureRef cluster of
        None \<Rightarrow> State_Monad.return (Inl (ErrorText
          (''cluster '' @ cl_Namespace cluster @ ''/'' @ cl_Name cluster @ '' has no InfrastructureRef'')))
      | Some infraName \<Rightarrow> do {
     o3 \<leftarrow> io (me_GetLibvirtCluster env (lm_Namespace libvirtMachine) infraName);
     (case o3 of
        Inl err \<Rightarrow> State_Monad.return (Inl (Wrapf ''failed to get LibvirtCluster: '' err))
      | Inr libvirtCluster \<Rightarrow> do {
     o4 \<leftarrow> io (me_GetLibvirtHost env (lm_Namespace libvirtMachine) (ms_HostRef (lm_Spec libvirtMachine)));
     (case o4 of
        Inl err \<Rightarrow> State_Monad.return (Inl (Wrapf ''failed to get LibvirtHost: '' err))
      | Inr libvirtHost \<Rightarrow>
          if om_DeletionTimestamp (lm_Meta libvirtMachine)
          then reconcileDelete env cluster libvirtCluster libvirtHost
          else reconcileNormal env machine cluster libvirtCluster libvirtHost) }) })) }) }"

text \<open>The state that outlives a reconciliation is the world and the cache of boot artifacts.\<close>

definition on_world :: "('w, 'a) state \<Rightarrow> ('w \<times> (string, Artifacts) fmap, 'a) state" where
  "on_world m = State (\<lambda>(w, cache). case run_state m w of (r, w') \<Rightarrow> (r, (w', cache)))"

definition on_machine ::
  "LibvirtMachine \<Rightarrow> ('w mstate, 'a) state \<Rightarrow> ('w \<times> (string, Artifacts) fmap, 'a \<times> LibvirtMachine) state" where
  "on_machine lm m = State (\<lambda>(w, cache).
     case run_state m \<lparr>s_world = w, s_machine = lm, s_artifactCache = cache\<rparr> of
       (r, s) \<Rightarrow> ((r, s_machine s), (s_world s, s_artifactCache s)))"

definition machine_Reconcile ::
  "('w, 'ssh) machine_env \<Rightarrow> string \<Rightarrow> string \<Rightarrow> ('w \<times> (string, Artifacts) fmap, go_error + Result) state" where
  "machine_Reconcile env namespace name = do {
     g \<leftarrow> on_world (me_GetLibvirtMachine env namespace name);
     (case g of
        Inl err \<Rightarrow> State_Monad.return (if apierrors_IsNotFound err then Inr empty_result else Inl err)
      | Inr libvirtMachine \<Rightarrow> do {
          h \<leftarrow> on_world (me_NewHelper env libvirtMachine);
          (case h of
             Some err \<Rightarrow> State_Monad.return (Inl err)
           | None \<Rightarrow> do {
               (result, libvirtMachine') \<leftarrow> on_machine libvirtMachine (reconcile_machine env libvirtMachine);
               _ \<leftarrow> on_world (me_Patch env libvirtMachine');
               State_Monad.return result }) }) }"

end
