(* ===== verification/Host_Events.thy ===== *)
theory Host_Events
  imports Machine_Controller
begin

text \<open>
  The calls of a libvirt client that change a host, as events in a log, and what it means for a
  client and an environment to be logged. A mock client that records its calls, and an
  environment around it, serve the witnesses.
\<close>

section \<open>Events\<close>

datatype host_event =
    DomainDefined string
  | DomainStarted string
  | DomainDestroyed string
  | DomainUndefined string
  | PoolStarted string
  | PoolCreated string string
  | PoolDestroyed string
  | VolumeCreated string string
  | VolumeUploaded string string bytes
  | VolumeDeleted string string
  | FileWritten string bytes
  | FileDeleted string

definition quiet :: "('w \<Rightarrow> 'e list) \<Rightarrow> ('w, 'a) state \<Rightarrow> bool" where
  "quiet log m \<longleftrightarrow> (\<forall>w r w'. run_state m w = (r, w') \<longrightarrow> log w' = log w)"

definition emits :: "('w \<Rightarrow> 'e list) \<Rightarrow> 'e \<Rightarrow> ('w, 'a) state \<Rightarrow> bool" where
  "emits log e m \<longleftrightarrow> (\<forall>w r w'. run_state m w = (r, w') \<longrightarrow> log w' = log w @ [e])"

lemma quiet_return [simp]: "quiet log (State_Monad.return x)"
  by (simp add: quiet_def)

text \<open>A client whose calls are logged: the queries leave no trace, every other call leaves the
  event of its request, whether it succeeds or not.\<close>

definition client_traces :: "'w Client \<Rightarrow> ('w \<Rightarrow> host_event list) \<Rightarrow> bool" where
  "client_traces cl log \<longleftrightarrow>
     (\<forall>n. quiet log (DomainExists cl n)) \<and> (\<forall>n. quiet log (GetDomain cl n)) \<and>
     (\<forall>n. quiet log (PoolExists cl n)) \<and> (\<forall>n. quiet log (PoolIsActive cl n)) \<and>
     (\<forall>p n. quiet log (VolumeExists cl p n)) \<and> (\<forall>p n. quiet log (GetVolumePath cl p n)) \<and>
     (\<forall>p. quiet log (RemoteFileExists cl p)) \<and>
     (\<forall>x. emits log (DomainDefined x) (DefineDomain cl x)) \<and>
     (\<forall>n. emits log (DomainStarted n) (StartDomain cl n)) \<and>
     (\<forall>n. emits log (DomainDestroyed n) (DestroyDomain cl n)) \<and>
     (\<forall>n. emits log (DomainUndefined n) (UndefineDomain cl n)) \<and>
     (\<forall>n. emits log (PoolStarted n) (StartPool cl n)) \<and>
     (\<forall>n p z. emits log (PoolCreated n p) (CreateTmpfsPool cl n p z)) \<and>
     (\<forall>n. emits log (PoolDestroyed n) (DestroyPool cl n)) \<and>
     (\<forall>p n b z. emits log (VolumeCreated p n) (CreateVolumeFromBackingStore cl p n b z)) \<and>
     (\<forall>p s n. emits log (VolumeCreated p n) (CloneVolume cl p s n)) \<and>
     (\<forall>p n z. emits log (VolumeCreated p n) (CreateVolume cl p n z)) \<and>
     (\<forall>p n d. emits log (VolumeUploaded p n d) (UploadVolumeFromBytes cl p n d)) \<and>
     (\<forall>p n d z. emits log (VolumeUploaded p n d) (UploadQcow2Volume cl p n d z)) \<and>
     (\<forall>p n. emits log (VolumeDeleted p n) (DeleteVolume cl p n)) \<and>
     (\<forall>p d. emits log (FileWritten p d) (WriteRemoteFile cl p d)) \<and>
     (\<forall>p. emits log (FileDeleted p) (DeleteRemoteFile cl p))"

text \<open>The rest of the environment does not touch a host.\<close>

definition env_quiet :: "('w, 'ssh) machine_env \<Rightarrow> ('w \<Rightarrow> host_event list) \<Rightarrow> bool" where
  "env_quiet env log \<longleftrightarrow>
     (\<forall>ns n. quiet log (me_GetLibvirtMachine env ns n)) \<and> (\<forall>m. quiet log (me_NewHelper env m)) \<and>
     (\<forall>m. quiet log (me_Patch env m)) \<and> (\<forall>m. quiet log (me_GetOwnerMachine env m)) \<and>
     (\<forall>m. quiet log (me_GetClusterFromMetadata env m)) \<and>
     (\<forall>ns n. quiet log (me_GetLibvirtCluster env ns n)) \<and> (\<forall>ns n. quiet log (me_GetLibvirtHost env ns n)) \<and>
     (\<forall>ns n. quiet log (me_GetSecret env ns n)) \<and> (\<forall>n. quiet log (me_GetNode env n)) \<and>
     (\<forall>a b. quiet log (me_PatchNode env a b)) \<and> (\<forall>n. quiet log (me_DeleteNode env n)) \<and>
     (\<forall>h s. quiet log (me_SSHClientFactory env h s)) \<and>
     (\<forall>c. quiet log (me_CloseSSH env c)) \<and> (\<forall>c. quiet log (me_CloseClient env c)) \<and>
     (\<forall>d i h. quiet log (me_BuildCloudInitISO env d i h)) \<and>
     (\<forall>p. quiet log (me_os_ReadFile env p)) \<and>
     (\<forall>resolve src creds. me_BootArtifactsResolver env = Some resolve \<longrightarrow> quiet log (resolve src creds)) \<and>
     (\<forall>get src creds d. me_BaseImageCache env = Some get \<longrightarrow> quiet log (get src creds d)) \<and>
     (\<forall>c u. client_traces (me_LibvirtClientFactory env c u) log)"


section \<open>A recording client\<close>

definition record_call :: "host_event \<Rightarrow> 'a \<Rightarrow> (host_event list, 'a) state" where
  "record_call e r = State (\<lambda>es. (r, es @ [e]))"

lemma record_call_emits [simp]: "emits id e (record_call e r)" "emits (\<lambda>w. w) e (record_call e r)"
  by (simp_all add: emits_def record_call_def)

definition recording_mock :: "host_event list MockClient" where
  "recording_mock = no_mocks\<lparr>
     PoolExistsFn := Some (\<lambda>n. State_Monad.return (Inr True)),
     GetVolumePathFn := Some (\<lambda>p v. State_Monad.return (Inr (p @ ''/'' @ v))),
     DefineDomainFn := Some (\<lambda>x. record_call (DomainDefined x) (Inr empty_domain)),
     StartDomainFn := Some (\<lambda>n. record_call (DomainStarted n) None),
     DestroyDomainFn := Some (\<lambda>n. record_call (DomainDestroyed n) None),
     UndefineDomainFn := Some (\<lambda>n. record_call (DomainUndefined n) None),
     StartPoolFn := Some (\<lambda>n. record_call (PoolStarted n) None),
     CreateTmpfsPoolFn := Some (\<lambda>n p z. record_call (PoolCreated n p) None),
     DestroyPoolFn := Some (\<lambda>n. record_call (PoolDestroyed n) None),
     CreateVolumeFromBackingStoreFn := Some (\<lambda>p n b z. record_call (VolumeCreated p n) None),
     CloneVolumeFn := Some (\<lambda>p s n. record_call (VolumeCreated p n) None),
     CreateVolumeFn := Some (\<lambda>p n z. record_call (VolumeCreated p n) None),
     UploadVolumeFromBytesFn := Some (\<lambda>p n d. record_call (VolumeUploaded p n d) None),
     UploadQcow2VolumeFn := Some (\<lambda>p n d z. record_call (VolumeUploaded p n d) None),
     DeleteVolumeFn := Some (\<lambda>p n. record_call (VolumeDeleted p n) None),
     WriteRemoteFileFn := Some (\<lambda>p d. record_call (FileWritten p d) None),
     DeleteRemoteFileFn := Some (\<lambda>p. record_call (FileDeleted p) None)\<rparr>"

lemma recording_traces: "client_traces (mock_client recording_mock) (\<lambda>w. w)"
  by (simp add: client_traces_def recording_mock_def mock_client_def no_mocks_def quiet_def)

definition example_cluster :: Cluster where
  "example_cluster = \<lparr>cl_Name = ''c'', cl_Namespace = ''ns'', cl_InfrastructureRef = Some ''c''\<rparr>"

definition example_libvirt_cluster :: LibvirtCluster where
  "example_libvirt_cluster = \<lparr>lc_Meta = example_meta ''c'',
     lc_Spec = \<lparr>cs_EndpointHost = ''api'', cs_EndpointPort = 6443, cs_BootArtifacts = None, cs_BaseImage = None\<rparr>,
     lc_Status = \<lparr>cst_Ready = True, cst_Conditions = []\<rparr>\<rparr>"

definition example_owner :: Machine where
  "example_owner = \<lparr>mc_Namespace = ''ns'', mc_DataSecretName = Some ''boot'',
     mc_InfrastructureRef = \<lparr>ir_Kind = ''LibvirtMachine'', ir_Namespace = ''ns'', ir_Name = ''m0''\<rparr>,
     mc_Labels = fmempty\<rparr>"

definition example_keyed_host :: LibvirtHost where
  "example_keyed_host = example_host\<lparr>lh_Spec := (lh_Spec example_host)
     \<lparr>hs_SecretRef := Some \<lparr>sref_Name = ''key'', sref_Namespace = ''''\<rparr>\<rparr>\<rparr>"

definition recording_env :: "LibvirtMachine \<Rightarrow> (host_event list, unit) machine_env" where
  "recording_env lm = \<lparr>
     me_GetLibvirtMachine = \<lambda>ns n. State_Monad.return (Inr lm),
     me_NewHelper = \<lambda>m. State_Monad.return None, me_Patch = \<lambda>m. State_Monad.return None,
     me_GetOwnerMachine = \<lambda>m. State_Monad.return (Inr (Some example_owner)),
     me_GetClusterFromMetadata = \<lambda>m. State_Monad.return (Inr example_cluster),
     me_IsPaused = \<lambda>c m. False,
     me_GetLibvirtCluster = \<lambda>ns n. State_Monad.return (Inr example_libvirt_cluster),
     me_GetLibvirtHost = \<lambda>ns n. State_Monad.return (Inr example_keyed_host),
     me_GetSecret = \<lambda>ns n. State_Monad.return (Inr (fmap_of_list [(''value'', ''data'')])),
     me_GetNode = \<lambda>n. State_Monad.return (Inl (ErrorText ''no node'')),
     me_PatchNode = \<lambda>a b. State_Monad.return None, me_DeleteNode = \<lambda>n. State_Monad.return None,
     me_SSHClientFactory = \<lambda>h s. State_Monad.return (Inr ()), me_CloseSSH = \<lambda>c. State_Monad.return (),
     me_LibvirtClientFactory = \<lambda>c u. mock_client recording_mock, me_CloseClient = \<lambda>c. State_Monad.return (),
     me_BuildCloudInitISO = \<lambda>d i h. State_Monad.return (Inr (''ISO:'' @ d)),
     me_BootArtifactsResolver = None, me_BaseImageCache = None,
     me_os_ReadFile = \<lambda>p. State_Monad.return (Inr ''''),
     me_url_Parse = \<lambda>u. Inr \<lparr>url_Path = ''/system'', url_Hostname = ''h0'', url_Port = '''', url_User = None\<rparr>,
     me_json = example_json, me_docker = example_dj, me_sha256 = rev,
     me_SetStatusCondition = example_set, me_RemoveStatusCondition = example_remove,
     me_ContainsFinalizer = \<lambda>fs f. f \<in> set fs, me_AddFinalizer = \<lambda>fs f. fs @ [f],
     me_RemoveFinalizer = \<lambda>fs f. filter (\<lambda>x. x \<noteq> f) fs\<rparr>"

lemma recording_env_quiet: "env_quiet (recording_env lm) (\<lambda>w. w)"
  by (simp add: env_quiet_def recording_env_def recording_traces)

end
