(* ===== verification/Machine_Isolation.thy ===== *)
theory Machine_Isolation
  imports Host_Events
begin

text \<open>
  What a reconciliation asks of a host: every event of it concerns the objects of the machine
  it reconciles, or the base image and the boot artifacts of its cluster.
\<close>

section \<open>The relation a reconciliation keeps\<close>

text \<open>From a state whose machine and cached artifacts are good: they stay good, and the events
  added to the log are allowed.\<close>

definition touches ::
  "('w \<Rightarrow> host_event list) \<Rightarrow> (LibvirtMachine \<Rightarrow> bool) \<Rightarrow> (Artifacts \<Rightarrow> bool) \<Rightarrow> (host_event \<Rightarrow> bool) \<Rightarrow>
   'w mstate \<Rightarrow> 'w mstate \<Rightarrow> bool" where
  "touches log good art allowed s s' \<longleftrightarrow>
     (good (s_machine s) \<and> fmpred (\<lambda>k. art) (s_artifactCache s) \<longrightarrow>
      good (s_machine s') \<and> fmpred (\<lambda>k. art) (s_artifactCache s') \<and>
      (\<exists>es. log (s_world s') = log (s_world s) @ es \<and> list_all allowed es))"

interpretation tp: io_preorder "touches log good art allowed"
  for log :: "'w \<Rightarrow> host_event list" and good art allowed
proof
  fix s t u :: "'w mstate"
  show "touches log good art allowed s s" by (auto simp: touches_def intro: exI [of _ "[]"])
  assume "touches log good art allowed s t" "touches log good art allowed t u"
  then show "touches log good art allowed s u"
    by (fastforce simp: touches_def)
qed

lemma touches_query:
  "quiet log m \<Longrightarrow> state_io_rel (touches log good art allowed) (io m)"
  by (fastforce simp: state_io_rel_def touches_def quiet_def split: prod.splits)

lemma touches_event:
  "emits log e m \<Longrightarrow> allowed e \<Longrightarrow> state_io_rel (touches log good art allowed) (io m)"
  by (fastforce simp: state_io_rel_def touches_def emits_def split: prod.splits)

lemma touches_get:
  assumes "\<And>m. good m \<Longrightarrow> state_io_rel (touches log good art allowed) (f m)"
  shows "state_io_rel (touches log good art allowed) (State_Monad.bind get_machine f)"
proof
  fix a s s'
  assume run: "run_state (State_Monad.bind get_machine f) s = (a, s')"
  show "touches log good art allowed s s'"
  proof (cases "good (s_machine s)")
    case True
    then show ?thesis using state_io_relD [OF assms] run by simp
  qed (simp add: touches_def)
qed

lemma touches_set:
  "(\<And>m. good m \<Longrightarrow> good (f m)) \<Longrightarrow> state_io_rel (touches log good art allowed) (set_machine f)"
  by (auto simp: state_io_rel_def touches_def intro: exI [of _ "[]"])

lemma touches_store:
  "art a \<Longrightarrow> state_io_rel (touches log good art allowed) (cache_store k a)"
  by (auto simp: state_io_rel_def touches_def cache_store_def intro: exI [of _ "[]"])

lemma touches_load:
  assumes "\<And>c. (\<And>a. c = Some a \<Longrightarrow> art a) \<Longrightarrow> state_io_rel (touches log good art allowed) (f c)"
  shows "state_io_rel (touches log good art allowed) (State_Monad.bind (cache_load k) f)"
proof
  fix a s s'
  assume run: "run_state (State_Monad.bind (cache_load k) f) s = (a, s')"
  show "touches log good art allowed s s'"
  proof (cases "fmpred (\<lambda>k. art) (s_artifactCache s)")
    case True
    then have "\<And>a. fmlookup (s_artifactCache s) k = Some a \<Longrightarrow> art a" by (auto dest: fmpredD)
    moreover have "run_state (f (fmlookup (s_artifactCache s) k)) s = (a, s')"
      using run by (simp add: cache_load_def)
    ultimately show ?thesis by (rule state_io_relD [OF assms])
  qed (simp add: touches_def)
qed



section \<open>The objects of a machine\<close>

definition base_pool :: "MachineScope \<Rightarrow> string" where
  "base_pool sc =
     (let root = lm_RootDisk (sc_LibvirtMachine sc) in
      if rd_BaseImagePool root = '''' then rd_StoragePool root else rd_BaseImagePool root)"

definition own_volume :: "MachineScope \<Rightarrow> string \<Rightarrow> string \<Rightarrow> bool" where
  "own_volume sc pool vol \<longleftrightarrow>
     (vol = RootDiskVolumeName sc \<or> vol = BootstrapISOName sc) \<and>
       pool \<in> {rd_StoragePool (lm_RootDisk (sc_LibvirtMachine sc)), base_pool sc, EphemeralPoolName sc} \<or>
     (\<exists>d \<in> set (elems (ms_AdditionalDisks (lm_Spec (sc_LibvirtMachine sc)))).
        pool = ad_StoragePool d \<and> vol = additionalDiskVolume sc d)"

definition base_image_volume :: "MachineScope \<Rightarrow> string \<Rightarrow> string \<Rightarrow> bool" where
  "base_image_volume sc pool vol \<longleftrightarrow>
     (case cs_BaseImage (lc_Spec (sc_LibvirtCluster sc)) of
        None \<Rightarrow> False | Some bi \<Rightarrow> pool = bi_Pool bi \<and> vol = bi_VolumeName bi)"

text \<open>A file of the cluster's boot artifacts: it lies in a directory named after the digest of
  what is written to it.\<close>

definition boot_file :: "(bytes \<Rightarrow> bytes) \<Rightarrow> MachineScope \<Rightarrow> string \<Rightarrow> bytes \<Rightarrow> bool" where
  "boot_file sha sc p content \<longleftrightarrow>
     (case cs_BootArtifacts (lc_Spec (sc_LibvirtCluster sc)) of
        None \<Rightarrow> False
      | Some ba \<Rightarrow>
          let dir = [strings_TrimRight (ba_HostPath ba) (CHR ''/''), hex_EncodeToString (sha content)] in
          p = path_Join (dir @ [''vmlinuz'']) \<or> p = path_Join (dir @ [''initramfs.img'']))"

fun own_event :: "(bytes \<Rightarrow> bytes) \<Rightarrow> MachineScope \<Rightarrow> host_event \<Rightarrow> bool" where
  "own_event sha sc (DomainDefined x) \<longleftrightarrow> extractDomainNameFromXML x = EscapeText (DomainName sc)"
| "own_event sha sc (DomainStarted n) \<longleftrightarrow> n = DomainName sc"
| "own_event sha sc (DomainDestroyed n) \<longleftrightarrow> n = DomainName sc"
| "own_event sha sc (DomainUndefined n) \<longleftrightarrow> n = DomainName sc"
| "own_event sha sc (PoolStarted n) \<longleftrightarrow> n = EphemeralPoolName sc"
| "own_event sha sc (PoolCreated n p) \<longleftrightarrow> n = EphemeralPoolName sc \<and> p = EphemeralPoolPath sc"
| "own_event sha sc (PoolDestroyed n) \<longleftrightarrow> n = EphemeralPoolName sc"
| "own_event sha sc (VolumeCreated p v) \<longleftrightarrow> own_volume sc p v"
| "own_event sha sc (VolumeUploaded p v d) \<longleftrightarrow> own_volume sc p v \<or> base_image_volume sc p v"
| "own_event sha sc (VolumeDeleted p v) \<longleftrightarrow> own_volume sc p v"
| "own_event sha sc (FileWritten p d) \<longleftrightarrow> p = IgnitionFilePath sc \<or> boot_file sha sc p d"
| "own_event sha sc (FileDeleted p) \<longleftrightarrow> p = IgnitionFilePath sc"

text \<open>The machine object changes during a reconciliation, but not what names its objects.\<close>

definition names_as :: "LibvirtMachine \<Rightarrow> LibvirtMachine \<Rightarrow> bool" where
  "names_as lm m \<longleftrightarrow>
     lm_Name m = lm_Name lm \<and> lm_Namespace m = lm_Namespace lm \<and>
     (lm_Spec m)\<lparr>ms_ProviderID := None\<rparr> = (lm_Spec lm)\<lparr>ms_ProviderID := None\<rparr>"

definition art_ok :: "(bytes \<Rightarrow> bytes) \<Rightarrow> Artifacts \<Rightarrow> bool" where
  "art_ok sha a \<longleftrightarrow>
     art_KernelSHA256 a = hex_EncodeToString (sha (art_KernelBytes a)) \<and>
     art_InitramfsSHA256 a = hex_EncodeToString (sha (art_InitramfsBytes a))"

abbreviation (input) touches_own ::
  "('w \<Rightarrow> host_event list) \<Rightarrow> (bytes \<Rightarrow> bytes) \<Rightarrow> MachineScope \<Rightarrow> 'w mstate \<Rightarrow> 'w mstate \<Rightarrow> bool" where
  "touches_own log sha sc \<equiv> touches log (names_as (sc_LibvirtMachine sc)) (art_ok sha) (own_event sha sc)"

lemma names_as_spec:
  assumes "names_as lm m"
  shows "lm_RootDisk m = lm_RootDisk lm" "ms_AdditionalDisks (lm_Spec m) = ms_AdditionalDisks (lm_Spec lm)"
    "ms_Network (lm_Spec m) = ms_Network (lm_Spec lm)" "ms_HostRef (lm_Spec m) = ms_HostRef (lm_Spec lm)"
    "ms_BootstrapFormat (lm_Spec m) = ms_BootstrapFormat (lm_Spec lm)" "ms_Domain (lm_Spec m) = ms_Domain (lm_Spec lm)"
proof -
  have eq: "(lm_Spec m)\<lparr>ms_ProviderID := None\<rparr> = (lm_Spec lm)\<lparr>ms_ProviderID := None\<rparr>"
    using assms by (simp add: names_as_def)
  show "lm_RootDisk m = lm_RootDisk lm" using arg_cong [OF eq, of ms_RootDisk] by simp
  show "ms_AdditionalDisks (lm_Spec m) = ms_AdditionalDisks (lm_Spec lm)"
    using arg_cong [OF eq, of ms_AdditionalDisks] by simp
  show "ms_Network (lm_Spec m) = ms_Network (lm_Spec lm)" using arg_cong [OF eq, of ms_Network] by simp
  show "ms_HostRef (lm_Spec m) = ms_HostRef (lm_Spec lm)" using arg_cong [OF eq, of ms_HostRef] by simp
  show "ms_BootstrapFormat (lm_Spec m) = ms_BootstrapFormat (lm_Spec lm)"
    using arg_cong [OF eq, of ms_BootstrapFormat] by simp
  show "ms_Domain (lm_Spec m) = ms_Domain (lm_Spec lm)" using arg_cong [OF eq, of ms_Domain] by simp
qed

lemma names_as_status [simp]: "names_as lm (m\<lparr>lm_Status := st\<rparr>) = names_as lm m"
  by (simp add: names_as_def)

lemma names_as_finalizers [simp]:
  "names_as lm (m\<lparr>lm_Meta := (lm_Meta m)\<lparr>om_Finalizers := f\<rparr>\<rparr>) = names_as lm m"
  by (simp add: names_as_def)

lemma names_as_provider [simp]:
  "names_as lm (m\<lparr>lm_Spec := (lm_Spec m)\<lparr>ms_ProviderID := p\<rparr>\<rparr>) = names_as lm m"
  by (simp add: names_as_def)


section \<open>The steps\<close>

lemma client_quiet:
  assumes "client_traces cl log"
  shows "quiet log (DomainExists cl n)" "quiet log (GetDomain cl n)" "quiet log (PoolExists cl n)"
    "quiet log (PoolIsActive cl n)" "quiet log (VolumeExists cl p n)" "quiet log (GetVolumePath cl p n)"
    "quiet log (RemoteFileExists cl p)"
  using assms by (simp_all add: client_traces_def)

lemma client_emits:
  assumes "client_traces cl log"
  shows "emits log (DomainDefined x) (DefineDomain cl x)" "emits log (DomainStarted n) (StartDomain cl n)"
    "emits log (DomainDestroyed n) (DestroyDomain cl n)" "emits log (DomainUndefined n) (UndefineDomain cl n)"
    "emits log (PoolStarted n) (StartPool cl n)" "emits log (PoolCreated n p) (CreateTmpfsPool cl n p z)"
    "emits log (PoolDestroyed n) (DestroyPool cl n)"
    "emits log (VolumeCreated p n) (CreateVolumeFromBackingStore cl p n b sz)"
    "emits log (VolumeCreated p n) (CloneVolume cl p s n)" "emits log (VolumeCreated p n) (CreateVolume cl p n sz)"
    "emits log (VolumeUploaded p n d) (UploadVolumeFromBytes cl p n d)"
    "emits log (VolumeUploaded p n d) (UploadQcow2Volume cl p n d sz)"
    "emits log (VolumeDeleted p n) (DeleteVolume cl p n)" "emits log (FileWritten p d) (WriteRemoteFile cl p d)"
    "emits log (FileDeleted p) (DeleteRemoteFile cl p)"
  using assms by (simp_all add: client_traces_def)

lemma touches_status:
  "state_io_rel (touches_own log sha sc) (set_condition env ctype status reason msg)"
  "state_io_rel (touches_own log sha sc) (setTerminalError reason msg)"
  unfolding set_condition_def setTerminalError_def by (rule touches_set, simp)+

lemma touches_handleLibvirtError:
  "state_io_rel (touches_own log sha sc) (handleLibvirtError err operation)"
  unfolding handleLibvirtError_def by (intro tp.io_intros touches_status)

lemmas touch_intros = tp.io_intros touches_get touches_status touches_handleLibvirtError


text \<open>A context of the machine: every name in it is computed from the scope.\<close>

definition rc_for :: "MachineScope \<Rightarrow> ('w \<Rightarrow> host_event list) \<Rightarrow> 'w reconcileCtx \<Rightarrow> bool" where
  "rc_for sc log rc \<longleftrightarrow>
     rc_machineScope rc = sc \<and> client_traces (rc_libvirtClient rc) log \<and>
     rc_libvirtCluster rc = Some (sc_LibvirtCluster sc) \<and>
     rc_storagePool rc \<in> {rd_StoragePool (lm_RootDisk (sc_LibvirtMachine sc)), EphemeralPoolName sc} \<and>
     rc_baseImagePool rc = base_pool sc \<and> rc_domainName rc = DomainName sc \<and>
     rc_rootDiskVolume rc = RootDiskVolumeName sc \<and> rc_bootstrapISO rc = BootstrapISOName sc \<and>
     rc_ignitionFilePath rc = IgnitionFilePath sc"

lemma rc_for_client: "rc_for sc log rc \<Longrightarrow> client_traces (rc_libvirtClient rc) log"
  by (simp add: rc_for_def)

lemmas rc_quiet = client_quiet [OF rc_for_client]
lemmas rc_emits = client_emits [OF rc_for_client]

lemma touches_ensureBootstrapData:
  assumes "env_quiet env log"
  shows "state_io_rel (touches_own log sha sc) (ensureBootstrapData env machine)"
  unfolding ensureBootstrapData_def Let_def
  by (intro touch_intros touches_query) (use assms in \<open>simp add: env_quiet_def\<close>)

lemma touches_resolveAutoSizing:
  "state_io_rel (touches_own log sha sc) (resolveAutoSizing host)"
  unfolding resolveAutoSizing_def Let_def by (rule touches_get) (intro touch_intros)

lemma touches_preflightSessionMode:
  "state_io_rel (touches_own log sha sc) (preflightSessionMode env rc)"
  unfolding preflightSessionMode_def Let_def by (rule touches_get) (intro touch_intros)

lemma touches_check_pools:
  "rc_for sc log rc \<Longrightarrow> state_io_rel (touches_own log sha sc) (check_pools env rc ps)"
proof (induction ps)
  case (Cons p ps)
  then show ?case
    unfolding check_pools.simps Let_def by (intro touch_intros touches_query rc_quiet)
qed (simp add: tp.io_return)

lemma touches_preflightPools:
  "rc_for sc log rc \<Longrightarrow> state_io_rel (touches_own log sha sc) (preflightPools env rc)"
  unfolding preflightPools_def by (rule touches_get) (rule touches_check_pools)

lemma quiet_bind: "quiet log m \<Longrightarrow> (\<And>x. quiet log (f x)) \<Longrightarrow> quiet log (State_Monad.bind m f)"
  by (fastforce simp: quiet_def split: prod.splits)

lemma quiet_resolveBaseImageCredentials:
  "(\<And>ns n. quiet log (get ns n)) \<Longrightarrow> quiet log (resolveBaseImageCredentials dj get lc)"
  unfolding resolveBaseImageCredentials_def Let_def by (auto split: option.splits intro: quiet_bind)

lemma quiet_resolveBootArtifactsCredentials:
  "(\<And>ns n. quiet log (get ns n)) \<Longrightarrow> quiet log (resolveBootArtifactsCredentials dj get lc src)"
  unfolding resolveBootArtifactsCredentials_def Let_def by (auto split: option.splits intro: quiet_bind)

lemma touches_upload_base_image:
  assumes "rc_for sc log rc" "env_quiet env log" "cs_BaseImage (lc_Spec (sc_LibvirtCluster sc)) = Some bi"
  shows "state_io_rel (touches_own log sha sc) (upload_base_image env rc bi entry)"
proof -
  have readfile: "quiet log (me_os_ReadFile env p)" for p using assms(2) by (simp add: env_quiet_def)
  have own: "own_event sha sc (VolumeUploaded (bi_Pool bi) (bi_VolumeName bi) d)" for d
    using assms(3) by (simp add: base_image_volume_def)
  show ?thesis unfolding upload_base_image_def Let_def
    by (intro touch_intros touches_query rc_quiet [OF assms(1)] readfile touches_event [OF rc_emits(12) [OF assms(1)]] own)
qed

lemma touches_reconcileBaseImage:
  assumes "rc_for sc log rc" "env_quiet env log"
  shows "state_io_rel (touches_own log sha sc) (reconcileBaseImage env rc)"
proof (cases "cs_BaseImage (lc_Spec (sc_LibvirtCluster sc))")
  case None
  then show ?thesis using assms(1) by (simp add: reconcileBaseImage_def rc_for_def tp.io_return)
next
  case (Some bi)
  have secret: "quiet log (resolveBaseImageCredentials dj (me_GetSecret env) lc)" for dj lc
    using assms(2) by (intro quiet_resolveBaseImageCredentials) (simp add: env_quiet_def)
  have cache: "me_BaseImageCache env = Some get \<Longrightarrow> quiet log (get src creds d)" for get src creds d
    using assms(2) by (simp add: env_quiet_def)
  have cluster: "rc_libvirtCluster rc = Some (sc_LibvirtCluster sc)" using assms(1) by (simp add: rc_for_def)
  show ?thesis
  proof (cases "me_BaseImageCache env")
    case (Some get)
    show ?thesis
      unfolding reconcileBaseImage_def Let_def cluster \<open>cs_BaseImage _ = Some bi\<close> Some option.case
      by (intro touch_intros touches_query rc_quiet [OF assms(1)] secret cache [OF Some]
            touches_upload_base_image [OF assms \<open>cs_BaseImage _ = Some bi\<close>])
  qed (simp add: reconcileBaseImage_def cluster Some tp.io_return)
qed


text \<open>Sequencing with a fact about the result.\<close>

lemma touches_bind_result:
  assumes "state_io_rel (touches log good art allowed) m" "\<And>s a s'. run_state m s = (a, s') \<Longrightarrow> P a"
    and "\<And>x. P x \<Longrightarrow> state_io_rel (touches log good art allowed) (f x)"
  shows "state_io_rel (touches log good art allowed) (State_Monad.bind m f)"
proof
  fix a s s'
  assume "run_state (State_Monad.bind m f) s = (a, s')"
  then obtain x t where x: "run_state m s = (x, t)" "run_state (f x) t = (a, s')"
    by (auto split: prod.splits)
  have "touches log good art allowed s t" by (rule state_io_relD [OF assms(1) x(1)])
  moreover have "touches log good art allowed t s'"
    by (rule state_io_relD [OF assms(3) x(2)]) (rule assms(2) [OF x(1)])
  ultimately show "touches log good art allowed s s'" by (rule tp.io_trans)
qed

lemma touches_ensure_ephemeral_pool:
  assumes "rc_for sc log rc"
  shows "state_io_rel (touches_own log sha sc) (ensure_ephemeral_pool rc lm)"
proof -
  have sc: "rc_machineScope rc = sc" using assms by (simp add: rc_for_def)
  have own: "own_event sha sc (PoolStarted (EphemeralPoolName sc))"
    "own_event sha sc (PoolCreated (EphemeralPoolName sc) (EphemeralPoolPath sc))"
    "own_event sha sc (PoolDestroyed (EphemeralPoolName sc))" by simp_all
  show ?thesis unfolding ensure_ephemeral_pool_def Let_def sc
    by (intro touch_intros touches_query rc_quiet [OF assms] touches_event [OF rc_emits(5) [OF assms]]
          touches_event [OF rc_emits(6) [OF assms]] touches_event [OF rc_emits(7) [OF assms]] own)
qed

lemma own_root:
  assumes "rc_for sc log rc"
  shows "own_event sha sc (VolumeCreated (rc_storagePool rc) (rc_rootDiskVolume rc))"
    "own_event sha sc (VolumeCreated (rc_baseImagePool rc) (rc_rootDiskVolume rc))"
    "own_event sha sc (VolumeUploaded (rc_storagePool rc) (rc_bootstrapISO rc) d)"
  using assms by (auto simp: rc_for_def own_volume_def)

lemma touches_create_root_disk:
  assumes "rc_for sc log rc"
  shows "state_io_rel (touches_own log sha sc) (create_root_disk rc lm)"
  unfolding create_root_disk_def Let_def
  by (intro touch_intros touches_query rc_quiet [OF assms] touches_event [OF rc_emits(8) [OF assms]]
        touches_event [OF rc_emits(9) [OF assms]] own_root [OF assms])

lemma rc_for_ephemeral: "rc_for sc log rc \<Longrightarrow> rc_for sc log (rc\<lparr>rc_storagePool := EphemeralPoolName sc\<rparr>)"
  by (simp add: rc_for_def)

lemma touches_reconcileRootDisk:
  assumes "rc_for sc log rc"
  shows "state_io_rel (touches_own log sha sc) (reconcileRootDisk rc)"
proof -
  have sc: "rc_machineScope rc = sc" using assms by (simp add: rc_for_def)
  have pool: "rc_for sc log (if b then rc\<lparr>rc_storagePool := EphemeralPoolName sc\<rparr> else rc)" for b
    using assms rc_for_ephemeral [OF assms] by simp
  show ?thesis unfolding reconcileRootDisk_def Let_def sc
    by (rule touches_get, intro touch_intros touches_query touches_ensure_ephemeral_pool [OF assms]
          rc_quiet [OF assms] touches_create_root_disk [OF pool])
qed

lemma reconcileRootDisk_ctx:
  assumes "rc_for sc log rc" "run_state (reconcileRootDisk rc) s = ((e, rc'), s')"
  shows "rc_for sc log rc'"
proof -
  have sc: "rc_machineScope rc = sc" using assms(1) by (simp add: rc_for_def)
  have "rc' = rc \<or> rc' = rc\<lparr>rc_storagePool := EphemeralPoolName sc\<rparr>"
    using assms(2) unfolding reconcileRootDisk_def Let_def sc by (auto split: prod.splits sum.splits if_splits)
  then show ?thesis using assms(1) rc_for_ephemeral [OF assms(1)] by auto
qed

lemma touches_reconcileBootstrapArtifacts:
  assumes "rc_for sc log rc" "env_quiet env log"
  shows "state_io_rel (touches_own log sha sc) (reconcileBootstrapArtifacts env rc)"
proof -
  have data: "quiet log (GetBootstrapData (me_GetSecret env) x)" for x
    using assms(2) unfolding GetBootstrapData_def
    by (auto split: option.splits intro!: quiet_bind simp: env_quiet_def)
  have iso: "quiet log (me_BuildCloudInitISO env d i h)" for d i h using assms(2) by (simp add: env_quiet_def)
  have own: "own_event sha sc (FileWritten (rc_ignitionFilePath rc) d)" for d
    using assms(1) by (simp add: rc_for_def)
  show ?thesis unfolding reconcileBootstrapArtifacts_def Let_def
    by (rule touches_get, intro touch_intros touches_query data iso rc_quiet [OF assms(1)] own
          touches_event [OF rc_emits(14) [OF assms(1)]] touches_event [OF rc_emits(11) [OF assms(1)]] own_root [OF assms(1)])
qed


lemma rc_for_disk:
  "rc_for sc log (rc\<lparr>rc_additionalDiskVolumes := vs\<rparr>) = rc_for sc log rc"
  "rc_for sc log (rc\<lparr>rc_additionalDiskParams := ps\<rparr>) = rc_for sc log rc"
  "rc_for sc log (rc\<lparr>rc_kernelPath := k, rc_initrdPath := i, rc_kernelCmdline := c\<rparr>) = rc_for sc log rc"
  by (simp_all add: rc_for_def)

lemma touches_ensure_disks:
  assumes "rc_for sc log rc" "set ds \<subseteq> set (elems (ms_AdditionalDisks (lm_Spec (sc_LibvirtMachine sc))))"
  shows "state_io_rel (touches_own log sha sc) (ensure_disks ds rc)"
  using assms
proof (induction ds arbitrary: rc)
  case Nil
  then show ?case by (simp add: tp.io_return)
next
  case (Cons d ds)
  have sc: "rc_machineScope rc = sc" and cl: "client_traces (rc_libvirtClient rc) log"
    using Cons.prems(1) by (simp_all add: rc_for_def)
  have own: "own_event sha sc (VolumeCreated (ad_StoragePool d) (additionalDiskVolume sc d))"
    using Cons.prems(2) by (auto simp: own_volume_def)
  have rest: "state_io_rel (touches_own log sha sc) (ensure_disks ds (rc\<lparr>rc_additionalDiskVolumes := vs,
      rc_additionalDiskParams := ps\<rparr>))" for vs ps
    using Cons.IH [of "rc\<lparr>rc_additionalDiskVolumes := vs, rc_additionalDiskParams := ps\<rparr>"] Cons.prems
    by (simp add: rc_for_disk)
  show ?case unfolding ensure_disks.simps Let_def sc
    by (intro touch_intros touches_query client_quiet [OF cl] touches_event [OF client_emits(10) [OF cl]] own)
       (use rest in simp)
qed

lemma ensure_disks_ctx:
  "rc_for sc log rc \<Longrightarrow> run_state (ensure_disks ds rc) s = ((e, rc'), s') \<Longrightarrow> rc_for sc log rc'"
proof (induction ds arbitrary: rc s)
  case (Cons d ds)
  let ?rc = "rc\<lparr>rc_additionalDiskVolumes := rc_additionalDiskVolumes rc @ [additionalDiskVolume (rc_machineScope rc) d]\<rparr>"
  have "rc' = ?rc \<or> (\<exists>ps t. run_state (ensure_disks ds (?rc\<lparr>rc_additionalDiskParams := ps\<rparr>)) t = ((e, rc'), s'))"
    using Cons.prems(2) unfolding ensure_disks.simps Let_def
    by (auto split: prod.splits sum.splits if_splits option.splits)
  then show ?case using Cons.prems(1) Cons.IH by (auto simp: rc_for_disk) (metis rc_for_disk)
qed (simp add: rc_for_def)

lemma touches_reconcileAdditionalDisks:
  assumes "rc_for sc log rc"
  shows "state_io_rel (touches_own log sha sc) (reconcileAdditionalDisks rc)"
  unfolding reconcileAdditionalDisks_def
  by (rule touches_get, rule touches_ensure_disks [OF assms]) (simp add: names_as_spec)

lemma reconcileAdditionalDisks_ctx:
  "rc_for sc log rc \<Longrightarrow> run_state (reconcileAdditionalDisks rc) s = ((e, rc'), s') \<Longrightarrow> rc_for sc log rc'"
  unfolding reconcileAdditionalDisks_def by (auto intro: ensure_disks_ctx)

text \<open>The artifacts that are staged are verified: they come from the resolver or from the cache.\<close>

definition resolver_ok :: "('w, 'ssh) machine_env \<Rightarrow> bool" where
  "resolver_ok env \<longleftrightarrow>
     (\<forall>resolve src creds w a w'. me_BootArtifactsResolver env = Some resolve \<longrightarrow>
        run_state (resolve src creds) w = (Inr a, w') \<longrightarrow> art_ok (me_sha256 env) a)"

lemma resolver_ok_dest:
  "resolver_ok env \<Longrightarrow> me_BootArtifactsResolver env = Some resolve \<Longrightarrow>
     run_state (resolve src creds) w = (Inr a, w') \<Longrightarrow> art_ok (me_sha256 env) a"
  unfolding resolver_ok_def by blast

lemma touches_resolveCachedArtifacts:
  assumes "env_quiet env log" "me_BootArtifactsResolver env = Some resolve" "resolver_ok env"
    and "\<And>err. state_io_rel (touches_own log (me_sha256 env) sc) (f (Inl err))"
    and "\<And>a. art_ok (me_sha256 env) a \<Longrightarrow> state_io_rel (touches_own log (me_sha256 env) sc) (f (Inr a))"
  shows "state_io_rel (touches_own log (me_sha256 env) sc)
    (State_Monad.bind (resolveCachedArtifacts env resolve src creds) f)"
proof -
  have resolve: "state_io_rel (touches_own log (me_sha256 env) sc) (io (resolve src creds))"
    using assms(1,2) by (intro touches_query) (simp add: env_quiet_def)
  have verified: "art_ok (me_sha256 env) a"
    if "run_state (io (resolve src creds)) s = (Inr a, s')" for a and s s' :: "'a mstate"
    using that resolver_ok_dest [OF assms(3,2)] by (auto split: prod.splits)
  have fetch: "state_io_rel (touches_own log (me_sha256 env) sc)
      (State_Monad.bind (io (resolve src creds)) (\<lambda>r.
         State_Monad.bind (case r of Inl err \<Rightarrow> State_Monad.return (Inl err)
           | Inr artifacts \<Rightarrow> do { cache_store key artifacts; State_Monad.return (Inr artifacts) }) f))" for key
    by (rule touches_bind_result [where P = "\<lambda>r. \<forall>a. r = Inr a \<longrightarrow> art_ok (me_sha256 env) a", OF resolve])
       (use verified in \<open>auto split: sum.splits intro!: tp.io_bind touches_store assms(4,5)\<close>)
  show ?thesis
    unfolding resolveCachedArtifacts_def Let_def State_Monad.bind_assoc
    by (rule touches_load) (auto split: option.splits simp: State_Monad.bind_assoc intro: assms(5) fetch)
qed


lemma touches_ensureRemoteArtifact:
  assumes "client_traces cl log" "boot_file sha sc p content"
  shows "state_io_rel (touches_own log sha sc) (io (ensureRemoteArtifact cl p content))"
proof -
  have "state_io_rel (touches_own log sha sc) (io (RemoteFileExists cl p))"
    by (rule touches_query [OF client_quiet(7) [OF assms(1)]])
  moreover have "state_io_rel (touches_own log sha sc) (io (WriteRemoteFile cl p content))"
    by (rule touches_event [OF client_emits(14) [OF assms(1)]]) (simp add: assms(2))
  moreover have "io (ensureRemoteArtifact cl p content) = do {
      e \<leftarrow> io (RemoteFileExists cl p);
      (case e of
         Inl err \<Rightarrow> State_Monad.return (Some err)
       | Inr exists \<Rightarrow> if exists then State_Monad.return None else io (WriteRemoteFile cl p content)) }"
    by (rule state.expand, rule ext) (auto simp: ensureRemoteArtifact_def split: prod.splits sum.splits)
  ultimately show ?thesis by (auto intro!: tp.io_intros)
qed

lemma boot_paths_own:
  assumes "cs_BootArtifacts (lc_Spec (sc_LibvirtCluster sc)) = Some ba" "art_ok sha a"
  shows "boot_file sha sc (boot_kernel_path ba a) (art_KernelBytes a)"
    "boot_file sha sc (boot_initrd_path ba a) (art_InitramfsBytes a)"
  using assms by (simp_all add: boot_file_def boot_kernel_path_def boot_initrd_path_def art_ok_def)

lemma touches_stage_boot_artifacts:
  assumes "rc_for sc log rc" "cs_BootArtifacts (lc_Spec (sc_LibvirtCluster sc)) = Some ba" "art_ok sha a"
  shows "state_io_rel (touches_own log sha sc) (stage_boot_artifacts rc ba a)"
  unfolding stage_boot_artifacts_def Let_def
  by (intro touch_intros touches_ensureRemoteArtifact rc_for_client [OF assms(1)] boot_paths_own assms(2,3))

lemma touches_reconcileBootArtifacts:
  assumes "rc_for sc log rc" "env_quiet env log" "resolver_ok env"
  shows "state_io_rel (touches_own log (me_sha256 env) sc) (reconcileBootArtifacts env rc)"
proof -
  have cluster: "rc_libvirtCluster rc = Some (sc_LibvirtCluster sc)" using assms(1) by (simp add: rc_for_def)
  have creds: "state_io_rel (touches_own log (me_sha256 env) sc)
      (io (resolveBootArtifactsCredentials (me_docker env) (me_GetSecret env) lc src))" for lc src
    by (intro touches_query quiet_resolveBootArtifactsCredentials) (use assms(2) in \<open>simp add: env_quiet_def\<close>)
  have stage: "state_io_rel (touches_own log (me_sha256 env) sc)
      (State_Monad.bind (resolveCachedArtifacts env resolve src creds) (\<lambda>a. case a of
          Inl err \<Rightarrow> State_Monad.return (Some (Wrapf msg err), rc)
        | Inr artifacts \<Rightarrow> stage_boot_artifacts rc ba artifacts))"
    if "me_BootArtifactsResolver env = Some resolve"
       "cs_BootArtifacts (lc_Spec (sc_LibvirtCluster sc)) = Some ba" for resolve ba src creds msg
    by (rule touches_resolveCachedArtifacts [OF assms(2) that(1) assms(3)])
       (simp_all add: tp.io_return touches_stage_boot_artifacts [OF assms(1) that(2)])
  show ?thesis unfolding reconcileBootArtifacts_def cluster
    by (auto split: option.splits intro!: tp.io_return tp.io_bind creds stage split: sum.splits)
qed

lemma reconcileBootArtifacts_ctx:
  "rc_for sc log rc \<Longrightarrow> run_state (reconcileBootArtifacts env rc) s = ((e, rc'), s') \<Longrightarrow> rc_for sc log rc'"
  unfolding reconcileBootArtifacts_def stage_boot_artifacts_def Let_def
  by (auto simp: rc_for_disk split: prod.splits sum.splits option.splits)

lemma defined_name:
  assumes "GenerateDomainXML params = Inr xml"
  shows "extractDomainNameFromXML xml = EscapeText (px_Name params)"
proof (rule GenerateDomainXML_text [of params])
  fix rest
  assume "GenerateDomainXML params =
    Inr (domain_prefix @ ''<name>'' @ EscapeText (px_Name params) @ ''</name>'' @ rest)"
  then have "xml = domain_prefix @ ''<name>'' @ EscapeText (px_Name params) @ ''</name>'' @ rest"
    using assms by simp
  then show ?thesis using extractDomainName_text [OF EscapeText_no_markup(1)] by simp
qed

lemma touches_define_domain:
  assumes "rc_for sc log rc"
  shows "state_io_rel (touches_own log sha sc) (define_domain rc m)"
proof -
  have own: "extractDomainNameFromXML xml = EscapeText (DomainName sc)"
    if "GenerateDomainXML (domain_params rc m r i c) = Inr xml" for xml r i c
    using defined_name [OF that] assms by (simp add: domain_params_def Let_def rc_for_def)
  have defining: "state_io_rel (touches_own log sha sc) (case GenerateDomainXML (domain_params rc m r i c) of
       Inl err \<Rightarrow> f err
     | Inr xmlDef \<Rightarrow> State_Monad.bind (io (DefineDomain (rc_libvirtClient rc) xmlDef)) g)"
    if "\<And>err. state_io_rel (touches_own log sha sc) (f err)" "\<And>d. state_io_rel (touches_own log sha sc) (g d)"
    for r i c f g
  proof (cases "GenerateDomainXML (domain_params rc m r i c)")
    case (Inr xml)
    then have "own_event sha sc (DomainDefined xml)" using own by simp
    then show ?thesis using Inr that by (auto intro!: tp.io_bind touches_event [OF rc_emits(1) [OF assms]])
  qed (simp add: that)
  show ?thesis
    unfolding define_domain_def Let_def
    by (intro defining touch_intros touches_query rc_quiet [OF assms])
qed

lemma touches_start_domain:
  assumes "rc_for sc log rc"
  shows "state_io_rel (touches_own log sha sc) (start_domain rc)"
proof -
  have own: "own_event sha sc (DomainStarted (rc_domainName rc))" using assms by (simp add: rc_for_def)
  show ?thesis
    unfolding start_domain_def Let_def domain_error_def
    by (intro touch_intros touches_query rc_quiet [OF assms] touches_event [OF rc_emits(2) [OF assms]] own)
qed

lemma touches_reconcileDomain:
  assumes "rc_for sc log rc"
  shows "state_io_rel (touches_own log sha sc) (reconcileDomain rc)"
  unfolding reconcileDomain_def domain_error_def
  by (rule touches_get)
     (intro touch_intros touches_query rc_quiet [OF assms] touches_define_domain [OF assms]
        touches_start_domain [OF assms])



section \<open>The reconciliation\<close>

lemma touches_provision:
  assumes "rc_for sc log rc" "env_quiet env log" "resolver_ok env"
  shows "state_io_rel (touches_own log (me_sha256 env) sc) (provision env rc)"
proof -
  let ?R = "touches_own log (me_sha256 env) sc"
  have boot: "state_io_rel ?R (State_Monad.bind (reconcileBootArtifacts env rc) (\<lambda>(k, rc). f k rc))"
    if "rc_for sc log rc" "\<And>k rc. rc_for sc log rc \<Longrightarrow> state_io_rel ?R (f k rc)"
    for rc and f :: "_ \<Rightarrow> _ \<Rightarrow> (_, 'c) state"
    by (rule touches_bind_result [where P = "\<lambda>(k, rc). rc_for sc log rc"])
       (use that touches_reconcileBootArtifacts [OF that(1) assms(2,3)] reconcileBootArtifacts_ctx in auto)
  have disks: "state_io_rel ?R (State_Monad.bind (reconcileAdditionalDisks rc) (\<lambda>(k, rc). f k rc))"
    if "rc_for sc log rc" "\<And>k rc. rc_for sc log rc \<Longrightarrow> state_io_rel ?R (f k rc)"
    for rc and f :: "_ \<Rightarrow> _ \<Rightarrow> (_, 'c) state"
    by (rule touches_bind_result [where P = "\<lambda>(k, rc). rc_for sc log rc"])
       (use that touches_reconcileAdditionalDisks [OF that(1)] reconcileAdditionalDisks_ctx in auto)
  have root: "state_io_rel ?R (State_Monad.bind (reconcileRootDisk rc) (\<lambda>(k, rc). f k rc))"
    if "rc_for sc log rc" "\<And>k rc. rc_for sc log rc \<Longrightarrow> state_io_rel ?R (f k rc)"
    for rc and f :: "_ \<Rightarrow> _ \<Rightarrow> (_, 'c) state"
    by (rule touches_bind_result [where P = "\<lambda>(k, rc). rc_for sc log rc"])
       (use that touches_reconcileRootDisk [OF that(1)] reconcileRootDisk_ctx in auto)
  show ?thesis unfolding provision_def
    by (intro touches_reconcileBaseImage touches_reconcileBootstrapArtifacts touches_reconcileDomain assms
          boot disks root tp.io_bind tp.io_return tp.io_case_option)
qed

lemma touches_record_ready:
  "state_io_rel (touches_own log sha sc) (record_ready env rc d)"
  unfolding record_ready_def by (intro tp.io_bind touches_status touches_set) simp

lemma touches_reconcileNodeLabels:
  assumes "env_quiet env log"
  shows "state_io_rel (touches_own log sha sc) (reconcileNodeLabels env n)"
proof -
  have node: "quiet log (me_GetNode env n)" "\<And>a b. quiet log (me_PatchNode env a b)"
    using assms by (simp_all add: env_quiet_def)
  show ?thesis unfolding reconcileNodeLabels_def Let_def
    by (rule touches_get, intro touch_intros touches_query node touches_set) simp
qed

lemma touches_reconcile_steps:
  assumes "rc_for sc log rc" "env_quiet env log" "resolver_ok env"
  shows "state_io_rel (touches_own log (me_sha256 env) sc) (reconcile_steps env rc)"
  unfolding reconcile_steps_def
  by (intro touch_intros touches_preflightSessionMode touches_preflightPools touches_provision
        touches_record_ready touches_reconcileNodeLabels assms)

text \<open>Two views of the same machine name the same objects.\<close>

lemma names_as_sym: "names_as lm m \<Longrightarrow> names_as m = names_as lm"
  by (auto simp: names_as_def fun_eq_iff)

lemma own_event_names:
  assumes "names_as (sc_LibvirtMachine sc) (sc_LibvirtMachine sc')"
    and "sc_Cluster sc' = sc_Cluster sc" "sc_LibvirtCluster sc' = sc_LibvirtCluster sc"
  shows "own_event sha sc' = own_event sha sc"
proof
  have base: "ArtifactBaseName sc' = ArtifactBaseName sc"
    using assms by (simp add: ArtifactBaseName_def names_as_def)
  note names = DomainName_def RootDiskVolumeName_def BootstrapISOName_def EphemeralPoolName_def
    EphemeralPoolPath_def IgnitionFilePath_def additionalDiskVolume_def
  have "own_volume sc' = own_volume sc"
    by (simp add: fun_eq_iff own_volume_def base_pool_def Let_def names base names_as_spec [OF assms(1)])
  moreover have "base_image_volume sc' = base_image_volume sc" "boot_file sha sc' = boot_file sha sc"
    by (simp_all add: fun_eq_iff base_image_volume_def boot_file_def assms(3))
  ultimately show "own_event sha sc' e = own_event sha sc e" for e
    by (cases e) (simp_all add: names base)
qed

lemma touches_createClients:
  assumes "env_quiet env log"
    and "\<And>err. state_io_rel (touches_own log sha sc) (f (Inl err))"
    and "\<And>ssh cl. client_traces cl log \<Longrightarrow> state_io_rel (touches_own log sha sc) (f (Inr (ssh, cl)))"
  shows "state_io_rel (touches_own log sha sc) (State_Monad.bind (io (createClients env host)) f)"
proof (rule touches_bind_result [where P = "\<lambda>c. \<forall>ssh cl. c = Inr (ssh, cl) \<longrightarrow> client_traces cl log"])
  have "quiet log (me_GetSecret env ns n)" "quiet log (me_SSHClientFactory env host sec)" for ns n sec
    using assms(1) by (simp_all add: env_quiet_def)
  then have "quiet log (createClients env host)"
    unfolding createClients_def Let_def by (auto split: option.splits sum.splits intro!: quiet_bind)
  then show "state_io_rel (touches_own log sha sc) (io (createClients env host))" by (rule touches_query)
  have "client_traces (me_LibvirtClientFactory env c u) log" for c u
    using assms(1) by (simp add: env_quiet_def)
  then show "\<forall>ssh cl. c = Inr (ssh, cl) \<longrightarrow> client_traces cl log"
    if "run_state (io (createClients env host)) s = (c, s')" for s c s'
    using that unfolding createClients_def Let_def
    by (auto split: option.splits sum.splits prod.splits)
  show "state_io_rel (touches_own log sha sc) (f c)"
    if "\<forall>ssh cl. c = Inr (ssh, cl) \<longrightarrow> client_traces cl log" for c
    using that assms(2,3) by (cases c) auto
qed

lemma touches_closing:
  assumes "env_quiet env log" "state_io_rel (touches_own log sha sc) m"
  shows "state_io_rel (touches_own log sha sc) (closing env ssh m)"
proof -
  have "quiet log (me_CloseClient env ssh)" "quiet log (me_CloseSSH env ssh)"
    using assms(1) by (simp_all add: env_quiet_def)
  then show ?thesis unfolding closing_def
    by (intro tp.io_bind assms(2) touches_query tp.io_return)
qed

lemma rc_for_new_ctx:
  assumes "client_traces cl log"
  shows "rc_for sc log (new_ctx env sc cl v m)"
  using assms by (simp add: rc_for_def new_ctx_def Let_def base_pool_def)

lemma touches_reconcileNormal:
  assumes "env_quiet env log" "resolver_ok env"
    and "sc = \<lparr>sc_Cluster = cluster, sc_Machine = machine, sc_LibvirtCluster = lc,
      sc_LibvirtMachine = lm, sc_LibvirtHost = host\<rparr>"
  shows "state_io_rel (touches_own log (me_sha256 env) sc) (reconcileNormal env machine cluster lc host)"
proof -
  let ?R = "touches_own log (me_sha256 env) sc"
  have steps: "state_io_rel ?R (reconcile_steps env (new_ctx env (sc\<lparr>sc_LibvirtMachine := m\<rparr>) cl v mb))"
    if "client_traces cl log" "names_as lm m" for cl m v mb
    using touches_reconcile_steps [OF rc_for_new_ctx [OF that(1)] assms(1,2), of "sc\<lparr>sc_LibvirtMachine := m\<rparr>" env v mb]
      names_as_sym [OF that(2)] own_event_names [of sc "sc\<lparr>sc_LibvirtMachine := m\<rparr>"] that(2) assms(3) by simp
  have scope: "NewMachineScope \<lparr>sp_Client = True, sp_Cluster = Some cluster, sp_Machine = Some machine,
      sp_LibvirtCluster = Some lc, sp_LibvirtMachine = Some m, sp_LibvirtHost = Some host\<rparr> =
      Inr (sc\<lparr>sc_LibvirtMachine := m\<rparr>)" for m
    by (simp add: NewMachineScope_def assms(3))
  have body: "state_io_rel ?R (do {
      z \<leftarrow> resolveAutoSizing host;
      (case z of
         Inl result \<Rightarrow> State_Monad.return (Inr result)
       | Inr (vcpus, memoryMB) \<Rightarrow>
           reconcile_steps env (new_ctx env (sc\<lparr>sc_LibvirtMachine := m\<rparr>) cl vcpus memoryMB)) })"
    if "client_traces cl log" "names_as lm m" for cl m
    by (intro touch_intros touches_resolveAutoSizing steps that)
  have inner: "state_io_rel ?R (do {
      b \<leftarrow> ensureBootstrapData env machine;
      (case b of
         Some result \<Rightarrow> State_Monad.return result
       | None \<Rightarrow> State_Monad.bind get_machine (\<lambda>m. do {
      z \<leftarrow> resolveAutoSizing host;
      (case z of
         Inl result \<Rightarrow> State_Monad.return (Inr result)
       | Inr (vcpus, memoryMB) \<Rightarrow>
           reconcile_steps env (new_ctx env (sc\<lparr>sc_LibvirtMachine := m\<rparr>) cl vcpus memoryMB)) })) })"
    if "client_traces cl log" for cl
    by (intro tp.io_bind tp.io_case_option tp.io_return touches_get touches_ensureBootstrapData assms(1) body that)
       (simp add: assms(3))
  have finalizer: "state_io_rel ?R (add_finalizer env)"
    unfolding add_finalizer_def by (rule touches_set) simp
  show ?thesis unfolding reconcileNormal_def scope sum.case
    by (intro tp.io_bind tp.io_if tp.io_return finalizer touches_status touches_createClients [OF assms(1)])
       (simp_all add: tp.io_return touches_closing [OF assms(1)] inner)
qed


lemma touches_removal:
  assumes "emits log e m" "own_event sha sc e"
  shows "state_io_rel (touches_own log sha sc) (removal msg m)"
  unfolding removal_def by (intro tp.io_bind tp.io_return touches_event [OF assms(1)] assms(2))

lemma touches_delete_disks:
  assumes "client_traces cl log" "set ds \<subseteq> set (elems (ms_AdditionalDisks (lm_Spec (sc_LibvirtMachine sc))))"
  shows "state_io_rel (touches_own log sha sc) (delete_disks cl sc ds)"
  using assms(2)
proof (induction ds)
  case (Cons d ds)
  then have own: "own_event sha sc (VolumeDeleted (ad_StoragePool d) (additionalDiskVolume sc d))"
    by (auto simp: own_volume_def)
  show ?case using Cons unfolding delete_disks.simps Let_def
    by (intro touch_intros touches_removal [OF client_emits(13) [OF assms(1)] own]) simp
qed (simp add: tp.io_return)

lemma touches_delete_artifacts:
  assumes "client_traces cl log"
  shows "state_io_rel (touches_own log sha sc) (delete_artifacts cl sc)"
proof -
  have own: "own_event sha sc (VolumeDeleted
      (if e then EphemeralPoolName sc else rd_StoragePool (lm_RootDisk (sc_LibvirtMachine sc))) v)"
    if "v \<in> {RootDiskVolumeName sc, BootstrapISOName sc}" for e v
    using that by (auto simp: own_volume_def)
  have bootstrap: "state_io_rel (touches_own log sha sc) (delete_bootstrap cl sc
      (if e then EphemeralPoolName sc else rd_StoragePool (lm_RootDisk (sc_LibvirtMachine sc))))" for e
    unfolding delete_bootstrap_def Let_def
    by (intro tp.io_if tp.io_bind tp.io_return touches_event [OF client_emits(15) [OF assms]]
          touches_removal [OF client_emits(13) [OF assms]] own) simp_all
  show ?thesis unfolding delete_artifacts_def Let_def
    by (intro tp.io_bind tp.io_case_option tp.io_return tp.io_if bootstrap touches_delete_disks [OF assms]
          touches_removal [OF client_emits(13) [OF assms]] own
          touches_removal [OF client_emits(3) [OF assms]] touches_removal [OF client_emits(4) [OF assms]]
          touches_removal [OF client_emits(7) [OF assms]]) simp_all
qed

lemma touches_reconcileDelete:
  assumes "env_quiet env log"
    and "sc = \<lparr>sc_Cluster = cluster, sc_Machine = machine, sc_LibvirtCluster = lc,
      sc_LibvirtMachine = lm, sc_LibvirtHost = host\<rparr>"
  shows "state_io_rel (touches_own log sha sc) (reconcileDelete env cluster lc host)"
proof -
  let ?R = "touches_own log sha sc"
  have node: "state_io_rel ?R (delete_node env n)" for n
    unfolding delete_node_def
    by (intro touch_intros touches_query) (use assms(1) in \<open>simp_all add: env_quiet_def\<close>)
  have finalizer: "state_io_rel ?R (remove_finalizer env)"
    unfolding remove_finalizer_def by (rule touches_set) simp
  have scope: "NewMachineScope \<lparr>sp_Client = True, sp_Cluster = Some cluster, sp_Machine = Some empty_machine,
      sp_LibvirtCluster = Some lc, sp_LibvirtMachine = Some m, sp_LibvirtHost = Some host\<rparr> =
      Inr (sc\<lparr>sc_LibvirtMachine := m, sc_Machine := empty_machine\<rparr>)" for m
    by (simp add: NewMachineScope_def assms(2))
  have artifacts: "state_io_rel ?R (delete_artifacts cl (sc\<lparr>sc_LibvirtMachine := m, sc_Machine := empty_machine\<rparr>))"
    if "client_traces cl log" "names_as lm m" for cl m
    using touches_delete_artifacts [OF that(1), of "sc\<lparr>sc_LibvirtMachine := m, sc_Machine := empty_machine\<rparr>" sha]
      names_as_sym [OF that(2)] that(2) assms(2)
      own_event_names [of sc "sc\<lparr>sc_LibvirtMachine := m, sc_Machine := empty_machine\<rparr>"] by simp
  have cleanup: "state_io_rel ?R (do {
      e \<leftarrow> delete_artifacts cl (sc\<lparr>sc_LibvirtMachine := m, sc_Machine := empty_machine\<rparr>);
      (case e of
         Some err \<Rightarrow> State_Monad.return (Inl err)
       | None \<Rightarrow> do {
           delete_node env n;
           remove_finalizer env;
           State_Monad.return (Inr empty_result) }) })"
    if "client_traces cl log" "names_as lm m" for cl m n
    by (intro tp.io_bind tp.io_case_option tp.io_return artifacts node finalizer that)
  have stalled: "state_io_rel ?R (do { set_condition env c st re msg; State_Monad.return x })" for c st re msg x
    by (intro tp.io_bind tp.io_return touches_status)
  have lm: "sc_LibvirtMachine sc = lm" by (simp add: assms(2))
  show ?thesis unfolding reconcileDelete_def scope sum.case
    by (intro touches_get tp.io_if tp.io_return touches_createClients [OF assms(1)] stalled)
       (simp_all only: sum.case prod.case,
        (rule stalled touches_closing [OF assms(1) cleanup] | assumption | simp only: lm)+)
qed


text \<open>The scope a reconciliation of a machine works in: the machine as it was read, and the
  cluster, its infrastructure and the host that were read for it.\<close>

definition scope_of :: "('w, 'ssh) machine_env \<Rightarrow> LibvirtMachine \<Rightarrow> MachineScope \<Rightarrow> bool" where
  "scope_of env lm sc \<longleftrightarrow>
     sc_LibvirtMachine sc = lm \<and>
     (\<exists>w w'. run_state (me_GetClusterFromMetadata env lm) w = (Inr (sc_Cluster sc), w')) \<and>
     (\<exists>infraName w w'. cl_InfrastructureRef (sc_Cluster sc) = Some infraName \<and>
        run_state (me_GetLibvirtCluster env (lm_Namespace lm) infraName) w = (Inr (sc_LibvirtCluster sc), w')) \<and>
     (\<exists>w w'. run_state (me_GetLibvirtHost env (lm_Namespace lm) (ms_HostRef (lm_Spec lm))) w =
        (Inr (sc_LibvirtHost sc), w'))"

definition machine_event ::
  "('w, 'ssh) machine_env \<Rightarrow> LibvirtMachine \<Rightarrow> host_event \<Rightarrow> bool" where
  "machine_event env lm e \<longleftrightarrow> (\<exists>sc. scope_of env lm sc \<and> own_event (me_sha256 env) sc e)"

lemma touches_mono:
  assumes "state_io_rel (touches log good art a) m" "\<And>e. a e \<Longrightarrow> b e"
  shows "state_io_rel (touches log good art b) m"
  using assms by (fastforce simp: state_io_rel_def touches_def list_all_iff)

lemma touches_read:
  assumes "quiet log m" "\<And>e. state_io_rel (touches log good art allowed) (f (Inl e))"
    and "\<And>x w w'. run_state m w = (Inr x, w') \<Longrightarrow> state_io_rel (touches log good art allowed) (f (Inr x))"
  shows "state_io_rel (touches log good art allowed) (State_Monad.bind (io m) f)"
proof (rule touches_bind_result [where P = "\<lambda>r. \<forall>x. r = Inr x \<longrightarrow> (\<exists>w w'. run_state m w = (Inr x, w'))"])
  show "\<forall>x. r = Inr x \<longrightarrow> (\<exists>w w'. run_state m w = (Inr x, w'))" if "run_state (io m) s = (r, s')" for s r s'
    using that by (auto split: prod.splits)
  show "state_io_rel (touches log good art allowed) (f r)"
    if "\<forall>x. r = Inr x \<longrightarrow> (\<exists>w w'. run_state m w = (Inr x, w'))" for r
    using that assms(2,3) by (cases r) auto
qed (rule touches_query [OF assms(1)])

lemma touches_reconcile_machine:
  assumes "env_quiet env log" "resolver_ok env"
  shows "state_io_rel (touches log (names_as lm) (art_ok (me_sha256 env)) (machine_event env lm))
    (reconcile_machine env lm)"
proof -
  let ?R = "touches log (names_as lm) (art_ok (me_sha256 env)) (machine_event env lm)"
  have reads: "quiet log (me_GetOwnerMachine env m)" "quiet log (me_GetClusterFromMetadata env m)"
      "quiet log (me_GetLibvirtCluster env ns n)" "quiet log (me_GetLibvirtHost env ns n)" for m ns n
    using assms(1) by (simp_all add: env_quiet_def)
  have both: "state_io_rel ?R (reconcileNormal env machine cluster lc host)"
      "state_io_rel ?R (reconcileDelete env cluster lc host)"
    if "run_state (me_GetClusterFromMetadata env lm) w1 = (Inr cluster, w2)"
      "cl_InfrastructureRef cluster = Some infraName"
      "run_state (me_GetLibvirtCluster env (lm_Namespace lm) infraName) w3 = (Inr lc, w4)"
      "run_state (me_GetLibvirtHost env (lm_Namespace lm) (ms_HostRef (lm_Spec lm))) w5 = (Inr host, w6)"
    for machine cluster lc host infraName w1 w2 w3 w4 w5 w6
  proof -
    let ?sc = "\<lparr>sc_Cluster = cluster, sc_Machine = machine, sc_LibvirtCluster = lc,
      sc_LibvirtMachine = lm, sc_LibvirtHost = host\<rparr>"
    have "scope_of env lm ?sc" using that by (auto simp: scope_of_def)
    then have event: "machine_event env lm e" if "own_event (me_sha256 env) ?sc e" for e
      using that by (auto simp: machine_event_def)
    show "state_io_rel ?R (reconcileNormal env machine cluster lc host)"
      using touches_mono [OF touches_reconcileNormal [OF assms refl] event] by simp
    show "state_io_rel ?R (reconcileDelete env cluster lc host)"
      using touches_mono [OF touches_reconcileDelete [OF assms(1) refl] event] by simp
  qed
  show ?thesis unfolding reconcile_machine_def
    by (rule touches_read [OF reads(1)], simp add: tp.io_return)
       (auto split: option.splits intro!: tp.io_return touches_read [OF reads(2)] touches_read [OF reads(3)]
         touches_read [OF reads(4)], (rule both, assumption+)+)
qed

end
