(* ===== verification/Machine_Properties.thy ===== *)
theory Machine_Properties
  imports Machine_Isolation
begin

text \<open>
  The properties of \<^verbatim>\<open>Reconcile\<close> of \<^verbatim>\<open>internal/controller/libvirtmachine_controller.go\<close> as a
  whole.
\<close>

section \<open>Isolation\<close>

text \<open>C1: a reconciliation of a machine asks of a host only what concerns the machine's own
  objects: its domain, its root disk, ISO and additional disks, its ephemeral pool, its ignition
  file, and, of what the machines of a cluster share, the base image volume and boot artifacts
  whose directory carries the digest of what is written. The environment is one whose libvirt
  clients are logged, and whose boot artifacts come from the resolver the manager wires, if any.\<close>

theorem reconcile_touches_own_objects:
  assumes "env_quiet env log"
    and "me_BootArtifactsResolver env = None \<or>
      me_BootArtifactsResolver env = Some (boot_Multi_Resolve (boot_NewMultiResolver tr)) \<and>
      me_sha256 env = tr_sha256 tr"
    and "fmpred (\<lambda>k. art_ok (me_sha256 env)) cache"
    and "run_state (machine_Reconcile env namespace name) (w, cache) = (r, (w', cache'))"
  shows "fmpred (\<lambda>k. art_ok (me_sha256 env)) cache' \<and>
    (\<exists>es. log w' = log w @ es \<and>
      list_all (\<lambda>e. \<exists>lm w1. run_state (me_GetLibvirtMachine env namespace name) w = (Inr lm, w1) \<and>
        machine_event env lm e) es)"
proof -
  have ok: "resolver_ok env"
    using assms(2) mrr.resolve_digests by (fastforce simp: resolver_ok_def art_ok_def)
  have q: "quiet log (me_GetLibvirtMachine env namespace name)" "\<And>m. quiet log (me_NewHelper env m)"
      "\<And>m. quiet log (me_Patch env m)"
    using assms(1) by (simp_all add: env_quiet_def)
  obtain g w1 where g: "run_state (me_GetLibvirtMachine env namespace name) w = (g, w1)" by fastforce
  have w1: "log w1 = log w" using q(1) g by (simp add: quiet_def)
  show ?thesis
  proof (cases g)
    case (Inl err)
    then show ?thesis using assms(3,4) g w1
      by (auto simp: machine_Reconcile_def on_world_def intro: exI [of _ "[]"])
  next
    case (Inr lm)
    obtain h w2 where h: "run_state (me_NewHelper env lm) w1 = (h, w2)" by fastforce
    then have w2: "log w2 = log w" using q(2) w1 by (auto simp: quiet_def)
    show ?thesis
    proof (cases h)
      case (Some err)
      then show ?thesis using assms(3,4) g h w2 Inr
        by (auto simp: machine_Reconcile_def on_world_def intro: exI [of _ "[]"])
    next
      case None
      obtain r' s where s: "run_state (reconcile_machine env lm)
          \<lparr>s_world = w2, s_machine = lm, s_artifactCache = cache\<rparr> = (r', s)" by fastforce
      obtain p w3 where p: "run_state (me_Patch env (s_machine s)) (s_world s) = (p, w3)" by fastforce
      have "w' = w3" "cache' = s_artifactCache s"
        using assms(4) g h s p Inr None by (simp_all add: machine_Reconcile_def on_world_def on_machine_def)
      moreover have "log w3 = log (s_world s)" using p q(3) by (auto simp: quiet_def)
      moreover have "fmpred (\<lambda>k. art_ok (me_sha256 env)) (s_artifactCache s) \<and>
          (\<exists>es. log (s_world s) = log w2 @ es \<and> list_all (machine_event env lm) es)"
        using state_io_relD [OF touches_reconcile_machine [OF assms(1) ok] s] assms(3)
        by (simp add: touches_def names_as_def)
      ultimately show ?thesis using w2 g Inr by auto
    qed
  qed
qed


definition example_cloud_machine :: LibvirtMachine where
  "example_cloud_machine =
     example_machine ''m0''\<lparr>lm_Spec := example_spec\<lparr>ms_BootstrapFormat := BootstrapFormatCloudInit\<rparr>\<rparr>"

lemma GenerateDomainXML_total: "\<exists>f. GenerateDomainXML = (\<lambda>p. Inr (f p))"
proof (rule exI, rule ext)
  show "GenerateDomainXML p = Inr (projr (GenerateDomainXML p))" for p
    by (rule GenerateDomainXML_text [of p]) simp
qed

lemma example_provision:
  "\<exists>xml. run_state (machine_Reconcile (recording_env example_cloud_machine) ''ns'' ''m0'') ([], fmempty) =
    (Inr empty_result,
     [VolumeCreated ''pool'' ''ns-c-m0-root.qcow2'', VolumeUploaded ''pool'' ''ns-c-m0-bootstrap.iso'' ''ISO:data'',
      VolumeCreated ''pool'' ''ns-c-m0-data.qcow2'', DomainDefined xml, DomainStarted ''ns-c-m0''], fmempty)"
proof -
  obtain f where f: "GenerateDomainXML = (\<lambda>p. Inr (f p))" using GenerateDomainXML_total by blast
  show ?thesis
  by (simp add: machine_Reconcile_def on_world_def on_machine_def recording_env_def reconcile_machine_def
    reconcileNormal_def add_finalizer_def ensureBootstrapData_def resolveAutoSizing_def new_ctx_def reconcile_steps_def
    preflightSessionMode_def preflightPools_def required_pools_def add_pool_def provision_def reconcileBaseImage_def
    reconcileRootDisk_def create_root_disk_def reconcileBootstrapArtifacts_def GetBootstrapData_def
    reconcileAdditionalDisks_def reconcileBootArtifacts_def reconcileDomain_def define_domain_def start_domain_def
    record_ready_def reconcileNodeLabels_def set_condition_def
    createClients_def closing_def NewMachineScope_def example_cloud_machine_def example_defs
    example_cluster_def example_libvirt_cluster_def example_keyed_host_def example_owner_def Let_def
    LocalConnectionURI_def mock_client_def recording_mock_def record_call_def no_mocks_def f
    DomainName_def ArtifactBaseName_def RootDiskVolumeName_def BootstrapISOName_def additionalDiskVolume_def
    del: example_set.simps)
qed



theorem reconcile_touches_own_objects_witness:
  "\<exists>es xml. run_state (machine_Reconcile (recording_env example_cloud_machine) ''ns'' ''m0'') ([], fmempty) =
     (Inr empty_result, es, fmempty) \<and> DomainDefined xml \<in> set es \<and>
     VolumeCreated ''pool'' ''ns-c-m0-root.qcow2'' \<in> set es \<and>
     list_all (\<lambda>e. \<exists>lm w1. run_state (me_GetLibvirtMachine (recording_env example_cloud_machine) ''ns'' ''m0'') [] =
       (Inr lm, w1) \<and> machine_event (recording_env example_cloud_machine) lm e) es"
proof -
  obtain es xml where run: "run_state (machine_Reconcile (recording_env example_cloud_machine) ''ns'' ''m0'') ([], fmempty) =
     (Inr empty_result, es, fmempty)" and es: "DomainDefined xml \<in> set es"
     "VolumeCreated ''pool'' ''ns-c-m0-root.qcow2'' \<in> set es"
    using example_provision by fastforce
  have "me_BootArtifactsResolver (recording_env example_cloud_machine) = None" by (simp add: recording_env_def)
  then show ?thesis
    using reconcile_touches_own_objects [OF recording_env_quiet _ _ run] run es by auto
qed

end
