(* ===== verification/Machine_Cleanup.thy ===== *)
theory Machine_Cleanup
  imports Host_Events
begin

text \<open>
  Taking a machine down. The requests \<^verbatim>\<open>reconcileDelete\<close> makes follow a plan that is
  computed from the scope alone; the finalizer goes exactly when the plan was carried out.
\<close>

section \<open>The plan\<close>

definition removal_pool :: "MachineScope \<Rightarrow> string" where
  "removal_pool sc =
     (let root = lm_RootDisk (sc_LibvirtMachine sc) in
      if rd_EphemeralPool root then EphemeralPoolName sc else rd_StoragePool root)"

definition delete_plan :: "MachineScope \<Rightarrow> host_event list" where
  "delete_plan sc =
     (let spec = lm_Spec (sc_LibvirtMachine sc) in
      [DomainDestroyed (DomainName sc), DomainUndefined (DomainName sc),
       VolumeDeleted (removal_pool sc) (RootDiskVolumeName sc)] @
      (if ms_BootstrapFormat spec = BootstrapFormatIgnition then [FileDeleted (IgnitionFilePath sc)]
       else if ms_BootstrapFormat spec = BootstrapFormatCloudInit
       then [VolumeDeleted (removal_pool sc) (BootstrapISOName sc)] else []) @
      map (\<lambda>d. VolumeDeleted (ad_StoragePool d) (additionalDiskVolume sc d)) (elems (ms_AdditionalDisks spec)) @
      (if rd_EphemeralPool (ms_RootDisk spec) then [PoolDestroyed (EphemeralPoolName sc)] else []))"

text \<open>A program that follows a plan: it stops at the first request that fails, and says so.\<close>

definition follows ::
  "('w \<Rightarrow> host_event list) \<Rightarrow> host_event list \<Rightarrow> ('w mstate, go_error option) state \<Rightarrow> bool" where
  "follows log plan m \<longleftrightarrow>
     (\<forall>s r s'. run_state m s = (r, s') \<longrightarrow>
        s_machine s' = s_machine s \<and> s_artifactCache s' = s_artifactCache s \<and>
        (\<exists>n. log (s_world s') = log (s_world s) @ take n plan \<and> (r = None \<longrightarrow> length plan \<le> n)))"

lemma followsI:
  assumes "\<And>s r s'. run_state m s = (r, s') \<Longrightarrow>
    s_machine s' = s_machine s \<and> s_artifactCache s' = s_artifactCache s \<and>
    (\<exists>n. log (s_world s') = log (s_world s) @ take n plan \<and> (r = None \<longrightarrow> length plan \<le> n))"
  shows "follows log plan m"
  using assms unfolding follows_def by blast

lemma followsD:
  assumes "follows log plan m" "run_state m s = (r, s')"
  obtains n where "s_machine s' = s_machine s" "s_artifactCache s' = s_artifactCache s"
    "log (s_world s') = log (s_world s) @ take n plan" "r = None \<Longrightarrow> length plan \<le> n"
  using assms unfolding follows_def by blast

lemma follows_nil: "follows log [] (State_Monad.return None)"
  by (rule followsI) simp

lemma follows_one:
  assumes "emits log e m"
  shows "follows log [e] (State_Monad.bind (io m) (\<lambda>r. State_Monad.return (f r)))"
  using assms by (intro followsI) (fastforce simp: emits_def split: prod.splits intro: exI [of _ 1])

lemma follows_removal: "emits log e m \<Longrightarrow> follows log [e] (removal msg m)"
  unfolding removal_def by (rule follows_one)

lemma follows_seq:
  assumes m: "follows log p m" and m': "follows log q m'"
  shows "follows log (p @ q)
    (State_Monad.bind m (\<lambda>r. case r of Some err \<Rightarrow> State_Monad.return (Some err) | None \<Rightarrow> m'))"
proof (rule followsI)
  fix s r s'
  assume run: "run_state (State_Monad.bind m
    (\<lambda>r. case r of Some err \<Rightarrow> State_Monad.return (Some err) | None \<Rightarrow> m')) s = (r, s')"
  obtain x t where x: "run_state m s = (x, t)" by fastforce
  obtain n where n: "s_machine t = s_machine s" "s_artifactCache t = s_artifactCache s"
      "log (s_world t) = log (s_world s) @ take n p" "x = None \<Longrightarrow> length p \<le> n"
    using followsD [OF m x] by blast
  show "s_machine s' = s_machine s \<and> s_artifactCache s' = s_artifactCache s \<and>
    (\<exists>n. log (s_world s') = log (s_world s) @ take n (p @ q) \<and> (r = None \<longrightarrow> length (p @ q) \<le> n))"
  proof (cases x)
    case None
    then have "run_state m' t = (r, s')" using run x by simp
    from followsD [OF m' this] obtain k where k: "s_machine s' = s_machine t"
        "s_artifactCache s' = s_artifactCache t" "log (s_world s') = log (s_world t) @ take k q"
        "r = None \<Longrightarrow> length q \<le> k"
      by blast
    have "take n p = p" using n(4) None by simp
    then have "log (s_world s') = log (s_world s) @ take (length p + k) (p @ q)"
      using n(3) k(3) by simp
    moreover have "r = None \<longrightarrow> length (p @ q) \<le> length p + k" using k(4) by simp
    ultimately show ?thesis using n k by metis
  next
    case (Some err)
    then have "r = Some err" "s' = t" using run x by simp_all
    moreover have "take n p = take (min n (length p)) (p @ q)" by (simp add: min_def)
    ultimately show ?thesis using n by (metis option.distinct(1))
  qed
qed

lemma follows_disks:
  assumes "client_traces cl log"
  shows "follows log (map (\<lambda>d. VolumeDeleted (ad_StoragePool d) (additionalDiskVolume sc d)) ds)
    (delete_disks cl sc ds)"
proof (induction ds)
  case (Cons d ds)
  have "follows log [VolumeDeleted (ad_StoragePool d) (additionalDiskVolume sc d)]
      (removal msg (DeleteVolume cl (ad_StoragePool d) (additionalDiskVolume sc d)))" for msg
    by (rule follows_removal) (use assms in \<open>simp add: client_traces_def\<close>)
  from follows_seq [OF this Cons] show ?case by (simp add: Let_def)
qed (simp add: follows_nil)

lemma follows_delete_artifacts:
  assumes "client_traces cl log"
  shows "follows log (delete_plan sc) (delete_artifacts cl sc)"
proof -
  let ?spec = "lm_Spec (sc_LibvirtMachine sc)"
  note one = follows_removal follows_one
  have emits: "emits log (DomainDestroyed n) (DestroyDomain cl n)" "emits log (DomainUndefined n) (UndefineDomain cl n)"
      "emits log (VolumeDeleted p v) (DeleteVolume cl p v)" "emits log (FileDeleted p) (DeleteRemoteFile cl p)"
      "emits log (PoolDestroyed n) (DestroyPool cl n)" for n p v
    using assms by (simp_all add: client_traces_def)
  let ?boot = "if ms_BootstrapFormat ?spec = BootstrapFormatIgnition then [FileDeleted (IgnitionFilePath sc)]
       else if ms_BootstrapFormat ?spec = BootstrapFormatCloudInit
       then [VolumeDeleted (removal_pool sc) (BootstrapISOName sc)] else []"
  have boot: "follows log ?boot (delete_bootstrap cl sc (removal_pool sc))"
    unfolding delete_bootstrap_def Let_def by (auto intro: one emits follows_nil)
  have pool: "follows log (if e then [PoolDestroyed n] else [])
      (if e then removal msg (DestroyPool cl n) else State_Monad.return None)" for e n msg
    by (auto intro: one emits follows_nil)
  have "follows log ([DomainDestroyed (DomainName sc)] @ [DomainUndefined (DomainName sc)] @
       [VolumeDeleted (removal_pool sc) (RootDiskVolumeName sc)] @ ?boot @
       map (\<lambda>d. VolumeDeleted (ad_StoragePool d) (additionalDiskVolume sc d)) (elems (ms_AdditionalDisks ?spec)) @
       (if rd_EphemeralPool (ms_RootDisk ?spec) then [PoolDestroyed (EphemeralPoolName sc)] else []))
     (delete_artifacts cl sc)"
    unfolding delete_artifacts_def Let_def removal_pool_def [unfolded Let_def, symmetric]
    by (intro follows_seq follows_removal emits boot follows_disks [OF assms] pool)
  then show ?thesis by (simp add: delete_plan_def Let_def)
qed



section \<open>The reconciliation of a machine that is leaving\<close>

abbreviation delete_scope :: "Cluster \<Rightarrow> LibvirtCluster \<Rightarrow> LibvirtHost \<Rightarrow> LibvirtMachine \<Rightarrow> MachineScope" where
  "delete_scope cluster lc host lm \<equiv>
     \<lparr>sc_Cluster = cluster, sc_Machine = empty_machine, sc_LibvirtCluster = lc, sc_LibvirtMachine = lm,
      sc_LibvirtHost = host\<rparr>"

definition finalized :: "LibvirtMachine \<Rightarrow> bool" where
  "finalized lm \<longleftrightarrow> MachineFinalizer \<in> set (om_Finalizers (lm_Meta lm))"

text \<open>What the finalizer helpers of controller-runtime do to the list of finalizers.\<close>

definition finalizer_helpers :: "('w, 'ssh) machine_env \<Rightarrow> bool" where
  "finalizer_helpers env \<longleftrightarrow>
     (\<forall>fs f. me_ContainsFinalizer env fs f = (f \<in> set fs)) \<and>
     (\<forall>fs f. set (me_AddFinalizer env fs f) = insert f (set fs)) \<and>
     (\<forall>fs f. set (me_RemoveFinalizer env fs f) = set fs - {f})"

lemma createClients_outcome:
  assumes "env_quiet env log" "run_state (createClients env host) w = (c, w')"
  shows "log w' = log w" and "c = Inr (ssh, cl) \<Longrightarrow> client_traces cl log"
proof -
  have q: "\<And>w r w'. run_state (me_GetSecret env ns n) w = (r, w') \<Longrightarrow> log w' = log w"
      "\<And>w r w'. run_state (me_SSHClientFactory env host sec) w = (r, w') \<Longrightarrow> log w' = log w" for ns n sec
    using assms(1) by (auto simp: env_quiet_def quiet_def)
  show "log w' = log w"
    using assms(2) q unfolding createClients_def Let_def
    by (auto split: option.splits prod.splits sum.splits)
  show "c = Inr (ssh, cl) \<Longrightarrow> client_traces cl log"
    using assms unfolding createClients_def Let_def
    by (auto simp: env_quiet_def split: option.splits prod.splits sum.splits)
qed

lemma closing_outcome:
  assumes "env_quiet env log" "run_state (closing env ssh body) s = (r, s')"
  obtains t where "run_state body s = (r, t)" "s_machine s' = s_machine t"
    "s_artifactCache s' = s_artifactCache t" "log (s_world s') = log (s_world t)"
proof -
  obtain r' t where t: "run_state body s = (r', t)" by fastforce
  obtain x1 w1 where w1: "run_state (me_CloseClient env ssh) (s_world t) = (x1, w1)" by (meson surj_pair)
  obtain x2 w2 where w2: "run_state (me_CloseSSH env ssh) w1 = (x2, w2)" by (meson surj_pair)
  have "log w1 = log (s_world t)" "log w2 = log w1"
    using assms(1) w1 w2 by (auto simp: env_quiet_def quiet_def)
  moreover have "r' = r" "s' = t\<lparr>s_world := w2\<rparr>" using assms(2) t w1 w2 by (simp_all add: closing_def)
  ultimately show ?thesis using t that by simp
qed

lemma delete_node_outcome:
  assumes "env_quiet env log" "run_state (delete_node env n) s = (r, s')"
  shows "s_machine s' = s_machine s \<and> log (s_world s') = log (s_world s)"
proof -
  have "\<And>w r w'. run_state (me_GetNode env n) w = (r, w') \<Longrightarrow> log w' = log w"
      "\<And>w r w'. run_state (me_DeleteNode env node) w = (r, w') \<Longrightarrow> log w' = log w" for node
    using assms(1) by (auto simp: env_quiet_def quiet_def)
  then show ?thesis using assms(2) unfolding delete_node_def
    by (auto split: prod.splits sum.splits)
qed

text \<open>The body between creating the clients and closing them.\<close>

lemma cleanup_outcome:
  assumes "env_quiet env log" "client_traces cl log" "finalizer_helpers env"
    and "run_state (do {
      e \<leftarrow> delete_artifacts cl sc;
      (case e of
         Some err \<Rightarrow> State_Monad.return (Inl err)
       | None \<Rightarrow> do {
           delete_node env (DomainName sc);
           remove_finalizer env;
           State_Monad.return (Inr empty_result) }) }) s = (r, t)"
  shows "\<exists>n. log (s_world t) = log (s_world s) @ take n (delete_plan sc) \<and>
    (case r of
       Inl err \<Rightarrow> finalized (s_machine t) = finalized (s_machine s)
     | Inr res \<Rightarrow> res = empty_result \<and> \<not> finalized (s_machine t) \<and> length (delete_plan sc) \<le> n)"
proof -
  obtain e u where u: "run_state (delete_artifacts cl sc) s = (e, u)" by fastforce
  obtain n where n: "s_machine u = s_machine s" "log (s_world u) = log (s_world s) @ take n (delete_plan sc)"
      "e = None \<Longrightarrow> length (delete_plan sc) \<le> n"
    using followsD [OF follows_delete_artifacts [OF assms(2)] u] by metis
  show ?thesis
  proof (cases e)
    case None
    obtain x v where v: "run_state (delete_node env (DomainName sc)) u = (x, v)" by (meson surj_pair)
    have "log (s_world v) = log (s_world u)" using delete_node_outcome [OF assms(1) v] by blast
    then show ?thesis using assms(3,4) u v n None
      by (auto simp: remove_finalizer_def finalized_def finalizer_helpers_def
          intro: exI [of _ "length (delete_plan sc)"])
  next
    case (Some err)
    then show ?thesis using assms(4) u n by auto
  qed
qed


lemma reconcileDelete_outcome:
  assumes "env_quiet env log" "finalizer_helpers env" "finalized (s_machine s)"
    and "run_state (reconcileDelete env cluster lc host) s = (r, s')"
  shows "\<exists>n. log (s_world s') =
      log (s_world s) @ take n (delete_plan (delete_scope cluster lc host (s_machine s))) \<and>
    (if finalized (s_machine s') then r \<noteq> Inr empty_result
     else r = Inr empty_result \<and> length (delete_plan (delete_scope cluster lc host (s_machine s))) \<le> n)"
proof -
  let ?sc = "delete_scope cluster lc host (s_machine s)"
  have fin: "me_ContainsFinalizer env (om_Finalizers (lm_Meta (s_machine s))) MachineFinalizer"
    using assms(2,3) by (simp add: finalizer_helpers_def finalized_def)
  have keep: "finalized (m\<lparr>lm_Status := st\<rparr>) = finalized m" for m st by (simp add: finalized_def)
  show ?thesis
  proof (cases "hst_Ready (lh_Status host)")
    case False
    then show ?thesis using assms(3,4) fin
      by (auto simp: reconcileDelete_def set_condition_def keep intro: exI [of _ 0])
  next
    case True
    obtain c w where c: "run_state (createClients env host) (s_world s) = (c, w)" by fastforce
    note clients = createClients_outcome [OF assms(1) c]
    show ?thesis
    proof (cases c)
      case (Inl err)
      then show ?thesis using assms(3,4) fin True c clients
        by (auto simp: reconcileDelete_def set_condition_def keep intro: exI [of _ 0])
    next
      case (Inr p)
      obtain ssh cl where p: "p = (ssh, cl)" by fastforce
      have cl: "client_traces cl log" using clients(2) Inr p by simp
      have run: "run_state (closing env ssh (do {
          e \<leftarrow> delete_artifacts cl ?sc;
          (case e of
             Some err \<Rightarrow> State_Monad.return (Inl err)
           | None \<Rightarrow> do {
               delete_node env (DomainName ?sc);
               remove_finalizer env;
               State_Monad.return (Inr empty_result) }) })) (s\<lparr>s_world := w\<rparr>) = (r, s')"
        using assms(4) fin True c Inr p by (simp add: reconcileDelete_def NewMachineScope_def)
      show ?thesis
      proof (rule closing_outcome [OF assms(1) run])
        fix t
        assume body: "run_state (do {
          e \<leftarrow> delete_artifacts cl ?sc;
          (case e of
             Some err \<Rightarrow> State_Monad.return (Inl err)
           | None \<Rightarrow> do {
               delete_node env (DomainName ?sc);
               remove_finalizer env;
               State_Monad.return (Inr empty_result) }) }) (s\<lparr>s_world := w\<rparr>) = (r, t)"
        assume t: "s_machine s' = s_machine t" "log (s_world s') = log (s_world t)"
        from cleanup_outcome [OF assms(1) cl assms(2) body] show ?thesis
          using t clients(1) assms(3) by (cases r) auto
      qed
    qed
  qed
qed



section \<open>Cleanup that cannot fail\<close>

text \<open>A client whose removals succeed, or find nothing to remove.\<close>

definition removals_answer :: "'w Client \<Rightarrow> bool" where
  "removals_answer cl \<longleftrightarrow>
     (\<forall>n w e w'. run_state (DestroyDomain cl n) w = (Some e, w') \<longrightarrow> IsNotFound e) \<and>
     (\<forall>n w e w'. run_state (UndefineDomain cl n) w = (Some e, w') \<longrightarrow> IsNotFound e) \<and>
     (\<forall>p n w e w'. run_state (DeleteVolume cl p n) w = (Some e, w') \<longrightarrow> IsNotFound e) \<and>
     (\<forall>n w e w'. run_state (DestroyPool cl n) w = (Some e, w') \<longrightarrow> IsNotFound e)"

definition clears :: "('w, go_error option) state \<Rightarrow> bool" where
  "clears m \<longleftrightarrow> (\<forall>s r s'. run_state m s = (r, s') \<longrightarrow> r = None)"

lemma clears_return [simp]: "clears (State_Monad.return None)"
  by (simp add: clears_def)

lemma clears_removal:
  "(\<And>w e w'. run_state m w = (Some e, w') \<Longrightarrow> IsNotFound e) \<Longrightarrow> clears (removal msg m)"
  by (auto simp: clears_def removal_def split: prod.splits option.splits)

lemma clears_seq:
  "clears m \<Longrightarrow> clears m' \<Longrightarrow>
   clears (State_Monad.bind m (\<lambda>r. case r of Some err \<Rightarrow> State_Monad.return (Some err) | None \<Rightarrow> m'))"
  by (auto simp: clears_def split: prod.splits option.splits)

lemma clears_delete_artifacts:
  assumes "removals_answer cl"
  shows "clears (delete_artifacts cl sc)"
proof -
  have one: "clears (removal msg (DestroyDomain cl n))" "clears (removal msg (UndefineDomain cl n))"
      "clears (removal msg (DeleteVolume cl p n))" "clears (removal msg (DestroyPool cl n))" for msg n p
    using assms unfolding removals_answer_def by (blast intro!: clears_removal)+
  have disks: "clears (delete_disks cl sc ds)" for ds
    by (induction ds) (simp_all add: Let_def clears_seq one)
  have boot: "clears (delete_bootstrap cl sc p)" for p
    unfolding delete_bootstrap_def Let_def using one
    by (auto simp: clears_def split: prod.splits)
  show ?thesis unfolding delete_artifacts_def Let_def by (auto intro!: clears_seq one disks boot)
qed

lemma delete_completes:
  assumes "finalizer_helpers env" "finalized (s_machine s)" "hst_Ready (lh_Status host)"
    and "run_state (createClients env host) (s_world s) = (Inr (ssh, cl), w)" "removals_answer cl"
    and "run_state (reconcileDelete env cluster lc host) s = (r, s')"
  shows "r = Inr empty_result"
proof -
  let ?sc = "delete_scope cluster lc host (s_machine s)"
  have "clears (delete_artifacts cl ?sc)" by (rule clears_delete_artifacts [OF assms(5)])
  then have "\<And>t e u. run_state (delete_artifacts cl ?sc) t = (e, u) \<Longrightarrow> e = None" unfolding clears_def by blast
  moreover have "me_ContainsFinalizer env (om_Finalizers (lm_Meta (s_machine s))) MachineFinalizer"
    using assms(1,2) by (simp add: finalizer_helpers_def finalized_def)
  ultimately show ?thesis using assms(3,4,6)
    by (auto simp: reconcileDelete_def NewMachineScope_def closing_def split: prod.splits option.splits)
qed


text \<open>A machine that is being deleted, for the witnesses.\<close>

definition example_leaving_machine :: LibvirtMachine where
  "example_leaving_machine = example_machine ''m0''\<lparr>lm_Meta := (example_meta ''m0'')
     \<lparr>om_DeletionTimestamp := True, om_Finalizers := [MachineFinalizer]\<rparr>\<rparr>"

definition example_leaving_state :: "host_event list mstate" where
  "example_leaving_state = \<lparr>s_world = [], s_machine = example_leaving_machine, s_artifactCache = fmempty\<rparr>"

definition delete_events :: "host_event list" where
  "delete_events = [DomainDestroyed ''ns-c-m0'', DomainUndefined ''ns-c-m0'',
       VolumeDeleted ''pool'' ''ns-c-m0-root.qcow2'',
       FileDeleted ''/run/caplv/ns-c-m0/ignition.json'', VolumeDeleted ''pool'' ''ns-c-m0-data.qcow2'']"

abbreviation "example_delete_env \<equiv> recording_env example_leaving_machine"

lemma example_delete_facts:
  "finalizer_helpers example_delete_env" "finalized (s_machine example_leaving_state)"
  "hst_Ready (lh_Status example_keyed_host)" "removals_answer (mock_client recording_mock)"
  "run_state (createClients example_delete_env example_keyed_host) [] = (Inr ((), mock_client recording_mock), [])"
  "delete_plan (delete_scope example_cluster example_libvirt_cluster example_keyed_host example_leaving_machine) =
     delete_events"
  "s_world example_leaving_state = []" "s_machine example_leaving_state = example_leaving_machine"
  by (auto simp: finalizer_helpers_def recording_env_def finalized_def example_leaving_state_def
      example_leaving_machine_def example_defs example_keyed_host_def removals_answer_def mock_client_def
      recording_mock_def no_mocks_def record_call_def createClients_def LocalConnectionURI_def
      delete_plan_def delete_events_def Let_def removal_pool_def DomainName_def ArtifactBaseName_def
      example_cluster_def RootDiskVolumeName_def additionalDiskVolume_def IgnitionFilePath_def)


section \<open>Properties\<close>



text \<open>C6: a deletion completes: when the host is ready, the clients can be created and every
  removal succeeds or finds nothing, one reconciliation carries out the plan and drops the
  finalizer.\<close>

theorem delete_terminates_clean:
  assumes "env_quiet env log" "finalizer_helpers env" "finalized (s_machine s)" "hst_Ready (lh_Status host)"
    and "run_state (createClients env host) (s_world s) = (Inr (ssh, cl), w)" "removals_answer cl"
  shows "\<exists>s'. run_state (reconcileDelete env cluster lc host) s = (Inr empty_result, s') \<and>
    \<not> finalized (s_machine s') \<and>
    log (s_world s') = log (s_world s) @ delete_plan \<lparr>sc_Cluster = cluster, sc_Machine = empty_machine,
      sc_LibvirtCluster = lc, sc_LibvirtMachine = s_machine s, sc_LibvirtHost = host\<rparr>"
proof -
  obtain r s' where run: "run_state (reconcileDelete env cluster lc host) s = (r, s')" by fastforce
  have r: "r = Inr empty_result" by (rule delete_completes [OF assms(2-6) run])
  have "\<not> finalized (s_machine s') \<and> log (s_world s') = log (s_world s) @
      delete_plan (delete_scope cluster lc host (s_machine s))"
    using reconcileDelete_outcome [OF assms(1-3) run] r by (auto split: if_splits)
  then show ?thesis using run r by blast
qed

theorem delete_terminates_clean_witness:
  "\<exists>s'. run_state (reconcileDelete example_delete_env example_cluster example_libvirt_cluster example_keyed_host)
      example_leaving_state = (Inr empty_result, s') \<and>
    \<not> finalized (s_machine s') \<and> s_world s' = delete_events"
  using delete_terminates_clean [OF recording_env_quiet example_delete_facts(1-3) _ example_delete_facts(4),
      of "()" "[]" example_cluster example_libvirt_cluster]
  by (simp add: example_delete_facts)

end
