(* ===== verification/Machine_Failure.thy ===== *)
theory Machine_Failure
  imports Machine_Isolation
begin

text \<open>
  Machines that failed for good: what a recorded failure reason keeps a reconciliation from
  doing, and the preflight checks that record one before anything is created on the host.
\<close>

section \<open>A machine with a failure reason\<close>

definition failed :: "LibvirtMachine \<Rightarrow> bool" where
  "failed m \<longleftrightarrow> st_FailureReason (lm_Status m) \<noteq> None"

text \<open>Nothing is asked of a host, the failure stays and the machine does not become ready.\<close>

abbreviation (input) idles :: "('w \<Rightarrow> host_event list) \<Rightarrow> bool \<Rightarrow> 'w mstate \<Rightarrow> 'w mstate \<Rightarrow> bool" where
  "idles log rdy \<equiv> touches log (\<lambda>m. failed m \<and> (st_Ready (lm_Status m) \<longrightarrow> rdy)) (\<lambda>a. True) (\<lambda>e. False)"

lemma idles_status:
  "state_io_rel (idles log rdy) (set_condition env ctype status reason msg)"
  "state_io_rel (idles log rdy) (setTerminalError reason msg)"
  unfolding set_condition_def setTerminalError_def by (rule touches_set, simp add: failed_def)+

lemma idles_ensureBootstrapData:
  assumes "env_quiet env log"
  shows "state_io_rel (idles log rdy) (ensureBootstrapData env machine)"
  unfolding ensureBootstrapData_def Let_def
  by (intro tp.io_intros idles_status touches_query) (use assms in \<open>simp add: env_quiet_def\<close>)

lemma idles_resolveAutoSizing: "state_io_rel (idles log rdy) (resolveAutoSizing host)"
  unfolding resolveAutoSizing_def Let_def by (rule touches_get) (intro tp.io_intros idles_status)

lemma idles_preflightSessionMode: "state_io_rel (idles log rdy) (preflightSessionMode env rc)"
  unfolding preflightSessionMode_def Let_def by (rule touches_get) (intro tp.io_intros idles_status)

lemma idles_reconcile_steps: "state_io_rel (idles log rdy) (reconcile_steps env rc)"
  unfolding reconcile_steps_def
  by (intro tp.io_bind idles_preflightSessionMode touches_get) (auto simp: failed_def intro: tp.io_return)

lemma idles_createClients:
  assumes "env_quiet env log"
  shows "state_io_rel (idles log rdy) (io (createClients env host))"
proof (rule touches_query)
  have "quiet log (me_GetSecret env ns n)" "quiet log (me_SSHClientFactory env host sec)" for ns n sec
    using assms by (simp_all add: env_quiet_def)
  then show "quiet log (createClients env host)"
    unfolding createClients_def Let_def by (auto split: option.splits sum.splits intro!: quiet_bind)
qed

lemma idles_reconcileNormal:
  assumes "env_quiet env log"
  shows "state_io_rel (idles log rdy) (reconcileNormal env machine cluster lc host)"
proof -
  have finalizer: "state_io_rel (idles log rdy) (add_finalizer env)"
    unfolding add_finalizer_def by (rule touches_set) (simp add: failed_def)
  have close: "state_io_rel (idles log rdy) (io (me_CloseClient env ssh))"
      "state_io_rel (idles log rdy) (io (me_CloseSSH env ssh))" for ssh
    using assms by (auto simp: env_quiet_def intro!: touches_query)
  show ?thesis unfolding reconcileNormal_def closing_def
    by (intro tp.io_bind tp.io_if tp.io_return tp.io_case_sum tp.io_case_option tp.io_case_prod finalizer idles_status close
          idles_createClients [OF assms] idles_ensureBootstrapData [OF assms] touches_get
          idles_resolveAutoSizing idles_reconcile_steps)
qed

lemma idles_reconcile_machine:
  assumes "env_quiet env log" "\<not> om_DeletionTimestamp (lm_Meta lm)"
  shows "state_io_rel (idles log rdy) (reconcile_machine env lm)"
proof -
  have "quiet log (me_GetOwnerMachine env m)" "quiet log (me_GetClusterFromMetadata env m)"
      "quiet log (me_GetLibvirtCluster env ns n)" "quiet log (me_GetLibvirtHost env ns n)" for m ns n
    using assms(1) by (simp_all add: env_quiet_def)
  note reads = this [THEN touches_query]
  have branch: "(if om_DeletionTimestamp (lm_Meta lm) then a else b) = b" for a b :: "('a mstate, go_error + Result) state"
    using assms(2) by simp
  show ?thesis unfolding reconcile_machine_def branch
    by (intro tp.io_intros reads idles_reconcileNormal [OF assms(1)])
qed


section \<open>The preflight of pools\<close>

lemma handleLibvirtError_outcome:
  assumes "run_state (handleLibvirtError err operation) s = (r, s')"
  shows "s_world s' = s_world s \<and> (r = None \<longrightarrow> failed (s_machine s'))"
  using assms by (auto simp: handleLibvirtError_def setTerminalError_def failed_def split: if_splits)

lemma check_pools_outcome:
  assumes "\<And>n. quiet log (PoolExists (rc_libvirtClient rc) n)"
    and "\<And>w. fst (run_state (PoolExists (rc_libvirtClient rc) (rp_name p)) w) = Inr False"
    and "p \<in> set ps" "run_state (check_pools env rc ps) s = (r, s')"
  shows "log (s_world s') = log (s_world s) \<and> (r = None \<longrightarrow> failed (s_machine s'))"
  using assms(3,4)
proof (induction ps arbitrary: s)
  case (Cons q ps)
  obtain x w where x: "run_state (PoolExists (rc_libvirtClient rc) (rp_name q)) (s_world s) = (x, w)" by fastforce
  have w: "log w = log (s_world s)" using assms(1) x by (simp add: quiet_def)
  show ?case
  proof (cases x)
    case (Inl err)
    then have "run_state (handleLibvirtError err (''checking '' @ rp_label q @ '' pool'')) (s\<lparr>s_world := w\<rparr>) = (r, s')"
      using Cons.prems(2) x by simp
    from handleLibvirtError_outcome [OF this] show ?thesis using w by simp
  next
    case (Inr exists)
    show ?thesis
    proof (cases exists)
      case True
      then have "q \<noteq> p" using x Inr assms(2) [of "s_world s"] by auto
      then have "p \<in> set ps" using Cons.prems(1) by simp
      then show ?thesis using Cons.IH [of "s\<lparr>s_world := w\<rparr>"] Cons.prems(2) x Inr True w by simp
    next
      case False
      then show ?thesis using Cons.prems(2) x Inr w
        by (auto simp: Let_def setTerminalError_def set_condition_def failed_def)
    qed
  qed
qed simp

lemma preflightSessionMode_outcome:
  assumes "run_state (preflightSessionMode env rc) s = (u, t)"
  shows "s_world t = s_world s \<and> lm_Spec (s_machine t) = lm_Spec (s_machine s)"
  using assms unfolding preflightSessionMode_def Let_def
  by (auto simp: setTerminalError_def set_condition_def split: sum.splits if_splits)

lemma required_pools_spec: "lm_Spec m = lm_Spec m' \<Longrightarrow> required_pools m rc = required_pools m' rc"
  by (simp add: required_pools_def)


section \<open>Properties\<close>


definition example_failed_machine :: LibvirtMachine where
  "example_failed_machine = example_machine ''m0''\<lparr>lm_Status := example_status
     \<lparr>st_FailureReason := Some ReasonSpecMismatch\<rparr>\<rparr>"


text \<open>C21: a required pool that the host does not have stops a machine before anything is
  created: the preflight records a failure, or returns an error when a pool could not be looked
  up, and no request that changes the host is made.\<close>

theorem missing_pool_stops:
  assumes "client_traces (rc_libvirtClient rc) log"
    and "p \<in> set (required_pools (s_machine s) rc)"
    and "\<And>w. fst (run_state (PoolExists (rc_libvirtClient rc) (rp_name p)) w) = Inr False"
    and "run_state (reconcile_steps env rc) s = (r, s')"
  shows "log (s_world s') = log (s_world s) \<and> (failed (s_machine s') \<or> (\<exists>err. r = Inl err))"
proof -
  obtain u t where t: "run_state (preflightSessionMode env rc) s = (u, t)" by (meson surj_pair)
  note same = preflightSessionMode_outcome [OF t]
  obtain e v where e: "run_state (preflightPools env rc) t = (e, v)" by fastforce
  have "required_pools (s_machine t) rc = required_pools (s_machine s) rc"
    by (rule required_pools_spec) (simp add: same)
  then have checked: "run_state (check_pools env rc (required_pools (s_machine s) rc)) t = (e, v)"
    using e by (simp add: preflightPools_def)
  have v: "log (s_world v) = log (s_world t) \<and> (e = None \<longrightarrow> failed (s_machine v))"
    by (rule check_pools_outcome [OF client_quiet(3) [OF assms(1)] assms(3) assms(2) checked])
  show ?thesis
  proof (cases "failed (s_machine t)")
    case True
    then have "run_state (reconcile_steps env rc) s = (Inr empty_result, t)"
      using t by (simp add: reconcile_steps_def failed_def del: not_None_eq)
    then show ?thesis using True same assms(4) by simp
  next
    case False
    then have "run_state (reconcile_steps env rc) s =
        (case e of Some err \<Rightarrow> (Inl err, v) | None \<Rightarrow> (Inr empty_result, v))"
      using t e v by (cases e) (simp_all add: reconcile_steps_def failed_def del: not_None_eq)
    then show ?thesis using v same assms(4) by (cases e) auto
  qed
qed

definition example_poolless_ctx :: "host_event list reconcileCtx" where
  "example_poolless_ctx = new_ctx (recording_env (example_machine ''m0''))
     \<lparr>sc_Cluster = example_cluster, sc_Machine = example_owner, sc_LibvirtCluster = example_libvirt_cluster,
      sc_LibvirtMachine = example_machine ''m0'', sc_LibvirtHost = example_keyed_host\<rparr>
     (mock_client (recording_mock\<lparr>PoolExistsFn := None\<rparr>)) 4 8192"

definition example_start :: "host_event list mstate" where
  "example_start = \<lparr>s_world = [], s_machine = example_machine ''m0'', s_artifactCache = fmempty\<rparr>"

theorem missing_pool_stops_witness:
  "\<exists>r s'. run_state (reconcile_steps (recording_env (example_machine ''m0'')) example_poolless_ctx) example_start =
     (r, s') \<and> s_world s' = [] \<and> (failed (s_machine s') \<or> (\<exists>err. r = Inl err))"
proof -
  obtain r s' where run: "run_state (reconcile_steps (recording_env (example_machine ''m0'')) example_poolless_ctx)
      example_start = (r, s')" by fastforce
  let ?p = "\<lparr>rp_name = ''pool'', rp_label = ''base image'', rp_reason = ReasonBaseImagePoolNotFound\<rparr>"
  have cl: "rc_libvirtClient example_poolless_ctx = mock_client (recording_mock\<lparr>PoolExistsFn := None\<rparr>)"
    by (simp add: example_poolless_ctx_def new_ctx_def Let_def)
  have "client_traces (rc_libvirtClient example_poolless_ctx) (\<lambda>w. w)"
    by (simp add: cl client_traces_def recording_mock_def mock_client_def no_mocks_def)
  moreover have "?p \<in> set (required_pools (s_machine example_start) example_poolless_ctx)"
    by (simp add: required_pools_def example_start_def example_poolless_ctx_def new_ctx_def example_defs
        example_libvirt_cluster_def add_pool_def Let_def)
  moreover have "\<And>w. fst (run_state (PoolExists (rc_libvirtClient example_poolless_ctx) (rp_name ?p)) w) = Inr False"
    by (simp add: cl recording_mock_def mock_client_def no_mocks_def)
  ultimately have "s_world s' = s_world example_start \<and> (failed (s_machine s') \<or> (\<exists>err. r = Inl err))"
    using missing_pool_stops [OF _ _ _ run] by blast
  then show ?thesis using run by (simp add: example_start_def)
qed

end
