(* ===== verification/Webhook.thy ===== *)
theory Webhook
  imports Examples Go_Net
begin

text \<open>
  \<^verbatim>\<open>internal/webhook/v1alpha1/libvirtmachine_webhook.go\<close>: the admission checks on a
  \<open>LibvirtMachine\<close>, and what they keep true of the machines of a cluster, whatever sequence
  of requests it is sent.

  A validator returns nil (\<open>None\<close>) or the invalid-object error with the list of field errors.
  The reader of the validator lists the machines of a namespace.
\<close>

section \<open>Field errors\<close>

datatype field_error =
    FieldRequired string string
  | FieldInvalid string string string
  | FieldForbidden string string
  | FieldInternalError string go_error

definition path_index :: "string \<Rightarrow> nat \<Rightarrow> string" where
  "path_index p i = p @ ''['' @ fmt_d (int i) @ '']''"

definition path_child :: "string \<Rightarrow> string \<Rightarrow> string" where
  "path_child p name = p @ ''.'' @ name"

definition NewInvalid :: "string \<Rightarrow> field_error list \<Rightarrow> (string \<times> field_error list) option" where
  "NewInvalid name allErrs = (if length allErrs > 0 then Some (name, allErrs) else None)"


section \<open>Identifiers\<close>

definition identifier_chars :: string where
  "identifier_chars = ''ABCDEFGHIJKLMNOPQRSTUVWXYZabcdefghijklmnopqrstuvwxyz0123456789_.:-''"

definition libvirtIdentifierPattern :: "string \<Rightarrow> bool" where
  "libvirtIdentifierPattern s =
     (s \<noteq> [] \<and> list_all (\<lambda>c. c \<in> set identifier_chars) s)"

definition appendLibvirtIdentifierError ::
  "field_error list \<Rightarrow> string \<Rightarrow> string \<Rightarrow> field_error list" where
  "appendLibvirtIdentifierError allErrs path value =
     (if value = '''' \<or> libvirtIdentifierPattern value then allErrs
      else allErrs @ [FieldInvalid path value
        (''must contain only letters, numbers, '_', '.', ':', or '-'' @ [CHR 0x27])])"

fun disk_errors :: "nat \<Rightarrow> AdditionalDiskSpec list \<Rightarrow> field_error list \<Rightarrow> field_error list" where
  "disk_errors i [] allErrs = allErrs"
| "disk_errors i (disk # disks) allErrs =
     (let diskPath = path_index ''spec.additionalDisks'' i;
          errs1 = appendLibvirtIdentifierError allErrs (path_child diskPath ''name'') (ad_Name disk);
          errs2 = appendLibvirtIdentifierError errs1 (path_child diskPath ''storagePool'')
                    (ad_StoragePool disk)
      in disk_errors (i + 1) disks errs2)"

definition validateShellSafeLibvirtFields :: "LibvirtMachineSpec \<Rightarrow> field_error list" where
  "validateShellSafeLibvirtFields spec =
     (let rootPath = ''spec.rootDisk''; root = ms_RootDisk spec;
          errs1 = appendLibvirtIdentifierError [] (path_child rootPath ''storagePool'')
                    (rd_StoragePool root);
          errs2 = appendLibvirtIdentifierError errs1 (path_child rootPath ''baseImage'')
                    (rd_BaseImage root);
          errs3 = (if rd_BaseImagePool root \<noteq> ''''
                   then appendLibvirtIdentifierError errs2 (path_child rootPath ''baseImagePool'')
                          (rd_BaseImagePool root)
                   else errs2)
      in disk_errors 0 (elems (ms_AdditionalDisks spec)) errs3)"


section \<open>Creation\<close>

definition validateHostUniqueness ::
  "(string \<Rightarrow> go_error + LibvirtMachine list) \<Rightarrow> LibvirtMachine \<Rightarrow> field_error option" where
  "validateHostUniqueness listIn obj =
     (case listIn (lm_Namespace obj) of
        Inl err \<Rightarrow> Some (FieldInternalError ''spec.hostRef'' (Wrapf ''failed to list machines: '' err))
      | Inr items \<Rightarrow>
          map_option
            (\<lambda>existing. FieldForbidden ''spec.hostRef''
               (''host '' @ fmt_q (ms_HostRef (lm_Spec obj)) @
                '' is already in use by LibvirtMachine '' @ fmt_q (lm_Name existing) @
                ''; each host supports at most one VM''))
            (find (\<lambda>existing.
               \<not> (lm_Name existing = lm_Name obj \<and> lm_Namespace existing = lm_Namespace obj) \<and>
               \<not> om_DeletionTimestamp (lm_Meta existing) \<and>
               ms_HostRef (lm_Spec existing) = ms_HostRef (lm_Spec obj)) items))"

fun address_errors :: "nat \<Rightarrow> string list \<Rightarrow> field_error list" where
  "address_errors i [] = []"
| "address_errors i (addr # addrs) =
     (if net_ParseCIDR_ok addr then []
      else [FieldInvalid (path_index ''spec.network.addresses'' i) addr
              (''invalid CIDR notation: invalid CIDR address: '' @ addr)])
     @ address_errors (i + 1) addrs"

definition clone_errors :: "RootDiskSpec \<Rightarrow> field_error list" where
  "clone_errors root =
     (if rd_CloneStrategy root = CloneStrategyFullClone
      then let baseImagePool = (if rd_BaseImagePool root = '''' then rd_StoragePool root
                                else rd_BaseImagePool root)
           in if baseImagePool \<noteq> rd_StoragePool root
              then [FieldInvalid ''spec.rootDisk.cloneStrategy'' (rd_CloneStrategy root)
                 (''full-clone is not supported when baseImagePool differs from storagePool; '' @
                  ''use copy-on-write instead'')]
              else []
      else [])"

definition ValidateCreate ::
  "(string \<Rightarrow> go_error + LibvirtMachine list) option \<Rightarrow> LibvirtMachine \<Rightarrow>
   (string \<times> field_error list) option" where
  "ValidateCreate client obj =
     (let addrs = elems (net_Addresses (ms_Network (lm_Spec obj)));
          allErrs =
            (if length addrs = 0
             then [FieldRequired ''spec.network.addresses'' ''at least one address is required'']
             else []) @
            address_errors 0 addrs @
            validateShellSafeLibvirtFields (lm_Spec obj) @
            clone_errors (lm_RootDisk obj) @
            (case client of
               None \<Rightarrow> []
             | Some listIn \<Rightarrow>
                 (case validateHostUniqueness listIn obj of None \<Rightarrow> [] | Some err \<Rightarrow> [err]))
      in NewInvalid (lm_Name obj) allErrs)"


section \<open>Update and deletion\<close>

definition providerID_errors :: "string option \<Rightarrow> string option \<Rightarrow> field_error list" where
  "providerID_errors oldID newID =
     (case oldID of
        None \<Rightarrow> []
      | Some old \<Rightarrow>
          (case newID of
             None \<Rightarrow> [FieldForbidden ''spec.providerID'' ''providerID cannot be cleared once set'']
           | Some new \<Rightarrow>
               if old \<noteq> new
               then [FieldForbidden ''spec.providerID'' ''providerID cannot be changed once set'']
               else []))"

definition ValidateUpdate ::
  "LibvirtMachine \<Rightarrow> LibvirtMachine \<Rightarrow> (string \<times> field_error list) option" where
  "ValidateUpdate oldObj newObj =
     (let oldSpec = (lm_Spec oldObj)\<lparr>ms_ProviderID := None\<rparr>;
          newSpec = (lm_Spec newObj)\<lparr>ms_ProviderID := None\<rparr>;
          allErrs =
            validateShellSafeLibvirtFields (lm_Spec newObj) @
            providerID_errors (ms_ProviderID (lm_Spec oldObj)) (ms_ProviderID (lm_Spec newObj)) @
            (if oldSpec \<noteq> newSpec
             then [FieldForbidden ''spec'' ''spec is immutable after creation (except providerID)'']
             else [])
      in NewInvalid (lm_Name newObj) allErrs)"

definition ValidateDelete :: "LibvirtMachine \<Rightarrow> (string \<times> field_error list) option" where
  "ValidateDelete obj = None"


section \<open>Histories of requests\<close>

text \<open>
  The machines the API server stores and how requests change them, as the API server documents
  it: names are unique in a namespace, an update keeps name and namespace, and a deletion
  timestamp, once set, is never cleared. The webhook decides on creations and updates; its
  reader sees the stored machines.
\<close>

definition machine_key :: "LibvirtMachine \<Rightarrow> string \<times> string" where
  "machine_key m = (lm_Namespace m, lm_Name m)"

definition list_in :: "LibvirtMachine list \<Rightarrow> string \<Rightarrow> go_error + LibvirtMachine list" where
  "list_in ms ns = Inr (filter (\<lambda>m. lm_Namespace m = ns) ms)"

definition deleting :: "LibvirtMachine \<Rightarrow> bool" where
  "deleting m = om_DeletionTimestamp (lm_Meta m)"

definition mark_deleted :: "LibvirtMachine \<Rightarrow> LibvirtMachine" where
  "mark_deleted m = m\<lparr>lm_Meta := (lm_Meta m)\<lparr>om_DeletionTimestamp := True\<rparr>\<rparr>"

definition put :: "LibvirtMachine \<Rightarrow> LibvirtMachine list \<Rightarrow> LibvirtMachine list" where
  "put m ms = map (\<lambda>x. if machine_key x = machine_key m then m else x) ms"

inductive request :: "LibvirtMachine list \<Rightarrow> LibvirtMachine list \<Rightarrow> bool" where
  create: "machine_key obj \<notin> machine_key ` set ms \<Longrightarrow> \<not> deleting obj \<Longrightarrow>
    ValidateCreate (Some (list_in ms)) obj = None \<Longrightarrow> request ms (obj # ms)"
| update: "old \<in> set ms \<Longrightarrow> machine_key new = machine_key old \<Longrightarrow> deleting new = deleting old \<Longrightarrow>
    ValidateUpdate old new = None \<Longrightarrow> request ms (put new ms)"
| delete: "old \<in> set ms \<Longrightarrow> ValidateDelete old = None \<Longrightarrow> request ms (put (mark_deleted old) ms)"
| remove: "old \<in> set ms \<Longrightarrow> deleting old \<Longrightarrow>
    request ms (filter (\<lambda>m. machine_key m \<noteq> machine_key old) ms)"

inductive_cases requestE: "request ms ms'"

abbreviation "stored ms \<equiv> request\<^sup>*\<^sup>* [] ms"


section \<open>What the checks say\<close>

definition libvirt_identifiers :: "LibvirtMachineSpec \<Rightarrow> string list" where
  "libvirt_identifiers spec =
     [rd_StoragePool (ms_RootDisk spec), rd_BaseImage (ms_RootDisk spec),
      rd_BaseImagePool (ms_RootDisk spec)] @
     concat (map (\<lambda>d. [ad_Name d, ad_StoragePool d]) (elems (ms_AdditionalDisks spec)))"

definition shell_safe :: "LibvirtMachineSpec \<Rightarrow> bool" where
  "shell_safe spec =
     list_all (\<lambda>v. v = '''' \<or> libvirtIdentifierPattern v) (libvirt_identifiers spec)"

definition clone_ok :: "RootDiskSpec \<Rightarrow> bool" where
  "clone_ok root = (rd_CloneStrategy root = CloneStrategyFullClone \<longrightarrow>
     rd_BaseImagePool root = '''' \<or> rd_BaseImagePool root = rd_StoragePool root)"

definition spec_ok :: "LibvirtMachineSpec \<Rightarrow> bool" where
  "spec_ok spec =
     (elems (net_Addresses (ms_Network spec)) \<noteq> [] \<and>
      list_all net_ParseCIDR_ok (elems (net_Addresses (ms_Network spec))) \<and>
      shell_safe spec \<and> clone_ok (ms_RootDisk spec))"

lemma NewInvalid_None [simp]: "NewInvalid name errs = None \<longleftrightarrow> errs = []"
  by (simp add: NewInvalid_def)

lemma appendLibvirtIdentifierError_Nil [simp]:
  "appendLibvirtIdentifierError errs path v = [] \<longleftrightarrow>
   errs = [] \<and> (v = '''' \<or> libvirtIdentifierPattern v)"
  by (simp add: appendLibvirtIdentifierError_def)

lemma disk_errors_Nil:
  "disk_errors i disks errs = [] \<longleftrightarrow>
   errs = [] \<and> list_all (\<lambda>v. v = '''' \<or> libvirtIdentifierPattern v)
                 (concat (map (\<lambda>d. [ad_Name d, ad_StoragePool d]) disks))"
  by (induction i disks errs rule: disk_errors.induct) (auto simp: Let_def)

lemma validateShellSafe_Nil [simp]:
  "validateShellSafeLibvirtFields spec = [] \<longleftrightarrow> shell_safe spec"
  by (auto simp: validateShellSafeLibvirtFields_def shell_safe_def libvirt_identifiers_def
        Let_def disk_errors_Nil)

lemma address_errors_Nil [simp]: "address_errors i addrs = [] \<longleftrightarrow> list_all net_ParseCIDR_ok addrs"
  by (induction i addrs rule: address_errors.induct) auto

lemma clone_errors_Nil [simp]: "clone_errors root = [] \<longleftrightarrow> clone_ok root"
  by (simp add: clone_errors_def clone_ok_def Let_def)

lemma validateHostUniqueness_None:
  "validateHostUniqueness listIn obj = None \<longleftrightarrow>
   (\<exists>items. listIn (lm_Namespace obj) = Inr items \<and>
     (\<forall>m \<in> set items. machine_key m \<noteq> machine_key obj \<longrightarrow> \<not> deleting m \<longrightarrow>
        ms_HostRef (lm_Spec m) \<noteq> ms_HostRef (lm_Spec obj)))"
  by (cases "listIn (lm_Namespace obj)")
     (auto simp: validateHostUniqueness_def find_None_iff machine_key_def deleting_def)

lemma ValidateCreate_None:
  "ValidateCreate (Some listIn) obj = None \<longleftrightarrow>
   spec_ok (lm_Spec obj) \<and> validateHostUniqueness listIn obj = None"
  by (auto simp: ValidateCreate_def Let_def spec_ok_def split: option.splits)

lemma providerID_errors_Nil [simp]:
  "providerID_errors old new = [] \<longleftrightarrow> old = None \<or> new = old"
  by (auto simp: providerID_errors_def split: option.splits)

lemma ValidateUpdate_None:
  "ValidateUpdate old new = None \<longleftrightarrow>
   shell_safe (lm_Spec new) \<and>
   (ms_ProviderID (lm_Spec old) = None \<or> ms_ProviderID (lm_Spec new) = ms_ProviderID (lm_Spec old)) \<and>
   lm_Spec new = (lm_Spec old)\<lparr>ms_ProviderID := ms_ProviderID (lm_Spec new)\<rparr>"
  by (cases "lm_Spec old"; cases "lm_Spec new") (auto simp: ValidateUpdate_def Let_def)


section \<open>The invariant of the stored machines\<close>

definition hosts_unique :: "LibvirtMachine list \<Rightarrow> bool" where
  "hosts_unique ms = list_all (\<lambda>m. list_all (\<lambda>m'.
     deleting m \<or> deleting m' \<or> lm_Namespace m \<noteq> lm_Namespace m' \<or>
     ms_HostRef (lm_Spec m) \<noteq> ms_HostRef (lm_Spec m') \<or> machine_key m = machine_key m') ms) ms"

definition admitted :: "LibvirtMachine list \<Rightarrow> bool" where
  "admitted ms =
     (distinct (map machine_key ms) \<and> list_all (\<lambda>m. spec_ok (lm_Spec m)) ms \<and> hosts_unique ms)"

lemma keys_put [simp]: "map machine_key (put m ms) = map machine_key ms"
  by (simp add: put_def)

lemma in_put: "x \<in> set (put m ms) \<Longrightarrow> x = m \<or> x \<in> set ms \<and> machine_key x \<noteq> machine_key m"
  by (auto simp: put_def split: if_splits)

lemma spec_ok_providerID [simp]: "spec_ok (spec\<lparr>ms_ProviderID := p\<rparr>) = spec_ok spec"
  by (simp add: spec_ok_def shell_safe_def libvirt_identifiers_def)

text \<open>How an update can change a spec.\<close>

definition spec_evolves :: "LibvirtMachineSpec \<Rightarrow> LibvirtMachineSpec \<Rightarrow> bool" where
  "spec_evolves old new \<longleftrightarrow>
     (\<exists>p. new = old\<lparr>ms_ProviderID := p\<rparr> \<and> (ms_ProviderID old = None \<or> p = ms_ProviderID old))"

lemma spec_evolves_refl [simp]: "spec_evolves s s"
  unfolding spec_evolves_def by (rule exI [of _ "ms_ProviderID s"]) simp

lemma spec_evolves_trans:
  assumes "spec_evolves a b" "spec_evolves b c"
  shows "spec_evolves a c"
proof -
  obtain p q where b: "b = a\<lparr>ms_ProviderID := p\<rparr>" "ms_ProviderID a = None \<or> p = ms_ProviderID a"
      and c: "c = b\<lparr>ms_ProviderID := q\<rparr>" "ms_ProviderID b = None \<or> q = ms_ProviderID b"
    using assms unfolding spec_evolves_def by blast
  have "c = a\<lparr>ms_ProviderID := q\<rparr>" unfolding b(1) c(1) by simp
  moreover have "ms_ProviderID a = None \<or> q = ms_ProviderID a" using b c by auto
  ultimately show ?thesis unfolding spec_evolves_def by blast
qed

lemma ValidateUpdate_evolves: "ValidateUpdate old new = None \<Longrightarrow> spec_evolves (lm_Spec old) (lm_Spec new)"
  unfolding ValidateUpdate_None spec_evolves_def by blast

lemma spec_evolves_keeps:
  "spec_evolves old new \<Longrightarrow> spec_ok new = spec_ok old \<and> ms_HostRef new = ms_HostRef old"
  unfolding spec_evolves_def by auto

lemma admitted_put:
  assumes "admitted ms" "old \<in> set ms" "machine_key new = machine_key old"
    and "deleting old \<Longrightarrow> deleting new" "spec_ok (lm_Spec new)"
    and "ms_HostRef (lm_Spec new) = ms_HostRef (lm_Spec old)"
  shows "admitted (put new ms)"
  unfolding admitted_def hosts_unique_def list_all_iff
proof (intro conjI ballI)
  show "distinct (map machine_key (put new ms))" using assms(1) by (simp add: admitted_def)
next
  fix x assume "x \<in> set (put new ms)"
  then show "spec_ok (lm_Spec x)" using assms in_put by (fastforce simp: admitted_def list_all_iff)
next
  fix x y assume xy: "x \<in> set (put new ms)" "y \<in> set (put new ms)"
  have ns: "lm_Namespace new = lm_Namespace old" using assms(3) by (simp add: machine_key_def)
  have u: "deleting m \<or> deleting m' \<or> lm_Namespace m \<noteq> lm_Namespace m' \<or>
     ms_HostRef (lm_Spec m) \<noteq> ms_HostRef (lm_Spec m') \<or> machine_key m = machine_key m'"
    if "m \<in> set ms" "m' \<in> set ms" for m m'
    using assms(1) that by (auto simp: admitted_def hosts_unique_def list_all_iff)
  show "deleting x \<or> deleting y \<or> lm_Namespace x \<noteq> lm_Namespace y \<or>
     ms_HostRef (lm_Spec x) \<noteq> ms_HostRef (lm_Spec y) \<or> machine_key x = machine_key y"
    using in_put [OF xy(1)] in_put [OF xy(2)] u [of x y] u [of x old] u [of old y] assms(2-4,6) ns
    by auto
qed

lemma admitted_create:
  assumes "admitted ms" "machine_key obj \<notin> machine_key ` set ms" "\<not> deleting obj"
    and "ValidateCreate (Some (list_in ms)) obj = None"
  shows "admitted (obj # ms)"
proof -
  have "ms_HostRef (lm_Spec m) \<noteq> ms_HostRef (lm_Spec obj)"
    if "m \<in> set ms" "lm_Namespace m = lm_Namespace obj" "\<not> deleting m" for m
    using assms(2,4) that
    by (auto simp: ValidateCreate_None validateHostUniqueness_None list_in_def image_iff)
  then show ?thesis
    using assms by (fastforce simp: admitted_def hosts_unique_def list_all_iff ValidateCreate_None)
qed

lemma admitted_filter: "admitted ms \<Longrightarrow> admitted (filter P ms)"
  by (auto simp: admitted_def hosts_unique_def list_all_iff distinct_map_filter)

lemma request_admitted: "request ms ms' \<Longrightarrow> admitted ms \<Longrightarrow> admitted ms'"
proof (induction rule: request.induct)
  case (create obj ms)
  then show ?case by (blast intro: admitted_create)
next
  case (update old ms new)
  then have "spec_ok (lm_Spec old)" by (auto simp: admitted_def list_all_iff)
  with update spec_evolves_keeps [OF ValidateUpdate_evolves [OF update(4)]] show ?case
    by (intro admitted_put [of ms old new]) simp_all
next
  case (delete old ms)
  then show ?case
    by (intro admitted_put [of ms old])
       (auto simp: mark_deleted_def machine_key_def deleting_def admitted_def list_all_iff)
qed (auto intro: admitted_filter)

lemma admitted_Nil [simp]: "admitted []"
  by (simp add: admitted_def hosts_unique_def)

lemma stored_admitted: "stored ms \<Longrightarrow> admitted ms"
  by (induction rule: rtranclp_induct) (auto intro: request_admitted)

lemma key_unique:
  "distinct (map machine_key ms) \<Longrightarrow> m \<in> set ms \<Longrightarrow> m' \<in> set ms \<Longrightarrow>
   machine_key m = machine_key m' \<Longrightarrow> m = m'"
  by (auto simp: distinct_map inj_on_def)

lemma put_evolves:
  assumes "distinct (map machine_key ms)" "old \<in> set ms" "machine_key new = machine_key old"
    and "spec_evolves (lm_Spec old) (lm_Spec new)"
    and "m \<in> set ms" "m' \<in> set (put new ms)" "machine_key m' = machine_key m"
  shows "spec_evolves (lm_Spec m) (lm_Spec m')"
  using in_put [OF assms(6)]
proof (elim disjE conjE)
  assume new: "m' = new"
  then have "old = m" using assms(3,7) by (intro key_unique [OF assms(1,2,5)]) simp
  then show ?thesis using assms(4) new by simp
next
  assume "m' \<in> set ms"
  then have "m' = m" using assms(7) by (rule key_unique [OF assms(1) _ assms(5)])
  then show ?thesis by simp
qed

lemma request_evolves:
  assumes "request ms ms'" "admitted ms" "m \<in> set ms" "m' \<in> set ms'" "machine_key m' = machine_key m"
  shows "spec_evolves (lm_Spec m) (lm_Spec m')"
proof -
  have d: "distinct (map machine_key ms)" using assms(2) by (simp add: admitted_def)
  show ?thesis
    using assms(1)
  proof (cases rule: request.cases)
    case (create obj)
    then show ?thesis using assms key_unique [OF d, of m' m] by auto
  next
    case (update old new)
    with assms ValidateUpdate_evolves [OF update(5)] show ?thesis
      by (blast intro: put_evolves [OF d])
  next
    case (delete old)
    with assms show ?thesis
      by (auto intro!: put_evolves [OF d, of old "mark_deleted old" m m']
            simp: mark_deleted_def machine_key_def)
  next
    case (remove old)
    then show ?thesis using assms key_unique [OF d, of m' m] by auto
  qed
qed

text \<open>The bytes a POSIX shell acts on when they are not quoted, the slash and the newline.\<close>

definition unsafe_chars :: string where
  "unsafe_chars = '' /&|;<>()$*?[]{}~!#'' @ [CHR 0x27, CHR 0x22, CHR 0x5C, CHR 0x60, CHR 0x09, CHR 0x0A]"

lemma identifier_chars_safe: "list_all (\<lambda>c. c \<notin> set unsafe_chars) identifier_chars"
  by code_simp

lemma identifier_safe: "v = '''' \<or> libvirtIdentifierPattern v \<Longrightarrow> set v \<inter> set unsafe_chars = {}"
  using identifier_chars_safe by (auto simp: libvirtIdentifierPattern_def list_all_iff)


text \<open>A concrete history: two machines on different hosts are created, and the first gets its
  provider ID.\<close>

definition example_second :: LibvirtMachine where
  "example_second = (example_machine ''m1'')\<lparr>lm_Spec := example_spec\<lparr>ms_HostRef := ''h1''\<rparr>\<rparr>"

definition example_provided :: LibvirtMachine where
  "example_provided = (example_machine ''m0'')\<lparr>lm_Spec :=
     example_spec\<lparr>ms_ProviderID := Some ''libvirt:///h0/ns-c-m0''\<rparr>\<rparr>"

lemma example_cidr: "net_ParseCIDR_ok ''10.0.0.5/24''"
  by code_simp

lemma example_create: "ValidateCreate (Some (list_in [])) (example_machine ''m0'') = None"
  "ValidateCreate (Some (list_in [example_machine ''m0''])) example_second = None"
  by (simp_all add: ValidateCreate_None spec_ok_def example_cidr clone_ok_def shell_safe_def
        libvirt_identifiers_def libvirtIdentifierPattern_def identifier_chars_def
        validateHostUniqueness_None list_in_def deleting_def machine_key_def example_second_def example_defs)

lemma example_update: "ValidateUpdate (example_machine ''m0'') example_provided = None"
  by (simp add: ValidateUpdate_None shell_safe_def libvirt_identifiers_def
        libvirtIdentifierPattern_def identifier_chars_def example_provided_def example_defs)

lemma example_steps:
  "request [] [example_machine ''m0'']"
  "request [example_machine ''m0''] [example_second, example_machine ''m0'']"
  "request [example_second, example_machine ''m0''] [example_second, example_provided]"
proof -
  show "request [] [example_machine ''m0'']"
    by (rule request.create [OF _ _ example_create(1)]) (simp_all add: deleting_def example_defs)
  show "request [example_machine ''m0''] [example_second, example_machine ''m0'']"
    by (rule request.create [OF _ _ example_create(2)])
       (simp_all add: deleting_def machine_key_def example_second_def example_defs)
  have "put example_provided [example_second, example_machine ''m0''] = [example_second, example_provided]"
    by (simp add: put_def machine_key_def example_provided_def example_second_def example_defs)
  moreover have "request [example_second, example_machine ''m0'']
      (put example_provided [example_second, example_machine ''m0''])"
    by (rule request.update [OF _ _ _ example_update])
       (simp_all add: deleting_def machine_key_def example_provided_def example_defs)
  ultimately show "request [example_second, example_machine ''m0''] [example_second, example_provided]"
    by simp
qed

lemma example_stored:
  "stored [example_machine ''m0'']" "stored [example_second, example_machine ''m0'']"
  "stored [example_second, example_provided]"
  using example_steps by (meson rtranclp.rtrancl_refl rtranclp.rtrancl_into_rtrancl)+


section \<open>Properties\<close>



text \<open>C19: as long as a machine stays stored, whatever the requests in between, its spec is
  the one it was created with, except that a provider ID may be set once: it is never changed
  or cleared after that.\<close>

theorem stored_spec_immutable:
  assumes "stored ms" "m \<in> set ms"
    and "(\<lambda>a b. request a b \<and> machine_key m \<in> machine_key ` set b)\<^sup>*\<^sup>* ms ms'"
    and "m' \<in> set ms'" "machine_key m' = machine_key m"
  shows "lm_Spec m' = (lm_Spec m)\<lparr>ms_ProviderID := ms_ProviderID (lm_Spec m')\<rparr> \<and>
    (ms_ProviderID (lm_Spec m) = None \<or> ms_ProviderID (lm_Spec m') = ms_ProviderID (lm_Spec m))"
proof -
  from assms(3) have "admitted ms' \<and> (\<forall>m' \<in> set ms'. machine_key m' = machine_key m \<longrightarrow>
      spec_evolves (lm_Spec m) (lm_Spec m'))"
    (is "?inv ms'")
  proof (induction rule: rtranclp_induct)
    case base
    have "admitted ms" using assms(1) by (rule stored_admitted)
    then show ?case using key_unique [OF _ _ assms(2)] by (force simp: admitted_def)
  next
    case (step b c)
    show ?case
    proof (intro conjI ballI impI)
      show "admitted c" using step request_admitted by blast
      fix x assume x: "x \<in> set c" "machine_key x = machine_key m"
      obtain y where y: "y \<in> set b" "machine_key y = machine_key m"
        using step(1) assms(2) by (cases rule: rtranclp.cases) auto
      then show "spec_evolves (lm_Spec m) (lm_Spec x)"
        using step x request_evolves [of b c y x] spec_evolves_trans by metis
    qed
  qed
  then show ?thesis using assms(4,5) unfolding spec_evolves_def by auto
qed

theorem stored_spec_immutable_witness:
  "lm_Spec example_provided =
     (lm_Spec (example_machine ''m0''))\<lparr>ms_ProviderID := ms_ProviderID (lm_Spec example_provided)\<rparr> \<and>
   (ms_ProviderID (lm_Spec (example_machine ''m0'')) = None \<or>
    ms_ProviderID (lm_Spec example_provided) = ms_ProviderID (lm_Spec (example_machine ''m0'')))"
proof -
  let ?k = "machine_key (example_machine ''m0'')"
  have key: "machine_key example_provided = ?k"
    by (simp add: machine_key_def example_provided_def example_defs)
  have "(\<lambda>a b. request a b \<and> ?k \<in> machine_key ` set b)\<^sup>*\<^sup>*
      [example_second, example_machine ''m0''] [example_second, example_provided]"
    by (rule r_into_rtranclp) (simp add: example_steps key)
  from stored_spec_immutable [OF example_stored(2) _ this _ key] show ?thesis
    by (simp only: list.set insert_iff simp_thms)
qed

text \<open>C20: every pool, image and disk name of a stored machine is free of blanks, slashes,
  quotes and every character the shell would act on, and a full clone stays within one
  pool.\<close>

theorem stored_identifiers_safe:
  assumes "stored ms" "m \<in> set ms"
  shows "list_all (\<lambda>v. set v \<inter> set unsafe_chars = {}) (libvirt_identifiers (lm_Spec m)) \<and>
     clone_ok (lm_RootDisk m)"
proof -
  have "spec_ok (lm_Spec m)"
    using stored_admitted [OF assms(1)] assms(2) by (auto simp: admitted_def list_all_iff)
  then show ?thesis
    using identifier_safe unfolding spec_ok_def shell_safe_def list_all_iff by blast
qed

theorem stored_identifiers_safe_witness:
  "list_all (\<lambda>v. set v \<inter> set unsafe_chars = {}) (libvirt_identifiers example_spec) \<and>
   clone_ok (ms_RootDisk example_spec)"
  using stored_identifiers_safe [OF example_stored(1), of "example_machine ''m0''"]
  by (simp add: example_machine_def)

text \<open>C36: a creation is admitted exactly when it names at least one address and only
  addresses in CIDR notation, its names are safe, a full clone stays within one pool, and the
  other machines of the namespace that are not being deleted are on other hosts; a listing
  that fails refuses it.\<close>

theorem ValidateCreate_admits:
  "ValidateCreate (Some listIn) obj = None \<longleftrightarrow>
   spec_ok (lm_Spec obj) \<and>
   (\<exists>items. listIn (lm_Namespace obj) = Inr items \<and>
      filter (\<lambda>m. machine_key m \<noteq> machine_key obj \<and> \<not> deleting m \<and>
         ms_HostRef (lm_Spec m) = ms_HostRef (lm_Spec obj)) items = [])"
  unfolding ValidateCreate_None validateHostUniqueness_None filter_empty_conv by blast

end
