(* ===== verification/Machine_Admission.thy ===== *)
theory Machine_Admission
  imports Host_Events Webhook
begin

text \<open>
  The machine controller and the admission webhook meet at the machine object: the controller
  patches it at the end of every reconciliation, and the webhook decides on the update. A
  reconciliation changes nothing of the spec but the provider ID, and that only to the value
  the scope determines, so what it writes is admitted.
\<close>

section \<open>What a reconciliation keeps of the object\<close>

definition spec_kept :: "string \<Rightarrow> 'w mstate \<Rightarrow> 'w mstate \<Rightarrow> bool" where
  "spec_kept pid s s' \<longleftrightarrow>
     lm_Name (s_machine s') = lm_Name (s_machine s) \<and>
     lm_Namespace (s_machine s') = lm_Namespace (s_machine s) \<and>
     (lm_Spec (s_machine s') = lm_Spec (s_machine s) \<or>
      lm_Spec (s_machine s') = (lm_Spec (s_machine s))\<lparr>ms_ProviderID := Some pid\<rparr>)"

interpretation sk: io_preorder "spec_kept pid" for pid
  by unfold_locales (auto simp: spec_kept_def)

lemma keeps_io: "state_io_rel (spec_kept pid) (io m)"
  by (auto simp: state_io_rel_def spec_kept_def split: prod.splits)

lemma keeps_get: "state_io_rel (spec_kept pid) get_machine"
  by (auto simp: state_io_rel_def spec_kept_def)

lemma keeps_status:
  "state_io_rel (spec_kept pid) (set_condition env ctype status reason msg)"
  "state_io_rel (spec_kept pid) (setTerminalError reason msg)"
  "state_io_rel (spec_kept pid) (add_finalizer env)"
  "state_io_rel (spec_kept pid) (remove_finalizer env)"
  by (auto simp: state_io_rel_def spec_kept_def set_condition_def setTerminalError_def add_finalizer_def
      remove_finalizer_def)

lemma keeps_cache:
  "state_io_rel (spec_kept pid) (cache_load k)" "state_io_rel (spec_kept pid) (cache_store k a)"
  by (auto simp: state_io_rel_def spec_kept_def cache_load_def cache_store_def)

lemma keeps_handleLibvirtError: "state_io_rel (spec_kept pid) (handleLibvirtError err operation)"
  unfolding handleLibvirtError_def by (intro sk.io_intros keeps_status)

lemmas keep_intros = sk.io_intros keeps_io keeps_get keeps_status keeps_cache keeps_handleLibvirtError

lemma keeps_preflight:
  "state_io_rel (spec_kept pid) (ensureBootstrapData env machine)"
  "state_io_rel (spec_kept pid) (resolveAutoSizing host)"
  "state_io_rel (spec_kept pid) (preflightSessionMode env rc)"
  unfolding ensureBootstrapData_def resolveAutoSizing_def preflightSessionMode_def Let_def
  by (intro keep_intros)+

lemma keeps_preflightPools: "state_io_rel (spec_kept pid) (preflightPools env rc)"
proof -
  have "state_io_rel (spec_kept pid) (check_pools env rc ps)" for ps
    by (induction ps) (auto simp: Let_def intro!: keep_intros)
  then show ?thesis unfolding preflightPools_def by (intro keep_intros)
qed

lemma keeps_reconcileBaseImage: "state_io_rel (spec_kept pid) (reconcileBaseImage env rc)"
  unfolding reconcileBaseImage_def upload_base_image_def Let_def by (intro keep_intros)

lemma keeps_reconcileRootDisk: "state_io_rel (spec_kept pid) (reconcileRootDisk rc)"
  unfolding reconcileRootDisk_def ensure_ephemeral_pool_def create_root_disk_def Let_def
  by (intro keep_intros)

lemma keeps_reconcileBootstrapArtifacts: "state_io_rel (spec_kept pid) (reconcileBootstrapArtifacts env rc)"
  unfolding reconcileBootstrapArtifacts_def Let_def by (intro keep_intros)

lemma keeps_reconcileAdditionalDisks: "state_io_rel (spec_kept pid) (reconcileAdditionalDisks rc)"
proof -
  have "state_io_rel (spec_kept pid) (ensure_disks ds rc)" for ds rc
    by (induction ds arbitrary: rc) (auto simp: Let_def intro!: keep_intros)
  then show ?thesis unfolding reconcileAdditionalDisks_def by (intro keep_intros)
qed

lemma keeps_reconcileBootArtifacts: "state_io_rel (spec_kept pid) (reconcileBootArtifacts env rc)"
  unfolding reconcileBootArtifacts_def stage_boot_artifacts_def resolveCachedArtifacts_def Let_def
  by (intro keep_intros)

lemma keeps_reconcileDomain: "state_io_rel (spec_kept pid) (reconcileDomain rc)"
  unfolding reconcileDomain_def define_domain_def start_domain_def domain_error_def Let_def
  by (intro keep_intros)

lemma keeps_provision: "state_io_rel (spec_kept pid) (provision env rc)"
  unfolding provision_def
  by (intro keep_intros keeps_reconcileBaseImage keeps_reconcileRootDisk keeps_reconcileBootstrapArtifacts
      keeps_reconcileAdditionalDisks keeps_reconcileBootArtifacts keeps_reconcileDomain)

lemma keeps_reconcileNodeLabels: "state_io_rel (spec_kept pid) (reconcileNodeLabels env n)"
proof -
  have "state_io_rel (spec_kept pid) (set_machine (\<lambda>m. m\<lparr>lm_Status := f m\<rparr>))" for f
    by (auto simp: state_io_rel_def spec_kept_def)
  then show ?thesis unfolding reconcileNodeLabels_def Let_def by (intro keep_intros)
qed

lemma keeps_record_ready:
  "pid = ProviderID (rc_machineScope rc) \<Longrightarrow> state_io_rel (spec_kept pid) (record_ready env rc d)"
  unfolding record_ready_def
  by (intro sk.io_bind keeps_status) (auto simp: state_io_rel_def spec_kept_def)



section \<open>The scope of a context\<close>

text \<open>What the result of a program satisfies, whatever the state it is run in.\<close>

definition yields :: "('a \<Rightarrow> bool) \<Rightarrow> ('s, 'a) state \<Rightarrow> bool" where
  "yields P m \<longleftrightarrow> (\<forall>s a s'. run_state m s = (a, s') \<longrightarrow> P a)"

lemma yields_return: "P x \<Longrightarrow> yields P (State_Monad.return x)"
  by (simp add: yields_def)

lemma yields_bind: "yields Q m \<Longrightarrow> (\<And>x. Q x \<Longrightarrow> yields P (f x)) \<Longrightarrow> yields P (State_Monad.bind m f)"
  unfolding yields_def by (auto split: prod.splits) blast

lemma yields_any: "(\<And>x. yields P (f x)) \<Longrightarrow> yields P (State_Monad.bind m f)"
  unfolding yields_def by (auto split: prod.splits)

lemma yieldsD: "yields P m \<Longrightarrow> run_state m s = (a, s') \<Longrightarrow> P a"
  unfolding yields_def by blast

abbreviation (input) in_scope :: "MachineScope \<Rightarrow> 'e \<times> 'w reconcileCtx \<Rightarrow> bool" where
  "in_scope sc \<equiv> (\<lambda>(e, rc). rc_machineScope rc = sc)"

lemma yields_step:
  "yields (in_scope sc) m \<Longrightarrow> (\<And>e rc. rc_machineScope rc = sc \<Longrightarrow> yields P (f e rc)) \<Longrightarrow>
   yields P (State_Monad.bind m (\<lambda>(e, rc). f e rc))"
  by (erule yields_bind) auto

lemma yields_case_option:
  "yields P m \<Longrightarrow> (\<And>x. yields P (g x)) \<Longrightarrow> yields P (case r of None \<Rightarrow> m | Some x \<Rightarrow> g x)"
  by (cases r) simp_all

lemma scope_reconcileRootDisk: "rc_machineScope rc = sc \<Longrightarrow> yields (in_scope sc) (reconcileRootDisk rc)"
  unfolding reconcileRootDisk_def Let_def
  by (intro yields_any) (auto intro!: yields_any yields_return split: sum.splits)

lemma scope_reconcileAdditionalDisks:
  assumes "rc_machineScope rc = sc"
  shows "yields (in_scope sc) (reconcileAdditionalDisks rc)"
proof -
  have "rc_machineScope rc = sc \<Longrightarrow> yields (in_scope sc) (ensure_disks ds rc)" for ds and rc :: "'a reconcileCtx"
    by (induction ds arbitrary: rc)
       (auto simp: Let_def intro!: yields_any yields_return split: sum.splits option.splits)
  then show ?thesis using assms unfolding reconcileAdditionalDisks_def by (auto intro: yields_any)
qed

lemma scope_reconcileBootArtifacts:
  "rc_machineScope rc = sc \<Longrightarrow> yields (in_scope sc) (reconcileBootArtifacts env rc)"
  unfolding reconcileBootArtifacts_def stage_boot_artifacts_def Let_def
  by (auto intro!: yields_any yields_return split: sum.splits option.splits)

definition provisioned_in ::
  "MachineScope \<Rightarrow> go_error + ('w reconcileCtx \<times> DomainInfo) option \<Rightarrow> bool" where
  "provisioned_in sc r \<longleftrightarrow> (\<forall>rc d. r = Inr (Some (rc, d)) \<longrightarrow> rc_machineScope rc = sc)"

lemma provisioned_in_error [simp]: "provisioned_in sc (Inl e)"
  by (simp add: provisioned_in_def)

lemma scope_provision:
  assumes "rc_machineScope rc = sc"
  shows "yields (provisioned_in sc) (provision env rc)"
proof -
  have domain: "yields (provisioned_in sc') (do { d \<leftarrow> reconcileDomain rc;
      State_Monad.return (case d of Inl err \<Rightarrow> Inl err | Inr None \<Rightarrow> Inr None
        | Inr (Some domainInfo) \<Rightarrow> Inr (Some (rc, domainInfo))) })"
    if "rc_machineScope rc = sc'" for rc sc'
    by (rule yields_any, rule yields_return) (auto simp: provisioned_in_def that split: sum.splits option.splits)
  have error: "yields (provisioned_in sc) (State_Monad.return (Inl err))" for err
    by (simp add: yields_return)
  show ?thesis
    unfolding provision_def
    by (rule yields_any, intro yields_case_option error yields_step [OF scope_reconcileRootDisk [OF assms]],
        rule yields_any, intro yields_case_option error yields_step [OF scope_reconcileAdditionalDisks]
        yields_step [OF scope_reconcileBootArtifacts] domain)
qed

lemma keeps_bind_yield:
  assumes "state_io_rel (spec_kept pid) m" "yields P m" "\<And>x. P x \<Longrightarrow> state_io_rel (spec_kept pid) (f x)"
  shows "state_io_rel (spec_kept pid) (State_Monad.bind m f)"
proof
  fix a s s'
  assume "run_state (State_Monad.bind m f) s = (a, s')"
  then obtain x t where x: "run_state m s = (x, t)" "run_state (f x) t = (a, s')"
    by (auto split: prod.splits)
  show "spec_kept pid s s'"
    by (rule sk.io_trans [OF state_io_relD [OF assms(1) x(1)] state_io_relD [OF assms(3) x(2)]])
       (rule yieldsD [OF assms(2) x(1)])
qed

lemma keeps_reconcile_steps:
  assumes "pid = ProviderID (rc_machineScope rc)"
  shows "state_io_rel (spec_kept pid) (reconcile_steps env rc)"
proof -
  have finish: "state_io_rel (spec_kept pid) (do {
      d \<leftarrow> provision env rc;
      (case d of
         Inl err \<Rightarrow> State_Monad.return (Inl err)
       | Inr None \<Rightarrow> State_Monad.return (Inr empty_result)
       | Inr (Some (rc', domainInfo)) \<Rightarrow> do {
           record_ready env rc' domainInfo;
           reconcileNodeLabels env (DomainName (rc_machineScope rc')) }) })"
    by (rule keeps_bind_yield [OF keeps_provision scope_provision [OF refl]])
       (auto split: sum.splits option.splits intro!: sk.io_return sk.io_bind keeps_record_ready
         keeps_reconcileNodeLabels simp: assms provisioned_in_def)
  show ?thesis unfolding reconcile_steps_def
    by (intro finish keep_intros keeps_preflight keeps_preflightPools)
qed


text \<open>The provider ID depends on names that a reconciliation does not change.\<close>

abbreviation machine_pid :: "Cluster \<Rightarrow> LibvirtHost \<Rightarrow> LibvirtMachine \<Rightarrow> string" where
  "machine_pid cluster host lm \<equiv> ''libvirt:///'' @ lh_Name host @ ''/'' @
     lm_Namespace lm @ ''-'' @ cl_Name cluster @ ''-'' @ lm_Name lm"

lemma ProviderID_names:
  "ProviderID sc = machine_pid (sc_Cluster sc) (sc_LibvirtHost sc) (sc_LibvirtMachine sc)"
  by (simp add: ProviderID_def DomainName_def ArtifactBaseName_def)

lemma closing_keeps:
  "state_io_rel (spec_kept pid) m \<Longrightarrow> state_io_rel (spec_kept pid) (closing env ssh m)"
  unfolding closing_def by (intro keep_intros)

text \<open>From a state whose machine has the given name, the machine a step reads has it too.\<close>

definition named_kept :: "string \<Rightarrow> string \<Rightarrow> string \<Rightarrow> 'w mstate \<Rightarrow> 'w mstate \<Rightarrow> bool" where
  "named_kept ns name pid s s' \<longleftrightarrow>
     (lm_Namespace (s_machine s) = ns \<and> lm_Name (s_machine s) = name \<longrightarrow> spec_kept pid s s')"

interpretation nk: io_preorder "named_kept ns name pid" for ns name pid
proof
  fix s t u :: "'w mstate"
  show "named_kept ns name pid s s" by (simp add: named_kept_def sk.io_refl)
  assume "named_kept ns name pid s t" "named_kept ns name pid t u"
  then show "named_kept ns name pid s u"
    using sk.io_trans [of pid s t u] by (auto simp: named_kept_def spec_kept_def)
qed

lemma named_spec: "state_io_rel (spec_kept pid) m \<Longrightarrow> state_io_rel (named_kept ns name pid) m"
  by (auto simp: state_io_rel_def named_kept_def)

lemma named_get:
  assumes "\<And>m. lm_Namespace m = ns \<Longrightarrow> lm_Name m = name \<Longrightarrow> state_io_rel (named_kept ns name pid) (f m)"
  shows "state_io_rel (named_kept ns name pid) (State_Monad.bind get_machine f)"
proof
  fix a s s'
  assume run: "run_state (State_Monad.bind get_machine f) s = (a, s')"
  show "named_kept ns name pid s s'"
  proof (cases "lm_Namespace (s_machine s) = ns \<and> lm_Name (s_machine s) = name")
    case True
    then have "state_io_rel (named_kept ns name pid) (f (s_machine s))" by (simp add: assms)
    then show ?thesis using run by (auto dest: state_io_relD)
  qed (auto simp: named_kept_def)
qed

lemma named_reconcileNormal:
  assumes "pid = ''libvirt:///'' @ lh_Name host @ ''/'' @ ns @ ''-'' @ cl_Name cluster @ ''-'' @ name"
  shows "state_io_rel (named_kept ns name pid) (reconcileNormal env machine cluster lc host)"
proof -
  let ?sc = "\<lambda>m. \<lparr>sc_Cluster = cluster, sc_Machine = machine, sc_LibvirtCluster = lc, sc_LibvirtMachine = m,
    sc_LibvirtHost = host\<rparr>"
  have scope: "NewMachineScope \<lparr>sp_Client = True, sp_Cluster = Some cluster, sp_Machine = Some machine,
      sp_LibvirtCluster = Some lc, sp_LibvirtMachine = Some m, sp_LibvirtHost = Some host\<rparr> = Inr (?sc m)" for m
    by (simp add: NewMachineScope_def)
  have steps: "state_io_rel (spec_kept pid) (do {
      z \<leftarrow> resolveAutoSizing host;
      (case z of
         Inl result \<Rightarrow> State_Monad.return (Inr result)
       | Inr (vcpus, memoryMB) \<Rightarrow> reconcile_steps env (new_ctx env (?sc m) cl vcpus memoryMB)) })"
    if "lm_Namespace m = ns" "lm_Name m = name" for m cl
  proof -
    have "pid = ProviderID (rc_machineScope (new_ctx env (?sc m) cl v mb))" for v mb
      using that by (simp add: new_ctx_def Let_def ProviderID_names assms)
    then show ?thesis by (intro keep_intros keeps_preflight keeps_reconcile_steps)
  qed
  show ?thesis
    unfolding reconcileNormal_def closing_def scope sum.case
    by (intro nk.io_bind nk.io_if nk.io_return nk.io_case_sum nk.io_case_option nk.io_case_prod
          named_get named_spec [OF steps] named_spec [OF keeps_io] named_spec [OF keeps_status(1)]
          named_spec [OF keeps_status(3)] named_spec [OF keeps_preflight(1)])
qed

lemma keeps_reconcileDelete: "state_io_rel (spec_kept pid) (reconcileDelete env cluster lc host)"
proof -
  have removal: "state_io_rel (spec_kept pid) (removal msg m)" for msg m
    unfolding removal_def by (intro keep_intros)
  have disks: "state_io_rel (spec_kept pid) (delete_disks cl sc ds)" for cl sc ds
    by (induction ds) (auto simp: Let_def intro!: keep_intros removal)
  have artifacts: "state_io_rel (spec_kept pid) (delete_artifacts cl sc)" for cl sc
    unfolding delete_artifacts_def delete_bootstrap_def Let_def by (intro keep_intros removal disks)
  show ?thesis
    unfolding reconcileDelete_def delete_node_def Let_def
    by (intro keep_intros closing_keeps artifacts)
qed


section \<open>Properties\<close>

text \<open>C9: what the controller writes back is admitted. From a machine the webhook stored (its
  libvirt fields are safe) whose provider ID is unset or the one of its names, a normal or a
  deleting reconciliation, on every branch, leaves an object that the validation of updates
  accepts, and whose provider ID is again unset or the one of its names.\<close>

theorem reconcile_update_admitted:
  assumes "m = reconcileNormal env machine cluster lc host \<or> m = reconcileDelete env cluster lc host"
    and "run_state m s = (r, s')" "lm = s_machine s" "lm' = s_machine s'"
    and "pid = ProviderID \<lparr>sc_Cluster = cluster, sc_Machine = machine, sc_LibvirtCluster = lc,
      sc_LibvirtMachine = lm, sc_LibvirtHost = host\<rparr>"
    and "validateShellSafeLibvirtFields (lm_Spec lm) = []"
    and "ms_ProviderID (lm_Spec lm) \<in> {None, Some pid}"
  shows "ValidateUpdate lm lm' = None \<and> ms_ProviderID (lm_Spec lm') \<in> {None, Some pid}"
proof -
  have pid: "pid = ''libvirt:///'' @ lh_Name host @ ''/'' @ lm_Namespace lm @ ''-'' @ cl_Name cluster @ ''-'' @ lm_Name lm"
    by (simp add: assms(5) ProviderID_names)
  have "named_kept (lm_Namespace lm) (lm_Name lm) pid s s'"
    using assms(1,2) state_io_relD [OF named_reconcileNormal [OF pid]]
      state_io_relD [OF named_spec [OF keeps_reconcileDelete]] by blast
  then have "lm_Spec lm' = lm_Spec lm \<or> lm_Spec lm' = (lm_Spec lm)\<lparr>ms_ProviderID := Some pid\<rparr>"
    using assms(3,4) by (simp add: named_kept_def spec_kept_def)
  then show ?thesis using assms(6,7) by (auto simp: ValidateUpdate_None shell_safe_def libvirt_identifiers_def)
qed

theorem reconcile_update_admitted_witness:
  "\<exists>r s'. run_state (reconcileNormal (recording_env (example_machine ''m0'')) example_owner example_cluster
       example_libvirt_cluster example_keyed_host)
       \<lparr>s_world = [], s_machine = example_machine ''m0'', s_artifactCache = fmempty\<rparr> = (r, s') \<and>
     ValidateUpdate (example_machine ''m0'') (s_machine s') = None \<and>
     ms_ProviderID (lm_Spec (s_machine s')) \<in> {None, Some ''libvirt:///h0/ns-c-m0''}"
proof -
  let ?s = "\<lparr>s_world = [], s_machine = example_machine ''m0'', s_artifactCache = fmempty\<rparr>"
  obtain r s' where run: "run_state (reconcileNormal (recording_env (example_machine ''m0'')) example_owner
      example_cluster example_libvirt_cluster example_keyed_host) ?s = (r, s')" by fastforce
  have "validateShellSafeLibvirtFields (lm_Spec (example_machine ''m0'')) = []" by code_simp
  moreover have "ms_ProviderID (lm_Spec (example_machine ''m0'')) = None" by (simp add: example_defs)
  moreover have "ProviderID \<lparr>sc_Cluster = example_cluster, sc_Machine = example_owner,
      sc_LibvirtCluster = example_libvirt_cluster, sc_LibvirtMachine = example_machine ''m0'',
      sc_LibvirtHost = example_keyed_host\<rparr> = ''libvirt:///h0/ns-c-m0''"
    by (simp add: ProviderID_names example_cluster_def example_keyed_host_def example_defs)
  ultimately show ?thesis
    using reconcile_update_admitted [OF disjI1 [OF refl] run refl refl refl] run by auto
qed

end
