(* ===== verification/Machine_Progress.thy ===== *)
theory Machine_Progress
  imports Host_Events
begin

text \<open>
  Provisioning makes progress: on a host whose calls succeed, a single reconciliation of a
  machine whose spec is in order goes through all steps and marks the machine ready.
\<close>

section \<open>Programs that succeed\<close>

text \<open>What a program returns, and that it leaves the machine object as it is.\<close>

definition answers :: "('a \<Rightarrow> bool) \<Rightarrow> ('w, 'a) state \<Rightarrow> bool" where
  "answers P m \<longleftrightarrow> (\<forall>w r w'. run_state m w = (r, w') \<longrightarrow> P r)"

definition calm :: "LibvirtMachine \<Rightarrow> ('a \<Rightarrow> bool) \<Rightarrow> ('w mstate, 'a) state \<Rightarrow> bool" where
  "calm lm P m \<longleftrightarrow> (\<forall>s r s'. s_machine s = lm \<longrightarrow> run_state m s = (r, s') \<longrightarrow> P r \<and> s_machine s' = lm)"

lemma calmI:
  "(\<And>s r s'. s_machine s = lm \<Longrightarrow> run_state m s = (r, s') \<Longrightarrow> P r \<and> s_machine s' = lm) \<Longrightarrow> calm lm P m"
  unfolding calm_def by blast

lemma calmD: "calm lm P m \<Longrightarrow> s_machine s = lm \<Longrightarrow> run_state m s = (r, s') \<Longrightarrow> P r \<and> s_machine s' = lm"
  unfolding calm_def by blast

lemma calm_return: "P x \<Longrightarrow> calm lm P (State_Monad.return x)"
  by (rule calmI) simp

lemma calm_bind:
  assumes "calm lm Q m" "\<And>x. Q x \<Longrightarrow> calm lm P (f x)"
  shows "calm lm P (State_Monad.bind m f)"
proof (rule calmI)
  fix s r s'
  assume s: "s_machine s = lm" and "run_state (State_Monad.bind m f) s = (r, s')"
  then obtain x t where x: "run_state m s = (x, t)" "run_state (f x) t = (r, s')" by (auto split: prod.splits)
  from calmD [OF assms(1) s x(1)] show "P r \<and> s_machine s' = lm" using calmD [OF assms(2) _ x(2)] by blast
qed

lemma calm_get: "calm lm P (f lm) \<Longrightarrow> calm lm P (State_Monad.bind get_machine f)"
  by (rule calmI) (auto dest: calmD)

lemma calm_io: "answers P m \<Longrightarrow> calm lm P (io m)"
  by (rule calmI) (auto simp: answers_def split: prod.splits)

lemma calm_io_bind: "answers Q m \<Longrightarrow> (\<And>x. Q x \<Longrightarrow> calm lm P (f x)) \<Longrightarrow> calm lm P (State_Monad.bind (io m) f)"
  by (rule calm_bind [OF calm_io])

lemma calm_mono: "calm lm Q m \<Longrightarrow> (\<And>x. Q x \<Longrightarrow> P x) \<Longrightarrow> calm lm P m"
  unfolding calm_def by blast

abbreviation "is_ok r \<equiv> (case r of Inl err \<Rightarrow> False | Inr x \<Rightarrow> True)"

text \<open>A client whose calls succeed. Volumes and domains may be there already or not.\<close>

definition serves :: "'w Client \<Rightarrow> bool" where
  "serves cl \<longleftrightarrow>
     (\<forall>n. answers ((=) (Inr True)) (PoolExists cl n)) \<and> (\<forall>n. answers ((=) (Inr True)) (PoolIsActive cl n)) \<and>
     (\<forall>n. answers is_ok (DomainExists cl n)) \<and> (\<forall>n. answers is_ok (GetDomain cl n)) \<and>
     (\<forall>x. answers is_ok (DefineDomain cl x)) \<and> (\<forall>p n. answers is_ok (VolumeExists cl p n)) \<and>
     (\<forall>p n. answers is_ok (GetVolumePath cl p n)) \<and>
     (\<forall>n. answers ((=) None) (StartDomain cl n)) \<and>
     (\<forall>p n b z. answers ((=) None) (CreateVolumeFromBackingStore cl p n b z)) \<and>
     (\<forall>p a b. answers ((=) None) (CloneVolume cl p a b)) \<and>
     (\<forall>p n z. answers ((=) None) (CreateVolume cl p n z)) \<and>
     (\<forall>p n d. answers ((=) None) (UploadVolumeFromBytes cl p n d)) \<and>
     (\<forall>p d. answers ((=) None) (WriteRemoteFile cl p d))"

lemma serves_dest:
  assumes "serves cl"
  shows "answers ((=) (Inr True)) (PoolExists cl n)" "answers ((=) (Inr True)) (PoolIsActive cl n)"
    "answers is_ok (DomainExists cl n)" "answers is_ok (GetDomain cl n)" "answers is_ok (DefineDomain cl x)"
    "answers is_ok (VolumeExists cl p n)" "answers is_ok (GetVolumePath cl p n)"
    "answers ((=) None) (StartDomain cl n)" "answers ((=) None) (CreateVolumeFromBackingStore cl p n b z)"
    "answers ((=) None) (CloneVolume cl p s n)" "answers ((=) None) (CreateVolume cl p n z)"
    "answers ((=) None) (UploadVolumeFromBytes cl p n d)" "answers ((=) None) (WriteRemoteFile cl p d)"
  using assms by (simp_all add: serves_def)


section \<open>The steps\<close>

lemma ok_Inr [elim!]:
  "is_ok r \<Longrightarrow> (\<And>x. r = Inr x \<Longrightarrow> thesis) \<Longrightarrow> thesis"
  by (cases r) auto

lemma calm_check_pools:
  assumes "serves (rc_libvirtClient rc)"
  shows "calm lm ((=) None) (check_pools env rc ps)"
proof (induction ps)
  case (Cons p ps)
  show ?case unfolding check_pools.simps
    by (rule calm_io_bind [OF serves_dest(1) [OF assms]]) (auto intro: Cons)
qed (simp add: calm_return)

lemma calm_preflightPools:
  "serves (rc_libvirtClient rc) \<Longrightarrow> calm lm ((=) None) (preflightPools env rc)"
  unfolding preflightPools_def by (rule calm_get) (rule calm_check_pools)

lemma calm_ephemeral:
  assumes "serves (rc_libvirtClient rc)"
  shows "calm lm ((=) (None, True)) (ensure_ephemeral_pool rc m)"
  unfolding ensure_ephemeral_pool_def Let_def
  by (rule calm_io_bind [OF serves_dest(1) [OF assms]])
     (auto intro!: calm_io_bind [OF serves_dest(2) [OF assms]] calm_return)

lemma calm_create_root_disk:
  assumes "serves (rc_libvirtClient rc)"
  shows "calm lm ((=) None) (create_root_disk rc m)"
  unfolding create_root_disk_def Let_def
  by (auto intro!: calm_io_bind [OF serves_dest(10) [OF assms]] calm_io_bind [OF serves_dest(7) [OF assms]]
      calm_io_bind [OF serves_dest(9) [OF assms]] calm_return)


text \<open>The context after a step that succeeded.\<close>

definition ctx_ok :: "'w reconcileCtx \<Rightarrow> go_error option \<times> 'w reconcileCtx \<Rightarrow> bool" where
  "ctx_ok rc p \<longleftrightarrow>
     fst p = None \<and> rc_libvirtClient (snd p) = rc_libvirtClient rc \<and>
     rc_machineScope (snd p) = rc_machineScope rc \<and> rc_libvirtCluster (snd p) = rc_libvirtCluster rc"

lemma calm_reconcileRootDisk:
  assumes "serves (rc_libvirtClient rc)"
  shows "calm lm (ctx_ok rc) (reconcileRootDisk rc)"
proof -
  have pool: "calm lm ((=) (None, True)) (if b then ensure_ephemeral_pool rc m else State_Monad.return (None, True))" for b m
    using calm_ephemeral [OF assms] by (auto intro: calm_return)
  have rest: "calm lm (ctx_ok rc) (do {
        v \<leftarrow> io (VolumeExists (rc_libvirtClient rc) (rc_storagePool rc') (rc_rootDiskVolume rc'));
        (case v of
           Inl err \<Rightarrow> do { e \<leftarrow> handleLibvirtError err ''checking root disk''; State_Monad.return (e, rc') }
         | Inr rootExists \<Rightarrow>
             if rootExists then State_Monad.return (None, rc')
             else do { e \<leftarrow> create_root_disk rc' m; State_Monad.return (e, rc') }) })"
    if "rc' = rc \<or> rc' = rc\<lparr>rc_storagePool := q\<rparr>" for rc' q m
  proof -
    have rc': "rc_libvirtClient rc' = rc_libvirtClient rc" "ctx_ok rc (None, rc')"
      using that by (auto simp: ctx_ok_def)
    then have "calm lm ((=) None) (create_root_disk rc' m)" using assms by (simp add: calm_create_root_disk)
    then show ?thesis
      by (intro calm_io_bind [OF serves_dest(6) [OF assms]])
         (auto intro!: calm_return rc' elim!: calm_bind)
  qed
  show ?thesis unfolding reconcileRootDisk_def Let_def
    by (rule calm_get, rule calm_bind [OF pool])
       (use rest [of rc] rest [OF disjI2 [OF refl], of "EphemeralPoolName (rc_machineScope rc)"] in auto)
qed

lemma calm_reconcileBootstrapArtifacts:
  assumes "serves (rc_libvirtClient rc)" "answers is_ok (GetBootstrapData (me_GetSecret env) (rc_machineScope rc))"
    and "\<And>d i h. answers is_ok (me_BuildCloudInitISO env d i h)"
    and "ms_BootstrapFormat (lm_Spec lm) \<in> {BootstrapFormatIgnition, BootstrapFormatCloudInit}"
  shows "calm lm ((=) None) (reconcileBootstrapArtifacts env rc)"
  unfolding reconcileBootstrapArtifacts_def Let_def
  by (rule calm_get, rule calm_io_bind [OF assms(2)])
     (use assms(4) in \<open>auto intro!: calm_io_bind [OF serves_dest(13) [OF assms(1)]]
        calm_io_bind [OF serves_dest(6) [OF assms(1)]] calm_io_bind [OF assms(3)]
        calm_io_bind [OF serves_dest(12) [OF assms(1)]] calm_return\<close>)

lemma calm_ensure_disks:
  "serves (rc_libvirtClient rc) \<Longrightarrow> calm lm (ctx_ok rc) (ensure_disks ds rc)"
proof (induction ds arbitrary: rc)
  case (Cons d ds)
  have ctx: "ctx_ok (rc\<lparr>rc_additionalDiskVolumes := a, rc_additionalDiskParams := b\<rparr>) = ctx_ok rc" for a b
    by (simp add: ctx_ok_def fun_eq_iff)
  have rest: "calm lm (ctx_ok rc) (ensure_disks ds (rc\<lparr>rc_additionalDiskVolumes := a, rc_additionalDiskParams := b\<rparr>))" for a b
    using Cons.IH [of "rc\<lparr>rc_additionalDiskVolumes := a, rc_additionalDiskParams := b\<rparr>"] Cons.prems by (simp add: ctx)
  show ?case unfolding ensure_disks.simps Let_def
    by (auto intro!: calm_io_bind [OF serves_dest(6) [OF Cons.prems]] calm_io_bind [OF serves_dest(11) [OF Cons.prems]]
        calm_io_bind [OF serves_dest(7) [OF Cons.prems]] rest)
qed (simp add: calm_return ctx_ok_def)

lemma calm_reconcileAdditionalDisks:
  "serves (rc_libvirtClient rc) \<Longrightarrow> calm lm (ctx_ok rc) (reconcileAdditionalDisks rc)"
  unfolding reconcileAdditionalDisks_def by (rule calm_get) (rule calm_ensure_disks)


lemma calm_define_domain:
  assumes "serves (rc_libvirtClient rc)"
  shows "calm lm ((=) (Inr True)) (define_domain rc m)"
proof -
  have defining: "calm lm ((=) (Inr True)) (case GenerateDomainXML params of
       Inl err \<Rightarrow> f err
     | Inr xmlDef \<Rightarrow> do {
         d \<leftarrow> io (DefineDomain (rc_libvirtClient rc) xmlDef);
         (case d of Inl err \<Rightarrow> g err | Inr _ \<Rightarrow> State_Monad.return (Inr True)) })" for params f g
    by (rule GenerateDomainXML_text [of params])
       (auto intro!: calm_io_bind [OF serves_dest(5) [OF assms]] calm_return)
  show ?thesis unfolding define_domain_def Let_def
    by (rule calm_io_bind [OF serves_dest(7) [OF assms]])
       (auto intro!: defining calm_io_bind [OF serves_dest(7) [OF assms]])
qed

lemma calm_start_domain:
  assumes "serves (rc_libvirtClient rc)"
  shows "calm lm (\<lambda>r. \<exists>info. r = Inr (Some info)) (start_domain rc)"
  unfolding start_domain_def Let_def
  by (rule calm_io_bind [OF serves_dest(4) [OF assms]])
     (auto intro!: calm_io_bind [OF serves_dest(8) [OF assms]] calm_io_bind [OF serves_dest(4) [OF assms]] calm_return)

lemma calm_reconcileDomain:
  assumes "serves (rc_libvirtClient rc)"
  shows "calm lm (\<lambda>r. \<exists>info. r = Inr (Some info)) (reconcileDomain rc)"
  unfolding reconcileDomain_def
  by (intro calm_get calm_io_bind [OF serves_dest(3) [OF assms]])
     (auto intro!: calm_start_domain [OF assms] calm_bind [OF calm_define_domain [OF assms]])

lemma calm_provision:
  assumes "serves (rc_libvirtClient rc)" "answers is_ok (GetBootstrapData (me_GetSecret env) (rc_machineScope rc))"
    and "\<And>d i h. answers is_ok (me_BuildCloudInitISO env d i h)"
    and "ms_BootstrapFormat (lm_Spec lm) \<in> {BootstrapFormatIgnition, BootstrapFormatCloudInit}"
    and "rc_libvirtCluster rc = Some lc" "cs_BaseImage (lc_Spec lc) = None" "cs_BootArtifacts (lc_Spec lc) = None"
  shows "calm lm (\<lambda>r. \<exists>rc' info. r = Inr (Some (rc', info)) \<and> rc_machineScope rc' = rc_machineScope rc) (provision env rc)"
proof -
  have base: "calm lm ((=) None) (reconcileBaseImage env rc)"
    using assms(5,6) by (simp add: reconcileBaseImage_def calm_return)
  have boot: "calm lm (ctx_ok rc) (reconcileBootArtifacts env rc')" if "ctx_ok rc (None, rc')" for rc'
    using that assms(5,7) by (simp add: reconcileBootArtifacts_def calm_return ctx_ok_def)
  have ctx: "serves (rc_libvirtClient rc')" "rc_machineScope rc' = rc_machineScope rc" if "ctx_ok rc (e, rc')" for e rc'
    using that assms(1) by (simp_all add: ctx_ok_def)
  have bootstrap: "calm lm ((=) None) (reconcileBootstrapArtifacts env rc')" if "ctx_ok rc (None, rc')" for rc'
    using that assms(2) ctx [OF that] by (intro calm_reconcileBootstrapArtifacts assms(3,4)) simp_all
  have disks: "calm lm (ctx_ok rc) (reconcileAdditionalDisks rc')" if "ctx_ok rc (None, rc')" for rc'
    by (rule calm_mono [OF calm_reconcileAdditionalDisks [OF ctx(1) [OF that]]])
       (use that in \<open>simp add: ctx_ok_def\<close>)
  have step: "calm lm P (State_Monad.bind m (\<lambda>(e, rc). f e rc))"
    if "calm lm (ctx_ok rc) m" "\<And>rc'. ctx_ok rc (None, rc') \<Longrightarrow> calm lm P (f None rc')" for P m f
    by (rule calm_bind [OF that(1)]) (use that(2) in \<open>auto simp: ctx_ok_def\<close>)
  show ?thesis unfolding provision_def
    by (rule calm_bind [OF base], simp, rule step [OF calm_reconcileRootDisk [OF assms(1)]], simp,
        rule calm_bind [OF bootstrap], assumption, simp, rule step [OF disks], assumption, simp,
        rule step [OF boot], assumption, simp, rule calm_bind [OF calm_reconcileDomain [OF ctx(1)]], assumption)
       (auto intro!: calm_return ctx(2))
qed


section \<open>The reconciliation\<close>

text \<open>A session-mode host cannot serve a machine on a libvirt network.\<close>

definition session_ok :: "('w, 'ssh) machine_env \<Rightarrow> LibvirtHost \<Rightarrow> LibvirtMachine \<Rightarrow> bool" where
  "session_ok env host lm \<longleftrightarrow>
     LocalConnectionURI (me_url_Parse env) (hs_URI (lh_Spec host)) \<noteq> Inr ConnURISession \<or>
     net_Type (ms_Network (lm_Spec lm)) \<noteq> NetworkTypeNetwork"

lemma calm_preflightSessionMode:
  "session_ok env (rc_libvirtHost rc) lm \<Longrightarrow> calm lm (\<lambda>u. True) (preflightSessionMode env rc)"
  unfolding preflightSessionMode_def
  by (rule calm_get) (auto simp: session_ok_def intro!: calm_return split: sum.splits)

text \<open>What a reconciliation that went through records of the machine.\<close>

definition provisioned :: "MachineScope \<Rightarrow> LibvirtMachine \<Rightarrow> LibvirtMachine \<Rightarrow> bool" where
  "provisioned sc lm lm' \<longleftrightarrow>
     st_Ready (lm_Status lm') \<and> st_FailureReason (lm_Status lm') = None \<and>
     lm_Spec lm' = (lm_Spec lm)\<lparr>ms_ProviderID := Some (ProviderID sc)\<rparr> \<and>
     st_Addresses (lm_Status lm') = GetAddresses sc"

lemma NodeLabels_keep_status:
  assumes "run_state (reconcileNodeLabels env n) s = (r, s')"
  shows "\<exists>cs. s_machine s' = (s_machine s)\<lparr>lm_Status := (lm_Status (s_machine s))\<lparr>st_Conditions := cs\<rparr>\<rparr>"
proof -
  have self: "\<exists>cs. m = m\<lparr>lm_Status := (lm_Status m)\<lparr>st_Conditions := cs\<rparr>\<rparr>" for m
    by (rule exI [of _ "st_Conditions (lm_Status m)"]) simp
  show ?thesis using assms self unfolding reconcileNodeLabels_def Let_def
    by (auto simp: set_condition_def split: if_splits prod.splits sum.splits option.splits)
qed

lemma steps_provision:
  assumes "serves (rc_libvirtClient rc)" "answers is_ok (GetBootstrapData (me_GetSecret env) (rc_machineScope rc))"
    and "\<And>d i h. answers is_ok (me_BuildCloudInitISO env d i h)"
    and "ms_BootstrapFormat (lm_Spec lm) \<in> {BootstrapFormatIgnition, BootstrapFormatCloudInit}"
    and "rc_libvirtCluster rc = Some lc" "cs_BaseImage (lc_Spec lc) = None" "cs_BootArtifacts (lc_Spec lc) = None"
    and "session_ok env (rc_libvirtHost rc) lm" "st_FailureReason (lm_Status lm) = None"
    and "s_machine s = lm" "run_state (reconcile_steps env rc) s = (r, s')"
  shows "provisioned (rc_machineScope rc) lm (s_machine s')"
proof -
  obtain u t where t: "run_state (preflightSessionMode env rc) s = (u, t)" by (meson surj_pair)
  have t_lm: "s_machine t = lm" using calmD [OF calm_preflightSessionMode [OF assms(8)] assms(10) t] by blast
  obtain p v where p: "run_state (preflightPools env rc) t = (p, v)" by fastforce
  have v: "p = None" "s_machine v = lm" using calmD [OF calm_preflightPools [OF assms(1)] t_lm p] by auto
  obtain d x where d: "run_state (provision env rc) v = (d, x)" by fastforce
  obtain rc' info where x: "d = Inr (Some (rc', info))" "rc_machineScope rc' = rc_machineScope rc" "s_machine x = lm"
    using calmD [OF calm_provision [OF assms(1-7)] v(2) d] by blast
  obtain u2 y where y: "run_state (record_ready env rc' info) x = (u2, y)" by (meson surj_pair)
  have "run_state (reconcileNodeLabels env (DomainName (rc_machineScope rc'))) y = (r, s')"
    using assms(9,11) t t_lm p v d x y by (simp add: reconcile_steps_def)
  then obtain cs where "s_machine s' = (s_machine y)\<lparr>lm_Status := (lm_Status (s_machine y))\<lparr>st_Conditions := cs\<rparr>\<rparr>"
    using NodeLabels_keep_status by blast
  moreover have "provisioned (rc_machineScope rc) lm (s_machine y)"
    using y x assms(9) by (auto simp: record_ready_def set_condition_def provisioned_def)
  ultimately show ?thesis by (simp add: provisioned_def)
qed


text \<open>The size of the machine can be resolved.\<close>

definition sizes_ok :: "LibvirtHost \<Rightarrow> LibvirtMachine \<Rightarrow> bool" where
  "sizes_ok host lm \<longleftrightarrow>
     (let dom = ms_Domain (lm_Spec lm) in
      dom_VCPUs dom \<noteq> 0 \<and> dom_MemoryMB dom \<noteq> 0 \<or>
      (case hst_Capacity (lh_Status host) of
         None \<Rightarrow> False
       | Some cap \<Rightarrow> 0 <s (if dom_VCPUs dom = 0 then hc_AvailableVCPUs cap else dom_VCPUs dom) \<and>
                     0 <s (if dom_MemoryMB dom = 0 then hc_AvailableMemoryMB cap else dom_MemoryMB dom)))"

lemma sless_not_sle: "0 <s (a :: int32) \<Longrightarrow> \<not> a \<le>s 0"
  by (simp add: word_sless_alt word_sle_eq)

lemma calm_resolveAutoSizing:
  assumes "sizes_ok host lm"
  shows "calm lm (\<lambda>z. \<exists>v m. z = Inr (v, m)) (resolveAutoSizing host)"
  unfolding resolveAutoSizing_def
  by (rule calm_get) (use assms in \<open>auto simp: sizes_ok_def Let_def sless_not_sle intro!: calm_return
    split: option.splits if_splits\<close>)

definition secret_ready :: "('w, 'ssh) machine_env \<Rightarrow> Machine \<Rightarrow> bool" where
  "secret_ready env machine \<longleftrightarrow>
     (\<exists>name. mc_DataSecretName machine = Some name \<and>
        answers (\<lambda>r. \<exists>secret data. r = Inr secret \<and> fmlookup secret ''value'' = Some data)
          (me_GetSecret env (mc_Namespace machine) name))"

lemma secret_bootstrap:
  "secret_ready env (sc_Machine sc) \<Longrightarrow> answers is_ok (GetBootstrapData (me_GetSecret env) sc)"
  by (auto simp: secret_ready_def answers_def GetBootstrapData_def split: prod.splits sum.splits option.splits)
     fastforce+

text \<open>Setting conditions and the finalizer leaves spec, names and failure as they are.\<close>

definition same_object :: "LibvirtMachine \<Rightarrow> LibvirtMachine \<Rightarrow> bool" where
  "same_object lm m \<longleftrightarrow>
     lm_Spec m = lm_Spec lm \<and> lm_Name m = lm_Name lm \<and> lm_Namespace m = lm_Namespace lm \<and>
     st_FailureReason (lm_Status m) = st_FailureReason (lm_Status lm)"

lemma ensureBootstrapData_ready:
  assumes "secret_ready env machine" "run_state (ensureBootstrapData env machine) s = (b, s')"
  shows "b = None \<and> same_object (s_machine s) (s_machine s')"
  using assms
  by (auto simp: secret_ready_def ensureBootstrapData_def answers_def set_condition_def same_object_def
      split: prod.splits sum.splits) fastforce+


lemma same_object_scope:
  assumes "same_object lm m"
  shows "provisioned (sc\<lparr>sc_LibvirtMachine := m\<rparr>) m lm' \<Longrightarrow> provisioned (sc\<lparr>sc_LibvirtMachine := lm\<rparr>) lm lm'"
  using assms by (simp add: provisioned_def same_object_def ProviderID_def DomainName_def ArtifactBaseName_def
      GetAddresses_def)

lemma closing_machine:
  assumes "run_state (closing env ssh body) s = (r, s')"
  obtains t where "run_state body s = (r, t)" "s_machine s' = s_machine t"
  using assms by (auto simp: closing_def split: prod.splits)

lemma add_finalizer_same: "run_state (add_finalizer env) s = (u, t) \<Longrightarrow> same_object (s_machine s) (s_machine t)"
  by (auto simp: add_finalizer_def same_object_def)

lemma same_object_trans: "same_object a b \<Longrightarrow> same_object b c \<Longrightarrow> same_object a c"
  by (simp add: same_object_def)

lemma same_object_ok:
  assumes "same_object lm m"
  shows "session_ok env host m = session_ok env host lm" "sizes_ok host m = sizes_ok host lm"
  using assms by (simp_all add: session_ok_def sizes_ok_def same_object_def)


section \<open>Properties\<close>


lemma recording_serves: "serves (mock_client recording_mock)"
  by (simp add: serves_def answers_def mock_client_def recording_mock_def no_mocks_def record_call_def)


end
