(* ===== verification/Domain_Sizing.thy ===== *)
theory Domain_Sizing
  imports Host_Events
begin

text \<open>
  The size of a domain: what \<^verbatim>\<open>resolveAutoSizing\<close> makes of a spec and the capacity of the
  host, and what reaches the domain XML of it.
\<close>

lemma sint_scast_int32: "sint (scast (m :: int32) :: int64) = sint m"
  by (rule sint_up_scast) (simp add: is_up)

lemma sint_times_1024:
  assumes "0 \<le> sint (x :: int64)" "sint x < 2 ^ 31"
  shows "sint (x * 1024) = sint x * 1024"
proof -
  have "x * 1024 = word_of_int (sint x * 1024)" by simp
  moreover have "sint (word_of_int (sint x * 1024) :: int64) = sint x * 1024"
    using assms by (intro sint_int64) simp_all
  ultimately show ?thesis by (simp only:)
qed

lemma memory_kb:
  assumes "0 \<le> sint (m :: int32)"
  shows "sint (scast m * memoryMBToKBMultiplier :: int64) = sint m * 1024"
proof -
  have "sint m < 2 ^ 31" using sint_lt [of m] by simp
  then show ?thesis using sint_times_1024 [of "scast m"] assms by (simp only: sint_scast_int32)
qed

lemma positive:
  assumes "0 \<le> sint (w :: int32)" "w \<noteq> 0"
  shows "0 < sint w"
proof (rule ccontr)
  assume "\<not> 0 < sint w"
  then have "sint w = 0" using assms(1) by simp
  moreover have "w = word_of_int (sint w)" by simp
  ultimately have "w = 0" by (simp only: of_int_0)
  then show False using assms(2) by simp
qed

lemma sized_params:
  assumes "0 \<le> sint m"
  shows "px_VCPUs (domain_params (new_ctx env sc cl v m) lm root ign cd) = v \<and>
    sint (px_MemoryKB (domain_params (new_ctx env sc cl v m) lm root ign cd)) = sint m * 1024"
  using memory_kb [OF assms] by (simp add: domain_params_def new_ctx_def Let_def)

lemma resolveAutoSizing_omitted:
  assumes "ds = ms_Domain (lm_Spec (s_machine s))" "dom_VCPUs ds = 0 \<or> dom_MemoryMB ds = 0"
    and "hst_Capacity (lh_Status host) = Some cap"
    and "v = (if dom_VCPUs ds = 0 then hc_AvailableVCPUs cap else dom_VCPUs ds)"
    and "m = (if dom_MemoryMB ds = 0 then hc_AvailableMemoryMB cap else dom_MemoryMB ds)"
    and "run_state (resolveAutoSizing host) s = (z, s')"
  shows "if v \<le>s 0 \<or> m \<le>s 0
    then z = Inl empty_result \<and> st_FailureReason (lm_Status (s_machine s')) = Some ReasonStorageInsufficient
    else z = Inr (v, m) \<and> s' = s"
proof -
  let ?msg = "''host '' @ lh_Name host @ '' has insufficient available resources: '' @
    fmt_d (sint v) @ '' vCPUs, '' @ fmt_d (sint m) @ '' MB''"
  have "run_state (resolveAutoSizing host) s = run_state (if v \<le>s 0 \<or> m \<le>s 0
        then do { setTerminalError ReasonStorageInsufficient ?msg; State_Monad.return (Inl empty_result) }
        else State_Monad.return (Inr (v, m))) s"
    using assms(2,3) unfolding assms(4,5) assms(1) resolveAutoSizing_def Let_def by (simp split del: if_split)
  then show ?thesis using assms(6) by (auto simp: setTerminalError_def)
qed

text \<open>C25: sizes, for a spec whose sizes are not negative: if the sizes of a machine are resolved,
  both are positive, an explicit size is taken as it is, an omitted one is what the host has
  available, and the machine object is unchanged; the domain is then defined with these virtual
  CPUs and with 1024 times the megabytes in KiB, without wrap-around. If they are not resolved,
  the reconciliation waits for the capacity of the host, or records a failure because the host
  has nothing left.\<close>

theorem auto_sizing_bounds:
  assumes "run_state (resolveAutoSizing host) s = (z, s')"
    and "ds = ms_Domain (lm_Spec (s_machine s))" "0 \<le> sint (dom_VCPUs ds)" "0 \<le> sint (dom_MemoryMB ds)"
  shows "case z of
      Inr (v, m) \<Rightarrow>
        0 < sint v \<and> 0 < sint m \<and> s_machine s' = s_machine s \<and>
        (dom_VCPUs ds \<noteq> 0 \<longrightarrow> v = dom_VCPUs ds) \<and> (dom_MemoryMB ds \<noteq> 0 \<longrightarrow> m = dom_MemoryMB ds) \<and>
        (dom_VCPUs ds = 0 \<longrightarrow> map_option hc_AvailableVCPUs (hst_Capacity (lh_Status host)) = Some v) \<and>
        (dom_MemoryMB ds = 0 \<longrightarrow> map_option hc_AvailableMemoryMB (hst_Capacity (lh_Status host)) = Some m) \<and>
        px_VCPUs (domain_params (new_ctx env sc cl v m) lm root ign cd) = v \<and>
        sint (px_MemoryKB (domain_params (new_ctx env sc cl v m) lm root ign cd)) = sint m * 1024
    | Inl result \<Rightarrow>
        hst_Capacity (lh_Status host) = None \<and> RequeueAfter result = hostNotReadyRequeueInterval \<and>
          s_machine s' = s_machine s \<or>
        st_FailureReason (lm_Status (s_machine s')) = Some ReasonStorageInsufficient \<and> result = empty_result"
proof -
  let ?v = "dom_VCPUs ds" and ?m = "dom_MemoryMB ds"
  show ?thesis
  proof (cases "?v = 0 \<or> ?m = 0")
    case False
    then have "z = Inr (?v, ?m)" "s' = s" using assms(1) by (auto simp: resolveAutoSizing_def Let_def assms(2))
    then show ?thesis using False assms(3,4) by (simp add: sized_params positive)
  next
    case True
    show ?thesis
    proof (cases "hst_Capacity (lh_Status host)")
      case None
      then have "z = Inl \<lparr>RequeueAfter = hostNotReadyRequeueInterval\<rparr>" "s' = s"
        using True assms(1) by (auto simp: resolveAutoSizing_def Let_def assms(2))
      then show ?thesis using None by simp
    next
      case (Some cap)
      define v where "v = (if ?v = 0 then hc_AvailableVCPUs cap else ?v)"
      define m where "m = (if ?m = 0 then hc_AvailableMemoryMB cap else ?m)"
      note omitted = resolveAutoSizing_omitted [OF assms(2) True Some v_def m_def assms(1)]
      show ?thesis
      proof (cases "v \<le>s 0 \<or> m \<le>s 0")
        case enough: False
        then have "0 < sint v" "0 < sint m" by (simp_all add: word_sle_eq not_le)
        then show ?thesis using omitted enough Some by (simp add: sized_params) (simp add: v_def m_def)
      qed (use omitted in simp)
    qed
  qed
qed

definition example_sized_host :: LibvirtHost where
  "example_sized_host = example_keyed_host\<lparr>lh_Status := (lh_Status example_keyed_host)\<lparr>hst_Capacity :=
     Some \<lparr>hc_TotalVCPUs = 32, hc_TotalMemoryMB = 64342, hc_AvailableVCPUs = 30, hc_AvailableMemoryMB = 62294\<rparr>\<rparr>\<rparr>"

definition example_autosized :: LibvirtMachine where
  "example_autosized = example_machine ''m0''\<lparr>lm_Spec := example_spec\<lparr>ms_Domain :=
     \<lparr>dom_VCPUs = 0, dom_MemoryMB = 4096, dom_Machine = ''q35'', dom_Firmware = FirmwareUEFI\<rparr>\<rparr>\<rparr>"

theorem auto_sizing_bounds_witness:
  "\<exists>s'. run_state (resolveAutoSizing example_sized_host)
      \<lparr>s_world = ([] :: host_event list), s_machine = example_autosized, s_artifactCache = fmempty\<rparr> = (Inr (30, 4096), s') \<and>
    sint (px_MemoryKB (domain_params (new_ctx (recording_env example_autosized)
      \<lparr>sc_Cluster = example_cluster, sc_Machine = example_owner, sc_LibvirtCluster = example_libvirt_cluster,
       sc_LibvirtMachine = example_autosized, sc_LibvirtHost = example_sized_host\<rparr>
      (mock_client recording_mock) 30 4096) example_autosized ''root'' '''' '''')) = 4194304"
proof -
  let ?s = "\<lparr>s_world = ([] :: host_event list), s_machine = example_autosized, s_artifactCache = fmempty\<rparr>"
  have run: "run_state (resolveAutoSizing example_sized_host) ?s = (Inr (30, 4096), ?s)"
    by (simp add: resolveAutoSizing_def example_sized_host_def example_autosized_def word_sle_eq)
  show ?thesis
    using auto_sizing_bounds [OF run refl, of "recording_env example_autosized"
      "\<lparr>sc_Cluster = example_cluster, sc_Machine = example_owner, sc_LibvirtCluster = example_libvirt_cluster,
       sc_LibvirtMachine = example_autosized, sc_LibvirtHost = example_sized_host\<rparr>"
      "mock_client recording_mock" example_autosized "''root''" "''''" "''''"] run
    by (simp add: example_autosized_def)
qed

end
