(* ===== verification/Csr_Approver.thy ===== *)
theory Csr_Approver
  imports Examples
begin

text \<open>
  \<^verbatim>\<open>internal/controller/csrapprover_controller.go\<close>: approving the certificate requests of the
  kubelets on machines this provider manages. The API server and the decoding of the request
  (\<^verbatim>\<open>pem.Decode\<close>, \<^verbatim>\<open>x509.ParseCertificateRequest\<close>) are parameters; the policy is the code's.
\<close>

section \<open>Requests\<close>

abbreviation "kubeletClientSignerName \<equiv> ''kubernetes.io/kube-apiserver-client-kubelet''"
abbreviation "kubeletServingSignerName \<equiv> ''kubernetes.io/kubelet-serving''"
abbreviation "systemNodePrefix \<equiv> ''system:node:''"
abbreviation "systemNodesGroup \<equiv> ''system:nodes''"
abbreviation "systemBootstrappersGroup \<equiv> ''system:bootstrappers''"
abbreviation "openshiftNodeBootstrapper \<equiv>
  ''system:serviceaccount:openshift-machine-config-operator:node-bootstrapper''"

abbreviation "CertificateApproved \<equiv> ''Approved''"
abbreviation "CertificateDenied \<equiv> ''Denied''"
abbreviation "UsageDigitalSignature \<equiv> ''digital signature''"
abbreviation "UsageKeyEncipherment \<equiv> ''key encipherment''"
abbreviation "UsageClientAuth \<equiv> ''client auth''"
abbreviation "UsageServerAuth \<equiv> ''server auth''"

record CSRCondition =
  cc_Type :: string
  cc_Status :: ConditionStatus
  cc_Reason :: string
  cc_Message :: string

record CSR =
  csr_SignerName :: string
  csr_Username :: string
  csr_Groups :: "string list"
  csr_Usages :: "string list"
  csr_Request :: bytes
  csr_Conditions :: "CSRCondition list"

text \<open>The fields of the parsed request that the code reads. An IP address is its bytes, or
  nil.\<close>

record CertificateRequest =
  cr_CommonName :: string
  cr_Organization :: "string list"
  cr_EmailAddresses :: "string list"
  cr_URIs :: "string list"
  cr_DNSNames :: "string list"
  cr_IPAddresses :: "bytes option list"

record 'w csr_env =
  ce_GetCSR :: "string \<Rightarrow> ('w, go_error + CSR) state"
  ce_ListMachines :: "('w, go_error + Machine list) state"
  ce_GetLibvirtMachine :: "string \<Rightarrow> string \<Rightarrow> ('w, go_error + LibvirtMachine) state"
  ce_UpdateApproval :: "CSR \<Rightarrow> ('w, go_error option) state"
  ce_pem_Decode :: "bytes \<Rightarrow> bytes option"
  ce_ParseCertificateRequest :: "bytes \<Rightarrow> go_error + CertificateRequest"


section \<open>The methods of net.IP\<close>

definition ip_To4 :: "bytes \<Rightarrow> bytes option" where
  "ip_To4 ip =
     (if length ip = 4 then Some ip
      else if length ip = 16 \<and> take 10 ip = replicate 10 (CHR 0x00) \<and>
              take 2 (drop 10 ip) = [CHR 0xFF, CHR 0xFF]
      then Some (drop 12 ip) else None)"

definition ip_IsUnspecified :: "bytes \<Rightarrow> bool" where
  "ip_IsUnspecified ip =
     (ip_To4 ip = Some (replicate 4 (CHR 0x00)) \<or> ip = replicate 16 (CHR 0x00))"

definition ip_IsLoopback :: "bytes \<Rightarrow> bool" where
  "ip_IsLoopback ip =
     (case ip_To4 ip of
        Some ip4 \<Rightarrow> ip4 ! 0 = CHR 0x7F
      | None \<Rightarrow> ip = replicate 15 (CHR 0x00) @ [CHR 0x01])"

definition ip_IsMulticast :: "bytes \<Rightarrow> bool" where
  "ip_IsMulticast ip =
     (case ip_To4 ip of
        Some ip4 \<Rightarrow> (of_char (ip4 ! 0) :: nat) div 16 = 14
      | None \<Rightarrow> length ip = 16 \<and> ip ! 0 = CHR 0xFF)"


section \<open>The policy\<close>

definition containsString :: "string list \<Rightarrow> string \<Rightarrow> bool" where
  "containsString values value = (value \<in> set values)"

definition containsUsage :: "string list \<Rightarrow> string \<Rightarrow> bool" where
  "containsUsage usages usage = (usage \<in> set usages)"

definition hasOnlyUsages :: "string list \<Rightarrow> string list \<Rightarrow> bool" where
  "hasOnlyUsages actual allowed = list_all (containsUsage allowed) actual"

definition containsGroupPrefix :: "string list \<Rightarrow> string \<Rightarrow> bool" where
  "containsGroupPrefix groups prefx =
     list_ex (\<lambda>group. group = prefx \<or> strings_HasPrefix group (prefx @ '':'')) groups"

definition isApprovedOrDenied :: "CSR \<Rightarrow> bool" where
  "isApprovedOrDenied csr =
     list_ex (\<lambda>c. cc_Type c = CertificateApproved \<or> cc_Type c = CertificateDenied) (csr_Conditions csr)"

definition validKubeletServingSANs :: "CertificateRequest \<Rightarrow> string \<Rightarrow> bool" where
  "validKubeletServingSANs req nodeName =
     (if length (cr_EmailAddresses req) > 0 \<or> length (cr_URIs req) > 0 then False
      else list_all (\<lambda>dnsName. dnsName = nodeName \<or> strings_HasPrefix dnsName (nodeName @ ''.''))
             (cr_DNSNames req) \<and>
           list_all (\<lambda>ip. case ip of None \<Rightarrow> False
              | Some a \<Rightarrow> \<not> ip_IsUnspecified a \<and> \<not> ip_IsLoopback a \<and> \<not> ip_IsMulticast a)
             (cr_IPAddresses req))"

definition validKubeletServingRequester :: "CSR \<Rightarrow> string \<Rightarrow> bool" where
  "validKubeletServingRequester csr nodeName =
     (csr_Username csr = systemNodePrefix @ nodeName \<and> containsString (csr_Groups csr) systemNodesGroup)"

definition validKubeletClientRequester :: "CSR \<Rightarrow> string \<Rightarrow> bool" where
  "validKubeletClientRequester csr nodeName =
     (if csr_Username csr = systemNodePrefix @ nodeName \<and> containsString (csr_Groups csr) systemNodesGroup
      then True
      else if strings_HasPrefix (csr_Username csr) ''system:bootstrap:'' \<and>
              containsGroupPrefix (csr_Groups csr) systemBootstrappersGroup
      then True
      else if csr_Username csr = openshiftNodeBootstrapper then True
      else False)"

definition parseCSRRequest :: "'w csr_env \<Rightarrow> CSR \<Rightarrow> go_error + CertificateRequest" where
  "parseCSRRequest env csr =
     (case ce_pem_Decode env (csr_Request csr) of
        None \<Rightarrow> Inl (ErrorText ''CSR request is not PEM encoded'')
      | Some block \<Rightarrow> ce_ParseCertificateRequest env block)"

definition nodeNameFromCSR :: "'w csr_env \<Rightarrow> CSR \<Rightarrow> string" where
  "nodeNameFromCSR env csr =
     (if strings_HasPrefix (csr_Username csr) systemNodePrefix
      then drop (length systemNodePrefix) (csr_Username csr)
      else case parseCSRRequest env csr of
        Inl err \<Rightarrow> ''''
      | Inr req \<Rightarrow>
          if strings_HasPrefix (cr_CommonName req) systemNodePrefix
          then drop (length systemNodePrefix) (cr_CommonName req)
          else '''')"

definition shouldApproveKubeletCSR :: "'w csr_env \<Rightarrow> CSR \<Rightarrow> string \<Rightarrow> bool" where
  "shouldApproveKubeletCSR env csr nodeName =
     (case parseCSRRequest env csr of
        Inl err \<Rightarrow> False
      | Inr req \<Rightarrow>
          if cr_CommonName req \<noteq> systemNodePrefix @ nodeName \<or>
             \<not> containsString (cr_Organization req) systemNodesGroup
          then False
          else if csr_SignerName csr = kubeletClientSignerName
          then validKubeletClientRequester csr nodeName \<and>
               hasOnlyUsages (csr_Usages csr)
                 [UsageDigitalSignature, UsageKeyEncipherment, UsageClientAuth] \<and>
               containsUsage (csr_Usages csr) UsageClientAuth
          else if csr_SignerName csr = kubeletServingSignerName
          then validKubeletServingRequester csr nodeName \<and>
               validKubeletServingSANs req nodeName \<and>
               hasOnlyUsages (csr_Usages csr)
                 [UsageDigitalSignature, UsageKeyEncipherment, UsageServerAuth] \<and>
               containsUsage (csr_Usages csr) UsageServerAuth
          else False)"


section \<open>Reconcile\<close>

definition csr_domainName :: "LibvirtMachine \<Rightarrow> Machine \<Rightarrow> string" where
  "csr_domainName lm machine =
     lm_Namespace lm @ ''-'' @
     (case fmlookup (mc_Labels machine) ''cluster.x-k8s.io/cluster-name'' of None \<Rightarrow> '''' | Some v \<Rightarrow> v) @
     ''-'' @ lm_Name lm"

fun managed_loop :: "'w csr_env \<Rightarrow> string \<Rightarrow> Machine list \<Rightarrow> ('w, bool) state" where
  "managed_loop env nodeName [] = State_Monad.return False"
| "managed_loop env nodeName (machine # machines) =
     (if ir_Kind (mc_InfrastructureRef machine) \<noteq> ''LibvirtMachine''
      then managed_loop env nodeName machines
      else do {
        r \<leftarrow> ce_GetLibvirtMachine env (ir_Namespace (mc_InfrastructureRef machine))
               (ir_Name (mc_InfrastructureRef machine));
        (case r of
           Inl err \<Rightarrow> managed_loop env nodeName machines
         | Inr lm \<Rightarrow>
             if csr_domainName lm machine = nodeName then State_Monad.return True
             else managed_loop env nodeName machines) })"

definition isLibvirtManagedNode :: "'w csr_env \<Rightarrow> string \<Rightarrow> ('w, bool) state" where
  "isLibvirtManagedNode env nodeName = do {
     r \<leftarrow> ce_ListMachines env;
     (case r of
        Inl err \<Rightarrow> State_Monad.return False
      | Inr items \<Rightarrow> managed_loop env nodeName items) }"

definition approve :: "CSR \<Rightarrow> string \<Rightarrow> CSR" where
  "approve csr nodeName = csr\<lparr>csr_Conditions := csr_Conditions csr @
     [\<lparr>cc_Type = CertificateApproved, cc_Status = ConditionTrue, cc_Reason = ''CAPLVAutoApproved'',
       cc_Message = ''CSR auto-approved by CAPLV for managed node '' @ nodeName\<rparr>]\<rparr>"

definition csr_Reconcile :: "'w csr_env \<Rightarrow> string \<Rightarrow> ('w, go_error + Result) state" where
  "csr_Reconcile env name = do {
     r \<leftarrow> ce_GetCSR env name;
     (case r of
        Inl err \<Rightarrow> State_Monad.return (if apierrors_IsNotFound err then Inr empty_result else Inl err)
      | Inr csr \<Rightarrow>
          if isApprovedOrDenied csr then State_Monad.return (Inr empty_result)
          else if csr_SignerName csr \<noteq> kubeletClientSignerName \<and>
                  csr_SignerName csr \<noteq> kubeletServingSignerName
          then State_Monad.return (Inr empty_result)
          else let nodeName = nodeNameFromCSR env csr in
          if nodeName = '''' then State_Monad.return (Inr empty_result)
          else do {
            managed \<leftarrow> isLibvirtManagedNode env nodeName;
            if \<not> managed then State_Monad.return (Inr empty_result)
            else if \<not> shouldApproveKubeletCSR env csr nodeName then State_Monad.return (Inr empty_result)
            else do {
              u \<leftarrow> ce_UpdateApproval env (approve csr nodeName);
              State_Monad.return (case u of Some err \<Rightarrow> Inl err | None \<Rightarrow> Inr empty_result) } }) }"


section \<open>The policy in other words\<close>

text \<open>\<open>kubelet_policy csr req node\<close>: what a request must look like to be approved for the node
  \<open>node\<close>.\<close>

definition san_ip_ok :: "bytes option \<Rightarrow> bool" where
  "san_ip_ok ip = (ip \<noteq> None \<and> \<not> ip_IsUnspecified (the ip) \<and> \<not> ip_IsLoopback (the ip) \<and>
     \<not> ip_IsMulticast (the ip))"

definition client_policy :: "CSR \<Rightarrow> string \<Rightarrow> bool" where
  "client_policy csr node =
     (csr_SignerName csr = kubeletClientSignerName \<and>
      (csr_Username csr = systemNodePrefix @ node \<and> systemNodesGroup \<in> set (csr_Groups csr) \<or>
       prefix ''system:bootstrap:'' (csr_Username csr) \<and>
         (\<exists>g \<in> set (csr_Groups csr). g = systemBootstrappersGroup \<or> prefix (systemBootstrappersGroup @ '':'') g) \<or>
       csr_Username csr = openshiftNodeBootstrapper) \<and>
      set (csr_Usages csr) \<subseteq> {UsageDigitalSignature, UsageKeyEncipherment, UsageClientAuth} \<and>
      UsageClientAuth \<in> set (csr_Usages csr))"

definition serving_policy :: "CSR \<Rightarrow> CertificateRequest \<Rightarrow> string \<Rightarrow> bool" where
  "serving_policy csr req node =
     (csr_SignerName csr = kubeletServingSignerName \<and>
      csr_Username csr = systemNodePrefix @ node \<and> systemNodesGroup \<in> set (csr_Groups csr) \<and>
      cr_EmailAddresses req = [] \<and> cr_URIs req = [] \<and>
      list_all (\<lambda>d. d = node \<or> prefix (node @ ''.'') d) (cr_DNSNames req) \<and>
      list_all san_ip_ok (cr_IPAddresses req) \<and>
      set (csr_Usages csr) \<subseteq> {UsageDigitalSignature, UsageKeyEncipherment, UsageServerAuth} \<and>
      UsageServerAuth \<in> set (csr_Usages csr))"

definition kubelet_policy :: "CSR \<Rightarrow> CertificateRequest \<Rightarrow> string \<Rightarrow> bool" where
  "kubelet_policy csr req node =
     (cr_CommonName req = systemNodePrefix @ node \<and> systemNodesGroup \<in> set (cr_Organization req) \<and>
      (client_policy csr node \<or> serving_policy csr req node))"

lemma hasOnlyUsages_iff: "hasOnlyUsages actual allowed \<longleftrightarrow> set actual \<subseteq> set allowed"
  by (auto simp: hasOnlyUsages_def containsUsage_def list_all_iff)

lemma san_ip_case:
  "(case ip of None \<Rightarrow> False
    | Some a \<Rightarrow> \<not> ip_IsUnspecified a \<and> \<not> ip_IsLoopback a \<and> \<not> ip_IsMulticast a) = san_ip_ok ip"
  by (cases ip) (simp_all add: san_ip_ok_def)

lemma validKubeletClientRequester_iff:
  "validKubeletClientRequester csr node \<longleftrightarrow>
     csr_Username csr = systemNodePrefix @ node \<and> systemNodesGroup \<in> set (csr_Groups csr) \<or>
     prefix ''system:bootstrap:'' (csr_Username csr) \<and>
       (\<exists>g \<in> set (csr_Groups csr). g = systemBootstrappersGroup \<or> prefix (systemBootstrappersGroup @ '':'') g) \<or>
     csr_Username csr = openshiftNodeBootstrapper"
  unfolding validKubeletClientRequester_def containsString_def containsGroupPrefix_def
    HasPrefix_iff_prefix list_ex_iff by argo

lemma validKubeletServingSANs_iff:
  "validKubeletServingSANs req node \<longleftrightarrow>
     cr_EmailAddresses req = [] \<and> cr_URIs req = [] \<and>
     list_all (\<lambda>d. d = node \<or> prefix (node @ ''.'') d) (cr_DNSNames req) \<and>
     list_all san_ip_ok (cr_IPAddresses req)"
  by (auto simp: validKubeletServingSANs_def san_ip_case HasPrefix_iff_prefix)

lemma shouldApprove_iff:
  "shouldApproveKubeletCSR env csr node \<longleftrightarrow>
   (\<exists>req. parseCSRRequest env csr = Inr req \<and> kubelet_policy csr req node)"
proof (cases "parseCSRRequest env csr")
  case (Inr req)
  then show ?thesis
    unfolding shouldApproveKubeletCSR_def kubelet_policy_def client_policy_def serving_policy_def
      hasOnlyUsages_iff validKubeletClientRequester_iff validKubeletServingSANs_iff
      validKubeletServingRequester_def containsString_def containsUsage_def
    by (simp add: conj_commute conj_left_commute cong: conj_cong)
qed (simp add: shouldApproveKubeletCSR_def)


section \<open>What reaches the API server\<close>

definition csr_traces :: "'w csr_env \<Rightarrow> ('w \<Rightarrow> CSR list) \<Rightarrow> bool" where
  "csr_traces env approvals \<longleftrightarrow>
     (\<forall>n w r w'. run_state (ce_GetCSR env n) w = (r, w') \<longrightarrow> approvals w' = approvals w) \<and>
     (\<forall>w r w'. run_state (ce_ListMachines env) w = (r, w') \<longrightarrow> approvals w' = approvals w) \<and>
     (\<forall>ns n w r w'. run_state (ce_GetLibvirtMachine env ns n) w = (r, w') \<longrightarrow> approvals w' = approvals w) \<and>
     (\<forall>csr w r w'. run_state (ce_UpdateApproval env csr) w = (r, w') \<longrightarrow> approvals w' = approvals w @ [csr])"

text \<open>A node name belongs to a machine of this provider: some listed machine has a
  \<open>LibvirtMachine\<close> as its infrastructure, which was read, and the name is the one they give.\<close>

definition managed_node :: "'w csr_env \<Rightarrow> string \<Rightarrow> bool" where
  "managed_node env node \<longleftrightarrow>
     (\<exists>w ms w' machine lm v v'.
        run_state (ce_ListMachines env) w = (Inr ms, w') \<and> machine \<in> set ms \<and>
        ir_Kind (mc_InfrastructureRef machine) = ''LibvirtMachine'' \<and>
        run_state (ce_GetLibvirtMachine env (ir_Namespace (mc_InfrastructureRef machine))
          (ir_Name (mc_InfrastructureRef machine))) v = (Inr lm, v') \<and>
        csr_domainName lm machine = node)"

lemma csr_traces_dest:
  assumes "csr_traces env approvals"
  shows "run_state (ce_GetCSR env n) w = (r, w') \<Longrightarrow> approvals w' = approvals w"
    and "run_state (ce_ListMachines env) w = (rm, w') \<Longrightarrow> approvals w' = approvals w"
    and "run_state (ce_GetLibvirtMachine env ns n) w = (rl, w') \<Longrightarrow> approvals w' = approvals w"
    and "run_state (ce_UpdateApproval env csr) w = (ru, w') \<Longrightarrow> approvals w' = approvals w @ [csr]"
  using assms unfolding csr_traces_def by blast+

lemma managed_loop_run:
  assumes "csr_traces env approvals" "run_state (managed_loop env node ms) w = (b, w')"
  shows "approvals w' = approvals w \<and>
    (b \<longrightarrow> (\<exists>machine \<in> set ms. ir_Kind (mc_InfrastructureRef machine) = ''LibvirtMachine'' \<and>
       (\<exists>lm v v'. run_state (ce_GetLibvirtMachine env (ir_Namespace (mc_InfrastructureRef machine))
          (ir_Name (mc_InfrastructureRef machine))) v = (Inr lm, v') \<and>
        csr_domainName lm machine = node)))"
  using assms(2)
proof (induction ms arbitrary: w)
  case (Cons m ms)
  show ?case
  proof (cases "ir_Kind (mc_InfrastructureRef m) = ''LibvirtMachine''")
    case False
    then show ?thesis using Cons by auto
  next
    case True
    obtain r v where g: "run_state (ce_GetLibvirtMachine env (ir_Namespace (mc_InfrastructureRef m))
        (ir_Name (mc_InfrastructureRef m))) w = (r, v)" by fastforce
    have v: "approvals v = approvals w" using csr_traces_dest(3) [OF assms(1) g] .
    show ?thesis
    proof (cases "\<exists>lm. r = Inr lm \<and> csr_domainName lm m = node")
      case True
      then have "b \<and> w' = v" using Cons.prems g \<open>ir_Kind _ = _\<close> by auto
      then show ?thesis using True g v \<open>ir_Kind _ = _\<close> by auto
    next
      case False
      then have "run_state (managed_loop env node ms) v = (b, w')"
        using Cons.prems g \<open>ir_Kind _ = _\<close> by (auto split: sum.splits if_splits)
      then show ?thesis using Cons.IH [of v] v by auto
    qed
  qed
qed simp

lemma isLibvirtManagedNode_run:
  assumes "csr_traces env approvals" "run_state (isLibvirtManagedNode env node) w = (b, w')"
  shows "approvals w' = approvals w \<and> (b \<longrightarrow> managed_node env node)"
proof -
  obtain r v where l: "run_state (ce_ListMachines env) w = (r, v)" by fastforce
  have v: "approvals v = approvals w" using csr_traces_dest(2) [OF assms(1) l] .
  show ?thesis
  proof (cases r)
    case (Inl err)
    then show ?thesis using assms(2) l v by (simp add: isLibvirtManagedNode_def)
  next
    case (Inr ms)
    then have "run_state (managed_loop env node ms) v = (b, w')"
      using assms(2) l by (simp add: isLibvirtManagedNode_def)
    from managed_loop_run [OF assms(1) this] show ?thesis
      using l v Inr unfolding managed_node_def by metis
  qed
qed


lemma csr_Reconcile_run:
  assumes "csr_traces env approvals" "run_state (csr_Reconcile env name) w = (res, w')"
    and "approvals w' \<noteq> approvals w"
  obtains csr v node where "run_state (ce_GetCSR env name) w = (Inr csr, v)"
    "\<not> isApprovedOrDenied csr" "node \<noteq> ''''" "managed_node env node"
    "shouldApproveKubeletCSR env csr node" "approvals w' = approvals w @ [approve csr node]"
proof -
  obtain r v where g: "run_state (ce_GetCSR env name) w = (r, v)" by fastforce
  have v: "approvals v = approvals w" using csr_traces_dest(1) [OF assms(1) g] .
  obtain csr where r: "r = Inr csr"
    using assms(2,3) g v by (cases r) (auto simp: csr_Reconcile_def)
  let ?node = "nodeNameFromCSR env csr"
  obtain b u where m: "run_state (isLibvirtManagedNode env ?node) v = (b, u)" by fastforce
  note mr = isLibvirtManagedNode_run [OF assms(1) m]
  obtain ur t where up: "run_state (ce_UpdateApproval env (approve csr ?node)) u = (ur, t)" by fastforce
  have run: "\<not> isApprovedOrDenied csr \<and> ?node \<noteq> '''' \<and> b \<and> shouldApproveKubeletCSR env csr ?node \<and> w' = t"
    using assms(2,3) g r m up mr v
    by (auto simp: csr_Reconcile_def Let_def split: if_splits)
  then show thesis
    using that [of csr v ?node] g r mr v csr_traces_dest(4) [OF assms(1) up] by auto
qed

text \<open>A concrete cluster: one machine of this provider, and a serving request of its kubelet.
  The world is the list of approvals.\<close>

definition example_csr :: CSR where
  "example_csr = \<lparr>csr_SignerName = kubeletServingSignerName, csr_Username = ''system:node:ns-c-m0'',
     csr_Groups = [systemNodesGroup], csr_Usages = [UsageDigitalSignature, UsageServerAuth],
     csr_Request = ''pem'', csr_Conditions = []\<rparr>"

definition example_request :: CertificateRequest where
  "example_request = \<lparr>cr_CommonName = ''system:node:ns-c-m0'', cr_Organization = [systemNodesGroup],
     cr_EmailAddresses = [], cr_URIs = [], cr_DNSNames = [''ns-c-m0''],
     cr_IPAddresses = [Some [CHR 0x0A, CHR 0x00, CHR 0x00, CHR 0x05]]\<rparr>"

definition example_capi :: Machine where
  "example_capi = \<lparr>mc_Namespace = ''ns'', mc_DataSecretName = None,
     mc_InfrastructureRef = \<lparr>ir_Kind = ''LibvirtMachine'', ir_Namespace = ''ns'', ir_Name = ''m0''\<rparr>,
     mc_Labels = fmap_of_list [(''cluster.x-k8s.io/cluster-name'', ''c'')]\<rparr>"

definition example_csr_env :: "CSR list csr_env" where
  "example_csr_env = \<lparr>
     ce_GetCSR = (\<lambda>name. State_Monad.return (Inr example_csr)),
     ce_ListMachines = State_Monad.return (Inr [example_capi]),
     ce_GetLibvirtMachine = (\<lambda>ns name. State_Monad.return (Inr (example_machine name))),
     ce_UpdateApproval = (\<lambda>csr. State (\<lambda>l. (None, l @ [csr]))),
     ce_pem_Decode = Some,
     ce_ParseCertificateRequest = (\<lambda>b. Inr example_request)\<rparr>"

lemma example_csr_traces: "csr_traces example_csr_env (\<lambda>l. l)"
  by (simp add: csr_traces_def example_csr_env_def)

lemma example_san: "san_ip_ok (Some [CHR 0x0A, CHR 0x00, CHR 0x00, CHR 0x05])"
  by code_simp

lemma example_node: "nodeNameFromCSR example_csr_env example_csr = ''ns-c-m0''"
  by (simp add: nodeNameFromCSR_def example_csr_def strings_HasPrefix_def)

lemma example_policy: "kubelet_policy example_csr example_request ''ns-c-m0''"
  unfolding kubelet_policy_def serving_policy_def example_csr_def example_request_def
  by (simp add: example_san)

lemma example_should: "shouldApproveKubeletCSR example_csr_env example_csr ''ns-c-m0''"
  unfolding shouldApprove_iff using example_policy
  by (simp add: parseCSRRequest_def example_csr_env_def)

lemma example_managed: "run_state (isLibvirtManagedNode example_csr_env ''ns-c-m0'') w = (True, w)"
proof -
  have "csr_domainName (example_machine ''m0'') example_capi = ''ns-c-m0''"
    by (simp add: csr_domainName_def example_machine_def example_meta_def example_capi_def fmlookup_of_list)
  moreover have "ir_Kind (mc_InfrastructureRef example_capi) = ''LibvirtMachine''"
      "ir_Name (mc_InfrastructureRef example_capi) = ''m0''"
    by (simp_all add: example_capi_def)
  ultimately show ?thesis by (simp add: isLibvirtManagedNode_def example_csr_env_def)
qed

lemma example_csr_run:
  "run_state (csr_Reconcile example_csr_env ''csr-1'') [] =
   (Inr empty_result, [approve example_csr ''ns-c-m0''])"
proof -
  have get: "run_state (ce_GetCSR example_csr_env ''csr-1'') [] = (Inr example_csr, [])"
    "run_state (ce_UpdateApproval example_csr_env c) [] = (None, [c])" for c
    by (simp_all add: example_csr_env_def)
  have "\<not> isApprovedOrDenied example_csr" "csr_SignerName example_csr = kubeletServingSignerName"
    by (simp_all add: isApprovedOrDenied_def example_csr_def)
  then show ?thesis
    by (simp add: csr_Reconcile_def Let_def get example_node example_should example_managed)
qed


section \<open>Properties\<close>

text \<open>C4: the approver approves at most the one request it was asked about, and only if that
  request was not decided before and is a kubelet request for a node of this provider: the
  node's name comes from a listed machine with an existing \<open>LibvirtMachine\<close>, the certificate
  is for that node as a member of the node group, and the signer, the requesting user, the
  usages and, for a serving certificate, every alternative name satisfy the policy.\<close>

theorem csr_approval_safe:
  assumes "csr_traces env approvals" "run_state (csr_Reconcile env name) w = (res, w')"
    and "approvals w' \<noteq> approvals w"
  shows "\<exists>csr v node req.
     run_state (ce_GetCSR env name) w = (Inr csr, v) \<and>
     approvals w' = approvals w @ [approve csr node] \<and>
     \<not> isApprovedOrDenied csr \<and> node \<noteq> '''' \<and> managed_node env node \<and>
     parseCSRRequest env csr = Inr req \<and>
     cr_CommonName req = systemNodePrefix @ node \<and> systemNodesGroup \<in> set (cr_Organization req) \<and>
     (client_policy csr node \<or> serving_policy csr req node)"
  by (rule csr_Reconcile_run [OF assms]) (auto simp: shouldApprove_iff kubelet_policy_def)

theorem csr_approval_safe_witness:
  "\<exists>csr node req. [approve example_csr ''ns-c-m0''] = [approve csr node] \<and>
     managed_node example_csr_env node \<and> parseCSRRequest example_csr_env csr = Inr req \<and>
     (client_policy csr node \<or> serving_policy csr req node)"
  using csr_approval_safe [OF example_csr_traces example_csr_run] by auto

end
