(* ===== verification/Node_Identity.thy ===== *)
theory Node_Identity
  imports Machine_Steps Csr_Approver
begin

text \<open>
  The name of a Node. The machine controller writes it into the ignition document as the host
  name, the kubelet asks for certificates under it, the CSR approver computes it again from the
  stored objects, and the machine controller looks the Node up by it.
\<close>

section \<open>The approver's view of the stored machines\<close>

text \<open>An API server whose objects do not change while a request is handled.\<close>

definition csr_store ::
  "'w csr_env \<Rightarrow> Machine list \<Rightarrow> (string \<Rightarrow> string \<Rightarrow> go_error + LibvirtMachine) \<Rightarrow> bool" where
  "csr_store env machines stored \<longleftrightarrow>
     (\<forall>w. run_state (ce_ListMachines env) w = (Inr machines, w)) \<and>
     (\<forall>ns n w. run_state (ce_GetLibvirtMachine env ns n) w = (stored ns n, w))"

definition cluster_label :: "Machine \<Rightarrow> string" where
  "cluster_label m = (case fmlookup (mc_Labels m) ''cluster.x-k8s.io/cluster-name'' of None \<Rightarrow> '''' | Some v \<Rightarrow> v)"

text \<open>The scope the machine controller would build for a stored machine of a cluster.\<close>

definition stored_scope ::
  "Machine list \<Rightarrow> (string \<Rightarrow> string \<Rightarrow> go_error + LibvirtMachine) \<Rightarrow> MachineScope \<Rightarrow> bool" where
  "stored_scope machines stored sc \<longleftrightarrow>
     sc_Machine sc \<in> set machines \<and> ir_Kind (mc_InfrastructureRef (sc_Machine sc)) = ''LibvirtMachine'' \<and>
     stored (ir_Namespace (mc_InfrastructureRef (sc_Machine sc))) (ir_Name (mc_InfrastructureRef (sc_Machine sc))) =
       Inr (sc_LibvirtMachine sc) \<and>
     cl_Name (sc_Cluster sc) = cluster_label (sc_Machine sc)"

lemma csr_domainName_scope:
  "cl_Name (sc_Cluster sc) = cluster_label m \<Longrightarrow> csr_domainName (sc_LibvirtMachine sc) m = DomainName sc"
  by (simp add: csr_domainName_def DomainName_def ArtifactBaseName_def cluster_label_def)

text \<open>The machines of a list whose Node has a name.\<close>

definition names_node ::
  "(string \<Rightarrow> string \<Rightarrow> go_error + LibvirtMachine) \<Rightarrow> string \<Rightarrow> Machine \<Rightarrow> bool" where
  "names_node stored node m \<longleftrightarrow>
     ir_Kind (mc_InfrastructureRef m) = ''LibvirtMachine'' \<and>
     (\<exists>lm. stored (ir_Namespace (mc_InfrastructureRef m)) (ir_Name (mc_InfrastructureRef m)) = Inr lm \<and>
        csr_domainName lm m = node)"

lemma managed_loop_store:
  assumes "csr_store env machines stored"
  shows "run_state (managed_loop env node ms) w = (list_ex (names_node stored node) ms, w)"
proof (induction ms)
  case (Cons m ms)
  have "run_state (ce_GetLibvirtMachine env ns n) w = (stored ns n, w)" for ns n
    using assms by (simp add: csr_store_def)
  then show ?case using Cons by (auto simp: names_node_def split: sum.splits)
qed simp

lemma isLibvirtManagedNode_store:
  assumes "csr_store env machines stored"
  shows "run_state (isLibvirtManagedNode env node) w = (list_ex (names_node stored node) machines, w)"
  using assms managed_loop_store [OF assms] by (simp add: isLibvirtManagedNode_def csr_store_def)

lemma names_node_scope:
  "list_ex (names_node stored node) machines \<longleftrightarrow> (\<exists>sc. stored_scope machines stored sc \<and> DomainName sc = node)"
proof
  assume "list_ex (names_node stored node) machines"
  then obtain m lm where m: "m \<in> set machines" "ir_Kind (mc_InfrastructureRef m) = ''LibvirtMachine''"
      "stored (ir_Namespace (mc_InfrastructureRef m)) (ir_Name (mc_InfrastructureRef m)) = Inr lm"
      "csr_domainName lm m = node"
    by (auto simp: list_ex_iff names_node_def)
  let ?sc = "\<lambda>lc host. \<lparr>sc_Cluster = \<lparr>cl_Name = cluster_label m, cl_Namespace = '''', cl_InfrastructureRef = None\<rparr>,
    sc_Machine = m, sc_LibvirtCluster = lc, sc_LibvirtMachine = lm, sc_LibvirtHost = host\<rparr>"
  have "stored_scope machines stored (?sc lc host) \<and> DomainName (?sc lc host) = node" for lc host
    using m csr_domainName_scope [of "?sc lc host" m] by (simp add: stored_scope_def)
  then show "\<exists>sc. stored_scope machines stored sc \<and> DomainName sc = node" by blast
next
  assume "\<exists>sc. stored_scope machines stored sc \<and> DomainName sc = node"
  then obtain sc where sc: "stored_scope machines stored sc" "DomainName sc = node" by blast
  then have "names_node stored node (sc_Machine sc)"
    using csr_domainName_scope [of sc "sc_Machine sc"] by (simp add: stored_scope_def names_node_def)
  then show "list_ex (names_node stored node) machines"
    using sc(1) by (auto simp: list_ex_iff stored_scope_def)
qed


section \<open>The host name a machine boots with\<close>

lemma inject_bootstrap_hostname:
  assumes "json_codec json" "DomainName sc \<noteq> ''''"
    and "InjectMachineMetadata json doc (DomainName sc) (ProviderID sc) = Inr doc1"
  shows "\<exists>final. json_Unmarshal json (inject_bootstrap json sc net doc) = Inr final \<and>
    map file_source (files_at hostnamePath final) = [''data:,'' @ DomainName sc]"
proof -
  obtain config v3 where c: "json_Unmarshal json doc = Inr config" "ignition_isV3 config = Inr v3"
      "json_Marshal json (inject_metadata config (DomainName sc) (ProviderID sc) v3) = Inr doc1"
    using assms(3) by (auto simp: InjectMachineMetadata_def split: sum.splits)
  let ?c1 = "inject_metadata config (DomainName sc) (ProviderID sc) v3"
  have un1: "json_Unmarshal json doc1 = Inr ?c1" using assms(1) c(3) by (simp add: json_codec_def)
  have host: "map file_source (files_at hostnamePath ?c1) = [''data:,'' @ DomainName sc]"
    using assms(2) by (simp add: metadata_files)
  show ?thesis
  proof (cases "InjectStaticNetwork json doc1 (network_config net)")
    case (Inl err)
    then show ?thesis using un1 host assms(3) by (simp add: inject_bootstrap_def)
  next
    case (Inr doc2)
    then have "doc2 = doc1 \<or> json_Marshal json (injectFile ?c1 nmConnectionPath
        (''data:,'' @ url_PathEscape (generateNMConnection (default_dns (network_config net)))) mode_0600 v3) = Inr doc2"
      using un1 c(2) by (auto simp: InjectStaticNetwork_def split: if_splits sum.splits)
    then have "\<exists>final. json_Unmarshal json doc2 = Inr final \<and>
        map file_source (files_at hostnamePath final) = [''data:,'' @ DomainName sc]"
      using assms(1) un1 host by (auto simp: json_codec_def)
    then show ?thesis using Inr un1 host assms(3) by (simp add: inject_bootstrap_def)
  qed
qed


section \<open>Properties\<close>

text \<open>C17: the approver and the machine controller mean the same Nodes. For stored objects that do
  not change meanwhile, a node name counts as managed exactly when it is the domain name the
  machine controller uses for a listed machine with an existing \<^verbatim>\<open>LibvirtMachine\<close>, in the cluster
  of the machine's label.\<close>

theorem managed_nodes_are_domains:
  assumes "csr_store env machines stored"
  shows "run_state (isLibvirtManagedNode env node) w =
    ((\<exists>sc. stored_scope machines stored sc \<and> DomainName sc = node), w)"
  by (simp add: isLibvirtManagedNode_store [OF assms] names_node_scope)

definition example_store :: "string \<Rightarrow> string \<Rightarrow> go_error + LibvirtMachine" where
  "example_store ns n = Inr (example_machine n)"

lemma example_store_env: "csr_store example_csr_env [example_capi] example_store"
  by (simp add: csr_store_def example_csr_env_def example_store_def)

theorem managed_nodes_are_domains_witness:
  "run_state (isLibvirtManagedNode example_csr_env ''ns-c-m0'') [] = (True, []) \<and>
   (\<exists>sc. stored_scope [example_capi] example_store sc \<and> DomainName sc = ''ns-c-m0'')"
  using managed_nodes_are_domains [OF example_store_env, of "''ns-c-m0''" "[]"] example_managed [of "[]"] by simp


definition example_node_scope :: MachineScope where
  "example_node_scope = \<lparr>sc_Cluster = \<lparr>cl_Name = ''c'', cl_Namespace = ''ns'', cl_InfrastructureRef = None\<rparr>,
     sc_Machine = example_capi,
     sc_LibvirtCluster = \<lparr>lc_Meta = example_meta ''c'', lc_Spec = \<lparr>cs_EndpointHost = '''', cs_EndpointPort = 0,
       cs_BootArtifacts = None, cs_BaseImage = None\<rparr>, lc_Status = \<lparr>cst_Ready = True, cst_Conditions = []\<rparr>\<rparr>,
     sc_LibvirtMachine = example_machine ''m0'', sc_LibvirtHost = example_host\<rparr>"


end
