(* ===== verification/Iso_Builder.thy ===== *)
theory Iso_Builder
  imports Image_Cache "HOL-Library.Signed_Division"
begin

text \<open>
  The package \<^verbatim>\<open>internal/iso\<close>: the ISO images a machine boots its configuration from. The
  library go-diskfs is a parameter, with its disks, file systems and open files as abstract
  handles; the temporary file of an image lives in the file system of \<^verbatim>\<open>Image_Cache\<close>.
\<close>

section \<open>The size of an image\<close>

definition isoBlockSize :: int64 where
  "isoBlockSize = 2048"

definition minISOSize :: int64 where
  "minISOSize = 2 * 1024 * 1024"

definition isoOverheadBytes :: int64 where
  "isoOverheadBytes = 256 * 1024"

text \<open>The remainder of Go has the sign of the dividend.\<close>

definition roundUpToBlock :: "int64 \<Rightarrow> int64 \<Rightarrow> int64" where
  "roundUpToBlock sz blockSize =
     (let remainder = word_of_int (sint sz smod sint blockSize) in
      if remainder = 0 then sz else sz + blockSize - remainder)"

definition max_int64 :: "int64 \<Rightarrow> int64 \<Rightarrow> int64" where
  "max_int64 a b = (if a <s b then b else a)"

definition cloudinit_size :: "bytes \<Rightarrow> bytes \<Rightarrow> int64" where
  "cloudinit_size userData metaData =
     roundUpToBlock
       (max_int64 (of_nat (length userData) + of_nat (length metaData) + isoOverheadBytes) minISOSize) isoBlockSize"

definition ignition_size :: "bytes \<Rightarrow> int64" where
  "ignition_size ignitionData =
     roundUpToBlock (max_int64 (of_nat (length ignitionData) + isoOverheadBytes) minISOSize) isoBlockSize"


section \<open>The library\<close>

record ('w, 'd, 'f, 'h) iso_env =
  ie_os :: "'w file_os"
  ie_ReadFile :: "string \<Rightarrow> ('w, go_error option) state"
  diskfs_Create :: "string \<Rightarrow> int64 \<Rightarrow> int64 \<Rightarrow> ('w \<times> files, go_error + 'd) state"
  diskfs_CreateFilesystem :: "'d \<Rightarrow> string \<Rightarrow> ('w \<times> files, go_error + 'f) state"
  diskfs_Mkdir :: "'f \<Rightarrow> string \<Rightarrow> ('w \<times> files, go_error option) state"
  diskfs_OpenFile :: "'f \<Rightarrow> string \<Rightarrow> ('w \<times> files, go_error + 'h) state"
  diskfs_Write :: "'h \<Rightarrow> bytes \<Rightarrow> ('w \<times> files, go_error option) state"
  diskfs_isISO9660 :: "'f \<Rightarrow> bool"
  diskfs_Finalize :: "'f \<Rightarrow> ('w \<times> files, go_error option) state"

text \<open>\<^verbatim>\<open>os.CreateTemp("", pre + "*" + suf)\<close> and \<^verbatim>\<open>os.ReadFile\<close>.\<close>

definition iso_temp_path :: "'w file_os \<Rightarrow> string \<Rightarrow> string \<Rightarrow> 32 word \<Rightarrow> string" where
  "iso_temp_path fo pre suf n = temp_path fo '''' pre n @ suf"

definition iso_CreateTemp :: "'w file_os \<Rightarrow> string \<Rightarrow> string \<Rightarrow> ('w \<times> files, go_error + string) state" where
  "iso_CreateTemp fo pre suf = do {
     r \<leftarrow> in_world (fo_CreateTemp fo);
     (case r of
        Inl err \<Rightarrow> State_Monad.return (Inl err)
      | Inr n \<Rightarrow> State (\<lambda>(w, fs).
          let path = iso_temp_path fo pre suf n; key = filepath_Clean path in
          if fmlookup fs key \<noteq> None then (Inl (ErrorText ''file exists''), (w, fs))
          else (Inr path, (w, fmupd key (File []) fs)))) }"

definition os_ReadFile :: "('w, 'd, 'f, 'h) iso_env \<Rightarrow> string \<Rightarrow> ('w \<times> files, go_error + bytes) state" where
  "os_ReadFile env path = do {
     r \<leftarrow> in_world (ie_ReadFile env path);
     State (\<lambda>(w, fs).
       (case (r, fmlookup fs (filepath_Clean path)) of
          (Some err, _) \<Rightarrow> (Inl err, (w, fs))
        | (None, Some (File content)) \<Rightarrow> (Inr content, (w, fs))
        | (None, Some Dir) \<Rightarrow> (Inl (ErrorText ''is a directory''), (w, fs))
        | (None, None) \<Rightarrow> (Inl (ErrorText ''no such file or directory''), (w, fs)))) }"


section \<open>The builders\<close>

text \<open>The temporary file: it is created for its name and removed again before the body runs,
  and its path is removed once more when the body is done.\<close>

definition with_temp ::
  "('w, 'd, 'f, 'h) iso_env \<Rightarrow> string \<Rightarrow> string \<Rightarrow>
   (string \<Rightarrow> ('w \<times> files, go_error + bytes) state) \<Rightarrow> ('w \<times> files, go_error + bytes) state" where
  "with_temp env pre suf body = do {
     t \<leftarrow> iso_CreateTemp (ie_os env) pre suf;
     (case t of
        Inl err \<Rightarrow> State_Monad.return (Inl (Wrapf ''creating temp file: '' err))
      | Inr tmpPath \<Rightarrow> do {
          _ \<leftarrow> in_world (fo_Close (ie_os env));
          _ \<leftarrow> os_Remove (ie_os env) tmpPath;
          r \<leftarrow> body tmpPath;
          _ \<leftarrow> os_Remove (ie_os env) tmpPath;
          State_Monad.return r }) }"

text \<open>A fallible step and what follows it; writing a file; finishing the image.\<close>

definition iso_step :: "string \<Rightarrow> ('s, go_error + 'a) state \<Rightarrow> ('a \<Rightarrow> ('s, go_error + 'b) state) \<Rightarrow> ('s, go_error + 'b) state" where
  "iso_step what m f = do {
     r \<leftarrow> m;
     (case r of
        Inl err \<Rightarrow> State_Monad.return (Inl (Wrapf (what @ '': '') err))
      | Inr x \<Rightarrow> f x) }"

definition iso_check :: "string \<Rightarrow> ('s, go_error option) state \<Rightarrow> ('s, go_error + 'b) state \<Rightarrow> ('s, go_error + 'b) state" where
  "iso_check what m n = do {
     r \<leftarrow> m;
     (case r of Some err \<Rightarrow> State_Monad.return (Inl (Wrapf (what @ '': '') err)) | None \<Rightarrow> n) }"

definition finish_iso ::
  "('w, 'd, 'f, 'h) iso_env \<Rightarrow> 'f \<Rightarrow> string \<Rightarrow> ('w \<times> files, go_error + bytes) state" where
  "finish_iso env fs tmpPath =
     (if \<not> diskfs_isISO9660 env fs then State_Monad.return (Inl (ErrorText ''unexpected filesystem type''))
      else iso_check ''finalizing ISO'' (diskfs_Finalize env fs)
             (iso_step ''reading ISO file'' (os_ReadFile env tmpPath) (\<lambda>data. State_Monad.return (Inr data))))"

definition cloudinit_metaData :: "string \<Rightarrow> string \<Rightarrow> string" where
  "cloudinit_metaData instanceID hostname =
     ''instance-id: '' @ instanceID @ [CHR 0x0A] @ ''local-hostname: '' @ hostname @ [CHR 0x0A]"

definition BuildCloudInitISO ::
  "('w, 'd, 'f, 'h) iso_env \<Rightarrow> bytes \<Rightarrow> string \<Rightarrow> string \<Rightarrow> ('w \<times> files, go_error + bytes) state" where
  "BuildCloudInitISO env userData instanceID hostname =
     (let metaData = cloudinit_metaData instanceID hostname in
      with_temp env ''caplv-cloudinit-'' ''.iso'' (\<lambda>tmpPath.
        let diskSize = cloudinit_size userData metaData in
        iso_step ''creating disk image'' (diskfs_Create env tmpPath diskSize isoBlockSize) (\<lambda>d.
        iso_step ''creating ISO9660 filesystem'' (diskfs_CreateFilesystem env d ''cidata'') (\<lambda>fs.
        iso_step ''creating user-data'' (diskfs_OpenFile env fs ''/user-data'') (\<lambda>userDataFile.
        iso_check ''writing user-data'' (diskfs_Write env userDataFile userData) (
        iso_step ''creating meta-data'' (diskfs_OpenFile env fs ''/meta-data'') (\<lambda>metaDataFile.
        iso_check ''writing meta-data'' (diskfs_Write env metaDataFile metaData) (
        finish_iso env fs tmpPath))))))))"

definition BuildIgnitionISO ::
  "('w, 'd, 'f, 'h) iso_env \<Rightarrow> bytes \<Rightarrow> ('w \<times> files, go_error + bytes) state" where
  "BuildIgnitionISO env ignitionData =
     with_temp env ''caplv-ignition-'' ''.iso'' (\<lambda>tmpPath.
       let diskSize = ignition_size ignitionData in
       iso_step ''creating disk image'' (diskfs_Create env tmpPath diskSize isoBlockSize) (\<lambda>d.
       iso_step ''creating ISO9660 filesystem'' (diskfs_CreateFilesystem env d ''ignition'') (\<lambda>fs.
       iso_check ''creating /ignition directory'' (diskfs_Mkdir env fs ''/ignition'') (
       iso_step ''creating config.ign'' (diskfs_OpenFile env fs ''/ignition/config.ign'') (\<lambda>configFile.
       iso_check ''writing ignition data'' (diskfs_Write env configFile ignitionData) (
       finish_iso env fs tmpPath))))))"



section \<open>Sizes\<close>

lemma sint_of_nat64: "n < 2 ^ 63 \<Longrightarrow> sint (of_nat n :: int64) = int n"
  using sint_int64 [of "int n"] by simp

lemma sint_plus64:
  assumes "- (2 ^ 63) \<le> sint a + sint b" "sint a + sint b < 2 ^ 63"
  shows "sint (a + b :: int64) = sint a + sint b"
proof -
  have "a + b = word_of_int (sint a + sint b)" by simp
  then show ?thesis using sint_int64 [OF assms] by (simp only:)
qed

lemma sint_max_int64: "sint (max_int64 a b) = max (sint a) (sint b)"
  by (simp add: max_int64_def word_sless_alt max_def)

lemma sint_roundUpToBlock:
  assumes "0 \<le> sint sz" "sint sz < 2 ^ 62" "0 < sint b" "sint b < 2 ^ 62"
  shows "sint b dvd sint (roundUpToBlock sz b) \<and> sint sz \<le> sint (roundUpToBlock sz b) \<and>
    sint (roundUpToBlock sz b) < sint sz + sint b"
proof -
  have smod: "sint sz smod sint b = sint sz mod sint b"
    using assms by (simp add: signed_modulo_int_def signed_divide_int_def minus_div_mult_eq_mod sgn_if)
  have bounds: "0 \<le> sint sz mod sint b" "sint sz mod sint b < sint b" using assms(3) by simp_all
  then have rem: "sint (word_of_int (sint sz mod sint b) :: int64) = sint sz mod sint b"
    using assms(4) by (intro sint_int64) simp_all
  show ?thesis
  proof (cases "sint sz mod sint b = 0")
    case True
    then have "roundUpToBlock sz b = sz" by (simp add: roundUpToBlock_def smod)
    then show ?thesis using True assms(3) by auto
  next
    case False
    then have nz: "word_of_int (sint sz mod sint b) \<noteq> (0 :: int64)" using rem by auto
    have "roundUpToBlock sz b = word_of_int (sint sz + sint b - sint sz mod sint b)"
      using nz by (simp add: roundUpToBlock_def smod Let_def)
    then have eq: "sint (roundUpToBlock sz b) = sint sz + sint b - sint sz mod sint b"
      using sint_int64 [of "sint sz + sint b - sint sz mod sint b"] assms bounds by simp
    have "sint b dvd (sint sz - sint sz mod sint b) + sint b"
      by (intro dvd_add dvd_minus_mod dvd_refl)
    moreover have "(sint sz - sint sz mod sint b) + sint b = sint (roundUpToBlock sz b)" using eq by simp
    ultimately have "sint b dvd sint (roundUpToBlock sz b)" by simp
    then show ?thesis using eq bounds False by simp
  qed
qed

lemma iso_constants:
  "sint isoBlockSize = 2048" "sint minISOSize = 2097152" "sint isoOverheadBytes = 262144"
  by (simp_all add: isoBlockSize_def minISOSize_def isoOverheadBytes_def)

text \<open>The size for an amount of payload.\<close>

lemma iso_size:
  assumes "n < 2 ^ 61"
  shows "let sz = sint (roundUpToBlock (max_int64 (of_nat n + isoOverheadBytes) minISOSize) isoBlockSize) in
    2048 dvd sz \<and> max (int n + 262144) 2097152 \<le> sz \<and> sz < max (int n + 262144) 2097152 + 2048"
proof -
  have n: "int n < 2 ^ 61" using assms by simp
  have "sint (of_nat n :: int64) = int n" using assms by (intro sint_of_nat64) simp
  then have "sint (of_nat n + isoOverheadBytes) = int n + 262144"
    using n by (simp add: sint_plus64 iso_constants)
  then have "sint (max_int64 (of_nat n + isoOverheadBytes) minISOSize) = max (int n + 262144) 2097152"
    by (simp add: sint_max_int64 iso_constants)
  then show ?thesis
    using sint_roundUpToBlock [of "max_int64 (of_nat n + isoOverheadBytes) minISOSize" isoBlockSize] n
    by (simp add: iso_constants Let_def)
qed





section \<open>The temporary file\<close>

text \<open>Programs that change the file system at one path at most.\<close>

definition only_at :: "string \<Rightarrow> 'w \<times> files \<Rightarrow> 'w \<times> files \<Rightarrow> bool" where
  "only_at key s s' \<longleftrightarrow> fmdrop key (snd s') = fmdrop key (snd s)"

interpretation oa: io_preorder "only_at key" for key
  by unfold_locales (simp_all add: only_at_def)

text \<open>What go-diskfs is relied on for: an image lives in the file it was created as, and the
  calls on its handles write nowhere else.\<close>

definition diskfs_handles ::
  "('w, 'd, 'f, 'h) iso_env \<Rightarrow> ('d \<Rightarrow> string) \<Rightarrow> ('f \<Rightarrow> string) \<Rightarrow> ('h \<Rightarrow> string) \<Rightarrow> bool" where
  "diskfs_handles env pd pf ph \<longleftrightarrow>
     (\<forall>p z b s d s'. run_state (diskfs_Create env p z b) s = (Inr d, s') \<longrightarrow> pd d = filepath_Clean p) \<and>
     (\<forall>d l s f s'. run_state (diskfs_CreateFilesystem env d l) s = (Inr f, s') \<longrightarrow> pf f = pd d) \<and>
     (\<forall>f p s h s'. run_state (diskfs_OpenFile env f p) s = (Inr h, s') \<longrightarrow> ph h = pf f)"

definition diskfs_confined ::
  "('w, 'd, 'f, 'h) iso_env \<Rightarrow> ('d \<Rightarrow> string) \<Rightarrow> ('f \<Rightarrow> string) \<Rightarrow> ('h \<Rightarrow> string) \<Rightarrow> bool" where
  "diskfs_confined env pd pf ph \<longleftrightarrow>
     diskfs_handles env pd pf ph \<and>
     (\<forall>p z b. state_io_rel (only_at (filepath_Clean p)) (diskfs_Create env p z b)) \<and>
     (\<forall>d l. state_io_rel (only_at (pd d)) (diskfs_CreateFilesystem env d l)) \<and>
     (\<forall>f p. state_io_rel (only_at (pf f)) (diskfs_Mkdir env f p)) \<and>
     (\<forall>f p. state_io_rel (only_at (pf f)) (diskfs_OpenFile env f p)) \<and>
     (\<forall>h b. state_io_rel (only_at (ph h)) (diskfs_Write env h b)) \<and>
     (\<forall>f. state_io_rel (only_at (pf f)) (diskfs_Finalize env f))"

lemma handles_dest:
  assumes "diskfs_confined env pd pf ph"
  shows "run_state (diskfs_Create env p z b) s = (Inr d, s') \<Longrightarrow> pd d = filepath_Clean p"
    "run_state (diskfs_CreateFilesystem env d l) s = (Inr f, s') \<Longrightarrow> pf f = pd d"
    "run_state (diskfs_OpenFile env f q) s = (Inr h, s') \<Longrightarrow> ph h = pf f"
proof -
  have h: "diskfs_handles env pd pf ph" using assms by (simp add: diskfs_confined_def)
  show "run_state (diskfs_Create env p z b) s = (Inr d, s') \<Longrightarrow> pd d = filepath_Clean p"
    using h unfolding diskfs_handles_def by (elim conjE) blast
  show "run_state (diskfs_CreateFilesystem env d l) s = (Inr f, s') \<Longrightarrow> pf f = pd d"
    using h unfolding diskfs_handles_def by (elim conjE) blast
  show "run_state (diskfs_OpenFile env f q) s = (Inr h, s') \<Longrightarrow> ph h = pf f"
    using h unfolding diskfs_handles_def by (elim conjE) blast
qed

lemma confined_dest:
  assumes "diskfs_confined env pd pf ph"
  shows "state_io_rel (only_at (filepath_Clean p)) (diskfs_Create env p z b)"
    "state_io_rel (only_at (pd d)) (diskfs_CreateFilesystem env d l)"
    "state_io_rel (only_at (pf f)) (diskfs_Mkdir env f q)"
    "state_io_rel (only_at (pf f)) (diskfs_OpenFile env f q)"
    "state_io_rel (only_at (ph h)) (diskfs_Write env h c)"
    "state_io_rel (only_at (pf f)) (diskfs_Finalize env f)"
  using assms by (simp_all add: diskfs_confined_def)

lemma only_step:
  assumes "state_io_rel (only_at key) m"
    and "\<And>x s s'. run_state m s = (Inr x, s') \<Longrightarrow> state_io_rel (only_at key) (f x)"
  shows "state_io_rel (only_at key) (iso_step what m f)"
proof
  fix a s s'
  assume run: "run_state (iso_step what m f) s = (a, s')"
  obtain r t where r: "run_state m s = (r, t)" by (meson surj_pair)
  have st: "only_at key s t" by (rule state_io_relD [OF assms(1) r])
  show "only_at key s s'"
  proof (cases r)
    case (Inl err)
    then show ?thesis using run r st by (simp add: iso_step_def)
  next
    case (Inr x)
    then have "run_state (f x) t = (a, s')" using run r by (simp add: iso_step_def)
    then show ?thesis
      using oa.io_trans [OF st] state_io_relD [OF assms(2)] r Inr by metis
  qed
qed

lemma only_check:
  "state_io_rel (only_at key) m \<Longrightarrow> state_io_rel (only_at key) n \<Longrightarrow>
   state_io_rel (only_at key) (iso_check what m n)"
  unfolding iso_check_def by (intro oa.io_bind oa.io_case_option oa.io_return)

lemma only_ReadFile: "state_io_rel (only_at key) (os_ReadFile env p)"
  by (auto simp: state_io_rel_def only_at_def os_ReadFile_def in_world_def
      split: prod.splits option.splits fs_node.splits)

lemma only_finish:
  assumes "diskfs_confined env pd pf ph" "pf f = key"
  shows "state_io_rel (only_at key) (finish_iso env f p)"
proof -
  have "state_io_rel (only_at key) (diskfs_Finalize env f)"
    using confined_dest(6) [OF assms(1), of f] assms(2) by simp
  then show ?thesis unfolding finish_iso_def
    by (intro oa.io_if oa.io_return only_check only_step only_ReadFile)
qed


text \<open>The calls on an image, each with what it says of the handle it returns.\<close>

lemma only_calls:
  assumes "diskfs_confined env pd pf ph"
  shows "(\<And>d. pd d = filepath_Clean p \<Longrightarrow> state_io_rel (only_at (filepath_Clean p)) (fd d)) \<Longrightarrow>
      state_io_rel (only_at (filepath_Clean p)) (iso_step what (diskfs_Create env p z b) fd)"
    and "pd d = key \<Longrightarrow> (\<And>f. pf f = key \<Longrightarrow> state_io_rel (only_at key) (ff f)) \<Longrightarrow>
      state_io_rel (only_at key) (iso_step what (diskfs_CreateFilesystem env d l) ff)"
    and "pf f = key \<Longrightarrow> (\<And>h. ph h = key \<Longrightarrow> state_io_rel (only_at key) (fh h)) \<Longrightarrow>
      state_io_rel (only_at key) (iso_step what (diskfs_OpenFile env f q) fh)"
    and "ph h = key \<Longrightarrow> state_io_rel (only_at key) n \<Longrightarrow>
      state_io_rel (only_at key) (iso_check what (diskfs_Write env h c) n)"
    and "pf f = key \<Longrightarrow> state_io_rel (only_at key) n \<Longrightarrow>
      state_io_rel (only_at key) (iso_check what (diskfs_Mkdir env f q) n)"
proof -
  note handles = handles_dest [OF assms] and calls = confined_dest [OF assms]
  show "state_io_rel (only_at (filepath_Clean p)) (iso_step what (diskfs_Create env p z b) fd)"
    if "\<And>d. pd d = filepath_Clean p \<Longrightarrow> state_io_rel (only_at (filepath_Clean p)) (fd d)"
    by (rule only_step [OF calls(1)], rule that, rule handles(1))
  show "state_io_rel (only_at key) (iso_step what (diskfs_CreateFilesystem env d l) ff)"
    if "pd d = key" "\<And>f. pf f = key \<Longrightarrow> state_io_rel (only_at key) (ff f)"
    unfolding that(1) [symmetric]
    by (rule only_step [OF calls(2)]) (use that handles(2) in fastforce)
  show "state_io_rel (only_at key) (iso_step what (diskfs_OpenFile env f q) fh)"
    if "pf f = key" "\<And>h. ph h = key \<Longrightarrow> state_io_rel (only_at key) (fh h)"
    unfolding that(1) [symmetric]
    by (rule only_step [OF calls(4)]) (use that handles(3) in fastforce)
  show "state_io_rel (only_at key) (iso_check what (diskfs_Write env h c) n)"
    if "ph h = key" "state_io_rel (only_at key) n"
    using only_check [OF calls(5)] that by metis
  show "state_io_rel (only_at key) (iso_check what (diskfs_Mkdir env f q) n)"
    if "pf f = key" "state_io_rel (only_at key) n"
    using only_check [OF calls(3)] that by metis
qed

lemma only_bodies:
  assumes "diskfs_confined env pd pf ph"
  shows "state_io_rel (only_at (filepath_Clean p))
      (iso_step w1 (diskfs_Create env p z b) (\<lambda>d.
       iso_step w2 (diskfs_CreateFilesystem env d l) (\<lambda>fs.
       iso_step w3 (diskfs_OpenFile env fs f1) (\<lambda>h1.
       iso_check w4 (diskfs_Write env h1 c1) (
       iso_step w5 (diskfs_OpenFile env fs f2) (\<lambda>h2.
       iso_check w6 (diskfs_Write env h2 c2) (finish_iso env fs p)))))))"
    and "state_io_rel (only_at (filepath_Clean p))
      (iso_step w1 (diskfs_Create env p z b) (\<lambda>d.
       iso_step w2 (diskfs_CreateFilesystem env d l) (\<lambda>fs.
       iso_check w3 (diskfs_Mkdir env fs f1) (
       iso_step w4 (diskfs_OpenFile env fs f2) (\<lambda>h.
       iso_check w5 (diskfs_Write env h c1) (finish_iso env fs p))))))"
  by (intro only_calls [OF assms] only_finish [OF assms]; assumption)+


lemma Remove_outcome:
  assumes "\<And>p w. fst (run_state (fo_Remove fo p) w) = None"
  shows "snd (snd (run_state (os_Remove fo path) (w, fs))) = fmdrop (filepath_Clean path) fs"
  using assms [of path w] by (auto simp: os_Remove_def in_world_def split: prod.splits)

lemma with_temp_clean:
  assumes "\<And>p w. fst (run_state (fo_Remove (ie_os env) p) w) = None"
    and "\<And>p. state_io_rel (only_at (filepath_Clean p)) (body p)"
    and "run_state (with_temp env pre suf body) (w, fs) = (r, (w', fs'))"
  shows "fs' = fs"
proof -
  obtain t w1 fs1 where t: "run_state (iso_CreateTemp (ie_os env) pre suf) (w, fs) = (t, (w1, fs1))"
    by (metis surj_pair)
  show ?thesis
  proof (cases t)
    case (Inl err)
    then have "fs1 = fs" using t
      by (auto simp: iso_CreateTemp_def in_world_def Let_def split: prod.splits sum.splits if_splits)
    then show ?thesis using assms(3) t Inl by (simp add: with_temp_def)
  next
    case (Inr p)
    let ?key = "filepath_Clean p"
    have p: "fmlookup fs ?key = None" "fs1 = fmupd ?key (File []) fs" using t Inr
      by (auto simp: iso_CreateTemp_def in_world_def Let_def split: prod.splits sum.splits if_splits)
    obtain c w2 where c: "run_state (fo_Close (ie_os env)) w1 = (c, w2)" by fastforce
    obtain e w3 fs3 where e: "run_state (os_Remove (ie_os env) p) (w2, fs1) = (e, (w3, fs3))" by (metis surj_pair)
    obtain b w4 fs4 where b: "run_state (body p) (w3, fs3) = (b, (w4, fs4))" by (metis surj_pair)
    obtain f w5 fs5 where f: "run_state (os_Remove (ie_os env) p) (w4, fs4) = (f, (w5, fs5))" by (metis surj_pair)
    have "fs' = fs5" using assms(3) t Inr c e b f by (simp add: with_temp_def in_world_def)
    moreover have "fs5 = fmdrop ?key fs4" "fs3 = fmdrop ?key fs1"
      using Remove_outcome [OF assms(1), of p] e f by (metis snd_conv)+
    moreover have "fmdrop ?key fs4 = fmdrop ?key fs3"
      using state_io_relD [OF assms(2) b] by (simp add: only_at_def)
    moreover have "fmdrop ?key fs = fs" using p(1) by (intro fmap_ext) auto
    ultimately show ?thesis using p(2) by (simp add: fmdrop_fmupd_same)
  qed
qed


section \<open>Properties of the builders\<close>


text \<open>A library for the witness: the image is the concatenation of what is written to it.\<close>

definition example_image_write :: "string \<Rightarrow> bytes \<Rightarrow> (unit \<times> files, go_error option) state" where
  "example_image_write key c = State (\<lambda>(w, fs).
     (None, (w, fmupd key (File ((case fmlookup fs key of Some (File b) \<Rightarrow> b | _ \<Rightarrow> []) @ c)) fs)))"

definition example_iso :: "unit file_os \<Rightarrow> (unit, string, string, string) iso_env" where
  "example_iso fo = \<lparr>ie_os = fo, ie_ReadFile = \<lambda>p. State_Monad.return None,
     diskfs_Create = \<lambda>p z b. State (\<lambda>(w, fs). (Inr (filepath_Clean p), (w, fmupd (filepath_Clean p) (File []) fs))),
     diskfs_CreateFilesystem = \<lambda>d l. State_Monad.return (Inr d),
     diskfs_Mkdir = \<lambda>f p. State_Monad.return None, diskfs_OpenFile = \<lambda>f p. State_Monad.return (Inr f),
     diskfs_Write = example_image_write, diskfs_isISO9660 = \<lambda>f. True,
     diskfs_Finalize = \<lambda>f. State_Monad.return None\<rparr>"

lemma example_iso_confined: "diskfs_confined (example_iso fo) id id id"
  by (auto simp: diskfs_confined_def diskfs_handles_def example_iso_def example_image_write_def state_io_rel_def
      only_at_def fmdrop_fmupd_same)


end
