(* ===== verification/Machine_Status.thy ===== *)
theory Machine_Status
  imports Host_Events
begin

text \<open>
  The status of a machine object is typed: its conditions have the types and reasons that
  \<^verbatim>\<open>api/v1alpha1/conditions.go\<close> declares, a failure has a declared reason and comes with a
  message, and a ready machine has a provider ID and the record of its artifacts. Every
  reconciliation keeps a status that way.
\<close>

section \<open>Conforming objects\<close>

definition condition_types :: "string list" where
  "condition_types = [InfrastructureReadyCondition, HostReachableForMachineCondition, BootstrapDataReadyCondition,
     BaseImageStagedCondition, CleanupStalledCondition, NodeLabelledCondition, ''ArtifactsCreated'']"

definition declared_reasons :: "string list" where
  "declared_reasons =
     [ReasonBaseImageNotFound, ReasonBaseImagePoolNotFound, ReasonStoragePoolNotFound, ReasonInvalidBootstrapData,
      ReasonSpecMismatch, ReasonNetworkTypeUnsupported, ReasonStorageInsufficient, ReasonConnectionFailed,
      ReasonHypervisorUnavailable, ReasonSessionModeMisconfigured, ReasonBootstrapDataNotReady, ReasonHostNotReady,
      ReasonNodeNotJoined, ReasonBaseImageStaging, ReasonConnectionSucceeded, ReasonProvisioned, ReasonClusterReady,
      ReasonNodeLabelled, ReasonBaseImageStaged, ReasonBootstrapDataReady, ReasonCleanupStalled,
      ''HostUnauthorized'', ''DomainAlreadyExists'', ''ArtifactsReady'', ''CleanupSucceeded'']"

definition typed_conditions :: "Condition list \<Rightarrow> bool" where
  "typed_conditions cs \<longleftrightarrow> (\<forall>t c. FindStatusCondition cs t = Some c \<longrightarrow>
     cond_Type c \<in> set condition_types \<and> cond_Reason c \<in> set declared_reasons)"

definition typed_failure :: "LibvirtMachineStatus \<Rightarrow> bool" where
  "typed_failure st \<longleftrightarrow>
     (case (st_FailureReason st, st_FailureMessage st) of
        (None, None) \<Rightarrow> True
      | (Some reason, Some message) \<Rightarrow> reason \<in> set declared_reasons
      | _ \<Rightarrow> False)"

definition conforms :: "LibvirtMachine \<Rightarrow> bool" where
  "conforms lm \<longleftrightarrow>
     typed_conditions (st_Conditions (lm_Status lm)) \<and> typed_failure (lm_Status lm) \<and>
     (st_Ready (lm_Status lm) \<longrightarrow>
        ms_ProviderID (lm_Spec lm) \<noteq> None \<and> st_ManagedArtifacts (lm_Status lm) \<noteq> None)"

definition conform_kept :: "'w mstate \<Rightarrow> 'w mstate \<Rightarrow> bool" where
  "conform_kept s s' \<longleftrightarrow> (conforms (s_machine s) \<longrightarrow> conforms (s_machine s'))"

interpretation ck: io_preorder conform_kept
  by unfold_locales (auto simp: conform_kept_def)

definition condition_helpers :: "('w, 'ssh) machine_env \<Rightarrow> bool" where
  "condition_helpers env \<longleftrightarrow> sets_condition (me_SetStatusCondition env) \<and> removes_condition (me_RemoveStatusCondition env)"


section \<open>Every step keeps them\<close>

lemma conform_set: "(\<And>m. conforms m \<Longrightarrow> conforms (f m)) \<Longrightarrow> state_io_rel conform_kept (set_machine f)"
  by (auto simp: state_io_rel_def conform_kept_def)

lemma conform_reads:
  "state_io_rel conform_kept (io m)" "state_io_rel conform_kept get_machine"
  "state_io_rel conform_kept (cache_load k)" "state_io_rel conform_kept (cache_store k a)"
  by (auto simp: state_io_rel_def conform_kept_def cache_load_def cache_store_def split: prod.splits)

lemma conform_finalizers:
  "state_io_rel conform_kept (add_finalizer env)" "state_io_rel conform_kept (remove_finalizer env)"
  by (auto simp: state_io_rel_def conform_kept_def add_finalizer_def remove_finalizer_def conforms_def)

lemma conform_condition:
  assumes "condition_helpers env" "ctype \<in> set condition_types" "reason \<in> set declared_reasons"
  shows "state_io_rel conform_kept (set_condition env ctype status reason msg)"
  unfolding set_condition_def
  by (rule conform_set)
     (use assms in \<open>auto simp: conforms_def typed_conditions_def typed_failure_def condition_helpers_def find_after_set
        machine_condition_def split: if_splits\<close>)

lemma conform_failure:
  assumes "reason \<in> set declared_reasons"
  shows "state_io_rel conform_kept (setTerminalError reason msg)"
  unfolding setTerminalError_def by (rule conform_set) (simp add: conforms_def typed_failure_def assms)

lemma declared:
  "InfrastructureReadyCondition \<in> set condition_types" "HostReachableForMachineCondition \<in> set condition_types"
  "BootstrapDataReadyCondition \<in> set condition_types" "BaseImageStagedCondition \<in> set condition_types"
  "CleanupStalledCondition \<in> set condition_types" "NodeLabelledCondition \<in> set condition_types"
  "ReasonBaseImageNotFound \<in> set declared_reasons" "ReasonBaseImagePoolNotFound \<in> set declared_reasons"
  "ReasonStoragePoolNotFound \<in> set declared_reasons" "ReasonInvalidBootstrapData \<in> set declared_reasons"
  "ReasonSpecMismatch \<in> set declared_reasons" "ReasonNetworkTypeUnsupported \<in> set declared_reasons"
  "ReasonStorageInsufficient \<in> set declared_reasons" "ReasonBootstrapDataNotReady \<in> set declared_reasons"
  "ReasonHostNotReady \<in> set declared_reasons" "ReasonNodeNotJoined \<in> set declared_reasons"
  "ReasonBaseImageStaging \<in> set declared_reasons" "ReasonProvisioned \<in> set declared_reasons"
  "ReasonNodeLabelled \<in> set declared_reasons" "ReasonBaseImageStaged \<in> set declared_reasons"
  "ReasonBootstrapDataReady \<in> set declared_reasons" "ReasonCleanupStalled \<in> set declared_reasons"
  by (simp_all add: condition_types_def declared_reasons_def)

lemma conform_handleLibvirtError: "state_io_rel conform_kept (handleLibvirtError err operation)"
  unfolding handleLibvirtError_def by (intro ck.io_intros conform_failure declared)

lemmas conform_intros = ck.io_intros conform_reads conform_finalizers conform_failure conform_handleLibvirtError
  declared

lemma conform_preflight:
  assumes "condition_helpers env"
  shows "state_io_rel conform_kept (ensureBootstrapData env machine)"
    and "state_io_rel conform_kept (resolveAutoSizing host)"
    and "state_io_rel conform_kept (preflightSessionMode env rc)"
  unfolding ensureBootstrapData_def resolveAutoSizing_def preflightSessionMode_def Let_def
  by (intro conform_intros conform_condition [OF assms])+

lemma add_pools_reasons:
  "\<forall>p\<in>set ps \<union> set acc. rp_reason p \<in> set rs \<Longrightarrow> p \<in> set (fold add_pool ps acc) \<Longrightarrow> rp_reason p \<in> set rs"
proof (induction ps arbitrary: acc)
  case (Cons q ps)
  have "\<forall>p\<in>set ps \<union> set (add_pool q acc). rp_reason p \<in> set rs" using Cons.prems(1) by (auto simp: add_pool_def)
  then show ?case using Cons.IH Cons.prems(2) by simp
qed simp

lemma required_pools_reasons: "p \<in> set (required_pools lm rc) \<Longrightarrow> rp_reason p \<in> set declared_reasons"
  unfolding required_pools_def
  by (erule add_pools_reasons [rotated]) (auto simp: declared split: option.splits)

lemma conform_preflightPools:
  assumes "condition_helpers env"
  shows "state_io_rel conform_kept (preflightPools env rc)"
proof -
  have pools: "state_io_rel conform_kept (check_pools env rc ps)"
    if "\<And>p. p \<in> set ps \<Longrightarrow> rp_reason p \<in> set declared_reasons" for ps
    using that by (induction ps) (auto simp: Let_def intro!: conform_intros conform_condition [OF assms])
  show ?thesis unfolding preflightPools_def
    by (intro ck.io_bind conform_reads pools) (rule required_pools_reasons)
qed

lemma conform_reconcileBaseImage:
  "condition_helpers env \<Longrightarrow> state_io_rel conform_kept (reconcileBaseImage env rc)"
  unfolding reconcileBaseImage_def upload_base_image_def Let_def by (intro conform_intros conform_condition)

lemma conform_disks:
  "state_io_rel conform_kept (reconcileRootDisk rc)" "state_io_rel conform_kept (reconcileBootstrapArtifacts env rc)"
  unfolding reconcileRootDisk_def ensure_ephemeral_pool_def create_root_disk_def reconcileBootstrapArtifacts_def Let_def
  by (intro conform_intros)+

lemma conform_reconcileAdditionalDisks: "state_io_rel conform_kept (reconcileAdditionalDisks rc)"
proof -
  have "state_io_rel conform_kept (ensure_disks ds rc)" for ds rc
    by (induction ds arbitrary: rc) (auto simp: Let_def intro!: conform_intros)
  then show ?thesis unfolding reconcileAdditionalDisks_def by (intro conform_intros)
qed

lemma conform_boot_and_domain:
  "state_io_rel conform_kept (reconcileBootArtifacts env rc)" "state_io_rel conform_kept (reconcileDomain rc)"
  unfolding reconcileBootArtifacts_def stage_boot_artifacts_def resolveCachedArtifacts_def reconcileDomain_def
    define_domain_def start_domain_def domain_error_def Let_def
  by (intro conform_intros)+

lemma conform_provision: "condition_helpers env \<Longrightarrow> state_io_rel conform_kept (provision env rc)"
  unfolding provision_def
  by (intro conform_intros conform_reconcileBaseImage conform_disks conform_reconcileAdditionalDisks
      conform_boot_and_domain)

lemma conform_record_ready: "condition_helpers env \<Longrightarrow> state_io_rel conform_kept (record_ready env rc d)"
  unfolding record_ready_def
  by (intro ck.io_bind conform_condition conform_set declared) (simp_all add: conforms_def typed_failure_def)

lemma conform_reconcileNodeLabels:
  assumes "condition_helpers env"
  shows "state_io_rel conform_kept (reconcileNodeLabels env n)"
proof -
  have "state_io_rel conform_kept (set_machine (\<lambda>m. m\<lparr>lm_Status := (lm_Status m)\<lparr>st_Conditions :=
      me_RemoveStatusCondition env (st_Conditions (lm_Status m)) NodeLabelledCondition\<rparr>\<rparr>))"
    by (rule conform_set)
       (use assms in \<open>auto simp: conforms_def typed_conditions_def typed_failure_def condition_helpers_def
          removes_condition_def split: if_splits\<close>)
  then show ?thesis unfolding reconcileNodeLabels_def Let_def
    by (intro conform_intros conform_condition [OF assms])
qed

lemma conform_reconcileNormal:
  assumes "condition_helpers env"
  shows "state_io_rel conform_kept (reconcileNormal env machine cluster lc host)"
  unfolding reconcileNormal_def reconcile_steps_def closing_def
  by (intro conform_intros conform_condition [OF assms] conform_preflight [OF assms] conform_preflightPools [OF assms]
      conform_provision [OF assms] conform_record_ready [OF assms] conform_reconcileNodeLabels [OF assms])

lemma conform_reconcileDelete:
  assumes "condition_helpers env"
  shows "state_io_rel conform_kept (reconcileDelete env cluster lc host)"
proof -
  have removal: "state_io_rel conform_kept (removal msg m)" for msg m
    unfolding removal_def by (intro conform_intros)
  have disks: "state_io_rel conform_kept (delete_disks cl sc ds)" for cl sc ds
    by (induction ds) (auto simp: Let_def intro!: conform_intros removal)
  have artifacts: "state_io_rel conform_kept (delete_artifacts cl sc)" for cl sc
    unfolding delete_artifacts_def delete_bootstrap_def Let_def by (intro conform_intros removal disks)
  show ?thesis
    unfolding reconcileDelete_def delete_node_def closing_def Let_def
    by (intro conform_intros conform_condition [OF assms] artifacts)
qed


section \<open>Properties\<close>

text \<open>C10: the status of a machine stays typed. Whatever the API server, the host and the
  libraries answer, a reconciliation of a machine whose status conforms to the declarations of
  the API leaves one whose status does: conditions of declared types and reasons, a failure
  reason and a failure message both or neither, and no ready machine without a provider ID and
  the record of its artifacts. The two helpers that set and remove a condition are relied on to
  do that and nothing else.\<close>

theorem machine_status_conforms:
  assumes "condition_helpers env" "conforms (s_machine s)"
    and "run_state (reconcile_machine env lm) s = (r, s')"
  shows "conforms (s_machine s')"
proof -
  have "state_io_rel conform_kept (reconcile_machine env lm)"
    unfolding reconcile_machine_def
    by (intro conform_intros conform_reconcileNormal [OF assms(1)] conform_reconcileDelete [OF assms(1)])
  from state_io_relD [OF this assms(3)] show ?thesis using assms(2) by (simp add: conform_kept_def)
qed

lemma recording_env_helpers: "condition_helpers (recording_env lm)"
  by (simp add: condition_helpers_def recording_env_def example_set_sets example_remove_removes)

theorem machine_status_conforms_witness:
  "conforms (example_machine ''m0'') \<and>
   conforms (s_machine (snd (run_state (reconcile_machine (recording_env (example_machine ''m0'')) (example_machine ''m0''))
     \<lparr>s_world = [], s_machine = example_machine ''m0'', s_artifactCache = fmempty\<rparr>)))"
proof -
  have c: "conforms (example_machine ''m0'')"
    by (simp add: conforms_def typed_conditions_def typed_failure_def example_machine_def example_status_def
        FindStatusCondition_def)
  show ?thesis
    using machine_status_conforms [OF recording_env_helpers, of "\<lparr>s_world = [], s_machine = example_machine ''m0'',
        s_artifactCache = fmempty\<rparr>" "example_machine ''m0''" "example_machine ''m0''"] c
    by (metis mstate.select_convs(2) prod.collapse)
qed

end
