(* ===== verification/Artifact_Cache.thy ===== *)
theory Artifact_Cache
  imports Host_Events
begin

text \<open>
  The in-memory cache of boot artifacts that the machine controller keeps across
  reconciliations (\<open>resolveCachedArtifacts\<close>). Its key is a digest of the text of the source;
  for sources without line breaks in their fields the text determines the fields in it, so what
  the cache answers meets the digests that the source at hand declares.
\<close>

section \<open>The text of a source\<close>

definition key_entries :: "BootArtifactsSource \<Rightarrow> (string \<times> string) list" where
  "key_entries src =
     [(''type'', bas_Type src)] @
     (case bas_HTTPS src of None \<Rightarrow> [] | Some h \<Rightarrow>
        [(''https.kernel'', ha_KernelURL h), (''https.initramfs'', ha_InitramfsURL h),
         (''https.kernel.sha256'', ha_KernelSHA256 h), (''https.initramfs.sha256'', ha_InitramfsSHA256 h)]) @
     (case bas_OCI src of None \<Rightarrow> [] | Some x \<Rightarrow>
        [(''oci.ref'', oa_Reference x), (''oci.kernel.title'', oa_KernelLayerTitle x),
         (''oci.initramfs.title'', oa_InitramfsLayerTitle x), (''oci.kernel.sha256'', oa_KernelSHA256 x),
         (''oci.initramfs.sha256'', oa_InitramfsSHA256 x)]) @
     (case bas_S3 src of None \<Rightarrow> [] | Some x \<Rightarrow>
        [(''s3.endpoint'', sa_Endpoint x), (''s3.region'', sa_Region x), (''s3.bucket'', sa_Bucket x),
         (''s3.kernel'', sa_KernelKey x), (''s3.initramfs'', sa_InitramfsKey x),
         (''s3.kernel.sha256'', sa_KernelSHA256 x), (''s3.initramfs.sha256'', sa_InitramfsSHA256 x)])"

lemma key_lines_append: "key_lines (xs @ ys) = key_lines xs @ key_lines ys"
  by (simp add: key_lines_def)

lemma cache_key_text: "bootArtifactsCacheKey sha src = hex_EncodeToString (sha (key_lines (key_entries src)))"
  unfolding bootArtifactsCacheKey_def key_entries_def key_lines_append
  by (simp split: option.splits add: key_lines_def)

text \<open>No line break in a value.\<close>

definition one_line :: "BootArtifactsSource \<Rightarrow> bool" where
  "one_line src \<longleftrightarrow> list_all (\<lambda>(k, v). CHR 0x0A \<notin> set v) (key_entries src)"

definition entry_ok :: "string \<times> string \<Rightarrow> bool" where
  "entry_ok e \<longleftrightarrow> CHR ''='' \<notin> set (fst e) \<and> CHR 0x0A \<notin> set (fst e) \<and> CHR 0x0A \<notin> set (snd e)"

lemma one_line_entries:
  assumes "one_line src"
  shows "list_all entry_ok (key_entries src)"
proof -
  have "list_all (\<lambda>(k, v). CHR ''='' \<notin> set k \<and> CHR 0x0A \<notin> set k) (key_entries src)"
    unfolding key_entries_def by (auto split: option.splits)
  then show ?thesis using assms by (auto simp: one_line_def entry_ok_def list_all_iff)
qed

lemma split_at_mark:
  assumes "c \<notin> set a" "c \<notin> set b" "a @ c # r = b @ c # q"
  shows "a = b \<and> r = q"
  using assms
proof (induction a arbitrary: b)
  case Nil
  then show ?case by (cases b) auto
next
  case (Cons x a)
  then obtain b' where b: "b = x # b'" by (cases b) simp_all
  then show ?case using Cons.IH [of b'] Cons.prems by simp
qed

lemma key_lines_inj:
  "list_all entry_ok xs \<Longrightarrow> list_all entry_ok ys \<Longrightarrow> key_lines xs = key_lines ys \<Longrightarrow> xs = ys"
proof (induction xs arbitrary: ys)
  case Nil
  then show ?case by (cases ys) (auto simp: key_lines_def)
next
  case (Cons x xs)
  obtain y ys' where ys: "ys = y # ys'" using Cons.prems(3) by (cases ys; cases x) (simp_all add: key_lines_def)
  obtain k v k' v' where kv: "x = (k, v)" "y = (k', v')" by fastforce
  have ok: "CHR ''='' \<notin> set k" "CHR ''='' \<notin> set k'" "CHR 0x0A \<notin> set v" "CHR 0x0A \<notin> set v'"
    using Cons.prems(1,2) by (simp_all add: ys kv entry_ok_def)
  have "k @ CHR ''='' # v @ CHR 0x0A # key_lines xs = k' @ CHR ''='' # v' @ CHR 0x0A # key_lines ys'"
    using Cons.prems(3) by (simp add: ys kv key_lines_def)
  from split_at_mark [OF ok(1,2) this]
  have k: "k = k'" "v @ CHR 0x0A # key_lines xs = v' @ CHR 0x0A # key_lines ys'" by blast+
  from split_at_mark [OF ok(3,4) k(2)] have "v = v'" "key_lines xs = key_lines ys'" by blast+
  then show ?case using Cons.IH [of ys'] Cons.prems(1,2) k by (simp add: ys kv)
qed

lemma of_char_hex_digit: "n < 16 \<Longrightarrow> (of_char (hex_digit n) :: nat) = (if n < 10 then 48 + n else 87 + n)"
  by (simp add: hex_digit_def)

lemma hex_digit_inj:
  assumes "m < 16" "n < 16" "hex_digit m = hex_digit n"
  shows "m = n"
proof -
  have "(if m < 10 then 48 + m else 87 + m) = (if n < 10 then 48 + n else 87 + n)"
    unfolding of_char_hex_digit [OF assms(1), symmetric] of_char_hex_digit [OF assms(2), symmetric] assms(3) ..
  then show ?thesis by (simp split: if_splits)
qed

lemma hex_pair_inj:
  assumes "hex_digit (of_char c div 16) = hex_digit (of_char d div 16)"
    and "hex_digit (of_char c mod 16) = hex_digit (of_char d mod 16)"
  shows "c = d"
proof -
  have lt: "(of_char e :: nat) div 16 < 16" for e :: char by (simp add: div_less_iff_less_mult)
  have "(of_char c :: nat) div 16 = of_char d div 16" by (rule hex_digit_inj [OF lt lt assms(1)])
  moreover have "(of_char c :: nat) mod 16 = of_char d mod 16" by (rule hex_digit_inj [OF _ _ assms(2)]) simp_all
  ultimately have "(of_char c :: nat) = of_char d" by (metis mult_div_mod_eq)
  then show ?thesis by simp
qed

lemma hex_EncodeToString_inj: "hex_EncodeToString a = hex_EncodeToString b \<Longrightarrow> a = b"
proof (induction a arbitrary: b)
  case Nil
  then show ?case by (cases b) (auto simp: hex_EncodeToString_def Let_def)
next
  case (Cons c a)
  then obtain d b' where "b = d # b'" by (cases b) (auto simp: hex_EncodeToString_def Let_def)
  then show ?case using Cons.prems Cons.IH [of b'] hex_pair_inj [of c d] by (simp add: hex_EncodeToString_def Let_def)
qed

definition key_text :: "BootArtifactsSource \<Rightarrow> string" where
  "key_text src = key_lines (key_entries src)"

lemma cache_key_inj:
  assumes "one_line a" "one_line b" "inj_on sha {key_text a, key_text b}"
    and "bootArtifactsCacheKey sha a = bootArtifactsCacheKey sha b"
  shows "key_entries a = key_entries b"
proof -
  have "sha (key_text a) = sha (key_text b)"
    using assms(4) unfolding cache_key_text key_text_def by (rule hex_EncodeToString_inj)
  then have "key_text a = key_text b" by (rule inj_onD [OF assms(3)]) simp_all
  then show ?thesis unfolding key_text_def by (rule key_lines_inj [OF assms(1,2) [THEN one_line_entries]])
qed

text \<open>The digests a source declares are among the entries.\<close>

definition entry :: "BootArtifactsSource \<Rightarrow> string \<Rightarrow> string" where
  "entry src k = (case map_of (key_entries src) k of None \<Rightarrow> [] | Some v \<Rightarrow> v)"

lemma type_entry: "bas_Type src = entry src ''type''"
  by (simp add: entry_def key_entries_def)

lemma https_entries: "https_digests src = (entry src ''https.kernel.sha256'', entry src ''https.initramfs.sha256'')"
  by (cases "bas_HTTPS src"; cases "bas_OCI src"; cases "bas_S3 src")
     (simp_all add: https_digests_def entry_def key_entries_def)

lemma oci_entries: "oci_digests src = (entry src ''oci.kernel.sha256'', entry src ''oci.initramfs.sha256'')"
  by (cases "bas_HTTPS src"; cases "bas_OCI src"; cases "bas_S3 src")
     (simp_all add: oci_digests_def entry_def key_entries_def)

lemma s3_entries: "s3_digests src = (entry src ''s3.kernel.sha256'', entry src ''s3.initramfs.sha256'')"
  by (cases "bas_HTTPS src"; cases "bas_OCI src"; cases "bas_S3 src")
     (simp_all add: s3_digests_def entry_def key_entries_def)

lemma key_entries_digests:
  assumes "key_entries a = key_entries b"
  shows "declared_digests a = declared_digests b"
proof -
  have "entry a = entry b" using assms by (simp add: entry_def fun_eq_iff)
  then show ?thesis unfolding declared_digests_def https_entries oci_entries s3_entries type_entry by simp
qed


section \<open>Coherence of the cache\<close>

text \<open>Every cached entry was resolved for one of the sources in \<open>srcs\<close>, and meets the
  digests that source declares.\<close>

definition coherent :: "(bytes \<Rightarrow> bytes) \<Rightarrow> BootArtifactsSource set \<Rightarrow> (string, Artifacts) fmap \<Rightarrow> bool" where
  "coherent sha srcs cache \<longleftrightarrow> (\<forall>k a. fmlookup cache k = Some a \<longrightarrow>
     (\<exists>src\<in>srcs. bootArtifactsCacheKey sha src = k \<and> artifacts_verified sha (declared_digests src) a))"

lemma coherent_store:
  assumes "coherent sha srcs cache" "artifacts_verified sha (declared_digests src) a"
  shows "coherent sha (insert src srcs) (fmupd (bootArtifactsCacheKey sha src) a cache)"
  using assms by (auto simp: coherent_def)

lemma coherent_load:
  assumes "coherent sha srcs cache" "fmlookup cache (bootArtifactsCacheKey sha src) = Some a"
    and "\<forall>s\<in>insert src srcs. one_line s" "inj_on sha (key_text ` insert src srcs)"
  shows "artifacts_verified sha (declared_digests src) a"
proof -
  obtain s where s: "s \<in> srcs" "bootArtifactsCacheKey sha s = bootArtifactsCacheKey sha src"
    "artifacts_verified sha (declared_digests s) a"
    using assms(1,2) unfolding coherent_def by blast
  have "inj_on sha {key_text s, key_text src}" by (rule inj_on_subset [OF assms(4)]) (use s(1) in auto)
  then have "key_entries s = key_entries src" using cache_key_inj [OF _ _ _ s(2)] assms(3) s(1) by blast
  then show ?thesis using key_entries_digests s(3) by metis
qed

lemma coherent_mono: "coherent sha srcs cache \<Longrightarrow> srcs \<subseteq> srcs' \<Longrightarrow> coherent sha srcs' cache"
  unfolding coherent_def by blast


section \<open>Properties\<close>

text \<open>C16: boot artifacts that come out of the controller's cache meet the digests declared by
  the source at hand, not just those of the source they were fetched for: if every entry was
  resolved for its own source, the fields of the sources have no line breaks, and SHA-256 does
  not collide on their texts, then what \<^verbatim>\<open>resolveCachedArtifacts\<close> returns, from the cache or
  from the server, is as declared, and the cache keeps that property.\<close>

theorem cached_artifacts_verified:
  assumes "resolve = boot_Multi_Resolve (boot_NewMultiResolver tr)" "me_sha256 env = tr_sha256 tr"
    and "coherent (tr_sha256 tr) srcs (s_artifactCache s)"
    and "\<forall>x\<in>insert src srcs. one_line x" "inj_on (tr_sha256 tr) (key_text ` insert src srcs)"
    and "run_state (resolveCachedArtifacts env resolve src creds) s = (r, s')"
  shows "coherent (tr_sha256 tr) (insert src srcs) (s_artifactCache s') \<and>
    (\<forall>a. r = Inr a \<longrightarrow> artifacts_verified (tr_sha256 tr) (declared_digests src) a)"
proof (cases "fmlookup (s_artifactCache s) (bootArtifactsCacheKey (tr_sha256 tr) src)")
  case (Some a)
  then have "r = Inr a" "s' = s"
    using assms(2,6) by (simp_all add: resolveCachedArtifacts_def cache_load_def Let_def)
  then show ?thesis
    using coherent_load [OF assms(3) Some assms(4,5)] coherent_mono [OF assms(3)] by auto
next
  case None
  obtain x w where x: "run_state (resolve src creds) (s_world s) = (x, w)" by fastforce
  show ?thesis
  proof (cases x)
    case (Inl err)
    then have "r = Inl err" "s_artifactCache s' = s_artifactCache s"
      using assms(2,6) None x by (auto simp: resolveCachedArtifacts_def cache_load_def io_def Let_def)
    then show ?thesis using coherent_mono [OF assms(3)] by auto
  next
    case (Inr a)
    have v: "artifacts_verified (tr_sha256 tr) (declared_digests src) a"
      using x Inr assms(1) by (simp add: mrr.resolve_verified)
    have "r = Inr a" "s_artifactCache s' = fmupd (bootArtifactsCacheKey (tr_sha256 tr) src) a (s_artifactCache s)"
      using assms(2,6) None x Inr
      by (auto simp: resolveCachedArtifacts_def cache_load_def cache_store_def io_def Let_def)
    then show ?thesis using coherent_store [OF assms(3) v] v by simp
  qed
qed

definition example_cached :: "host_event list mstate" where
  "example_cached = \<lparr>s_world = [], s_machine = example_machine ''m0'',
     s_artifactCache = fmupd (bootArtifactsCacheKey rev example_source) example_artifacts fmempty\<rparr>"

theorem cached_artifacts_verified_witness:
  "run_state (resolveCachedArtifacts (recording_env (example_machine ''m0''))
     (boot_Multi_Resolve (boot_NewMultiResolver (example_transport ''other''))) example_source None) example_cached =
     (Inr example_artifacts, example_cached) \<and>
   artifacts_verified rev (declared_digests example_source) example_artifacts \<and>
   declared_digests example_source = (''4B4D'', [])"
proof -
  let ?tr = "example_transport ''other'' :: host_event list transport"
  have sha: "me_sha256 (recording_env (example_machine ''m0'')) = tr_sha256 ?tr" "tr_sha256 ?tr = rev"
    by (simp_all add: recording_env_def example_transport_def)
  have run: "run_state (resolveCachedArtifacts (recording_env (example_machine ''m0''))
     (boot_Multi_Resolve (boot_NewMultiResolver ?tr)) example_source None) example_cached =
     (Inr example_artifacts, example_cached)"
    by (simp add: resolveCachedArtifacts_def cache_load_def example_cached_def sha Let_def)
  have digests: "declared_digests example_source = (''4B4D'', [])"
    by (simp add: declared_digests_def https_digests_def example_source_def)
  have ok: "artifacts_verified rev (declared_digests example_source) example_artifacts"
    by (simp only: digests) code_simp
  have co: "coherent (tr_sha256 ?tr) {example_source} (s_artifactCache example_cached)"
    using ok by (simp add: coherent_def example_cached_def sha)
  have line: "\<forall>x\<in>insert example_source {example_source}. one_line x" by code_simp
  have "inj_on (tr_sha256 ?tr) (key_text ` insert example_source {example_source})" by (simp add: sha)
  from cached_artifacts_verified [OF refl sha(1) co line this run] run digests
  show ?thesis by (simp add: sha)
qed

end
