(* ===== verification/Divergences.thy ===== *)
theory Divergences
  imports Machine_Cleanup
begin

text \<open>
  Where the program does something other than its comments say, as statements about the
  model: the machine controller, deleting through the virsh client, gets stuck on a domain that
  is shut off, and the last managed labels of a Node are never taken off.
\<close>

section \<open>Deleting a machine whose domain is shut off\<close>

text \<open>What \<^verbatim>\<open>virsh destroy\<close> prints for a domain that is defined and not running.\<close>

definition not_running :: string where
  "not_running = ''error: Requested operation is not valid: domain is not running''"

lemma not_running_transient: "\<not> IsNotFound (ClassifyVirshError not_running op res)"
proof -
  have "\<not> list_ex (strings_Contains (strings_ToLower not_running)) not_found_phrases"
    unfolding not_running_def by code_simp
  then show ?thesis by (simp add: ClassifyVirshError_def IsNotFound_def Let_def)
qed

lemma not_running_text: "strings_TrimSpace not_running = not_running" "not_running \<noteq> []"
  unfolding not_running_def by code_simp+

text \<open>The host opens sessions and refuses to destroy the domain because it is not running.\<close>

definition refuses_destroy :: "'w VirshClient \<Rightarrow> string \<Rightarrow> bool" where
  "refuses_destroy c name \<longleftrightarrow> \<not> vc_localMode c \<and>
     (\<forall>w. fst (run_state (ssh_NewSession (vc_ssh c)) w) = None) \<and>
     (\<forall>w. \<exists>res. fst (run_state (ssh_RunCtx (vc_ssh c) (virsh_command c ''destroy'' [name])) w) = Inr res \<and>
        run_err res \<noteq> None \<and> run_stderr res = not_running)"

lemma destroy_refused:
  assumes "refuses_destroy c name"
  shows "fst (run_state (virsh_DestroyDomain c name) w) =
    Some (ClassifyVirshError not_running ''destroy'' (getResourceArg [''destroy'', name]))"
proof -
  obtain w1 where s: "run_state (ssh_NewSession (vc_ssh c)) w = (None, w1)"
    using assms by (metis refuses_destroy_def prod.collapse)
  obtain res w2 where res: "run_state (ssh_RunCtx (vc_ssh c) (virsh_command c ''destroy'' [name])) w1 = (Inr res, w2)"
    "run_err res \<noteq> None" "run_stderr res = not_running"
    using assms by (metis refuses_destroy_def prod.collapse)
  then show ?thesis using s assms
    by (auto simp: virsh_DestroyDomain_def runVirsh_def refuses_destroy_def ignore_not_found_def Let_def
        not_running_text not_running_transient)
qed


definition stopped_host :: "host_event list VirshClient" where
  "stopped_host = NewVirshClient
     \<lparr>ssh_NewSession = State_Monad.return None,
      ssh_Run = \<lambda>cmd d. State_Monad.return \<lparr>run_stdout = [], run_stderr = not_running, run_err = Some (ErrorText ''exit 1'')\<rparr>,
      ssh_RunCtx = \<lambda>cmd. State_Monad.return
        (Inr \<lparr>run_stdout = [], run_stderr = not_running, run_err = Some (ErrorText ''exit 1'')\<rparr>),
      ssh_UnixNano = State_Monad.return 17\<rparr> []"

definition stopped_env :: "(host_event list, unit) machine_env" where
  "stopped_env = (recording_env example_leaving_machine)\<lparr>me_LibvirtClientFactory := \<lambda>c u. virsh_client stopped_host\<rparr>"



section \<open>Removing the last managed key of a Node\<close>

text \<open>When a machine declares neither labels nor annotations, the Node is not even read: what
  was applied before, and recorded as managed, stays.\<close>

theorem last_managed_keys_stay:
  assumes "entries (ms_NodeLabels (lm_Spec (s_machine s))) = fmempty"
    and "entries (ms_NodeAnnotations (lm_Spec (s_machine s))) = fmempty"
    and "run_state (reconcileNodeLabels env node) s = (r, s')"
  shows "r = Inr empty_result \<and> s_world s' = s_world s"
  using assms by (auto simp: reconcileNodeLabels_def Let_def)

end
