(* ===== verification/Go_Heap.thy ===== *)
theory Go_Heap
  imports Go_Prelude "HOL-Library.Finite_Map" "HOL-Library.List_Lexorder" "HOL-Library.Char_ord"
begin

text \<open>
  Memory of a Go program, for the code whose point is aliasing. The heap is the list of the
  cells allocated so far, and an address is a position in it: nothing is ever freed while it
  can be reached. A pointer, and a slice or map header, is an optional address; \<open>None\<close>
  is nil. A slice header is taken to own its backing array from first to last element.

  What can be reached from a value is its \<open>view\<close>: a tree that has the addresses on the
  way. Two values are deeply equal when their views agree up to addresses, and they share no
  memory when no address is in both.
\<close>

section \<open>Views\<close>

type_synonym addr = nat

datatype tree =
    TStr string
  | TInt int
  | TBool bool
  | TMap "(string, string) fmap"
  | TNil
  | TBad
  | TAt addr tree
  | TNode "tree list"

fun addrs :: "tree \<Rightarrow> addr list" where
  "addrs (TAt a t) = a # addrs t"
| "addrs (TNode ts) = concat (map addrs ts)"
| "addrs _ = []"

fun erase :: "tree \<Rightarrow> tree" where
  "erase (TAt a t) = TAt 0 (erase t)"
| "erase (TNode ts) = TNode (map erase ts)"
| "erase t = t"

fun sound :: "tree \<Rightarrow> bool" where
  "sound (TAt a t) = sound t"
| "sound (TNode ts) = list_all sound ts"
| "sound t = (t \<noteq> TBad)"

type_synonym ('c, 'a) view = "'c list \<Rightarrow> 'a \<Rightarrow> tree"

text \<open>How values of one Go type are kept in a cell.\<close>

type_synonym ('c, 'a) kind = "('a \<Rightarrow> 'c) \<times> ('c \<Rightarrow> 'a option)"

definition kind_ok :: "('c, 'a) kind \<Rightarrow> bool" where
  "kind_ok k \<longleftrightarrow> (\<forall>x. snd k (fst k x) = Some x)"

definition deref :: "('c, 'a) kind \<Rightarrow> 'c list \<Rightarrow> addr \<Rightarrow> 'a option" where
  "deref k h a = (if a < length h then snd k (h ! a) else None)"

definition view_ptr :: "('c, 'a) kind \<Rightarrow> ('c, 'a) view \<Rightarrow> ('c, addr option) view" where
  "view_ptr k v h p =
     (case p of
        None \<Rightarrow> TNil
      | Some a \<Rightarrow> (case deref k h a of None \<Rightarrow> TBad | Some x \<Rightarrow> TAt a (v h x)))"

definition view_elems :: "('c, 'a) view \<Rightarrow> ('c, 'a list) view" where
  "view_elems v h xs = TNode (map (v h) xs)"

definition view_pair :: "('c, 'a) view \<Rightarrow> ('c, 'b) view \<Rightarrow> ('c, 'a \<times> 'b) view" where
  "view_pair v w h p = TNode [v h (fst p), w h (snd p)]"


section \<open>Allocation and copying\<close>

definition new_cell :: "'c \<Rightarrow> ('c list, addr) state" where
  "new_cell c = State (\<lambda>h. (length h, h @ [c]))"

definition put_cell :: "addr \<Rightarrow> 'c \<Rightarrow> ('c list, unit) state" where
  "put_cell a c = State (\<lambda>h. ((), h[a := c]))"

text \<open>\<^verbatim>\<open>out = new(T); in.DeepCopyInto(out)\<close>. The first assignment of every
  \<^verbatim>\<open>DeepCopyInto\<close> is \<^verbatim>\<open>*out = *in\<close>, which is what the new cell holds while the fields
  are copied.\<close>

definition copy_ptr :: "('c, 'a) kind \<Rightarrow> ('a \<Rightarrow> ('c list, 'a) state) \<Rightarrow> addr option \<Rightarrow> ('c list, addr option) state" where
  "copy_ptr k into p =
     (case p of
        None \<Rightarrow> State_Monad.return None
      | Some a \<Rightarrow> do {
          h \<leftarrow> State_Monad.get;
          (case deref k h a of
             None \<Rightarrow> State_Monad.return p
           | Some x \<Rightarrow> do {
               b \<leftarrow> new_cell (fst k x);
               y \<leftarrow> into x;
               put_cell b (fst k y);
               State_Monad.return (Some b) }) })"

fun copy_elems :: "('a \<Rightarrow> ('c list, 'a) state) \<Rightarrow> 'a list \<Rightarrow> ('c list, 'a list) state" where
  "copy_elems into [] = State_Monad.return []"
| "copy_elems into (x # xs) = do {
     y \<leftarrow> into x;
     ys \<leftarrow> copy_elems into xs;
     State_Monad.return (y # ys) }"

text \<open>\<^verbatim>\<open>for key, val := range *in { (*out)[key] = val }\<close>, in the order of the keys.\<close>

definition copy_map :: "(string, string) fmap \<Rightarrow> ('c list, (string, string) fmap) state" where
  "copy_map m = State_Monad.return
     (fold (\<lambda>key out. fmupd key (the (fmlookup m key)) out) (sorted_list_of_fset (fmdom m)) fmempty)"


section \<open>Copiers\<close>

text \<open>A view that depends on the cells it shows only, all of them allocated.\<close>

definition local_view :: "('c, 'a) view \<Rightarrow> bool" where
  "local_view v \<longleftrightarrow> (\<forall>h x. sound (v h x) \<longrightarrow>
     (\<forall>a\<in>set (addrs (v h x)). a < length h) \<and>
     (\<forall>h'. (\<forall>a\<in>set (addrs (v h x)). a < length h' \<and> h' ! a = h ! a) \<longrightarrow> v h' x = v h x))"

text \<open>A copy: deeply equal, in cells of its own that were not allocated before, each reached
  once, with every older cell as it was.\<close>

definition fresh_copy :: "('c, 'a) view \<Rightarrow> 'c list \<Rightarrow> 'a \<Rightarrow> 'c list \<Rightarrow> 'a \<Rightarrow> bool" where
  "fresh_copy v h x h' y \<longleftrightarrow>
     prefix h h' \<and> sound (v h' y) \<and> erase (v h' y) = erase (v h x) \<and>
     distinct (addrs (v h' y)) \<and> set (addrs (v h' y)) \<subseteq> {length h..<length h'}"

definition copier :: "('a \<Rightarrow> ('c list, 'a) state) \<Rightarrow> ('c, 'a) view \<Rightarrow> bool" where
  "copier c v \<longleftrightarrow> local_view v \<and>
     (\<forall>h x y h'. sound (v h x) \<longrightarrow> run_state (c x) h = (y, h') \<longrightarrow> fresh_copy v h x h' y)"

lemma copierI:
  assumes "local_view v"
    and "\<And>h x y h'. sound (v h x) \<Longrightarrow> run_state (c x) h = (y, h') \<Longrightarrow> fresh_copy v h x h' y"
  shows "copier c v"
  using assms by (simp add: copier_def)

lemma copier_local: "copier c v \<Longrightarrow> local_view v"
  by (simp add: copier_def)

lemma copierD: "copier c v \<Longrightarrow> sound (v h x) \<Longrightarrow> run_state (c x) h = (y, h') \<Longrightarrow> fresh_copy v h x h' y"
  by (simp add: copier_def)

lemma local_bound: "local_view v \<Longrightarrow> sound (v h x) \<Longrightarrow> a \<in> set (addrs (v h x)) \<Longrightarrow> a < length h"
  unfolding local_view_def by blast

lemma local_same:
  assumes "local_view v" "sound (v h x)" "\<And>a. a \<in> set (addrs (v h x)) \<Longrightarrow> a < length h' \<and> h' ! a = h ! a"
  shows "v h' x = v h x"
proof -
  have "\<forall>h'. (\<forall>a\<in>set (addrs (v h x)). a < length h' \<and> h' ! a = h ! a) \<longrightarrow> v h' x = v h x"
    using assms(1,2) unfolding local_view_def by blast
  then have "(\<forall>a\<in>set (addrs (v h x)). a < length h' \<and> h' ! a = h ! a) \<longrightarrow> v h' x = v h x" by (rule spec)
  then show ?thesis using assms(3) by blast
qed

lemma local_extend:
  assumes "local_view v" "sound (v h x)" "prefix h h'"
  shows "v h' x = v h x"
proof (rule local_same [OF assms(1,2)])
  fix a assume "a \<in> set (addrs (v h x))"
  then have "a < length h" by (rule local_bound [OF assms(1,2)])
  moreover obtain ext where "h' = h @ ext" using assms(3) by (auto simp: prefix_def)
  ultimately show "a < length h' \<and> h' ! a = h ! a" by (simp add: nth_append)
qed


section \<open>Copiers of pointers, slices, maps and structures\<close>

text \<open>A value without pointers is copied by an assignment.\<close>

definition flat_view :: "('a \<Rightarrow> tree) \<Rightarrow> bool" where
  "flat_view f \<longleftrightarrow> (\<forall>x. addrs (f x) = [] \<and> sound (f x))"

lemma copier_flat: "flat_view f \<Longrightarrow> copier State_Monad.return (\<lambda>h. f)"
  by (rule copierI) (auto simp: local_view_def fresh_copy_def flat_view_def run_state_return)

lemma fold_fmupd:
  "distinct ks \<Longrightarrow> fmlookup (fold (\<lambda>key out. fmupd key (f key) out) ks m) k =
    (if k \<in> set ks then Some (f k) else fmlookup m k)"
  by (induction ks arbitrary: m) auto

lemma copy_map_return: "copy_map m = State_Monad.return m"
proof -
  have "fold (\<lambda>key out. fmupd key (the (fmlookup m key)) out) (sorted_list_of_fset (fmdom m)) fmempty = m"
    by (rule fmap_ext) (auto simp: fold_fmupd sorted_list_of_fset.rep_eq fmdom'_alt_def [symmetric] fmlookup_dom'_iff
        split: if_splits)
  then show ?thesis by (simp add: copy_map_def)
qed

lemma copier_map: "copier copy_map (\<lambda>h. TMap)"
  using copier_flat [of TMap] by (simp add: copy_map_return [abs_def] flat_view_def)

lemma local_view_ptr:
  assumes "local_view v"
  shows "local_view (view_ptr k v)"
proof (unfold local_view_def, intro allI impI)
  fix h p assume s: "sound (view_ptr k v h p)"
  show "(\<forall>a\<in>set (addrs (view_ptr k v h p)). a < length h) \<and>
    (\<forall>h'. (\<forall>a\<in>set (addrs (view_ptr k v h p)). a < length h' \<and> h' ! a = h ! a) \<longrightarrow>
      view_ptr k v h' p = view_ptr k v h p)"
  proof (cases p)
    case None
    then show ?thesis by (simp add: view_ptr_def)
  next
    case (Some a)
    then obtain x where x: "deref k h a = Some x" "sound (v h x)"
      using s by (cases "deref k h a") (simp_all add: view_ptr_def)
    then have "a < length h" by (simp add: deref_def split: if_splits)
    moreover have "\<forall>b\<in>set (addrs (v h x)). b < length h" using local_bound [OF assms x(2)] by blast
    moreover have "view_ptr k v h' p = view_ptr k v h p"
      if "\<forall>b\<in>set (a # addrs (v h x)). b < length h' \<and> h' ! b = h ! b" for h'
    proof -
      have "v h' x = v h x" using that by (intro local_same [OF assms x(2)]) simp
      moreover have "deref k h' a = Some x" using that x(1) by (simp add: deref_def split: if_splits)
      ultimately show ?thesis using x(1) Some by (simp add: view_ptr_def)
    qed
    ultimately show ?thesis using Some x(1) by (simp add: view_ptr_def)
  qed
qed

lemma run_copy_ptr:
  assumes "deref k h a = Some x" "run_state (into x) (h @ [fst k x]) = (y, h2)"
  shows "run_state (copy_ptr k into (Some a)) h = (Some (length h), h2[length h := fst k y])"
  using assms by (simp add: copy_ptr_def State_Monad.bind_def State_Monad.get_def new_cell_def put_cell_def
      State_Monad.return_def)

lemma copier_ptr:
  assumes k: "kind_ok k" and c: "copier into v"
  shows "copier (copy_ptr k into) (view_ptr k v)"
proof (rule copierI)
  show "local_view (view_ptr k v)" by (rule local_view_ptr [OF copier_local [OF c]])
  fix h p q h' assume s: "sound (view_ptr k v h p)" and run: "run_state (copy_ptr k into p) h = (q, h')"
  show "fresh_copy (view_ptr k v) h p h' q"
  proof (cases p)
    case None
    then show ?thesis using run by (simp add: copy_ptr_def view_ptr_def fresh_copy_def State_Monad.return_def)
  next
    case (Some a)
    then obtain x where x: "deref k h a = Some x" "sound (v h x)"
      using s by (cases "deref k h a") (simp_all add: view_ptr_def)
    let ?h1 = "h @ [fst k x]"
    obtain y h2 where y: "run_state (into x) ?h1 = (y, h2)" by fastforce
    have same: "v ?h1 x = v h x" by (rule local_extend [OF copier_local [OF c] x(2)]) simp
    have "fresh_copy v ?h1 x h2 y" using copierD [OF c _ y] same x(2) by simp
    then have f: "prefix ?h1 h2" "sound (v h2 y)" "erase (v h2 y) = erase (v h x)" "distinct (addrs (v h2 y))"
      "set (addrs (v h2 y)) \<subseteq> {Suc (length h)..<length h2}"
      by (simp_all add: fresh_copy_def same)
    have q: "q = Some (length h)" "h' = h2[length h := fst k y]"
      using run run_copy_ptr [where into = into, OF x(1) y] Some by simp_all
    obtain ext where ext: "h2 = h @ fst k x # ext" using f(1) by (auto simp: prefix_def)
    then have h': "h' = h @ fst k y # ext" using q(2) by simp
    have "v h' y = v h2 y"
      using f(5) by (intro local_same [OF copier_local [OF c] f(2)]) (auto simp: q(2))
    moreover have "deref k h' (length h) = Some y" using k by (simp add: h' deref_def kind_ok_def)
    ultimately have "view_ptr k v h' q = TAt (length h) (v h2 y)" by (simp add: view_ptr_def q(1))
    moreover have "view_ptr k v h p = TAt a (v h x)" using x(1) Some by (simp add: view_ptr_def)
    ultimately show ?thesis using f(2-5) ext h' by (auto simp: fresh_copy_def prefix_def)
  qed
qed

text \<open>Two copies one after the other.\<close>

lemma fresh_copy_then:
  assumes v: "local_view v" and w: "local_view w"
    and "fresh_copy v h x h1 x'" "sound (w h y)" "fresh_copy w h1 y h2 y'"
  shows "prefix h h2 \<and> sound (v h2 x') \<and> sound (w h2 y') \<and>
    erase (v h2 x') = erase (v h x) \<and> erase (w h2 y') = erase (w h y) \<and>
    distinct (addrs (v h2 x') @ addrs (w h2 y')) \<and>
    set (addrs (v h2 x') @ addrs (w h2 y')) \<subseteq> {length h..<length h2}"
proof -
  have p: "prefix h h1" "prefix h1 h2" using assms(3,5) by (simp_all add: fresh_copy_def)
  have vx: "v h2 x' = v h1 x'" using assms(3) p(2) by (intro local_extend [OF v]) (simp_all add: fresh_copy_def)
  have wy: "w h1 y = w h y" by (rule local_extend [OF w assms(4) p(1)])
  have le: "length h \<le> length h1" "length h1 \<le> length h2" using p by (simp_all add: prefix_length_le)
  have A: "set (addrs (v h1 x')) \<subseteq> {length h..<length h1}" and B: "set (addrs (w h2 y')) \<subseteq> {length h1..<length h2}"
    using assms(3,5) by (simp_all add: fresh_copy_def)
  have "set (addrs (v h1 x')) \<inter> set (addrs (w h2 y')) = {}"
    using A B by (meson atLeastLessThan_iff disjoint_iff not_less subsetD)
  moreover have "set (addrs (v h1 x')) \<subseteq> {length h..<length h2}" "set (addrs (w h2 y')) \<subseteq> {length h..<length h2}"
    using A B le by (meson atLeastLessThan_iff order_less_le_trans order_trans subset_iff)+
  moreover have "prefix h h2" by (rule prefix_order.trans [OF p])
  ultimately show ?thesis using assms(3,5) unfolding vx fresh_copy_def wy by simp
qed

lemma fresh_copy_sound: "local_view w \<Longrightarrow> fresh_copy v h x h1 x' \<Longrightarrow> sound (w h y) \<Longrightarrow> sound (w h1 y)"
  using local_extend [of w h y h1] by (simp add: fresh_copy_def)

lemma copier_elems:
  assumes c: "copier into v"
  shows "copier (copy_elems into) (view_elems v)"
proof (rule copierI)
  show l: "local_view (view_elems v)"
  proof (unfold local_view_def view_elems_def, intro allI impI conjI)
    fix h xs assume s: "sound (TNode (map (v h) xs))"
    then have s': "sound (v h x)" if "x \<in> set xs" for x using that by (simp add: list_all_iff)
    show "\<forall>a\<in>set (addrs (TNode (map (v h) xs))). a < length h"
      using local_bound [OF copier_local [OF c] s'] by auto
    fix h' assume "\<forall>a\<in>set (addrs (TNode (map (v h) xs))). a < length h' \<and> h' ! a = h ! a"
    then have "v h' x = v h x" if "x \<in> set xs" for x
      using that by (intro local_same [OF copier_local [OF c] s']) auto
    then show "TNode (map (v h') xs) = TNode (map (v h) xs)" by simp
  qed
  fix h xs ys h' assume "sound (view_elems v h xs)" "run_state (copy_elems into xs) h = (ys, h')"
  then show "fresh_copy (view_elems v) h xs h' ys"
  proof (induction xs arbitrary: h ys h')
    case Nil
    then show ?case by (simp add: fresh_copy_def view_elems_def State_Monad.return_def)
  next
    case (Cons x xs)
    obtain y h1 where y: "run_state (into x) h = (y, h1)" by fastforce
    obtain zs h2 where zs: "run_state (copy_elems into xs) h1 = (zs, h2)" by fastforce
    have ys: "ys = y # zs" "h' = h2"
      using Cons.prems(2) y zs by (simp_all add: State_Monad.bind_def State_Monad.return_def)
    have s: "sound (v h x)" "sound (view_elems v h xs)" using Cons.prems(1) by (simp_all add: view_elems_def)
    have f: "fresh_copy v h x h1 y" by (rule copierD [OF c s(1) y])
    have "fresh_copy (view_elems v) h1 xs h2 zs" by (rule Cons.IH [OF fresh_copy_sound [OF l f s(2)] zs])
    from fresh_copy_then [OF copier_local [OF c] l f s(2) this]
    show ?case by (simp add: fresh_copy_def view_elems_def ys)
  qed
qed

definition copy_pair ::
  "('a \<Rightarrow> ('c list, 'a) state) \<Rightarrow> ('b \<Rightarrow> ('c list, 'b) state) \<Rightarrow> 'a \<times> 'b \<Rightarrow> ('c list, 'a \<times> 'b) state" where
  "copy_pair c d p = do {
     x \<leftarrow> c (fst p);
     y \<leftarrow> d (snd p);
     State_Monad.return (x, y) }"

lemma local_view_pair:
  assumes "local_view v" "local_view w"
  shows "local_view (view_pair v w)"
proof (unfold local_view_def view_pair_def, intro allI impI conjI)
  fix h p assume "sound (TNode [v h (fst p), w h (snd p)])"
  then have s: "sound (v h (fst p))" "sound (w h (snd p))" by simp_all
  show "\<forall>a\<in>set (addrs (TNode [v h (fst p), w h (snd p)])). a < length h"
    using local_bound [OF assms(1) s(1)] local_bound [OF assms(2) s(2)] by auto
  fix h' assume h': "\<forall>a\<in>set (addrs (TNode [v h (fst p), w h (snd p)])). a < length h' \<and> h' ! a = h ! a"
  have "v h' (fst p) = v h (fst p)" using h' by (intro local_same [OF assms(1) s(1)]) simp
  moreover have "w h' (snd p) = w h (snd p)" using h' by (intro local_same [OF assms(2) s(2)]) simp
  ultimately show "TNode [v h' (fst p), w h' (snd p)] = TNode [v h (fst p), w h (snd p)]" by simp
qed

lemma copier_pair:
  assumes c: "copier c v" and d: "copier d w"
  shows "copier (copy_pair c d) (view_pair v w)"
proof (rule copierI)
  show "local_view (view_pair v w)" by (rule local_view_pair [OF copier_local [OF c] copier_local [OF d]])
  fix h p q h' assume "sound (view_pair v w h p)" and run: "run_state (copy_pair c d p) h = (q, h')"
  then have s: "sound (v h (fst p))" "sound (w h (snd p))" by (simp_all add: view_pair_def)
  obtain x h1 where x: "run_state (c (fst p)) h = (x, h1)" by fastforce
  obtain y h2 where y: "run_state (d (snd p)) h1 = (y, h2)" by fastforce
  have q: "q = (x, y)" "h' = h2" using run x y by (simp_all add: copy_pair_def State_Monad.bind_def State_Monad.return_def)
  have f: "fresh_copy v h (fst p) h1 x" by (rule copierD [OF c s(1) x])
  have "fresh_copy w h1 (snd p) h2 y" by (rule copierD [OF d fresh_copy_sound [OF copier_local [OF d] f s(2)] y])
  from fresh_copy_then [OF copier_local [OF c] copier_local [OF d] f s(2) this]
  show "fresh_copy (view_pair v w) h p h' q" by (simp add: fresh_copy_def view_pair_def q)
qed

text \<open>A structure: the fields \<open>sel\<close> that hold pointers are copied and put back, the rest of
  it is assigned.\<close>

definition view_struct :: "('a \<Rightarrow> tree) \<Rightarrow> ('a \<Rightarrow> 'b) \<Rightarrow> ('c, 'b) view \<Rightarrow> ('c, 'a) view" where
  "view_struct flat sel v h x = TNode [flat x, v h (sel x)]"

lemma copier_struct:
  assumes d: "copier d v" and flat: "flat_view flat"
    and c: "\<And>x. c x = State_Monad.bind (d (sel x)) (\<lambda>y. State_Monad.return (put y x))"
    and put: "\<And>x y. sel (put y x) = y" "\<And>x y. flat (put y x) = flat x"
  shows "copier c (view_struct flat sel v)"
proof (rule copierI)
  have flat': "addrs (flat x) = []" "sound (flat x)" for x using flat by (simp_all add: flat_view_def)
  show "local_view (view_struct flat sel v)"
  proof (unfold local_view_def view_struct_def, intro allI impI conjI)
    fix h x assume "sound (TNode [flat x, v h (sel x)])"
    then have s: "sound (v h (sel x))" by simp
    show "\<forall>a\<in>set (addrs (TNode [flat x, v h (sel x)])). a < length h"
      using local_bound [OF copier_local [OF d] s] by (auto simp: flat')
    fix h' assume "\<forall>a\<in>set (addrs (TNode [flat x, v h (sel x)])). a < length h' \<and> h' ! a = h ! a"
    then have "v h' (sel x) = v h (sel x)" by (intro local_same [OF copier_local [OF d] s]) simp
    then show "TNode [flat x, v h' (sel x)] = TNode [flat x, v h (sel x)]" by simp
  qed
  fix h x z h' assume s: "sound (view_struct flat sel v h x)" and run: "run_state (c x) h = (z, h')"
  obtain y where y: "run_state (d (sel x)) h = (y, h')" "z = put y x"
    using run by (cases "run_state (d (sel x)) h") (simp add: c State_Monad.bind_def State_Monad.return_def)
  have "fresh_copy v h (sel x) h' y" using s by (intro copierD [OF d _ y(1)]) (simp add: view_struct_def)
  then show "fresh_copy (view_struct flat sel v) h x h' z"
    by (simp add: fresh_copy_def view_struct_def y(2) put flat')
qed


section \<open>What a copy is good for\<close>

text \<open>The copy is deeply equal to the original, and a write through one of them cannot be seen
  through the other.\<close>

definition independent_copy :: "('a \<Rightarrow> ('c list, 'a) state) \<Rightarrow> ('c, 'a) view \<Rightarrow> bool" where
  "independent_copy c v \<longleftrightarrow> (\<forall>h p q h'. sound (v h p) \<longrightarrow> run_state (c p) h = (q, h') \<longrightarrow>
     erase (v h' q) = erase (v h p) \<and> v h' p = v h p \<and>
     (\<forall>a\<in>set (addrs (v h' q)). \<forall>cell. v (h'[a := cell]) p = v h p) \<and>
     (\<forall>a\<in>set (addrs (v h p)). \<forall>cell. v (h'[a := cell]) q = v h' q))"

lemma copier_independent:
  assumes c: "copier c v"
  shows "independent_copy c v"
proof (unfold independent_copy_def, intro allI impI)
  fix h p q h' assume s: "sound (v h p)" and run: "run_state (c p) h = (q, h')"
  have f: "prefix h h'" "sound (v h' q)" "erase (v h' q) = erase (v h p)"
    "set (addrs (v h' q)) \<subseteq> {length h..<length h'}"
    using copierD [OF c s run] by (simp_all add: fresh_copy_def)
  have old: "v h' p = v h p" by (rule local_extend [OF copier_local [OF c] s f(1)])
  have bound: "a < length h" if "a \<in> set (addrs (v h p))" for a by (rule local_bound [OF copier_local [OF c] s that])
  have apart: "a \<noteq> b" if "a \<in> set (addrs (v h' q))" "b \<in> set (addrs (v h p))" for a b
    using f(4) bound [OF that(2)] that(1) by auto
  have "v (h'[a := cell]) p = v h' p" if "a \<in> set (addrs (v h' q))" for a cell
  proof (rule local_same [OF copier_local [OF c]])
    show "sound (v h' p)" using s old by simp
    fix b assume "b \<in> set (addrs (v h' p))"
    then show "b < length (h'[a := cell]) \<and> h'[a := cell] ! b = h' ! b"
      using apart [OF that] bound [of b] prefix_length_le [OF f(1)] by (auto simp: old)
  qed
  moreover have "v (h'[a := cell]) q = v h' q" if "a \<in> set (addrs (v h p))" for a cell
  proof (rule local_same [OF copier_local [OF c] f(2)])
    fix b assume b: "b \<in> set (addrs (v h' q))"
    then show "b < length (h'[a := cell]) \<and> h'[a := cell] ! b = h' ! b"
      using apart [OF b that] subsetD [OF f(4) b] by simp
  qed
  ultimately show "erase (v h' q) = erase (v h p) \<and> v h' p = v h p \<and>
      (\<forall>a\<in>set (addrs (v h' q)). \<forall>cell. v (h'[a := cell]) p = v h p) \<and>
      (\<forall>a\<in>set (addrs (v h p)). \<forall>cell. v (h'[a := cell]) q = v h' q)"
    using f(3) old by simp
qed

end
