(* ===== verification/Api_Memory.thy ===== *)
theory Api_Memory
  imports Api_Types Go_Heap
begin

text \<open>
  The custom resources of \<^verbatim>\<open>api/v1alpha1\<close> as they lie in memory: every structure of the API
  that holds a pointer, slice or map, with an address in the place of it, and the cells such
  addresses lead to. Structures without pointers are the records of \<open>Api_Types\<close>.
  Quantities, object and list metadata, conditions and times are structures of Kubernetes
  libraries, with a representation \<open>'x\<close> of their own.
\<close>

section \<open>Structures with pointers\<close>

record 'x AdditionalDiskSpec_mem =
  m_ad_Name :: string
  m_ad_Size :: 'x
  m_ad_StoragePool :: string
  m_ad_Bus :: string

record 'x RootDiskSpec_mem =
  m_rd_Size :: 'x
  m_rd_StoragePool :: string
  m_rd_BaseImage :: string
  m_rd_BaseImagePool :: string
  m_rd_EphemeralPool :: bool
  m_rd_EphemeralPoolSize :: string
  m_rd_Bus :: string
  m_rd_CloneStrategy :: string

record DNSSpec_mem =
  m_dns_Nameservers :: "addr option"
  m_dns_SearchDomains :: "addr option"

record NetworkSpec_mem =
  m_net_Type :: string
  m_net_Name :: string
  m_net_Model :: string
  m_net_Addresses :: "addr option"
  m_net_Gateway :: string
  m_net_DNS :: "addr option"
  m_net_MACAddress :: string

record ManagedArtifacts_mem =
  m_ma_DomainName :: string
  m_ma_RootDiskVolume :: string
  m_ma_BootstrapISO :: string
  m_ma_IgnitionFile :: string
  m_ma_NVRAMPath :: string
  m_ma_EphemeralPoolName :: string
  m_ma_AdditionalDiskVolumes :: "addr option"

record 'x LibvirtMachineSpec_mem =
  m_ms_HostRef :: string
  m_ms_Domain :: DomainSpec
  m_ms_RootDisk :: "'x RootDiskSpec_mem"
  m_ms_AdditionalDisks :: "addr option"
  m_ms_Network :: NetworkSpec_mem
  m_ms_BootstrapFormat :: string
  m_ms_ProviderID :: "addr option"
  m_ms_NodeLabels :: "addr option"
  m_ms_NodeAnnotations :: "addr option"

record LibvirtMachineStatus_mem =
  m_st_Ready :: bool
  m_st_Addresses :: "addr option"
  m_st_DomainUUID :: string
  m_st_DomainState :: string
  m_st_ManagedArtifacts :: "addr option"
  m_st_FailureReason :: "addr option"
  m_st_FailureMessage :: "addr option"
  m_st_Conditions :: "addr option"

record 'x LibvirtMachine_mem =
  m_lm_TypeMeta :: "string \<times> string"
  m_lm_ObjectMeta :: 'x
  m_lm_Spec :: "'x LibvirtMachineSpec_mem"
  m_lm_Status :: LibvirtMachineStatus_mem

record 'x LibvirtMachineList_mem =
  m_lml_TypeMeta :: "string \<times> string"
  m_lml_ListMeta :: 'x
  m_lml_Items :: "addr option"

record LibvirtHostSpec_mem =
  m_hs_URI :: string
  m_hs_SecretRef :: "addr option"
  m_hs_HostKeyFingerprint :: string
  m_hs_FirmwarePath :: string
  m_hs_NVRAMTemplatePath :: string
  m_hs_ReservedResources :: "addr option"
  m_hs_HealthCheckIntervalSeconds :: int32

record LibvirtHostStatus_mem =
  m_hst_Ready :: bool
  m_hst_Capacity :: "addr option"
  m_hst_LastChecked :: "addr option"
  m_hst_Conditions :: "addr option"

record 'x LibvirtHost_mem =
  m_lh_TypeMeta :: "string \<times> string"
  m_lh_ObjectMeta :: 'x
  m_lh_Spec :: LibvirtHostSpec_mem
  m_lh_Status :: LibvirtHostStatus_mem

record 'x LibvirtHostList_mem =
  m_lhl_TypeMeta :: "string \<times> string"
  m_lhl_ListMeta :: 'x
  m_lhl_Items :: "addr option"

record HTTPSBaseImageSource_mem =
  m_hb_URL :: string
  m_hb_SHA256 :: string
  m_hb_CredentialsSecretRef :: "addr option"
  m_hb_InsecureSkipTLSVerify :: bool

record OCIBaseImageSource_mem =
  m_ob_Reference :: string
  m_ob_BlobTitle :: string
  m_ob_PlainHTTP :: bool
  m_ob_InsecureSkipTLSVerify :: bool
  m_ob_CredentialsSecretRef :: "addr option"
  m_ob_SHA256 :: string

record S3BaseImageSource_mem =
  m_sb_Endpoint :: string
  m_sb_Region :: string
  m_sb_Bucket :: string
  m_sb_Key :: string
  m_sb_UsePathStyle :: bool
  m_sb_Insecure :: bool
  m_sb_InsecureSkipTLSVerify :: bool
  m_sb_CredentialsSecretRef :: "addr option"
  m_sb_SHA256 :: string

record BaseImageSource_mem =
  m_bis_Type :: string
  m_bis_HTTPS :: "addr option"
  m_bis_OCI :: "addr option"
  m_bis_S3 :: "addr option"

record BaseImageSpec_mem =
  m_bi_Pool :: string
  m_bi_VolumeName :: string
  m_bi_Source :: BaseImageSource_mem

record OCIBootArtifactsSource_mem =
  m_oa_Reference :: string
  m_oa_KernelLayerTitle :: string
  m_oa_InitramfsLayerTitle :: string
  m_oa_PlainHTTP :: bool
  m_oa_InsecureSkipTLSVerify :: bool
  m_oa_CredentialsSecretRef :: "addr option"
  m_oa_KernelSHA256 :: string
  m_oa_InitramfsSHA256 :: string

record S3BootArtifactsSource_mem =
  m_sa_Endpoint :: string
  m_sa_Region :: string
  m_sa_Bucket :: string
  m_sa_KernelKey :: string
  m_sa_InitramfsKey :: string
  m_sa_UsePathStyle :: bool
  m_sa_Insecure :: bool
  m_sa_InsecureSkipTLSVerify :: bool
  m_sa_CredentialsSecretRef :: "addr option"
  m_sa_KernelSHA256 :: string
  m_sa_InitramfsSHA256 :: string

record BootArtifactsSource_mem =
  m_bas_Type :: string
  m_bas_HTTPS :: "addr option"
  m_bas_OCI :: "addr option"
  m_bas_S3 :: "addr option"

record BootArtifactsSpec_mem =
  m_ba_HostPath :: string
  m_ba_KernelArgs :: string
  m_ba_Source :: BootArtifactsSource_mem

record LibvirtClusterSpec_mem =
  m_cs_ControlPlaneEndpoint :: "string \<times> int32"
  m_cs_BootArtifacts :: "addr option"
  m_cs_BaseImage :: "addr option"

record LibvirtClusterStatus_mem =
  m_cst_Ready :: bool
  m_cst_Conditions :: "addr option"

record 'x LibvirtCluster_mem =
  m_lc_TypeMeta :: "string \<times> string"
  m_lc_ObjectMeta :: 'x
  m_lc_Spec :: LibvirtClusterSpec_mem
  m_lc_Status :: LibvirtClusterStatus_mem

record 'x LibvirtClusterList_mem =
  m_lcl_TypeMeta :: "string \<times> string"
  m_lcl_ListMeta :: 'x
  m_lcl_Items :: "addr option"


section \<open>Cells\<close>

text \<open>A \<^verbatim>\<open>MachineAddress\<close> of Cluster API is its type and its address.\<close>

type_synonym MachineAddress = "string \<times> string"

datatype (plugins only: code) 'x cell =
    Cell_string string
  | Cell_strings "string list"
  | Cell_map "(string, string) fmap"
  | Cell_MachineAddress_slice "MachineAddress list"
  | Cell_Condition_slice "'x list"
  | Cell_AdditionalDiskSpec_slice "'x AdditionalDiskSpec_mem list"
  | Cell_LibvirtMachine_slice "'x LibvirtMachine_mem list"
  | Cell_LibvirtHost_slice "'x LibvirtHost_mem list"
  | Cell_LibvirtCluster_slice "'x LibvirtCluster_mem list"
  | Cell_BootArtifactsSecretReference SecretReference
  | Cell_SecretReference SecretReference
  | Cell_DomainSpec DomainSpec
  | Cell_HTTPSBootArtifactsSource HTTPSBootArtifactsSource
  | Cell_HostCapacity HostCapacity
  | Cell_ReservedResources ReservedResources
  | Cell_AdditionalDiskSpec "'x AdditionalDiskSpec_mem"
  | Cell_RootDiskSpec "'x RootDiskSpec_mem"
  | Cell_DNSSpec DNSSpec_mem
  | Cell_NetworkSpec NetworkSpec_mem
  | Cell_ManagedArtifacts ManagedArtifacts_mem
  | Cell_LibvirtMachineSpec "'x LibvirtMachineSpec_mem"
  | Cell_LibvirtMachineStatus LibvirtMachineStatus_mem
  | Cell_LibvirtMachine "'x LibvirtMachine_mem"
  | Cell_LibvirtMachineList "'x LibvirtMachineList_mem"
  | Cell_LibvirtHostSpec LibvirtHostSpec_mem
  | Cell_LibvirtHostStatus LibvirtHostStatus_mem
  | Cell_LibvirtHost "'x LibvirtHost_mem"
  | Cell_LibvirtHostList "'x LibvirtHostList_mem"
  | Cell_HTTPSBaseImageSource HTTPSBaseImageSource_mem
  | Cell_OCIBaseImageSource OCIBaseImageSource_mem
  | Cell_S3BaseImageSource S3BaseImageSource_mem
  | Cell_BaseImageSource BaseImageSource_mem
  | Cell_BaseImageSpec BaseImageSpec_mem
  | Cell_OCIBootArtifactsSource OCIBootArtifactsSource_mem
  | Cell_S3BootArtifactsSource S3BootArtifactsSource_mem
  | Cell_BootArtifactsSource BootArtifactsSource_mem
  | Cell_BootArtifactsSpec BootArtifactsSpec_mem
  | Cell_LibvirtClusterSpec LibvirtClusterSpec_mem
  | Cell_LibvirtClusterStatus LibvirtClusterStatus_mem
  | Cell_LibvirtCluster "'x LibvirtCluster_mem"
  | Cell_LibvirtClusterList "'x LibvirtClusterList_mem"
  | Cell_lib 'x

definition k_string :: "('x cell, string) kind" where
  "k_string = (Cell_string, \<lambda>c. case c of Cell_string v \<Rightarrow> Some v | _ \<Rightarrow> None)"

definition k_strings :: "('x cell, string list) kind" where
  "k_strings = (Cell_strings, \<lambda>c. case c of Cell_strings v \<Rightarrow> Some v | _ \<Rightarrow> None)"

definition k_map :: "('x cell, (string, string) fmap) kind" where
  "k_map = (Cell_map, \<lambda>c. case c of Cell_map v \<Rightarrow> Some v | _ \<Rightarrow> None)"

definition k_MachineAddress_slice :: "('x cell, MachineAddress list) kind" where
  "k_MachineAddress_slice = (Cell_MachineAddress_slice, \<lambda>c. case c of Cell_MachineAddress_slice v \<Rightarrow> Some v | _ \<Rightarrow> None)"

definition k_Condition_slice :: "('x cell, 'x list) kind" where
  "k_Condition_slice = (Cell_Condition_slice, \<lambda>c. case c of Cell_Condition_slice v \<Rightarrow> Some v | _ \<Rightarrow> None)"

definition k_AdditionalDiskSpec_slice :: "('x cell, 'x AdditionalDiskSpec_mem list) kind" where
  "k_AdditionalDiskSpec_slice = (Cell_AdditionalDiskSpec_slice, \<lambda>c. case c of Cell_AdditionalDiskSpec_slice v \<Rightarrow> Some v | _ \<Rightarrow> None)"

definition k_LibvirtMachine_slice :: "('x cell, 'x LibvirtMachine_mem list) kind" where
  "k_LibvirtMachine_slice = (Cell_LibvirtMachine_slice, \<lambda>c. case c of Cell_LibvirtMachine_slice v \<Rightarrow> Some v | _ \<Rightarrow> None)"

definition k_LibvirtHost_slice :: "('x cell, 'x LibvirtHost_mem list) kind" where
  "k_LibvirtHost_slice = (Cell_LibvirtHost_slice, \<lambda>c. case c of Cell_LibvirtHost_slice v \<Rightarrow> Some v | _ \<Rightarrow> None)"

definition k_LibvirtCluster_slice :: "('x cell, 'x LibvirtCluster_mem list) kind" where
  "k_LibvirtCluster_slice = (Cell_LibvirtCluster_slice, \<lambda>c. case c of Cell_LibvirtCluster_slice v \<Rightarrow> Some v | _ \<Rightarrow> None)"

definition k_BootArtifactsSecretReference :: "('x cell, SecretReference) kind" where
  "k_BootArtifactsSecretReference = (Cell_BootArtifactsSecretReference, \<lambda>c. case c of Cell_BootArtifactsSecretReference v \<Rightarrow> Some v | _ \<Rightarrow> None)"

definition k_SecretReference :: "('x cell, SecretReference) kind" where
  "k_SecretReference = (Cell_SecretReference, \<lambda>c. case c of Cell_SecretReference v \<Rightarrow> Some v | _ \<Rightarrow> None)"

definition k_DomainSpec :: "('x cell, DomainSpec) kind" where
  "k_DomainSpec = (Cell_DomainSpec, \<lambda>c. case c of Cell_DomainSpec v \<Rightarrow> Some v | _ \<Rightarrow> None)"

definition k_HTTPSBootArtifactsSource :: "('x cell, HTTPSBootArtifactsSource) kind" where
  "k_HTTPSBootArtifactsSource = (Cell_HTTPSBootArtifactsSource, \<lambda>c. case c of Cell_HTTPSBootArtifactsSource v \<Rightarrow> Some v | _ \<Rightarrow> None)"

definition k_HostCapacity :: "('x cell, HostCapacity) kind" where
  "k_HostCapacity = (Cell_HostCapacity, \<lambda>c. case c of Cell_HostCapacity v \<Rightarrow> Some v | _ \<Rightarrow> None)"

definition k_ReservedResources :: "('x cell, ReservedResources) kind" where
  "k_ReservedResources = (Cell_ReservedResources, \<lambda>c. case c of Cell_ReservedResources v \<Rightarrow> Some v | _ \<Rightarrow> None)"

definition k_AdditionalDiskSpec :: "('x cell, 'x AdditionalDiskSpec_mem) kind" where
  "k_AdditionalDiskSpec = (Cell_AdditionalDiskSpec, \<lambda>c. case c of Cell_AdditionalDiskSpec v \<Rightarrow> Some v | _ \<Rightarrow> None)"

definition k_RootDiskSpec :: "('x cell, 'x RootDiskSpec_mem) kind" where
  "k_RootDiskSpec = (Cell_RootDiskSpec, \<lambda>c. case c of Cell_RootDiskSpec v \<Rightarrow> Some v | _ \<Rightarrow> None)"

definition k_DNSSpec :: "('x cell, DNSSpec_mem) kind" where
  "k_DNSSpec = (Cell_DNSSpec, \<lambda>c. case c of Cell_DNSSpec v \<Rightarrow> Some v | _ \<Rightarrow> None)"

definition k_NetworkSpec :: "('x cell, NetworkSpec_mem) kind" where
  "k_NetworkSpec = (Cell_NetworkSpec, \<lambda>c. case c of Cell_NetworkSpec v \<Rightarrow> Some v | _ \<Rightarrow> None)"

definition k_ManagedArtifacts :: "('x cell, ManagedArtifacts_mem) kind" where
  "k_ManagedArtifacts = (Cell_ManagedArtifacts, \<lambda>c. case c of Cell_ManagedArtifacts v \<Rightarrow> Some v | _ \<Rightarrow> None)"

definition k_LibvirtMachineSpec :: "('x cell, 'x LibvirtMachineSpec_mem) kind" where
  "k_LibvirtMachineSpec = (Cell_LibvirtMachineSpec, \<lambda>c. case c of Cell_LibvirtMachineSpec v \<Rightarrow> Some v | _ \<Rightarrow> None)"

definition k_LibvirtMachineStatus :: "('x cell, LibvirtMachineStatus_mem) kind" where
  "k_LibvirtMachineStatus = (Cell_LibvirtMachineStatus, \<lambda>c. case c of Cell_LibvirtMachineStatus v \<Rightarrow> Some v | _ \<Rightarrow> None)"

definition k_LibvirtMachine :: "('x cell, 'x LibvirtMachine_mem) kind" where
  "k_LibvirtMachine = (Cell_LibvirtMachine, \<lambda>c. case c of Cell_LibvirtMachine v \<Rightarrow> Some v | _ \<Rightarrow> None)"

definition k_LibvirtMachineList :: "('x cell, 'x LibvirtMachineList_mem) kind" where
  "k_LibvirtMachineList = (Cell_LibvirtMachineList, \<lambda>c. case c of Cell_LibvirtMachineList v \<Rightarrow> Some v | _ \<Rightarrow> None)"

definition k_LibvirtHostSpec :: "('x cell, LibvirtHostSpec_mem) kind" where
  "k_LibvirtHostSpec = (Cell_LibvirtHostSpec, \<lambda>c. case c of Cell_LibvirtHostSpec v \<Rightarrow> Some v | _ \<Rightarrow> None)"

definition k_LibvirtHostStatus :: "('x cell, LibvirtHostStatus_mem) kind" where
  "k_LibvirtHostStatus = (Cell_LibvirtHostStatus, \<lambda>c. case c of Cell_LibvirtHostStatus v \<Rightarrow> Some v | _ \<Rightarrow> None)"

definition k_LibvirtHost :: "('x cell, 'x LibvirtHost_mem) kind" where
  "k_LibvirtHost = (Cell_LibvirtHost, \<lambda>c. case c of Cell_LibvirtHost v \<Rightarrow> Some v | _ \<Rightarrow> None)"

definition k_LibvirtHostList :: "('x cell, 'x LibvirtHostList_mem) kind" where
  "k_LibvirtHostList = (Cell_LibvirtHostList, \<lambda>c. case c of Cell_LibvirtHostList v \<Rightarrow> Some v | _ \<Rightarrow> None)"

definition k_HTTPSBaseImageSource :: "('x cell, HTTPSBaseImageSource_mem) kind" where
  "k_HTTPSBaseImageSource = (Cell_HTTPSBaseImageSource, \<lambda>c. case c of Cell_HTTPSBaseImageSource v \<Rightarrow> Some v | _ \<Rightarrow> None)"

definition k_OCIBaseImageSource :: "('x cell, OCIBaseImageSource_mem) kind" where
  "k_OCIBaseImageSource = (Cell_OCIBaseImageSource, \<lambda>c. case c of Cell_OCIBaseImageSource v \<Rightarrow> Some v | _ \<Rightarrow> None)"

definition k_S3BaseImageSource :: "('x cell, S3BaseImageSource_mem) kind" where
  "k_S3BaseImageSource = (Cell_S3BaseImageSource, \<lambda>c. case c of Cell_S3BaseImageSource v \<Rightarrow> Some v | _ \<Rightarrow> None)"

definition k_BaseImageSource :: "('x cell, BaseImageSource_mem) kind" where
  "k_BaseImageSource = (Cell_BaseImageSource, \<lambda>c. case c of Cell_BaseImageSource v \<Rightarrow> Some v | _ \<Rightarrow> None)"

definition k_BaseImageSpec :: "('x cell, BaseImageSpec_mem) kind" where
  "k_BaseImageSpec = (Cell_BaseImageSpec, \<lambda>c. case c of Cell_BaseImageSpec v \<Rightarrow> Some v | _ \<Rightarrow> None)"

definition k_OCIBootArtifactsSource :: "('x cell, OCIBootArtifactsSource_mem) kind" where
  "k_OCIBootArtifactsSource = (Cell_OCIBootArtifactsSource, \<lambda>c. case c of Cell_OCIBootArtifactsSource v \<Rightarrow> Some v | _ \<Rightarrow> None)"

definition k_S3BootArtifactsSource :: "('x cell, S3BootArtifactsSource_mem) kind" where
  "k_S3BootArtifactsSource = (Cell_S3BootArtifactsSource, \<lambda>c. case c of Cell_S3BootArtifactsSource v \<Rightarrow> Some v | _ \<Rightarrow> None)"

definition k_BootArtifactsSource :: "('x cell, BootArtifactsSource_mem) kind" where
  "k_BootArtifactsSource = (Cell_BootArtifactsSource, \<lambda>c. case c of Cell_BootArtifactsSource v \<Rightarrow> Some v | _ \<Rightarrow> None)"

definition k_BootArtifactsSpec :: "('x cell, BootArtifactsSpec_mem) kind" where
  "k_BootArtifactsSpec = (Cell_BootArtifactsSpec, \<lambda>c. case c of Cell_BootArtifactsSpec v \<Rightarrow> Some v | _ \<Rightarrow> None)"

definition k_LibvirtClusterSpec :: "('x cell, LibvirtClusterSpec_mem) kind" where
  "k_LibvirtClusterSpec = (Cell_LibvirtClusterSpec, \<lambda>c. case c of Cell_LibvirtClusterSpec v \<Rightarrow> Some v | _ \<Rightarrow> None)"

definition k_LibvirtClusterStatus :: "('x cell, LibvirtClusterStatus_mem) kind" where
  "k_LibvirtClusterStatus = (Cell_LibvirtClusterStatus, \<lambda>c. case c of Cell_LibvirtClusterStatus v \<Rightarrow> Some v | _ \<Rightarrow> None)"

definition k_LibvirtCluster :: "('x cell, 'x LibvirtCluster_mem) kind" where
  "k_LibvirtCluster = (Cell_LibvirtCluster, \<lambda>c. case c of Cell_LibvirtCluster v \<Rightarrow> Some v | _ \<Rightarrow> None)"

definition k_LibvirtClusterList :: "('x cell, 'x LibvirtClusterList_mem) kind" where
  "k_LibvirtClusterList = (Cell_LibvirtClusterList, \<lambda>c. case c of Cell_LibvirtClusterList v \<Rightarrow> Some v | _ \<Rightarrow> None)"

lemmas kind_defs =
  k_string_def k_strings_def k_map_def k_MachineAddress_slice_def k_Condition_slice_def
  k_AdditionalDiskSpec_slice_def k_LibvirtMachine_slice_def k_LibvirtHost_slice_def
  k_LibvirtCluster_slice_def k_BootArtifactsSecretReference_def k_SecretReference_def
  k_DomainSpec_def k_HTTPSBootArtifactsSource_def k_HostCapacity_def k_ReservedResources_def
  k_AdditionalDiskSpec_def k_RootDiskSpec_def k_DNSSpec_def k_NetworkSpec_def
  k_ManagedArtifacts_def k_LibvirtMachineSpec_def k_LibvirtMachineStatus_def k_LibvirtMachine_def
  k_LibvirtMachineList_def k_LibvirtHostSpec_def k_LibvirtHostStatus_def k_LibvirtHost_def
  k_LibvirtHostList_def k_HTTPSBaseImageSource_def k_OCIBaseImageSource_def
  k_S3BaseImageSource_def k_BaseImageSource_def k_BaseImageSpec_def k_OCIBootArtifactsSource_def
  k_S3BootArtifactsSource_def k_BootArtifactsSource_def k_BootArtifactsSpec_def
  k_LibvirtClusterSpec_def k_LibvirtClusterStatus_def k_LibvirtCluster_def
  k_LibvirtClusterList_def

lemma kinds:
  "kind_ok k_string" "kind_ok k_strings" "kind_ok k_map" "kind_ok k_MachineAddress_slice"
  "kind_ok k_Condition_slice" "kind_ok k_AdditionalDiskSpec_slice"
  "kind_ok k_LibvirtMachine_slice" "kind_ok k_LibvirtHost_slice" "kind_ok k_LibvirtCluster_slice"
  "kind_ok k_BootArtifactsSecretReference" "kind_ok k_SecretReference" "kind_ok k_DomainSpec"
  "kind_ok k_HTTPSBootArtifactsSource" "kind_ok k_HostCapacity" "kind_ok k_ReservedResources"
  "kind_ok k_AdditionalDiskSpec" "kind_ok k_RootDiskSpec" "kind_ok k_DNSSpec"
  "kind_ok k_NetworkSpec" "kind_ok k_ManagedArtifacts" "kind_ok k_LibvirtMachineSpec"
  "kind_ok k_LibvirtMachineStatus" "kind_ok k_LibvirtMachine" "kind_ok k_LibvirtMachineList"
  "kind_ok k_LibvirtHostSpec" "kind_ok k_LibvirtHostStatus" "kind_ok k_LibvirtHost"
  "kind_ok k_LibvirtHostList" "kind_ok k_HTTPSBaseImageSource" "kind_ok k_OCIBaseImageSource"
  "kind_ok k_S3BaseImageSource" "kind_ok k_BaseImageSource" "kind_ok k_BaseImageSpec"
  "kind_ok k_OCIBootArtifactsSource" "kind_ok k_S3BootArtifactsSource"
  "kind_ok k_BootArtifactsSource" "kind_ok k_BootArtifactsSpec" "kind_ok k_LibvirtClusterSpec"
  "kind_ok k_LibvirtClusterStatus" "kind_ok k_LibvirtCluster" "kind_ok k_LibvirtClusterList"
  by (simp_all add: kind_ok_def kind_defs)

end
