(* ===== verification/Deep_Copy.thy ===== *)
theory Deep_Copy
  imports Api_Memory
begin

text \<open>
  The generated deep copies of \<^verbatim>\<open>api/v1alpha1/zz_generated.deepcopy.go\<close>, one
  \<^verbatim>\<open>DeepCopyInto\<close> and one \<^verbatim>\<open>DeepCopy\<close> per structure of the API. \<open>T_DeepCopyInto\<close> maps
  what the receiver points to to what \<^verbatim>\<open>*out\<close> holds afterwards; \<open>T_DeepCopy\<close> maps
  the receiver, a pointer that may be nil, to the pointer returned. The deep copies of the
  Kubernetes libraries are parameters that are relied on to be deep copies themselves.

  The controllers get their objects from a cache that all of them share, and change the copies
  they make of them; that is sound because a write through a copy cannot reach the cache.
\<close>

record 'x copy_lib =
  Quantity_DeepCopy :: "'x \<Rightarrow> ('x cell list, 'x) state"
  ObjectMeta_DeepCopyInto :: "'x \<Rightarrow> ('x cell list, 'x) state"
  ListMeta_DeepCopyInto :: "'x \<Rightarrow> ('x cell list, 'x) state"
  Condition_DeepCopyInto :: "'x \<Rightarrow> ('x cell list, 'x) state"
  Time_DeepCopy :: "addr option \<Rightarrow> ('x cell list, addr option) state"
  view_lib :: "('x cell, 'x) view"
  view_time :: "('x cell, addr option) view"

definition lib_copies :: "'x copy_lib \<Rightarrow> bool" where
  "lib_copies lib \<longleftrightarrow>
     copier (Quantity_DeepCopy lib) (view_lib lib) \<and> copier (ObjectMeta_DeepCopyInto lib) (view_lib lib) \<and>
     copier (ListMeta_DeepCopyInto lib) (view_lib lib) \<and> copier (Condition_DeepCopyInto lib) (view_lib lib) \<and>
     copier (Time_DeepCopy lib) (view_time lib)"


section \<open>The copies\<close>

definition BootArtifactsSecretReference_DeepCopyInto :: "SecretReference \<Rightarrow> ('x cell list, SecretReference) state" where
  "BootArtifactsSecretReference_DeepCopyInto x = State_Monad.return x"

definition BootArtifactsSecretReference_DeepCopy :: "addr option \<Rightarrow> ('x cell list, addr option) state" where
  "BootArtifactsSecretReference_DeepCopy = copy_ptr k_BootArtifactsSecretReference BootArtifactsSecretReference_DeepCopyInto"

definition SecretReference_DeepCopyInto :: "SecretReference \<Rightarrow> ('x cell list, SecretReference) state" where
  "SecretReference_DeepCopyInto x = State_Monad.return x"

definition SecretReference_DeepCopy :: "addr option \<Rightarrow> ('x cell list, addr option) state" where
  "SecretReference_DeepCopy = copy_ptr k_SecretReference SecretReference_DeepCopyInto"

definition DomainSpec_DeepCopyInto :: "DomainSpec \<Rightarrow> ('x cell list, DomainSpec) state" where
  "DomainSpec_DeepCopyInto x = State_Monad.return x"

definition DomainSpec_DeepCopy :: "addr option \<Rightarrow> ('x cell list, addr option) state" where
  "DomainSpec_DeepCopy = copy_ptr k_DomainSpec DomainSpec_DeepCopyInto"

definition HTTPSBootArtifactsSource_DeepCopyInto :: "HTTPSBootArtifactsSource \<Rightarrow> ('x cell list, HTTPSBootArtifactsSource) state" where
  "HTTPSBootArtifactsSource_DeepCopyInto x = State_Monad.return x"

definition HTTPSBootArtifactsSource_DeepCopy :: "addr option \<Rightarrow> ('x cell list, addr option) state" where
  "HTTPSBootArtifactsSource_DeepCopy = copy_ptr k_HTTPSBootArtifactsSource HTTPSBootArtifactsSource_DeepCopyInto"

definition HostCapacity_DeepCopyInto :: "HostCapacity \<Rightarrow> ('x cell list, HostCapacity) state" where
  "HostCapacity_DeepCopyInto x = State_Monad.return x"

definition HostCapacity_DeepCopy :: "addr option \<Rightarrow> ('x cell list, addr option) state" where
  "HostCapacity_DeepCopy = copy_ptr k_HostCapacity HostCapacity_DeepCopyInto"

definition ReservedResources_DeepCopyInto :: "ReservedResources \<Rightarrow> ('x cell list, ReservedResources) state" where
  "ReservedResources_DeepCopyInto x = State_Monad.return x"

definition ReservedResources_DeepCopy :: "addr option \<Rightarrow> ('x cell list, addr option) state" where
  "ReservedResources_DeepCopy = copy_ptr k_ReservedResources ReservedResources_DeepCopyInto"

definition AdditionalDiskSpec_DeepCopyInto :: "'x copy_lib \<Rightarrow> 'x AdditionalDiskSpec_mem \<Rightarrow> ('x cell list, 'x AdditionalDiskSpec_mem) state" where
  "AdditionalDiskSpec_DeepCopyInto lib x = do {
     vSize \<leftarrow> Quantity_DeepCopy lib (m_ad_Size x);
     State_Monad.return (x\<lparr>m_ad_Size := vSize\<rparr>) }"

definition AdditionalDiskSpec_DeepCopy :: "'x copy_lib \<Rightarrow> addr option \<Rightarrow> ('x cell list, addr option) state" where
  "AdditionalDiskSpec_DeepCopy lib = copy_ptr k_AdditionalDiskSpec (AdditionalDiskSpec_DeepCopyInto lib)"

definition RootDiskSpec_DeepCopyInto :: "'x copy_lib \<Rightarrow> 'x RootDiskSpec_mem \<Rightarrow> ('x cell list, 'x RootDiskSpec_mem) state" where
  "RootDiskSpec_DeepCopyInto lib x = do {
     vSize \<leftarrow> Quantity_DeepCopy lib (m_rd_Size x);
     State_Monad.return (x\<lparr>m_rd_Size := vSize\<rparr>) }"

definition RootDiskSpec_DeepCopy :: "'x copy_lib \<Rightarrow> addr option \<Rightarrow> ('x cell list, addr option) state" where
  "RootDiskSpec_DeepCopy lib = copy_ptr k_RootDiskSpec (RootDiskSpec_DeepCopyInto lib)"

definition DNSSpec_DeepCopyInto :: "DNSSpec_mem \<Rightarrow> ('x cell list, DNSSpec_mem) state" where
  "DNSSpec_DeepCopyInto x = do {
     vNameservers \<leftarrow> copy_ptr k_strings State_Monad.return (m_dns_Nameservers x);
     vSearchDomains \<leftarrow> copy_ptr k_strings State_Monad.return (m_dns_SearchDomains x);
     State_Monad.return (x\<lparr>m_dns_Nameservers := vNameservers,
       m_dns_SearchDomains := vSearchDomains\<rparr>) }"

definition DNSSpec_DeepCopy :: "addr option \<Rightarrow> ('x cell list, addr option) state" where
  "DNSSpec_DeepCopy = copy_ptr k_DNSSpec DNSSpec_DeepCopyInto"

definition NetworkSpec_DeepCopyInto :: "NetworkSpec_mem \<Rightarrow> ('x cell list, NetworkSpec_mem) state" where
  "NetworkSpec_DeepCopyInto x = do {
     vAddresses \<leftarrow> copy_ptr k_strings State_Monad.return (m_net_Addresses x);
     vDNS \<leftarrow> copy_ptr k_DNSSpec DNSSpec_DeepCopyInto (m_net_DNS x);
     State_Monad.return (x\<lparr>m_net_Addresses := vAddresses, m_net_DNS := vDNS\<rparr>) }"

definition NetworkSpec_DeepCopy :: "addr option \<Rightarrow> ('x cell list, addr option) state" where
  "NetworkSpec_DeepCopy = copy_ptr k_NetworkSpec NetworkSpec_DeepCopyInto"

definition ManagedArtifacts_DeepCopyInto :: "ManagedArtifacts_mem \<Rightarrow> ('x cell list, ManagedArtifacts_mem) state" where
  "ManagedArtifacts_DeepCopyInto x = do {
     vAdditionalDiskVolumes \<leftarrow> copy_ptr k_strings State_Monad.return (m_ma_AdditionalDiskVolumes x);
     State_Monad.return (x\<lparr>m_ma_AdditionalDiskVolumes := vAdditionalDiskVolumes\<rparr>) }"

definition ManagedArtifacts_DeepCopy :: "addr option \<Rightarrow> ('x cell list, addr option) state" where
  "ManagedArtifacts_DeepCopy = copy_ptr k_ManagedArtifacts ManagedArtifacts_DeepCopyInto"

definition LibvirtMachineSpec_DeepCopyInto :: "'x copy_lib \<Rightarrow> 'x LibvirtMachineSpec_mem \<Rightarrow> ('x cell list, 'x LibvirtMachineSpec_mem) state" where
  "LibvirtMachineSpec_DeepCopyInto lib x = do {
     vRootDisk \<leftarrow> RootDiskSpec_DeepCopyInto lib (m_ms_RootDisk x);
     vAdditionalDisks \<leftarrow> copy_ptr k_AdditionalDiskSpec_slice (copy_elems (AdditionalDiskSpec_DeepCopyInto lib)) (m_ms_AdditionalDisks x);
     vNetwork \<leftarrow> NetworkSpec_DeepCopyInto (m_ms_Network x);
     vProviderID \<leftarrow> copy_ptr k_string State_Monad.return (m_ms_ProviderID x);
     vNodeLabels \<leftarrow> copy_ptr k_map copy_map (m_ms_NodeLabels x);
     vNodeAnnotations \<leftarrow> copy_ptr k_map copy_map (m_ms_NodeAnnotations x);
     State_Monad.return (x\<lparr>m_ms_RootDisk := vRootDisk,
       m_ms_AdditionalDisks := vAdditionalDisks, m_ms_Network := vNetwork,
       m_ms_ProviderID := vProviderID, m_ms_NodeLabels := vNodeLabels,
       m_ms_NodeAnnotations := vNodeAnnotations\<rparr>) }"

definition LibvirtMachineSpec_DeepCopy :: "'x copy_lib \<Rightarrow> addr option \<Rightarrow> ('x cell list, addr option) state" where
  "LibvirtMachineSpec_DeepCopy lib = copy_ptr k_LibvirtMachineSpec (LibvirtMachineSpec_DeepCopyInto lib)"

definition LibvirtMachineStatus_DeepCopyInto :: "'x copy_lib \<Rightarrow> LibvirtMachineStatus_mem \<Rightarrow> ('x cell list, LibvirtMachineStatus_mem) state" where
  "LibvirtMachineStatus_DeepCopyInto lib x = do {
     vAddresses \<leftarrow> copy_ptr k_MachineAddress_slice State_Monad.return (m_st_Addresses x);
     vManagedArtifacts \<leftarrow> copy_ptr k_ManagedArtifacts ManagedArtifacts_DeepCopyInto (m_st_ManagedArtifacts x);
     vFailureReason \<leftarrow> copy_ptr k_string State_Monad.return (m_st_FailureReason x);
     vFailureMessage \<leftarrow> copy_ptr k_string State_Monad.return (m_st_FailureMessage x);
     vConditions \<leftarrow> copy_ptr k_Condition_slice (copy_elems (Condition_DeepCopyInto lib)) (m_st_Conditions x);
     State_Monad.return (x\<lparr>m_st_Addresses := vAddresses,
       m_st_ManagedArtifacts := vManagedArtifacts, m_st_FailureReason := vFailureReason,
       m_st_FailureMessage := vFailureMessage, m_st_Conditions := vConditions\<rparr>) }"

definition LibvirtMachineStatus_DeepCopy :: "'x copy_lib \<Rightarrow> addr option \<Rightarrow> ('x cell list, addr option) state" where
  "LibvirtMachineStatus_DeepCopy lib = copy_ptr k_LibvirtMachineStatus (LibvirtMachineStatus_DeepCopyInto lib)"

definition LibvirtMachine_DeepCopyInto :: "'x copy_lib \<Rightarrow> 'x LibvirtMachine_mem \<Rightarrow> ('x cell list, 'x LibvirtMachine_mem) state" where
  "LibvirtMachine_DeepCopyInto lib x = do {
     vObjectMeta \<leftarrow> ObjectMeta_DeepCopyInto lib (m_lm_ObjectMeta x);
     vSpec \<leftarrow> LibvirtMachineSpec_DeepCopyInto lib (m_lm_Spec x);
     vStatus \<leftarrow> LibvirtMachineStatus_DeepCopyInto lib (m_lm_Status x);
     State_Monad.return (x\<lparr>m_lm_ObjectMeta := vObjectMeta, m_lm_Spec := vSpec,
       m_lm_Status := vStatus\<rparr>) }"

definition LibvirtMachine_DeepCopy :: "'x copy_lib \<Rightarrow> addr option \<Rightarrow> ('x cell list, addr option) state" where
  "LibvirtMachine_DeepCopy lib = copy_ptr k_LibvirtMachine (LibvirtMachine_DeepCopyInto lib)"

definition LibvirtMachineList_DeepCopyInto :: "'x copy_lib \<Rightarrow> 'x LibvirtMachineList_mem \<Rightarrow> ('x cell list, 'x LibvirtMachineList_mem) state" where
  "LibvirtMachineList_DeepCopyInto lib x = do {
     vListMeta \<leftarrow> ListMeta_DeepCopyInto lib (m_lml_ListMeta x);
     vItems \<leftarrow> copy_ptr k_LibvirtMachine_slice (copy_elems (LibvirtMachine_DeepCopyInto lib)) (m_lml_Items x);
     State_Monad.return (x\<lparr>m_lml_ListMeta := vListMeta, m_lml_Items := vItems\<rparr>) }"

definition LibvirtMachineList_DeepCopy :: "'x copy_lib \<Rightarrow> addr option \<Rightarrow> ('x cell list, addr option) state" where
  "LibvirtMachineList_DeepCopy lib = copy_ptr k_LibvirtMachineList (LibvirtMachineList_DeepCopyInto lib)"

definition LibvirtHostSpec_DeepCopyInto :: "LibvirtHostSpec_mem \<Rightarrow> ('x cell list, LibvirtHostSpec_mem) state" where
  "LibvirtHostSpec_DeepCopyInto x = do {
     vSecretRef \<leftarrow> copy_ptr k_SecretReference State_Monad.return (m_hs_SecretRef x);
     vReservedResources \<leftarrow> copy_ptr k_ReservedResources State_Monad.return (m_hs_ReservedResources x);
     State_Monad.return (x\<lparr>m_hs_SecretRef := vSecretRef,
       m_hs_ReservedResources := vReservedResources\<rparr>) }"

definition LibvirtHostSpec_DeepCopy :: "addr option \<Rightarrow> ('x cell list, addr option) state" where
  "LibvirtHostSpec_DeepCopy = copy_ptr k_LibvirtHostSpec LibvirtHostSpec_DeepCopyInto"

definition LibvirtHostStatus_DeepCopyInto :: "'x copy_lib \<Rightarrow> LibvirtHostStatus_mem \<Rightarrow> ('x cell list, LibvirtHostStatus_mem) state" where
  "LibvirtHostStatus_DeepCopyInto lib x = do {
     vCapacity \<leftarrow> copy_ptr k_HostCapacity State_Monad.return (m_hst_Capacity x);
     vLastChecked \<leftarrow> Time_DeepCopy lib (m_hst_LastChecked x);
     vConditions \<leftarrow> copy_ptr k_Condition_slice (copy_elems (Condition_DeepCopyInto lib)) (m_hst_Conditions x);
     State_Monad.return (x\<lparr>m_hst_Capacity := vCapacity,
       m_hst_LastChecked := vLastChecked, m_hst_Conditions := vConditions\<rparr>) }"

definition LibvirtHostStatus_DeepCopy :: "'x copy_lib \<Rightarrow> addr option \<Rightarrow> ('x cell list, addr option) state" where
  "LibvirtHostStatus_DeepCopy lib = copy_ptr k_LibvirtHostStatus (LibvirtHostStatus_DeepCopyInto lib)"

definition LibvirtHost_DeepCopyInto :: "'x copy_lib \<Rightarrow> 'x LibvirtHost_mem \<Rightarrow> ('x cell list, 'x LibvirtHost_mem) state" where
  "LibvirtHost_DeepCopyInto lib x = do {
     vObjectMeta \<leftarrow> ObjectMeta_DeepCopyInto lib (m_lh_ObjectMeta x);
     vSpec \<leftarrow> LibvirtHostSpec_DeepCopyInto (m_lh_Spec x);
     vStatus \<leftarrow> LibvirtHostStatus_DeepCopyInto lib (m_lh_Status x);
     State_Monad.return (x\<lparr>m_lh_ObjectMeta := vObjectMeta, m_lh_Spec := vSpec,
       m_lh_Status := vStatus\<rparr>) }"

definition LibvirtHost_DeepCopy :: "'x copy_lib \<Rightarrow> addr option \<Rightarrow> ('x cell list, addr option) state" where
  "LibvirtHost_DeepCopy lib = copy_ptr k_LibvirtHost (LibvirtHost_DeepCopyInto lib)"

definition LibvirtHostList_DeepCopyInto :: "'x copy_lib \<Rightarrow> 'x LibvirtHostList_mem \<Rightarrow> ('x cell list, 'x LibvirtHostList_mem) state" where
  "LibvirtHostList_DeepCopyInto lib x = do {
     vListMeta \<leftarrow> ListMeta_DeepCopyInto lib (m_lhl_ListMeta x);
     vItems \<leftarrow> copy_ptr k_LibvirtHost_slice (copy_elems (LibvirtHost_DeepCopyInto lib)) (m_lhl_Items x);
     State_Monad.return (x\<lparr>m_lhl_ListMeta := vListMeta, m_lhl_Items := vItems\<rparr>) }"

definition LibvirtHostList_DeepCopy :: "'x copy_lib \<Rightarrow> addr option \<Rightarrow> ('x cell list, addr option) state" where
  "LibvirtHostList_DeepCopy lib = copy_ptr k_LibvirtHostList (LibvirtHostList_DeepCopyInto lib)"

definition HTTPSBaseImageSource_DeepCopyInto :: "HTTPSBaseImageSource_mem \<Rightarrow> ('x cell list, HTTPSBaseImageSource_mem) state" where
  "HTTPSBaseImageSource_DeepCopyInto x = do {
     vCredentialsSecretRef \<leftarrow> copy_ptr k_BootArtifactsSecretReference State_Monad.return (m_hb_CredentialsSecretRef x);
     State_Monad.return (x\<lparr>m_hb_CredentialsSecretRef := vCredentialsSecretRef\<rparr>) }"

definition HTTPSBaseImageSource_DeepCopy :: "addr option \<Rightarrow> ('x cell list, addr option) state" where
  "HTTPSBaseImageSource_DeepCopy = copy_ptr k_HTTPSBaseImageSource HTTPSBaseImageSource_DeepCopyInto"

definition OCIBaseImageSource_DeepCopyInto :: "OCIBaseImageSource_mem \<Rightarrow> ('x cell list, OCIBaseImageSource_mem) state" where
  "OCIBaseImageSource_DeepCopyInto x = do {
     vCredentialsSecretRef \<leftarrow> copy_ptr k_BootArtifactsSecretReference State_Monad.return (m_ob_CredentialsSecretRef x);
     State_Monad.return (x\<lparr>m_ob_CredentialsSecretRef := vCredentialsSecretRef\<rparr>) }"

definition OCIBaseImageSource_DeepCopy :: "addr option \<Rightarrow> ('x cell list, addr option) state" where
  "OCIBaseImageSource_DeepCopy = copy_ptr k_OCIBaseImageSource OCIBaseImageSource_DeepCopyInto"

definition S3BaseImageSource_DeepCopyInto :: "S3BaseImageSource_mem \<Rightarrow> ('x cell list, S3BaseImageSource_mem) state" where
  "S3BaseImageSource_DeepCopyInto x = do {
     vCredentialsSecretRef \<leftarrow> copy_ptr k_BootArtifactsSecretReference State_Monad.return (m_sb_CredentialsSecretRef x);
     State_Monad.return (x\<lparr>m_sb_CredentialsSecretRef := vCredentialsSecretRef\<rparr>) }"

definition S3BaseImageSource_DeepCopy :: "addr option \<Rightarrow> ('x cell list, addr option) state" where
  "S3BaseImageSource_DeepCopy = copy_ptr k_S3BaseImageSource S3BaseImageSource_DeepCopyInto"

definition BaseImageSource_DeepCopyInto :: "BaseImageSource_mem \<Rightarrow> ('x cell list, BaseImageSource_mem) state" where
  "BaseImageSource_DeepCopyInto x = do {
     vHTTPS \<leftarrow> copy_ptr k_HTTPSBaseImageSource HTTPSBaseImageSource_DeepCopyInto (m_bis_HTTPS x);
     vOCI \<leftarrow> copy_ptr k_OCIBaseImageSource OCIBaseImageSource_DeepCopyInto (m_bis_OCI x);
     vS3 \<leftarrow> copy_ptr k_S3BaseImageSource S3BaseImageSource_DeepCopyInto (m_bis_S3 x);
     State_Monad.return (x\<lparr>m_bis_HTTPS := vHTTPS, m_bis_OCI := vOCI,
       m_bis_S3 := vS3\<rparr>) }"

definition BaseImageSource_DeepCopy :: "addr option \<Rightarrow> ('x cell list, addr option) state" where
  "BaseImageSource_DeepCopy = copy_ptr k_BaseImageSource BaseImageSource_DeepCopyInto"

definition BaseImageSpec_DeepCopyInto :: "BaseImageSpec_mem \<Rightarrow> ('x cell list, BaseImageSpec_mem) state" where
  "BaseImageSpec_DeepCopyInto x = do {
     vSource \<leftarrow> BaseImageSource_DeepCopyInto (m_bi_Source x);
     State_Monad.return (x\<lparr>m_bi_Source := vSource\<rparr>) }"

definition BaseImageSpec_DeepCopy :: "addr option \<Rightarrow> ('x cell list, addr option) state" where
  "BaseImageSpec_DeepCopy = copy_ptr k_BaseImageSpec BaseImageSpec_DeepCopyInto"

definition OCIBootArtifactsSource_DeepCopyInto :: "OCIBootArtifactsSource_mem \<Rightarrow> ('x cell list, OCIBootArtifactsSource_mem) state" where
  "OCIBootArtifactsSource_DeepCopyInto x = do {
     vCredentialsSecretRef \<leftarrow> copy_ptr k_BootArtifactsSecretReference State_Monad.return (m_oa_CredentialsSecretRef x);
     State_Monad.return (x\<lparr>m_oa_CredentialsSecretRef := vCredentialsSecretRef\<rparr>) }"

definition OCIBootArtifactsSource_DeepCopy :: "addr option \<Rightarrow> ('x cell list, addr option) state" where
  "OCIBootArtifactsSource_DeepCopy = copy_ptr k_OCIBootArtifactsSource OCIBootArtifactsSource_DeepCopyInto"

definition S3BootArtifactsSource_DeepCopyInto :: "S3BootArtifactsSource_mem \<Rightarrow> ('x cell list, S3BootArtifactsSource_mem) state" where
  "S3BootArtifactsSource_DeepCopyInto x = do {
     vCredentialsSecretRef \<leftarrow> copy_ptr k_BootArtifactsSecretReference State_Monad.return (m_sa_CredentialsSecretRef x);
     State_Monad.return (x\<lparr>m_sa_CredentialsSecretRef := vCredentialsSecretRef\<rparr>) }"

definition S3BootArtifactsSource_DeepCopy :: "addr option \<Rightarrow> ('x cell list, addr option) state" where
  "S3BootArtifactsSource_DeepCopy = copy_ptr k_S3BootArtifactsSource S3BootArtifactsSource_DeepCopyInto"

definition BootArtifactsSource_DeepCopyInto :: "BootArtifactsSource_mem \<Rightarrow> ('x cell list, BootArtifactsSource_mem) state" where
  "BootArtifactsSource_DeepCopyInto x = do {
     vHTTPS \<leftarrow> copy_ptr k_HTTPSBootArtifactsSource State_Monad.return (m_bas_HTTPS x);
     vOCI \<leftarrow> copy_ptr k_OCIBootArtifactsSource OCIBootArtifactsSource_DeepCopyInto (m_bas_OCI x);
     vS3 \<leftarrow> copy_ptr k_S3BootArtifactsSource S3BootArtifactsSource_DeepCopyInto (m_bas_S3 x);
     State_Monad.return (x\<lparr>m_bas_HTTPS := vHTTPS, m_bas_OCI := vOCI,
       m_bas_S3 := vS3\<rparr>) }"

definition BootArtifactsSource_DeepCopy :: "addr option \<Rightarrow> ('x cell list, addr option) state" where
  "BootArtifactsSource_DeepCopy = copy_ptr k_BootArtifactsSource BootArtifactsSource_DeepCopyInto"

definition BootArtifactsSpec_DeepCopyInto :: "BootArtifactsSpec_mem \<Rightarrow> ('x cell list, BootArtifactsSpec_mem) state" where
  "BootArtifactsSpec_DeepCopyInto x = do {
     vSource \<leftarrow> BootArtifactsSource_DeepCopyInto (m_ba_Source x);
     State_Monad.return (x\<lparr>m_ba_Source := vSource\<rparr>) }"

definition BootArtifactsSpec_DeepCopy :: "addr option \<Rightarrow> ('x cell list, addr option) state" where
  "BootArtifactsSpec_DeepCopy = copy_ptr k_BootArtifactsSpec BootArtifactsSpec_DeepCopyInto"

definition LibvirtClusterSpec_DeepCopyInto :: "LibvirtClusterSpec_mem \<Rightarrow> ('x cell list, LibvirtClusterSpec_mem) state" where
  "LibvirtClusterSpec_DeepCopyInto x = do {
     vBootArtifacts \<leftarrow> copy_ptr k_BootArtifactsSpec BootArtifactsSpec_DeepCopyInto (m_cs_BootArtifacts x);
     vBaseImage \<leftarrow> copy_ptr k_BaseImageSpec BaseImageSpec_DeepCopyInto (m_cs_BaseImage x);
     State_Monad.return (x\<lparr>m_cs_BootArtifacts := vBootArtifacts,
       m_cs_BaseImage := vBaseImage\<rparr>) }"

definition LibvirtClusterSpec_DeepCopy :: "addr option \<Rightarrow> ('x cell list, addr option) state" where
  "LibvirtClusterSpec_DeepCopy = copy_ptr k_LibvirtClusterSpec LibvirtClusterSpec_DeepCopyInto"

definition LibvirtClusterStatus_DeepCopyInto :: "'x copy_lib \<Rightarrow> LibvirtClusterStatus_mem \<Rightarrow> ('x cell list, LibvirtClusterStatus_mem) state" where
  "LibvirtClusterStatus_DeepCopyInto lib x = do {
     vConditions \<leftarrow> copy_ptr k_Condition_slice (copy_elems (Condition_DeepCopyInto lib)) (m_cst_Conditions x);
     State_Monad.return (x\<lparr>m_cst_Conditions := vConditions\<rparr>) }"

definition LibvirtClusterStatus_DeepCopy :: "'x copy_lib \<Rightarrow> addr option \<Rightarrow> ('x cell list, addr option) state" where
  "LibvirtClusterStatus_DeepCopy lib = copy_ptr k_LibvirtClusterStatus (LibvirtClusterStatus_DeepCopyInto lib)"

definition LibvirtCluster_DeepCopyInto :: "'x copy_lib \<Rightarrow> 'x LibvirtCluster_mem \<Rightarrow> ('x cell list, 'x LibvirtCluster_mem) state" where
  "LibvirtCluster_DeepCopyInto lib x = do {
     vObjectMeta \<leftarrow> ObjectMeta_DeepCopyInto lib (m_lc_ObjectMeta x);
     vSpec \<leftarrow> LibvirtClusterSpec_DeepCopyInto (m_lc_Spec x);
     vStatus \<leftarrow> LibvirtClusterStatus_DeepCopyInto lib (m_lc_Status x);
     State_Monad.return (x\<lparr>m_lc_ObjectMeta := vObjectMeta, m_lc_Spec := vSpec,
       m_lc_Status := vStatus\<rparr>) }"

definition LibvirtCluster_DeepCopy :: "'x copy_lib \<Rightarrow> addr option \<Rightarrow> ('x cell list, addr option) state" where
  "LibvirtCluster_DeepCopy lib = copy_ptr k_LibvirtCluster (LibvirtCluster_DeepCopyInto lib)"

definition LibvirtClusterList_DeepCopyInto :: "'x copy_lib \<Rightarrow> 'x LibvirtClusterList_mem \<Rightarrow> ('x cell list, 'x LibvirtClusterList_mem) state" where
  "LibvirtClusterList_DeepCopyInto lib x = do {
     vListMeta \<leftarrow> ListMeta_DeepCopyInto lib (m_lcl_ListMeta x);
     vItems \<leftarrow> copy_ptr k_LibvirtCluster_slice (copy_elems (LibvirtCluster_DeepCopyInto lib)) (m_lcl_Items x);
     State_Monad.return (x\<lparr>m_lcl_ListMeta := vListMeta, m_lcl_Items := vItems\<rparr>) }"

definition LibvirtClusterList_DeepCopy :: "'x copy_lib \<Rightarrow> addr option \<Rightarrow> ('x cell list, addr option) state" where
  "LibvirtClusterList_DeepCopy lib = copy_ptr k_LibvirtClusterList (LibvirtClusterList_DeepCopyInto lib)"

definition LibvirtMachine_DeepCopyObject :: "'x copy_lib \<Rightarrow> addr option \<Rightarrow> ('x cell list, addr option) state" where
  "LibvirtMachine_DeepCopyObject lib p = do {
     c \<leftarrow> LibvirtMachine_DeepCopy lib p;
     State_Monad.return (if c \<noteq> None then c else None) }"

definition LibvirtMachineList_DeepCopyObject :: "'x copy_lib \<Rightarrow> addr option \<Rightarrow> ('x cell list, addr option) state" where
  "LibvirtMachineList_DeepCopyObject lib p = do {
     c \<leftarrow> LibvirtMachineList_DeepCopy lib p;
     State_Monad.return (if c \<noteq> None then c else None) }"

definition LibvirtHost_DeepCopyObject :: "'x copy_lib \<Rightarrow> addr option \<Rightarrow> ('x cell list, addr option) state" where
  "LibvirtHost_DeepCopyObject lib p = do {
     c \<leftarrow> LibvirtHost_DeepCopy lib p;
     State_Monad.return (if c \<noteq> None then c else None) }"

definition LibvirtHostList_DeepCopyObject :: "'x copy_lib \<Rightarrow> addr option \<Rightarrow> ('x cell list, addr option) state" where
  "LibvirtHostList_DeepCopyObject lib p = do {
     c \<leftarrow> LibvirtHostList_DeepCopy lib p;
     State_Monad.return (if c \<noteq> None then c else None) }"

definition LibvirtCluster_DeepCopyObject :: "'x copy_lib \<Rightarrow> addr option \<Rightarrow> ('x cell list, addr option) state" where
  "LibvirtCluster_DeepCopyObject lib p = do {
     c \<leftarrow> LibvirtCluster_DeepCopy lib p;
     State_Monad.return (if c \<noteq> None then c else None) }"

definition LibvirtClusterList_DeepCopyObject :: "'x copy_lib \<Rightarrow> addr option \<Rightarrow> ('x cell list, addr option) state" where
  "LibvirtClusterList_DeepCopyObject lib p = do {
     c \<leftarrow> LibvirtClusterList_DeepCopy lib p;
     State_Monad.return (if c \<noteq> None then c else None) }"


section \<open>What the structures show\<close>

definition flat_TypeMeta :: "string \<times> string \<Rightarrow> tree" where
  "flat_TypeMeta x = TNode [TStr (fst x), TStr (snd x)]"

definition flat_APIEndpoint :: "string \<times> int32 \<Rightarrow> tree" where
  "flat_APIEndpoint x = TNode [TStr (fst x), TInt (sint (snd x))]"

definition flat_strings :: "string list \<Rightarrow> tree" where
  "flat_strings xs = TNode (map TStr xs)"

definition flat_MachineAddress_slice :: "MachineAddress list \<Rightarrow> tree" where
  "flat_MachineAddress_slice xs = TNode (map (\<lambda>x. TNode [TStr (fst x), TStr (snd x)]) xs)"

definition flat_SecretReference :: "SecretReference \<Rightarrow> tree" where
  "flat_SecretReference x = TNode [TStr (sref_Name x), TStr (sref_Namespace x)]"

abbreviation "flat_BootArtifactsSecretReference \<equiv> flat_SecretReference"

definition flat_DomainSpec :: "DomainSpec \<Rightarrow> tree" where
  "flat_DomainSpec x =
     TNode [TInt (sint (dom_VCPUs x)), TInt (sint (dom_MemoryMB x)), TStr (dom_Machine x), TStr (dom_Firmware x)]"

definition flat_HTTPSBootArtifactsSource :: "HTTPSBootArtifactsSource \<Rightarrow> tree" where
  "flat_HTTPSBootArtifactsSource x =
     TNode [TStr (ha_KernelURL x), TStr (ha_InitramfsURL x), TStr (ha_KernelSHA256 x), TStr (ha_InitramfsSHA256 x)]"

definition flat_HostCapacity :: "HostCapacity \<Rightarrow> tree" where
  "flat_HostCapacity x =
     TNode [TInt (sint (hc_TotalVCPUs x)), TInt (sint (hc_TotalMemoryMB x)), TInt (sint (hc_AvailableVCPUs x)),
       TInt (sint (hc_AvailableMemoryMB x))]"

definition flat_ReservedResources :: "ReservedResources \<Rightarrow> tree" where
  "flat_ReservedResources x = TNode [TInt (sint (rr_VCPUs x)), TInt (sint (rr_MemoryMB x))]"

definition view_AdditionalDiskSpec :: "'x copy_lib \<Rightarrow> ('x cell, 'x AdditionalDiskSpec_mem) view" where
  "view_AdditionalDiskSpec lib = view_struct
     (\<lambda>x. TNode [TStr (m_ad_Name x), TStr (m_ad_StoragePool x), TStr (m_ad_Bus x)])
     (\<lambda>x. m_ad_Size x)
     (view_lib lib)"

definition view_RootDiskSpec :: "'x copy_lib \<Rightarrow> ('x cell, 'x RootDiskSpec_mem) view" where
  "view_RootDiskSpec lib = view_struct
     (\<lambda>x. TNode [TStr (m_rd_StoragePool x), TStr (m_rd_BaseImage x),
        TStr (m_rd_BaseImagePool x), TBool (m_rd_EphemeralPool x),
        TStr (m_rd_EphemeralPoolSize x), TStr (m_rd_Bus x), TStr (m_rd_CloneStrategy x)])
     (\<lambda>x. m_rd_Size x)
     (view_lib lib)"

definition view_DNSSpec :: "('x cell, DNSSpec_mem) view" where
  "view_DNSSpec = view_struct
     (\<lambda>x. TNode [])
     (\<lambda>x. (m_dns_Nameservers x, m_dns_SearchDomains x))
     (view_pair (view_ptr k_strings (\<lambda>h. flat_strings)) (view_ptr k_strings (\<lambda>h. flat_strings)))"

definition view_NetworkSpec :: "('x cell, NetworkSpec_mem) view" where
  "view_NetworkSpec = view_struct
     (\<lambda>x. TNode [TStr (m_net_Type x), TStr (m_net_Name x), TStr (m_net_Model x),
        TStr (m_net_Gateway x), TStr (m_net_MACAddress x)])
     (\<lambda>x. (m_net_Addresses x, m_net_DNS x))
     (view_pair (view_ptr k_strings (\<lambda>h. flat_strings)) (view_ptr k_DNSSpec view_DNSSpec))"

definition view_ManagedArtifacts :: "('x cell, ManagedArtifacts_mem) view" where
  "view_ManagedArtifacts = view_struct
     (\<lambda>x. TNode [TStr (m_ma_DomainName x), TStr (m_ma_RootDiskVolume x),
        TStr (m_ma_BootstrapISO x), TStr (m_ma_IgnitionFile x), TStr (m_ma_NVRAMPath x),
        TStr (m_ma_EphemeralPoolName x)])
     (\<lambda>x. m_ma_AdditionalDiskVolumes x)
     (view_ptr k_strings (\<lambda>h. flat_strings))"

definition view_LibvirtMachineSpec :: "'x copy_lib \<Rightarrow> ('x cell, 'x LibvirtMachineSpec_mem) view" where
  "view_LibvirtMachineSpec lib = view_struct
     (\<lambda>x. TNode [TStr (m_ms_HostRef x), flat_DomainSpec (m_ms_Domain x),
        TStr (m_ms_BootstrapFormat x)])
     (\<lambda>x. (m_ms_RootDisk x, m_ms_AdditionalDisks x, m_ms_Network x, m_ms_ProviderID x, m_ms_NodeLabels x, m_ms_NodeAnnotations x))
     (view_pair (view_RootDiskSpec lib) (view_pair (view_ptr k_AdditionalDiskSpec_slice (view_elems (view_AdditionalDiskSpec lib))) (view_pair view_NetworkSpec (view_pair (view_ptr k_string (\<lambda>h. TStr)) (view_pair (view_ptr k_map (\<lambda>h. TMap)) (view_ptr k_map (\<lambda>h. TMap)))))))"

definition view_LibvirtMachineStatus :: "'x copy_lib \<Rightarrow> ('x cell, LibvirtMachineStatus_mem) view" where
  "view_LibvirtMachineStatus lib = view_struct
     (\<lambda>x. TNode [TBool (m_st_Ready x), TStr (m_st_DomainUUID x),
        TStr (m_st_DomainState x)])
     (\<lambda>x. (m_st_Addresses x, m_st_ManagedArtifacts x, m_st_FailureReason x, m_st_FailureMessage x, m_st_Conditions x))
     (view_pair (view_ptr k_MachineAddress_slice (\<lambda>h. flat_MachineAddress_slice)) (view_pair (view_ptr k_ManagedArtifacts view_ManagedArtifacts) (view_pair (view_ptr k_string (\<lambda>h. TStr)) (view_pair (view_ptr k_string (\<lambda>h. TStr)) (view_ptr k_Condition_slice (view_elems (view_lib lib)))))))"

definition view_LibvirtMachine :: "'x copy_lib \<Rightarrow> ('x cell, 'x LibvirtMachine_mem) view" where
  "view_LibvirtMachine lib = view_struct
     (\<lambda>x. TNode [flat_TypeMeta (m_lm_TypeMeta x)])
     (\<lambda>x. (m_lm_ObjectMeta x, m_lm_Spec x, m_lm_Status x))
     (view_pair (view_lib lib) (view_pair (view_LibvirtMachineSpec lib) (view_LibvirtMachineStatus lib)))"

definition view_LibvirtMachineList :: "'x copy_lib \<Rightarrow> ('x cell, 'x LibvirtMachineList_mem) view" where
  "view_LibvirtMachineList lib = view_struct
     (\<lambda>x. TNode [flat_TypeMeta (m_lml_TypeMeta x)])
     (\<lambda>x. (m_lml_ListMeta x, m_lml_Items x))
     (view_pair (view_lib lib) (view_ptr k_LibvirtMachine_slice (view_elems (view_LibvirtMachine lib))))"

definition view_LibvirtHostSpec :: "('x cell, LibvirtHostSpec_mem) view" where
  "view_LibvirtHostSpec = view_struct
     (\<lambda>x. TNode [TStr (m_hs_URI x), TStr (m_hs_HostKeyFingerprint x),
        TStr (m_hs_FirmwarePath x), TStr (m_hs_NVRAMTemplatePath x),
        TInt (sint (m_hs_HealthCheckIntervalSeconds x))])
     (\<lambda>x. (m_hs_SecretRef x, m_hs_ReservedResources x))
     (view_pair (view_ptr k_SecretReference (\<lambda>h. flat_SecretReference)) (view_ptr k_ReservedResources (\<lambda>h. flat_ReservedResources)))"

definition view_LibvirtHostStatus :: "'x copy_lib \<Rightarrow> ('x cell, LibvirtHostStatus_mem) view" where
  "view_LibvirtHostStatus lib = view_struct
     (\<lambda>x. TNode [TBool (m_hst_Ready x)])
     (\<lambda>x. (m_hst_Capacity x, m_hst_LastChecked x, m_hst_Conditions x))
     (view_pair (view_ptr k_HostCapacity (\<lambda>h. flat_HostCapacity)) (view_pair (view_time lib) (view_ptr k_Condition_slice (view_elems (view_lib lib)))))"

definition view_LibvirtHost :: "'x copy_lib \<Rightarrow> ('x cell, 'x LibvirtHost_mem) view" where
  "view_LibvirtHost lib = view_struct
     (\<lambda>x. TNode [flat_TypeMeta (m_lh_TypeMeta x)])
     (\<lambda>x. (m_lh_ObjectMeta x, m_lh_Spec x, m_lh_Status x))
     (view_pair (view_lib lib) (view_pair view_LibvirtHostSpec (view_LibvirtHostStatus lib)))"

definition view_LibvirtHostList :: "'x copy_lib \<Rightarrow> ('x cell, 'x LibvirtHostList_mem) view" where
  "view_LibvirtHostList lib = view_struct
     (\<lambda>x. TNode [flat_TypeMeta (m_lhl_TypeMeta x)])
     (\<lambda>x. (m_lhl_ListMeta x, m_lhl_Items x))
     (view_pair (view_lib lib) (view_ptr k_LibvirtHost_slice (view_elems (view_LibvirtHost lib))))"

definition view_HTTPSBaseImageSource :: "('x cell, HTTPSBaseImageSource_mem) view" where
  "view_HTTPSBaseImageSource = view_struct
     (\<lambda>x. TNode [TStr (m_hb_URL x), TStr (m_hb_SHA256 x),
        TBool (m_hb_InsecureSkipTLSVerify x)])
     (\<lambda>x. m_hb_CredentialsSecretRef x)
     (view_ptr k_BootArtifactsSecretReference (\<lambda>h. flat_BootArtifactsSecretReference))"

definition view_OCIBaseImageSource :: "('x cell, OCIBaseImageSource_mem) view" where
  "view_OCIBaseImageSource = view_struct
     (\<lambda>x. TNode [TStr (m_ob_Reference x), TStr (m_ob_BlobTitle x),
        TBool (m_ob_PlainHTTP x), TBool (m_ob_InsecureSkipTLSVerify x), TStr (m_ob_SHA256 x)])
     (\<lambda>x. m_ob_CredentialsSecretRef x)
     (view_ptr k_BootArtifactsSecretReference (\<lambda>h. flat_BootArtifactsSecretReference))"

definition view_S3BaseImageSource :: "('x cell, S3BaseImageSource_mem) view" where
  "view_S3BaseImageSource = view_struct
     (\<lambda>x. TNode [TStr (m_sb_Endpoint x), TStr (m_sb_Region x), TStr (m_sb_Bucket x),
        TStr (m_sb_Key x), TBool (m_sb_UsePathStyle x), TBool (m_sb_Insecure x),
        TBool (m_sb_InsecureSkipTLSVerify x), TStr (m_sb_SHA256 x)])
     (\<lambda>x. m_sb_CredentialsSecretRef x)
     (view_ptr k_BootArtifactsSecretReference (\<lambda>h. flat_BootArtifactsSecretReference))"

definition view_BaseImageSource :: "('x cell, BaseImageSource_mem) view" where
  "view_BaseImageSource = view_struct
     (\<lambda>x. TNode [TStr (m_bis_Type x)])
     (\<lambda>x. (m_bis_HTTPS x, m_bis_OCI x, m_bis_S3 x))
     (view_pair (view_ptr k_HTTPSBaseImageSource view_HTTPSBaseImageSource) (view_pair (view_ptr k_OCIBaseImageSource view_OCIBaseImageSource) (view_ptr k_S3BaseImageSource view_S3BaseImageSource)))"

definition view_BaseImageSpec :: "('x cell, BaseImageSpec_mem) view" where
  "view_BaseImageSpec = view_struct
     (\<lambda>x. TNode [TStr (m_bi_Pool x), TStr (m_bi_VolumeName x)])
     (\<lambda>x. m_bi_Source x)
     view_BaseImageSource"

definition view_OCIBootArtifactsSource :: "('x cell, OCIBootArtifactsSource_mem) view" where
  "view_OCIBootArtifactsSource = view_struct
     (\<lambda>x. TNode [TStr (m_oa_Reference x), TStr (m_oa_KernelLayerTitle x),
        TStr (m_oa_InitramfsLayerTitle x), TBool (m_oa_PlainHTTP x),
        TBool (m_oa_InsecureSkipTLSVerify x), TStr (m_oa_KernelSHA256 x),
        TStr (m_oa_InitramfsSHA256 x)])
     (\<lambda>x. m_oa_CredentialsSecretRef x)
     (view_ptr k_BootArtifactsSecretReference (\<lambda>h. flat_BootArtifactsSecretReference))"

definition view_S3BootArtifactsSource :: "('x cell, S3BootArtifactsSource_mem) view" where
  "view_S3BootArtifactsSource = view_struct
     (\<lambda>x. TNode [TStr (m_sa_Endpoint x), TStr (m_sa_Region x), TStr (m_sa_Bucket x),
        TStr (m_sa_KernelKey x), TStr (m_sa_InitramfsKey x), TBool (m_sa_UsePathStyle x),
        TBool (m_sa_Insecure x), TBool (m_sa_InsecureSkipTLSVerify x),
        TStr (m_sa_KernelSHA256 x), TStr (m_sa_InitramfsSHA256 x)])
     (\<lambda>x. m_sa_CredentialsSecretRef x)
     (view_ptr k_BootArtifactsSecretReference (\<lambda>h. flat_BootArtifactsSecretReference))"

definition view_BootArtifactsSource :: "('x cell, BootArtifactsSource_mem) view" where
  "view_BootArtifactsSource = view_struct
     (\<lambda>x. TNode [TStr (m_bas_Type x)])
     (\<lambda>x. (m_bas_HTTPS x, m_bas_OCI x, m_bas_S3 x))
     (view_pair (view_ptr k_HTTPSBootArtifactsSource (\<lambda>h. flat_HTTPSBootArtifactsSource)) (view_pair (view_ptr k_OCIBootArtifactsSource view_OCIBootArtifactsSource) (view_ptr k_S3BootArtifactsSource view_S3BootArtifactsSource)))"

definition view_BootArtifactsSpec :: "('x cell, BootArtifactsSpec_mem) view" where
  "view_BootArtifactsSpec = view_struct
     (\<lambda>x. TNode [TStr (m_ba_HostPath x), TStr (m_ba_KernelArgs x)])
     (\<lambda>x. m_ba_Source x)
     view_BootArtifactsSource"

definition view_LibvirtClusterSpec :: "('x cell, LibvirtClusterSpec_mem) view" where
  "view_LibvirtClusterSpec = view_struct
     (\<lambda>x. TNode [flat_APIEndpoint (m_cs_ControlPlaneEndpoint x)])
     (\<lambda>x. (m_cs_BootArtifacts x, m_cs_BaseImage x))
     (view_pair (view_ptr k_BootArtifactsSpec view_BootArtifactsSpec) (view_ptr k_BaseImageSpec view_BaseImageSpec))"

definition view_LibvirtClusterStatus :: "'x copy_lib \<Rightarrow> ('x cell, LibvirtClusterStatus_mem) view" where
  "view_LibvirtClusterStatus lib = view_struct
     (\<lambda>x. TNode [TBool (m_cst_Ready x)])
     (\<lambda>x. m_cst_Conditions x)
     (view_ptr k_Condition_slice (view_elems (view_lib lib)))"

definition view_LibvirtCluster :: "'x copy_lib \<Rightarrow> ('x cell, 'x LibvirtCluster_mem) view" where
  "view_LibvirtCluster lib = view_struct
     (\<lambda>x. TNode [flat_TypeMeta (m_lc_TypeMeta x)])
     (\<lambda>x. (m_lc_ObjectMeta x, m_lc_Spec x, m_lc_Status x))
     (view_pair (view_lib lib) (view_pair view_LibvirtClusterSpec (view_LibvirtClusterStatus lib)))"

definition view_LibvirtClusterList :: "'x copy_lib \<Rightarrow> ('x cell, 'x LibvirtClusterList_mem) view" where
  "view_LibvirtClusterList lib = view_struct
     (\<lambda>x. TNode [flat_TypeMeta (m_lcl_TypeMeta x)])
     (\<lambda>x. (m_lcl_ListMeta x, m_lcl_Items x))
     (view_pair (view_lib lib) (view_ptr k_LibvirtCluster_slice (view_elems (view_LibvirtCluster lib))))"


section \<open>Every copy is a copier\<close>

lemmas flat_defs = flat_TypeMeta_def flat_APIEndpoint_def flat_strings_def flat_MachineAddress_slice_def
  flat_SecretReference_def flat_DomainSpec_def flat_HTTPSBootArtifactsSource_def flat_HostCapacity_def
  flat_ReservedResources_def

lemma flat_views:
  "flat_view TStr" "flat_view flat_strings" "flat_view flat_MachineAddress_slice"
  "flat_view flat_SecretReference" "flat_view flat_HTTPSBootArtifactsSource" "flat_view flat_HostCapacity"
  "flat_view flat_ReservedResources" "flat_view flat_DomainSpec"
  by (auto simp: flat_view_def flat_defs list_all_iff)

lemma lib_copiers:
  assumes "lib_copies lib"
  shows "copier (Quantity_DeepCopy lib) (view_lib lib)" "copier (ObjectMeta_DeepCopyInto lib) (view_lib lib)"
    "copier (ListMeta_DeepCopyInto lib) (view_lib lib)" "copier (Condition_DeepCopyInto lib) (view_lib lib)"
    "copier (Time_DeepCopy lib) (view_time lib)"
  using assms by (simp_all add: lib_copies_def)

lemmas copy_intros = copier_pair copier_ptr copier_elems copier_map kinds
  flat_views [THEN copier_flat] lib_copiers

lemmas copy_simps = copy_pair_def State_Monad.bind_assoc State_Monad.bind_left_identity flat_view_def flat_defs

lemma copier_AdditionalDiskSpec: "lib_copies lib \<Longrightarrow> copier (AdditionalDiskSpec_DeepCopyInto lib) (view_AdditionalDiskSpec lib)"
  unfolding view_AdditionalDiskSpec_def
  by (rule copier_struct [where put = "(\<lambda>y x. x\<lparr>m_ad_Size := y\<rparr>)"],
      (rule copy_intros | assumption)+)
    (auto simp: AdditionalDiskSpec_DeepCopyInto_def copy_simps)

lemma copier_RootDiskSpec: "lib_copies lib \<Longrightarrow> copier (RootDiskSpec_DeepCopyInto lib) (view_RootDiskSpec lib)"
  unfolding view_RootDiskSpec_def
  by (rule copier_struct [where put = "(\<lambda>y x. x\<lparr>m_rd_Size := y\<rparr>)"],
      (rule copy_intros | assumption)+)
    (auto simp: RootDiskSpec_DeepCopyInto_def copy_simps)

lemma copier_DNSSpec: "copier DNSSpec_DeepCopyInto view_DNSSpec"
  unfolding view_DNSSpec_def
  by (rule copier_struct [where put = "(\<lambda>(y0, y1) x. x\<lparr>m_dns_Nameservers := y0, m_dns_SearchDomains := y1\<rparr>)"],
      (rule copy_intros | assumption)+)
    (auto simp: DNSSpec_DeepCopyInto_def copy_simps)

lemma copier_NetworkSpec: "copier NetworkSpec_DeepCopyInto view_NetworkSpec"
  unfolding view_NetworkSpec_def
  by (rule copier_struct [where put = "(\<lambda>(y0, y1) x. x\<lparr>m_net_Addresses := y0, m_net_DNS := y1\<rparr>)"],
      (rule copy_intros copier_DNSSpec | assumption)+)
    (auto simp: NetworkSpec_DeepCopyInto_def copy_simps)

lemma copier_ManagedArtifacts: "copier ManagedArtifacts_DeepCopyInto view_ManagedArtifacts"
  unfolding view_ManagedArtifacts_def
  by (rule copier_struct [where put = "(\<lambda>y x. x\<lparr>m_ma_AdditionalDiskVolumes := y\<rparr>)"],
      (rule copy_intros | assumption)+)
    (auto simp: ManagedArtifacts_DeepCopyInto_def copy_simps)

lemma copier_LibvirtMachineSpec: "lib_copies lib \<Longrightarrow> copier (LibvirtMachineSpec_DeepCopyInto lib) (view_LibvirtMachineSpec lib)"
  unfolding view_LibvirtMachineSpec_def
  by (rule copier_struct [where put = "(\<lambda>(y0, y1, y2, y3, y4, y5) x. x\<lparr>m_ms_RootDisk := y0, m_ms_AdditionalDisks := y1, m_ms_Network := y2, m_ms_ProviderID := y3, m_ms_NodeLabels := y4, m_ms_NodeAnnotations := y5\<rparr>)"],
      (rule copy_intros copier_RootDiskSpec copier_AdditionalDiskSpec copier_NetworkSpec | assumption)+)
    (auto simp: LibvirtMachineSpec_DeepCopyInto_def copy_simps)

lemma copier_LibvirtMachineStatus: "lib_copies lib \<Longrightarrow> copier (LibvirtMachineStatus_DeepCopyInto lib) (view_LibvirtMachineStatus lib)"
  unfolding view_LibvirtMachineStatus_def
  by (rule copier_struct [where put = "(\<lambda>(y0, y1, y2, y3, y4) x. x\<lparr>m_st_Addresses := y0, m_st_ManagedArtifacts := y1, m_st_FailureReason := y2, m_st_FailureMessage := y3, m_st_Conditions := y4\<rparr>)"],
      (rule copy_intros copier_ManagedArtifacts | assumption)+)
    (auto simp: LibvirtMachineStatus_DeepCopyInto_def copy_simps)

lemma copier_LibvirtMachine: "lib_copies lib \<Longrightarrow> copier (LibvirtMachine_DeepCopyInto lib) (view_LibvirtMachine lib)"
  unfolding view_LibvirtMachine_def
  by (rule copier_struct [where put = "(\<lambda>(y0, y1, y2) x. x\<lparr>m_lm_ObjectMeta := y0, m_lm_Spec := y1, m_lm_Status := y2\<rparr>)"],
      (rule copy_intros copier_LibvirtMachineSpec copier_LibvirtMachineStatus | assumption)+)
    (auto simp: LibvirtMachine_DeepCopyInto_def copy_simps)

lemma copier_LibvirtMachineList: "lib_copies lib \<Longrightarrow> copier (LibvirtMachineList_DeepCopyInto lib) (view_LibvirtMachineList lib)"
  unfolding view_LibvirtMachineList_def
  by (rule copier_struct [where put = "(\<lambda>(y0, y1) x. x\<lparr>m_lml_ListMeta := y0, m_lml_Items := y1\<rparr>)"],
      (rule copy_intros copier_LibvirtMachine | assumption)+)
    (auto simp: LibvirtMachineList_DeepCopyInto_def copy_simps)

lemma copier_LibvirtHostSpec: "copier LibvirtHostSpec_DeepCopyInto view_LibvirtHostSpec"
  unfolding view_LibvirtHostSpec_def
  by (rule copier_struct [where put = "(\<lambda>(y0, y1) x. x\<lparr>m_hs_SecretRef := y0, m_hs_ReservedResources := y1\<rparr>)"],
      (rule copy_intros | assumption)+)
    (auto simp: LibvirtHostSpec_DeepCopyInto_def copy_simps)

lemma copier_LibvirtHostStatus: "lib_copies lib \<Longrightarrow> copier (LibvirtHostStatus_DeepCopyInto lib) (view_LibvirtHostStatus lib)"
  unfolding view_LibvirtHostStatus_def
  by (rule copier_struct [where put = "(\<lambda>(y0, y1, y2) x. x\<lparr>m_hst_Capacity := y0, m_hst_LastChecked := y1, m_hst_Conditions := y2\<rparr>)"],
      (rule copy_intros | assumption)+)
    (auto simp: LibvirtHostStatus_DeepCopyInto_def copy_simps)

lemma copier_LibvirtHost: "lib_copies lib \<Longrightarrow> copier (LibvirtHost_DeepCopyInto lib) (view_LibvirtHost lib)"
  unfolding view_LibvirtHost_def
  by (rule copier_struct [where put = "(\<lambda>(y0, y1, y2) x. x\<lparr>m_lh_ObjectMeta := y0, m_lh_Spec := y1, m_lh_Status := y2\<rparr>)"],
      (rule copy_intros copier_LibvirtHostSpec copier_LibvirtHostStatus | assumption)+)
    (auto simp: LibvirtHost_DeepCopyInto_def copy_simps)

lemma copier_LibvirtHostList: "lib_copies lib \<Longrightarrow> copier (LibvirtHostList_DeepCopyInto lib) (view_LibvirtHostList lib)"
  unfolding view_LibvirtHostList_def
  by (rule copier_struct [where put = "(\<lambda>(y0, y1) x. x\<lparr>m_lhl_ListMeta := y0, m_lhl_Items := y1\<rparr>)"],
      (rule copy_intros copier_LibvirtHost | assumption)+)
    (auto simp: LibvirtHostList_DeepCopyInto_def copy_simps)

lemma copier_HTTPSBaseImageSource: "copier HTTPSBaseImageSource_DeepCopyInto view_HTTPSBaseImageSource"
  unfolding view_HTTPSBaseImageSource_def
  by (rule copier_struct [where put = "(\<lambda>y x. x\<lparr>m_hb_CredentialsSecretRef := y\<rparr>)"],
      (rule copy_intros | assumption)+)
    (auto simp: HTTPSBaseImageSource_DeepCopyInto_def copy_simps)

lemma copier_OCIBaseImageSource: "copier OCIBaseImageSource_DeepCopyInto view_OCIBaseImageSource"
  unfolding view_OCIBaseImageSource_def
  by (rule copier_struct [where put = "(\<lambda>y x. x\<lparr>m_ob_CredentialsSecretRef := y\<rparr>)"],
      (rule copy_intros | assumption)+)
    (auto simp: OCIBaseImageSource_DeepCopyInto_def copy_simps)

lemma copier_S3BaseImageSource: "copier S3BaseImageSource_DeepCopyInto view_S3BaseImageSource"
  unfolding view_S3BaseImageSource_def
  by (rule copier_struct [where put = "(\<lambda>y x. x\<lparr>m_sb_CredentialsSecretRef := y\<rparr>)"],
      (rule copy_intros | assumption)+)
    (auto simp: S3BaseImageSource_DeepCopyInto_def copy_simps)

lemma copier_BaseImageSource: "copier BaseImageSource_DeepCopyInto view_BaseImageSource"
  unfolding view_BaseImageSource_def
  by (rule copier_struct [where put = "(\<lambda>(y0, y1, y2) x. x\<lparr>m_bis_HTTPS := y0, m_bis_OCI := y1, m_bis_S3 := y2\<rparr>)"],
      (rule copy_intros copier_HTTPSBaseImageSource copier_OCIBaseImageSource copier_S3BaseImageSource | assumption)+)
    (auto simp: BaseImageSource_DeepCopyInto_def copy_simps)

lemma copier_BaseImageSpec: "copier BaseImageSpec_DeepCopyInto view_BaseImageSpec"
  unfolding view_BaseImageSpec_def
  by (rule copier_struct [where put = "(\<lambda>y x. x\<lparr>m_bi_Source := y\<rparr>)"],
      (rule copy_intros copier_BaseImageSource | assumption)+)
    (auto simp: BaseImageSpec_DeepCopyInto_def copy_simps)

lemma copier_OCIBootArtifactsSource: "copier OCIBootArtifactsSource_DeepCopyInto view_OCIBootArtifactsSource"
  unfolding view_OCIBootArtifactsSource_def
  by (rule copier_struct [where put = "(\<lambda>y x. x\<lparr>m_oa_CredentialsSecretRef := y\<rparr>)"],
      (rule copy_intros | assumption)+)
    (auto simp: OCIBootArtifactsSource_DeepCopyInto_def copy_simps)

lemma copier_S3BootArtifactsSource: "copier S3BootArtifactsSource_DeepCopyInto view_S3BootArtifactsSource"
  unfolding view_S3BootArtifactsSource_def
  by (rule copier_struct [where put = "(\<lambda>y x. x\<lparr>m_sa_CredentialsSecretRef := y\<rparr>)"],
      (rule copy_intros | assumption)+)
    (auto simp: S3BootArtifactsSource_DeepCopyInto_def copy_simps)

lemma copier_BootArtifactsSource: "copier BootArtifactsSource_DeepCopyInto view_BootArtifactsSource"
  unfolding view_BootArtifactsSource_def
  by (rule copier_struct [where put = "(\<lambda>(y0, y1, y2) x. x\<lparr>m_bas_HTTPS := y0, m_bas_OCI := y1, m_bas_S3 := y2\<rparr>)"],
      (rule copy_intros copier_OCIBootArtifactsSource copier_S3BootArtifactsSource | assumption)+)
    (auto simp: BootArtifactsSource_DeepCopyInto_def copy_simps)

lemma copier_BootArtifactsSpec: "copier BootArtifactsSpec_DeepCopyInto view_BootArtifactsSpec"
  unfolding view_BootArtifactsSpec_def
  by (rule copier_struct [where put = "(\<lambda>y x. x\<lparr>m_ba_Source := y\<rparr>)"],
      (rule copy_intros copier_BootArtifactsSource | assumption)+)
    (auto simp: BootArtifactsSpec_DeepCopyInto_def copy_simps)

lemma copier_LibvirtClusterSpec: "copier LibvirtClusterSpec_DeepCopyInto view_LibvirtClusterSpec"
  unfolding view_LibvirtClusterSpec_def
  by (rule copier_struct [where put = "(\<lambda>(y0, y1) x. x\<lparr>m_cs_BootArtifacts := y0, m_cs_BaseImage := y1\<rparr>)"],
      (rule copy_intros copier_BootArtifactsSpec copier_BaseImageSpec | assumption)+)
    (auto simp: LibvirtClusterSpec_DeepCopyInto_def copy_simps)

lemma copier_LibvirtClusterStatus: "lib_copies lib \<Longrightarrow> copier (LibvirtClusterStatus_DeepCopyInto lib) (view_LibvirtClusterStatus lib)"
  unfolding view_LibvirtClusterStatus_def
  by (rule copier_struct [where put = "(\<lambda>y x. x\<lparr>m_cst_Conditions := y\<rparr>)"],
      (rule copy_intros | assumption)+)
    (auto simp: LibvirtClusterStatus_DeepCopyInto_def copy_simps)

lemma copier_LibvirtCluster: "lib_copies lib \<Longrightarrow> copier (LibvirtCluster_DeepCopyInto lib) (view_LibvirtCluster lib)"
  unfolding view_LibvirtCluster_def
  by (rule copier_struct [where put = "(\<lambda>(y0, y1, y2) x. x\<lparr>m_lc_ObjectMeta := y0, m_lc_Spec := y1, m_lc_Status := y2\<rparr>)"],
      (rule copy_intros copier_LibvirtClusterSpec copier_LibvirtClusterStatus | assumption)+)
    (auto simp: LibvirtCluster_DeepCopyInto_def copy_simps)

lemma copier_LibvirtClusterList: "lib_copies lib \<Longrightarrow> copier (LibvirtClusterList_DeepCopyInto lib) (view_LibvirtClusterList lib)"
  unfolding view_LibvirtClusterList_def
  by (rule copier_struct [where put = "(\<lambda>(y0, y1) x. x\<lparr>m_lcl_ListMeta := y0, m_lcl_Items := y1\<rparr>)"],
      (rule copy_intros copier_LibvirtCluster | assumption)+)
    (auto simp: LibvirtClusterList_DeepCopyInto_def copy_simps)


section \<open>Properties\<close>

lemma DeepCopyObject_is_DeepCopy:
  "LibvirtMachine_DeepCopyObject lib = LibvirtMachine_DeepCopy lib"
  "LibvirtMachineList_DeepCopyObject lib = LibvirtMachineList_DeepCopy lib"
  "LibvirtHost_DeepCopyObject lib = LibvirtHost_DeepCopy lib"
  "LibvirtHostList_DeepCopyObject lib = LibvirtHostList_DeepCopy lib"
  "LibvirtCluster_DeepCopyObject lib = LibvirtCluster_DeepCopy lib"
  "LibvirtClusterList_DeepCopyObject lib = LibvirtClusterList_DeepCopy lib"
proof -
  have "(if c \<noteq> None then c else None) = c" for c :: "addr option" by simp
  then show "LibvirtMachine_DeepCopyObject lib = LibvirtMachine_DeepCopy lib"
    "LibvirtMachineList_DeepCopyObject lib = LibvirtMachineList_DeepCopy lib"
    "LibvirtHost_DeepCopyObject lib = LibvirtHost_DeepCopy lib"
    "LibvirtHostList_DeepCopyObject lib = LibvirtHostList_DeepCopy lib"
    "LibvirtCluster_DeepCopyObject lib = LibvirtCluster_DeepCopy lib"
    "LibvirtClusterList_DeepCopyObject lib = LibvirtClusterList_DeepCopy lib"
    unfolding LibvirtMachine_DeepCopyObject_def LibvirtMachineList_DeepCopyObject_def LibvirtHost_DeepCopyObject_def
      LibvirtHostList_DeepCopyObject_def LibvirtCluster_DeepCopyObject_def LibvirtClusterList_DeepCopyObject_def
    by (simp_all add: fun_eq_iff State_Monad.bind_right_identity)
qed

text \<open>C7: a deep copy of any object or list of objects of the API is deeply equal to the
  original and shares no memory with it: the original is unchanged by the copying, a write to
  any cell of the copy leaves everything that can be reached from the original as it was, and
  the other way round. The deep copies of the Kubernetes libraries that are called for
  quantities, metadata, conditions and times are relied on to be deep copies.\<close>

theorem deep_copies_independent:
  assumes "lib_copies lib"
  shows "independent_copy (LibvirtMachine_DeepCopyObject lib) (view_ptr k_LibvirtMachine (view_LibvirtMachine lib)) \<and>
    independent_copy (LibvirtMachineList_DeepCopyObject lib) (view_ptr k_LibvirtMachineList (view_LibvirtMachineList lib)) \<and>
    independent_copy (LibvirtHost_DeepCopyObject lib) (view_ptr k_LibvirtHost (view_LibvirtHost lib)) \<and>
    independent_copy (LibvirtHostList_DeepCopyObject lib) (view_ptr k_LibvirtHostList (view_LibvirtHostList lib)) \<and>
    independent_copy (LibvirtCluster_DeepCopyObject lib) (view_ptr k_LibvirtCluster (view_LibvirtCluster lib)) \<and>
    independent_copy (LibvirtClusterList_DeepCopyObject lib) (view_ptr k_LibvirtClusterList (view_LibvirtClusterList lib))"
  unfolding DeepCopyObject_is_DeepCopy LibvirtMachine_DeepCopy_def LibvirtMachineList_DeepCopy_def LibvirtHost_DeepCopy_def
    LibvirtHostList_DeepCopy_def LibvirtCluster_DeepCopy_def LibvirtClusterList_DeepCopy_def
  by (intro conjI copier_independent copier_ptr kinds copier_LibvirtMachine copier_LibvirtMachineList copier_LibvirtHost
      copier_LibvirtHostList copier_LibvirtCluster copier_LibvirtClusterList assms)

text \<open>A library whose structures hold no pointers, and a host with a secret and a time.\<close>

definition example_lib :: "string copy_lib" where
  "example_lib = \<lparr>Quantity_DeepCopy = State_Monad.return, ObjectMeta_DeepCopyInto = State_Monad.return,
     ListMeta_DeepCopyInto = State_Monad.return, Condition_DeepCopyInto = State_Monad.return,
     Time_DeepCopy = copy_ptr (Cell_lib, \<lambda>c. case c of Cell_lib v \<Rightarrow> Some v | _ \<Rightarrow> None) State_Monad.return,
     view_lib = (\<lambda>h. TStr),
     view_time = view_ptr (Cell_lib, \<lambda>c. case c of Cell_lib v \<Rightarrow> Some v | _ \<Rightarrow> None) (\<lambda>h. TStr)\<rparr>"

lemma example_lib_copies: "lib_copies example_lib"
  unfolding lib_copies_def example_lib_def copy_lib.simps
  by (intro conjI copier_ptr copier_flat flat_views) (simp add: kind_ok_def)

definition example_memory :: "string cell list" where
  "example_memory =
     [Cell_SecretReference \<lparr>sref_Name = ''key'', sref_Namespace = ''infra''\<rparr>,
      Cell_lib ''2026-01-01'',
      Cell_LibvirtHost \<lparr>m_lh_TypeMeta = (''LibvirtHost'', ''v1alpha1''), m_lh_ObjectMeta = ''h1'',
        m_lh_Spec = \<lparr>m_hs_URI = ''qemu+ssh://h1'', m_hs_SecretRef = Some 0, m_hs_HostKeyFingerprint = [],
          m_hs_FirmwarePath = [], m_hs_NVRAMTemplatePath = [], m_hs_ReservedResources = None,
          m_hs_HealthCheckIntervalSeconds = 30\<rparr>,
        m_lh_Status = \<lparr>m_hst_Ready = True, m_hst_Capacity = None, m_hst_LastChecked = Some 1, m_hst_Conditions = None\<rparr>\<rparr>]"

abbreviation "example_host_view \<equiv> view_ptr k_LibvirtHost (view_LibvirtHost example_lib)"

lemmas example_copy_simps = example_memory_def example_lib_def view_LibvirtHost_def view_LibvirtHostSpec_def
  view_LibvirtHostStatus_def view_struct_def view_pair_def view_ptr_def view_elems_def deref_def kind_defs flat_defs
  LibvirtHost_DeepCopyObject_def LibvirtHost_DeepCopy_def LibvirtHost_DeepCopyInto_def LibvirtHostSpec_DeepCopyInto_def
  LibvirtHostStatus_DeepCopyInto_def copy_ptr_def new_cell_def put_cell_def State_Monad.bind_def State_Monad.get_def
  State_Monad.return_def

theorem deep_copies_independent_witness:
  "sound (example_host_view example_memory (Some 2)) \<and>
   set (addrs (example_host_view example_memory (Some 2))) = {0, 1, 2} \<and>
   (case run_state (LibvirtHost_DeepCopyObject example_lib (Some 2)) example_memory of (q, h) \<Rightarrow>
      q = Some 3 \<and> set (addrs (example_host_view h q)) = {3, 4, 5} \<and>
      example_host_view (h[4 := Cell_SecretReference \<lparr>sref_Name = ''other'', sref_Namespace = ''infra''\<rparr>]) (Some 2) =
        example_host_view example_memory (Some 2))"
proof -
  obtain q h where run: "run_state (LibvirtHost_DeepCopyObject example_lib (Some 2)) example_memory = (q, h)"
    by fastforce
  have s: "sound (example_host_view example_memory (Some 2))"
    "set (addrs (example_host_view example_memory (Some 2))) = {0, 1, 2}"
    by (auto simp: example_copy_simps)
  have q: "q = Some 3" "set (addrs (example_host_view h q)) = {3, 4, 5}"
    using run by (auto simp: example_copy_simps)
  have "independent_copy (LibvirtHost_DeepCopyObject example_lib) example_host_view"
    using deep_copies_independent [OF example_lib_copies] by simp
  then have "\<forall>a\<in>set (addrs (example_host_view h q)). \<forall>cell.
      example_host_view (h[a := cell]) (Some 2) = example_host_view example_memory (Some 2)"
    using s(1) run unfolding independent_copy_def by blast
  then show ?thesis using s run q by simp
qed

end
