(* ===== verification/Manager.thy ===== *)
theory Manager
  imports Ssh_Client Virsh_Client Boot_Artifacts Image_Cache
begin

text \<open>
  The entry point of the manager, \<^verbatim>\<open>cmd/main.go\<close>: from the command line to the options of
  the two servers, the controllers with what they are wired to, and the start. controller-runtime
  and the file system are parameters. \<^verbatim>\<open>os.Exit(1)\<close> is the result \<open>Some 1\<close>, a return
  from \<^verbatim>\<open>main\<close> is \<open>None\<close>. Logging and the scheme are left out.
\<close>

section \<open>Command line\<close>

record flags =
  metricsAddr :: string
  probeAddr :: string
  enableLeaderElection :: bool
  secureMetrics :: bool
  webhookCertPath :: string
  webhookCertName :: string
  webhookCertKey :: string
  metricsCertPath :: string
  metricsCertName :: string
  metricsCertKey :: string
  maxConcurrentReconciles :: int
  enableHTTP2 :: bool
  baseImageCacheDir :: string

definition default_flags :: flags where
  "default_flags =
     \<lparr>metricsAddr = ''0'', probeAddr = '':8081'', enableLeaderElection = False, secureMetrics = True,
      webhookCertPath = [], webhookCertName = ''tls.crt'', webhookCertKey = ''tls.key'',
      metricsCertPath = [], metricsCertName = ''tls.crt'', metricsCertKey = ''tls.key'',
      maxConcurrentReconciles = 50, enableHTTP2 = False,
      baseImageCacheDir = ''/var/cache/caplv/baseimages''\<rparr>"


section \<open>Options of the servers\<close>

record tls_Config =
  NextProtos :: "string list"

type_synonym tls_opts = "(tls_Config \<Rightarrow> tls_Config) list"

definition disableHTTP2 :: "tls_Config \<Rightarrow> tls_Config" where
  "disableHTTP2 c = c\<lparr>NextProtos := [''http/1.1'']\<rparr>"

definition tlsOpts :: "flags \<Rightarrow> tls_opts" where
  "tlsOpts fl = (if \<not> enableHTTP2 fl then [disableHTTP2] else [])"

record webhook_Options =
  wo_TLSOpts :: tls_opts
  wo_CertDir :: string
  wo_CertName :: string
  wo_KeyName :: string

definition webhookServerOptions :: "flags \<Rightarrow> webhook_Options" where
  "webhookServerOptions fl =
     (let o1 = \<lparr>wo_TLSOpts = tlsOpts fl, wo_CertDir = [], wo_CertName = [], wo_KeyName = []\<rparr> in
      if length (webhookCertPath fl) > 0
      then o1\<lparr>wo_CertDir := webhookCertPath fl, wo_CertName := webhookCertName fl, wo_KeyName := webhookCertKey fl\<rparr>
      else o1)"

datatype filter_provider = WithAuthenticationAndAuthorization

record metrics_Options =
  mo_BindAddress :: string
  mo_SecureServing :: bool
  mo_TLSOpts :: tls_opts
  mo_FilterProvider :: "filter_provider option"
  mo_CertDir :: string
  mo_CertName :: string
  mo_KeyName :: string

definition metricsServerOptions :: "flags \<Rightarrow> metrics_Options" where
  "metricsServerOptions fl =
     (let o1 = \<lparr>mo_BindAddress = metricsAddr fl, mo_SecureServing = secureMetrics fl, mo_TLSOpts = tlsOpts fl,
            mo_FilterProvider = None, mo_CertDir = [], mo_CertName = [], mo_KeyName = []\<rparr>;
          o2 = (if secureMetrics fl then o1\<lparr>mo_FilterProvider := Some WithAuthenticationAndAuthorization\<rparr> else o1) in
      if length (metricsCertPath fl) > 0
      then o2\<lparr>mo_CertDir := metricsCertPath fl, mo_CertName := metricsCertName fl, mo_KeyName := metricsCertKey fl\<rparr>
      else o2)"

record ctrl_Options =
  co_Metrics :: metrics_Options
  co_WebhookServer :: webhook_Options
  co_HealthProbeBindAddress :: string
  co_LeaderElection :: bool
  co_LeaderElectionID :: string

definition managerOptions :: "flags \<Rightarrow> ctrl_Options" where
  "managerOptions fl =
     \<lparr>co_Metrics = metricsServerOptions fl, co_WebhookServer = webhookServerOptions fl,
      co_HealthProbeBindAddress = probeAddr fl, co_LeaderElection = enableLeaderElection fl,
      co_LeaderElectionID = ''b252ec3e.cluster.x-k8s.io''\<rparr>"


section \<open>Controllers and their wiring\<close>

type_synonym 'w SSHClientFactory = "LibvirtHost \<Rightarrow> Secret \<Rightarrow> string \<Rightarrow> ('w, go_error + 'w ssh) state"
type_synonym 'w LibvirtClientFactory = "'w ssh \<Rightarrow> string \<Rightarrow> 'w VirshClient"

datatype iso_Builder = DiskfsBuilder

datatype 'w reconciler =
    LibvirtHostReconciler "'w SSHClientFactory" "'w LibvirtClientFactory"
  | LibvirtClusterReconciler
  | LibvirtMachineReconciler "'w SSHClientFactory" "'w LibvirtClientFactory" iso_Builder "'w Resolver" "'w Cache" int
  | CSRApproverReconciler

text \<open>What the builder of controller-runtime is told: the reconciler, the kind of its objects, the
  other kinds whose events it maps to requests, its name and, for the machine controller, how
  many reconciliations may run at once.\<close>

record 'w controller =
  ctl_Reconciler :: "'w reconciler"
  ctl_For :: string
  ctl_Watches :: "string list"
  ctl_Name :: string
  ctl_MaxConcurrentReconciles :: "int option"

abbreviation "defaultMaxConcurrentReconciles \<equiv> (50 :: int)"

definition concurrency :: "int \<Rightarrow> int" where
  "concurrency n = (if n \<le> 0 then defaultMaxConcurrentReconciles else n)"

definition host_SetupWithManager :: "'w reconciler \<Rightarrow> 'w controller" where
  "host_SetupWithManager r = \<lparr>ctl_Reconciler = r, ctl_For = ''LibvirtHost'', ctl_Watches = [''LibvirtMachine''],
     ctl_Name = ''libvirthost'', ctl_MaxConcurrentReconciles = None\<rparr>"

definition cluster_SetupWithManager :: "'w reconciler \<Rightarrow> 'w controller" where
  "cluster_SetupWithManager r = \<lparr>ctl_Reconciler = r, ctl_For = ''LibvirtCluster'', ctl_Watches = [],
     ctl_Name = ''libvirtcluster'', ctl_MaxConcurrentReconciles = None\<rparr>"

definition machine_SetupWithManager :: "'w reconciler \<Rightarrow> int \<Rightarrow> 'w controller" where
  "machine_SetupWithManager r n = \<lparr>ctl_Reconciler = r, ctl_For = ''LibvirtMachine'', ctl_Watches = [''Machine''],
     ctl_Name = ''libvirtmachine'', ctl_MaxConcurrentReconciles = Some (concurrency n)\<rparr>"

definition csr_SetupWithManager :: "'w reconciler \<Rightarrow> 'w controller" where
  "csr_SetupWithManager r = \<lparr>ctl_Reconciler = r, ctl_For = ''CertificateSigningRequest'', ctl_Watches = [],
     ctl_Name = ''csrapprover'', ctl_MaxConcurrentReconciles = None\<rparr>"

fun SetupWithManager :: "'w reconciler \<Rightarrow> 'w controller" where
  "SetupWithManager (LibvirtHostReconciler s l) = host_SetupWithManager (LibvirtHostReconciler s l)"
| "SetupWithManager LibvirtClusterReconciler = cluster_SetupWithManager LibvirtClusterReconciler"
| "SetupWithManager (LibvirtMachineReconciler s l i b c n) =
     machine_SetupWithManager (LibvirtMachineReconciler s l i b c n) n"
| "SetupWithManager CSRApproverReconciler = csr_SetupWithManager CSRApproverReconciler"

lemmas setup_defs = host_SetupWithManager_def cluster_SetupWithManager_def machine_SetupWithManager_def
  csr_SetupWithManager_def

record ('w, 'signer, 'conn) manager_lib =
  ml_NewManager :: "ctrl_Options \<Rightarrow> ('w, go_error option) state"
  ml_Complete :: "'w controller \<Rightarrow> ('w, go_error option) state"
  ml_SetupWebhook :: "('w, go_error option) state"
  ml_AddHealthzCheck :: "string \<Rightarrow> ('w, go_error option) state"
  ml_AddReadyzCheck :: "string \<Rightarrow> ('w, go_error option) state"
  ml_Start :: "('w, go_error option) state"
  ml_Getenv :: "string \<Rightarrow> string"
  ml_os :: "'w file_os"
  ml_ssh :: "('w, 'signer, 'conn, 'w ssh) ssh_lib"
  ml_transport :: "'w transport"

definition must :: "('w, go_error option) state \<Rightarrow> ('w, nat option) state \<Rightarrow> ('w, nat option) state" where
  "must m rest = do {
     err \<leftarrow> m;
     (case err of Some e \<Rightarrow> State_Monad.return (Some 1) | None \<Rightarrow> rest) }"

definition host_reconciler :: "('w, 'signer, 'conn) manager_lib \<Rightarrow> 'w reconciler" where
  "host_reconciler lib = LibvirtHostReconciler (NewSSHClient (ml_ssh lib)) NewVirshClient"

definition machine_reconciler :: "('w, 'signer, 'conn) manager_lib \<Rightarrow> flags \<Rightarrow> 'w Cache \<Rightarrow> 'w reconciler" where
  "machine_reconciler lib fl cache =
     LibvirtMachineReconciler (NewSSHClient (ml_ssh lib)) NewVirshClient DiskfsBuilder
       (boot_Multi_Resolve (boot_NewMultiResolver (ml_transport lib))) cache (maxConcurrentReconciles fl)"

definition main_finish :: "('w, 'signer, 'conn) manager_lib \<Rightarrow> ('w, nat option) state" where
  "main_finish lib =
     must (ml_AddHealthzCheck lib ''healthz'') (
     must (ml_AddReadyzCheck lib ''readyz'') (
     must (ml_Start lib) (State_Monad.return None)))"

definition main_webhooks :: "('w, 'signer, 'conn) manager_lib \<Rightarrow> ('w, nat option) state" where
  "main_webhooks lib =
     (if ml_Getenv lib ''ENABLE_WEBHOOKS'' \<noteq> ''false''
      then must (ml_SetupWebhook lib) (main_finish lib)
      else main_finish lib)"

definition main :: "('w, 'signer, 'conn) manager_lib \<Rightarrow> flags \<Rightarrow> ('w, nat option) state" where
  "main lib fl =
     must (ml_NewManager lib (managerOptions fl)) (
     must (ml_Complete lib (SetupWithManager (host_reconciler lib))) (
     must (ml_Complete lib (SetupWithManager LibvirtClusterReconciler)) (do {
       c \<leftarrow> cache_New (ml_os lib) (baseImageCacheDir fl) (image_Multi_Open (ml_transport lib));
       (case c of
          Inl err \<Rightarrow> State_Monad.return (Some 1)
        | Inr baseImageCache \<Rightarrow>
            must (ml_Complete lib (SetupWithManager (machine_reconciler lib fl baseImageCache))) (
            must (ml_Complete lib (SetupWithManager CSRApproverReconciler)) (
            main_webhooks lib))) })))"


section \<open>What is set up, in order\<close>

datatype start_event =
    EvManager string bool
  | EvController string "int option"
  | EvWebhook
  | EvHealthz string
  | EvReadyz string
  | EvStart

definition logs :: "('w \<Rightarrow> 'e list) \<Rightarrow> 'e list \<Rightarrow> ('w, 'a) state \<Rightarrow> bool" where
  "logs log es m \<longleftrightarrow> (\<forall>w r w'. run_state m w = (r, w') \<longrightarrow> log w' = log w @ es)"

text \<open>A log of the calls to controller-runtime: of a manager where it is probed and whether it
  elects a leader, of a controller its name and its concurrency.\<close>

definition manager_traces :: "('w, 'signer, 'conn) manager_lib \<Rightarrow> ('w \<Rightarrow> start_event list) \<Rightarrow> bool" where
  "manager_traces lib log \<longleftrightarrow>
     (\<forall>opts. logs log [EvManager (co_HealthProbeBindAddress opts) (co_LeaderElection opts)] (ml_NewManager lib opts)) \<and>
     (\<forall>c. logs log [EvController (ctl_Name c) (ctl_MaxConcurrentReconciles c)] (ml_Complete lib c)) \<and>
     logs log [EvWebhook] (ml_SetupWebhook lib) \<and>
     (\<forall>n. logs log [EvHealthz n] (ml_AddHealthzCheck lib n)) \<and>
     (\<forall>n. logs log [EvReadyz n] (ml_AddReadyzCheck lib n)) \<and>
     logs log [EvStart] (ml_Start lib) \<and>
     (\<forall>d. logs log [] (fo_MkdirAll (ml_os lib) d))"

definition finish_plan :: "start_event list" where
  "finish_plan = [EvHealthz ''healthz'', EvReadyz ''readyz'', EvStart]"

definition startup_plan :: "('w, 'signer, 'conn) manager_lib \<Rightarrow> flags \<Rightarrow> start_event list" where
  "startup_plan lib fl =
     [EvManager (probeAddr fl) (enableLeaderElection fl),
      EvController ''libvirthost'' None,
      EvController ''libvirtcluster'' None,
      EvController ''libvirtmachine'' (Some (concurrency (maxConcurrentReconciles fl))),
      EvController ''csrapprover'' None] @
     (if ml_Getenv lib ''ENABLE_WEBHOOKS'' \<noteq> ''false'' then [EvWebhook] else []) @ finish_plan"

text \<open>A program goes through a plan up to its end, or exits with code 1 at some point of it.\<close>

definition stages :: "('w \<Rightarrow> 'e list) \<Rightarrow> 'e list \<Rightarrow> ('w, nat option) state \<Rightarrow> bool" where
  "stages log plan m \<longleftrightarrow> (\<forall>w r w'. run_state m w = (r, w') \<longrightarrow>
     (\<exists>n. log w' = log w @ take n plan) \<and> (r = None \<and> log w' = log w @ plan \<or> r = Some 1))"

lemma stages_end: "stages log [] (State_Monad.return None)"
  by (simp add: stages_def State_Monad.return_def)

lemma stages_exit: "stages log plan (State_Monad.return (Some 1))"
  unfolding stages_def by (auto simp: State_Monad.return_def intro: exI [of _ 0])

lemma stages_must:
  assumes "logs log [e] m" "stages log plan rest"
  shows "stages log (e # plan) (must m rest)"
proof (unfold stages_def, intro allI impI)
  fix w r w' assume run: "run_state (must m rest) w = (r, w')"
  obtain x w1 where m: "run_state m w = (x, w1)" by fastforce
  then have l: "log w1 = log w @ [e]" using assms(1) by (simp add: logs_def)
  show "(\<exists>n. log w' = log w @ take n (e # plan)) \<and> (r = None \<and> log w' = log w @ e # plan \<or> r = Some 1)"
  proof (cases x)
    case (Some err)
    then have "r = Some 1" "w' = w1" using run m by (simp_all add: must_def State_Monad.bind_def State_Monad.return_def)
    then show ?thesis using l by (auto intro: exI [of _ 1])
  next
    case None
    then have "run_state rest w1 = (r, w')" using run m by (simp add: must_def State_Monad.bind_def)
    then obtain n where "log w' = log w1 @ take n plan" "r = None \<and> log w' = log w1 @ plan \<or> r = Some 1"
      using assms(2) unfolding stages_def by blast
    then show ?thesis using l by (auto intro: exI [of _ "Suc n"])
  qed
qed

lemma stages_cache_New:
  assumes "\<And>d. logs log [] (fo_MkdirAll fo d)" "stages log plan (f \<lparr>ca_Dir = dir, ca_Resolver = resolver\<rparr>)"
  shows "stages log plan (State_Monad.bind (cache_New fo dir resolver)
    (\<lambda>c. case c of Inl err \<Rightarrow> State_Monad.return (Some 1) | Inr cache \<Rightarrow> f cache))"
proof (unfold stages_def, intro allI impI)
  fix w r w' assume run: "run_state (State_Monad.bind (cache_New fo dir resolver)
    (\<lambda>c. case c of Inl err \<Rightarrow> State_Monad.return (Some 1) | Inr cache \<Rightarrow> f cache)) w = (r, w')"
  obtain x w1 where m: "run_state (fo_MkdirAll fo dir) w = (x, w1)" by fastforce
  then have l: "log w1 = log w" using assms(1) [of dir] by (simp add: logs_def)
  let ?rest = "case x of Some err \<Rightarrow> State_Monad.return (Some 1) | None \<Rightarrow> f \<lparr>ca_Dir = dir, ca_Resolver = resolver\<rparr>"
  have "run_state ?rest w1 = (r, w')"
    using run m by (cases x) (simp_all add: cache_New_def State_Monad.bind_def State_Monad.return_def)
  moreover have "stages log plan ?rest" using assms(2) stages_exit by (cases x) simp_all
  ultimately show "(\<exists>n. log w' = log w @ take n plan) \<and> (r = None \<and> log w' = log w @ plan \<or> r = Some 1)"
    using l unfolding stages_def by metis
qed

lemma stages_main:
  assumes "manager_traces lib log"
  shows "stages log (startup_plan lib fl) (main lib fl)"
proof -
  have t: "logs log [EvWebhook] (ml_SetupWebhook lib)" "\<And>n. logs log [EvHealthz n] (ml_AddHealthzCheck lib n)"
    "\<And>n. logs log [EvReadyz n] (ml_AddReadyzCheck lib n)" "logs log [EvStart] (ml_Start lib)"
    "\<And>d. logs log [] (fo_MkdirAll (ml_os lib) d)"
    using assms by (simp_all add: manager_traces_def)
  have m: "logs log [EvManager (probeAddr fl) (enableLeaderElection fl)] (ml_NewManager lib (managerOptions fl))"
  proof -
    have "logs log [EvManager (co_HealthProbeBindAddress (managerOptions fl)) (co_LeaderElection (managerOptions fl))]
        (ml_NewManager lib (managerOptions fl))"
      using assms unfolding manager_traces_def by blast
    then show ?thesis by (simp add: managerOptions_def)
  qed
  have c: "logs log [EvController n k] (ml_Complete lib (SetupWithManager x))"
    if "ctl_Name (SetupWithManager x) = n" "ctl_MaxConcurrentReconciles (SetupWithManager x) = k" for x n k
    using assms that by (auto simp: manager_traces_def)
  have "stages log finish_plan (main_finish lib)"
    unfolding main_finish_def finish_plan_def by (intro stages_must stages_end t)
  then have "stages log ((if ml_Getenv lib ''ENABLE_WEBHOOKS'' \<noteq> ''false'' then [EvWebhook] else []) @ finish_plan)
      (main_webhooks lib)"
    by (simp add: main_webhooks_def stages_must t(1))
  then show ?thesis unfolding main_def startup_plan_def append_Cons append_Nil
    by (intro stages_must m c stages_cache_New t(5)) (simp_all add: host_reconciler_def machine_reconciler_def setup_defs)
qed


section \<open>Properties\<close>


text \<open>A manager that records the calls and refuses the webhook.\<close>

definition example_lib_os :: "start_event list file_os" where
  "example_lib_os = \<lparr>fo_MkdirAll = \<lambda>d. State_Monad.return None, fo_TempDir = ''/tmp'',
     fo_CreateTemp = State_Monad.return (Inr 0), fo_Write = \<lambda>b. State_Monad.return (length b, None),
     fo_Close = State_Monad.return None, fo_Rename = \<lambda>a b. State_Monad.return None,
     fo_Remove = \<lambda>p. State_Monad.return None\<rparr>"

definition record_start :: "start_event \<Rightarrow> 'a \<Rightarrow> (start_event list, 'a) state" where
  "record_start e r = State (\<lambda>w. (r, w @ [e]))"

definition example_manager :: "(start_event list, unit, unit) manager_lib" where
  "example_manager =
     \<lparr>ml_NewManager = \<lambda>opts. record_start (EvManager (co_HealthProbeBindAddress opts) (co_LeaderElection opts)) None,
      ml_Complete = \<lambda>c. record_start (EvController (ctl_Name c) (ctl_MaxConcurrentReconciles c)) None,
      ml_SetupWebhook = record_start EvWebhook (Some (ErrorText ''no certificate'')),
      ml_AddHealthzCheck = \<lambda>n. record_start (EvHealthz n) None, ml_AddReadyzCheck = \<lambda>n. record_start (EvReadyz n) None,
      ml_Start = record_start EvStart None, ml_Getenv = \<lambda>v. [], ml_os = example_lib_os,
      ml_ssh = \<lparr>lib_url_Parse = \<lambda>u. Inl (ErrorText u), lib_ParsePrivateKey = \<lambda>k. Inr (),
        lib_Dial = \<lambda>a. State_Monad.return (Inr ()), lib_NewClientConn = \<lambda>c a u s k. State_Monad.return (Inl (ErrorText a)),
        lib_CloseConn = \<lambda>c. State_Monad.return ()\<rparr>,
      ml_transport = example_transport ''body''\<rparr>"


end
