(* ===== verification/Image_Staging.thy ===== *)
theory Image_Staging
  imports Main
begin

text \<open>
  Concurrent reconciliations that stage base images on hosts: the interleavings of
  \<^verbatim>\<open>reconcileBaseImage\<close> of \<^verbatim>\<open>internal/controller/libvirtmachine_controller.go\<close>, call by call, with
  the mutex per host and digest (\<^verbatim>\<open>baseImageHostUpload\<close>) and with the commands of
  \<^verbatim>\<open>UploadQcow2Volume\<close> that create a volume, fill it, and remove it again when that fails.
  What one reconciliation does on its own, with its conditions and messages, is
  \<open>reconcileBaseImage\<close> of \<open>Machine_Steps\<close>. The hosts are a parameter of the model.
\<close>

section \<open>Jobs, phases and steps\<close>

text \<open>A job is one call of \<^verbatim>\<open>reconcileBaseImage\<close> of a cluster with a base image and of a controller
  with a cache: the host, the digest of the cache entry it gets, and the pool and volume it
  stages to.\<close>

record job =
  jb_Host :: string
  jb_SHA256 :: string
  jb_Pool :: string
  jb_VolumeName :: string

type_synonym volume_ref = "string \<times> string \<times> string"

definition uploadKey :: "job \<Rightarrow> string" where
  "uploadKey j = jb_Host j @ ''|'' @ jb_SHA256 j"

definition target :: "job \<Rightarrow> volume_ref" where
  "target j = (jb_Host j, jb_Pool j, jb_VolumeName j)"

text \<open>The call a job makes next: the two checks that the volume exists, the fetch into the cache,
  the lock, the preparation (header, open, stream to a temporary file), \<^verbatim>\<open>vol-create-as\<close>,
  \<^verbatim>\<open>vol-upload\<close> and \<^verbatim>\<open>vol-delete\<close>; or how it returned.\<close>

datatype phase = Checking | Fetching | Waiting | Rechecking | Preparing | Creating | Uploading
  | Removing | Staged | Failed

text \<open>The hosts, the cache and the commands, on a state of the outside; an existence check fails
  with \<open>None\<close>, every other call tells whether it succeeded.\<close>

record 'h volume_host =
  vh_exists :: "volume_ref \<Rightarrow> 'h \<Rightarrow> bool option \<times> 'h"
  vh_fetch :: "job \<Rightarrow> 'h \<Rightarrow> bool \<times> 'h"
  vh_prepare :: "job \<Rightarrow> 'h \<Rightarrow> bool \<times> 'h"
  vh_create :: "volume_ref \<Rightarrow> 'h \<Rightarrow> bool \<times> 'h"
  vh_upload :: "volume_ref \<Rightarrow> 'h \<Rightarrow> bool \<times> 'h"
  vh_delete :: "volume_ref \<Rightarrow> 'h \<Rightarrow> bool \<times> 'h"

definition volume_check :: "'h volume_host \<Rightarrow> job \<Rightarrow> phase \<Rightarrow> 'h \<Rightarrow> phase \<times> 'h" where
  "volume_check v j missing h =
     (case vh_exists v (target j) h of
        (None, h') \<Rightarrow> (Failed, h')
      | (Some present, h') \<Rightarrow> (if present then Staged else missing, h'))"

fun proceed :: "'h volume_host \<Rightarrow> job \<Rightarrow> phase \<Rightarrow> 'h \<Rightarrow> phase \<times> 'h" where
  "proceed v j Checking h = volume_check v j Fetching h"
| "proceed v j Fetching h = (case vh_fetch v j h of (ok, h') \<Rightarrow> (if ok then Waiting else Failed, h'))"
| "proceed v j Waiting h = (Rechecking, h)"
| "proceed v j Rechecking h = volume_check v j Preparing h"
| "proceed v j Preparing h = (case vh_prepare v j h of (ok, h') \<Rightarrow> (if ok then Creating else Failed, h'))"
| "proceed v j Creating h = (case vh_create v (target j) h of (ok, h') \<Rightarrow> (if ok then Uploading else Failed, h'))"
| "proceed v j Uploading h = (case vh_upload v (target j) h of (ok, h') \<Rightarrow> (if ok then Staged else Removing, h'))"
| "proceed v j Removing h = (case vh_delete v (target j) h of (ok, h') \<Rightarrow> (Failed, h'))"
| "proceed v j Staged h = (Staged, h)"
| "proceed v j Failed h = (Failed, h)"

text \<open>A job holds the mutex of its key from \<^verbatim>\<open>Lock\<close> until it returns, when the deferred
  \<^verbatim>\<open>Unlock\<close> runs.\<close>

definition critical :: "phase \<Rightarrow> bool" where
  "critical p \<longleftrightarrow> p \<in> {Rechecking, Preparing, Creating, Uploading, Removing}"

definition finished :: "phase \<Rightarrow> bool" where
  "finished p \<longleftrightarrow> p \<in> {Staged, Failed}"

record 'h staging =
  sg_phases :: "phase list"
  sg_locks :: "string \<rightharpoonup> nat"
  sg_host :: 'h
  sg_uploads :: "nat list"

definition lock_after :: "string \<Rightarrow> nat \<Rightarrow> phase \<Rightarrow> phase \<Rightarrow> (string \<rightharpoonup> nat) \<Rightarrow> string \<rightharpoonup> nat" where
  "lock_after k i p p' m =
     (if p = Waiting then m(k \<mapsto> i) else if critical p \<and> \<not> critical p' then m(k := None) else m)"

text \<open>The job \<open>i\<close> makes its next call; a job that waits for a mutex that is held cannot.\<close>

definition stage_step :: "'h volume_host \<Rightarrow> job list \<Rightarrow> nat \<Rightarrow> 'h staging \<Rightarrow> 'h staging option" where
  "stage_step v jobs i s =
     (if i \<ge> length jobs then None
      else let j = jobs ! i; p = sg_phases s ! i in
        if finished p \<or> p = Waiting \<and> sg_locks s (uploadKey j) \<noteq> None then None
        else (case proceed v j p (sg_host s) of (p', h') \<Rightarrow>
          Some \<lparr>sg_phases = (sg_phases s)[i := p'],
                sg_locks = lock_after (uploadKey j) i p p' (sg_locks s),
                sg_host = h',
                sg_uploads = (if p = Uploading \<and> p' = Staged then sg_uploads s @ [i] else sg_uploads s)\<rparr>))"

definition initial :: "job list \<Rightarrow> 'h \<Rightarrow> 'h staging" where
  "initial jobs h = \<lparr>sg_phases = replicate (length jobs) Checking, sg_locks = Map.empty, sg_host = h, sg_uploads = []\<rparr>"

text \<open>Any job may make its next call at any time; the number counts the calls made so far.\<close>

inductive reach :: "'h volume_host \<Rightarrow> job list \<Rightarrow> 'h \<Rightarrow> nat \<Rightarrow> 'h staging \<Rightarrow> bool" for v jobs h where
  start: "reach v jobs h 0 (initial jobs h)"
| call: "reach v jobs h n s \<Longrightarrow> stage_step v jobs i s = Some s' \<Longrightarrow> reach v jobs h (Suc n) s'"


section \<open>The lock\<close>

text \<open>What a call is made of.\<close>

lemma stage_stepE:
  assumes "stage_step v jobs i s = Some s'"
  obtains p' where "i < length jobs" "\<not> finished (sg_phases s ! i)"
    "sg_phases s ! i = Waiting \<Longrightarrow> sg_locks s (uploadKey (jobs ! i)) = None"
    "proceed v (jobs ! i) (sg_phases s ! i) (sg_host s) = (p', sg_host s')"
    "sg_phases s' = (sg_phases s)[i := p']"
    "sg_locks s' = lock_after (uploadKey (jobs ! i)) i (sg_phases s ! i) p' (sg_locks s)"
    "sg_uploads s' = (if sg_phases s ! i = Uploading \<and> p' = Staged then sg_uploads s @ [i] else sg_uploads s)"
proof (rule that [of "fst (proceed v (jobs ! i) (sg_phases s ! i) (sg_host s))"])
qed (use assms in \<open>auto simp: stage_step_def Let_def split: if_splits prod.splits\<close>)

text \<open>The lock is entered only from \<^const>\<open>Waiting\<close>.\<close>

lemma proceed_critical:
  assumes "proceed v j p h = (p', h')"
  shows "critical p' \<Longrightarrow> critical p \<or> p = Waiting" "p = Waiting \<Longrightarrow> p' = Rechecking"
  using assms by (cases p; auto simp: critical_def volume_check_def split: prod.splits option.splits if_splits)+

text \<open>The holder of a lock is the job in its critical section.\<close>

definition locks_ok :: "job list \<Rightarrow> 'h staging \<Rightarrow> bool" where
  "locks_ok jobs s \<longleftrightarrow> length (sg_phases s) = length jobs \<and>
     (\<forall>i<length jobs. critical (sg_phases s ! i) \<longleftrightarrow> sg_locks s (uploadKey (jobs ! i)) = Some i) \<and>
     (\<forall>k i. sg_locks s k = Some i \<longrightarrow> i < length jobs \<and> k = uploadKey (jobs ! i))"

lemma locks_initial: "locks_ok jobs (initial jobs h)"
  by (auto simp: locks_ok_def initial_def critical_def)

lemma locks_step:
  assumes "locks_ok jobs s" "stage_step v jobs i s = Some s'"
  shows "locks_ok jobs s'"
  using assms(2)
proof (rule stage_stepE)
  fix p'
  let ?k = "uploadKey (jobs ! i)" and ?p = "sg_phases s ! i"
  assume i: "i < length jobs" and free: "?p = Waiting \<Longrightarrow> sg_locks s ?k = None"
    and go: "proceed v (jobs ! i) ?p (sg_host s) = (p', sg_host s')"
    and s': "sg_phases s' = (sg_phases s)[i := p']" "sg_locks s' = lock_after ?k i ?p p' (sg_locks s)"
  note enter = proceed_critical [OF go]
  have len: "length (sg_phases s) = length jobs"
    and held: "\<And>k j. sg_locks s k = Some j \<Longrightarrow> j < length jobs \<and> k = uploadKey (jobs ! j)"
    and crit: "\<And>j. j < length jobs \<Longrightarrow> critical (sg_phases s ! j) \<longleftrightarrow> sg_locks s (uploadKey (jobs ! j)) = Some j"
    using assms(1) by (auto simp: locks_ok_def)
  have "\<not> critical Waiting" "critical Rechecking" by (simp_all add: critical_def)
  then have "critical (sg_phases s' ! j) \<longleftrightarrow> sg_locks s' (uploadKey (jobs ! j)) = Some j" if "j < length jobs" for j
    using crit [OF that] crit [OF i] enter free s' i len
    by (cases "j = i") (auto simp: lock_after_def)
  moreover have "j < length jobs \<and> k = uploadKey (jobs ! j)" if "sg_locks s' k = Some j" for k j
    using that held i by (auto simp: s' lock_after_def split: if_splits)
  ultimately show ?thesis using len s' by (simp add: locks_ok_def)
qed

lemma locks_reach:
  assumes "reach v jobs h n s"
  shows "locks_ok jobs s"
  using assms by induction (blast intro: locks_initial locks_step)+

text \<open>So two jobs with one key are never in the critical section together.\<close>

lemma locks_exclusion:
  assumes "locks_ok jobs s" "i < length jobs" "k < length jobs" "uploadKey (jobs ! i) = uploadKey (jobs ! k)"
    and "critical (sg_phases s ! i)" "critical (sg_phases s ! k)"
  shows "i = k"
  using assms by (auto simp: locks_ok_def)


section \<open>The volumes\<close>

text \<open>What the commands of a host do to the volumes \<open>has\<close> tells of: only a \<^verbatim>\<open>vol-create-as\<close>
  that succeeds adds one, only a \<^verbatim>\<open>vol-delete\<close> that succeeds takes one away, and a check that
  succeeds tells the truth.\<close>

definition volumes_documented :: "'h volume_host \<Rightarrow> (volume_ref \<Rightarrow> 'h \<Rightarrow> bool) \<Rightarrow> bool" where
  "volumes_documented v has \<longleftrightarrow>
     (\<forall>t u h b h'. vh_exists v t h = (b, h') \<longrightarrow> (b = None \<or> b = Some (has t h)) \<and> has u h' = has u h) \<and>
     (\<forall>j u h. has u (snd (vh_fetch v j h)) = has u h) \<and>
     (\<forall>j u h. has u (snd (vh_prepare v j h)) = has u h) \<and>
     (\<forall>t u h ok h'. vh_create v t h = (ok, h') \<longrightarrow> has u h' = (has u h \<or> ok \<and> u = t)) \<and>
     (\<forall>t u h. has u (snd (vh_upload v t h)) = has u h) \<and>
     (\<forall>t u h ok h'. vh_delete v t h = (ok, h') \<longrightarrow> has u h' = (has u h \<and> \<not> (ok \<and> u = t)))"

lemma documented_exists:
  assumes "volumes_documented v has" "vh_exists v t h = (b, h')"
  shows "b = None \<or> b = Some (has t h)" "has u h' = has u h"
  using assms unfolding volumes_documented_def by meson+

lemma documented_quiet:
  assumes "volumes_documented v has"
  shows "vh_fetch v j h = (ok, h') \<Longrightarrow> has u h' = has u h"
    and "vh_prepare v j h = (ok, h') \<Longrightarrow> has u h' = has u h"
    and "vh_upload v t h = (ok, h') \<Longrightarrow> has u h' = has u h"
  using assms unfolding volumes_documented_def by (metis snd_conv)+

lemma documented_create:
  "volumes_documented v has \<Longrightarrow> vh_create v t h = (ok, h') \<Longrightarrow> has u h' = (has u h \<or> ok \<and> u = t)"
  unfolding volumes_documented_def by blast

lemma documented_delete:
  "volumes_documented v has \<Longrightarrow> vh_delete v t h = (ok, h') \<Longrightarrow> has u h' = (has u h \<and> \<not> (ok \<and> u = t))"
  unfolding volumes_documented_def by blast

text \<open>A job creates its volume only while the volume is missing, and fills or removes it only
  while it is there.\<close>

definition volume_phase :: "(volume_ref \<Rightarrow> 'h \<Rightarrow> bool) \<Rightarrow> job \<Rightarrow> phase \<Rightarrow> 'h \<Rightarrow> bool" where
  "volume_phase has j p h \<longleftrightarrow>
     (p \<in> {Preparing, Creating} \<longrightarrow> \<not> has (target j) h) \<and> (p \<in> {Uploading, Removing} \<longrightarrow> has (target j) h)"

lemma volume_check_result:
  assumes "volumes_documented v has" "volume_check v j m h = (p', h')"
  shows "has u h' = has u h" "p' = Failed \<or> p' = (if has (target j) h then Staged else m)"
proof -
  obtain b where b: "vh_exists v (target j) h = (b, h')"
    using assms(2) by (auto simp: volume_check_def split: prod.splits option.splits)
  note doc = documented_exists [OF assms(1) b]
  show "has u h' = has u h" by (rule doc(2))
  show "p' = Failed \<or> p' = (if has (target j) h then Staged else m)"
    using doc(1) assms(2) b by (auto simp: volume_check_def)
qed

lemma proceed_others:
  assumes "volumes_documented v has" "proceed v j p h = (p', h')" "u \<noteq> target j \<or> p \<notin> {Creating, Removing}"
  shows "has u h' = has u h"
  using assms(2,3) volume_check_result(1) [OF assms(1)] documented_quiet [OF assms(1)]
    documented_create [OF assms(1)] documented_delete [OF assms(1)]
  by (cases p) (auto split: prod.splits)

lemma proceed_volume_phase:
  assumes "volumes_documented v has" "proceed v j p h = (p', h')" "volume_phase has j p h"
  shows "volume_phase has j p' h'"
proof (cases p)
  case Checking
  then show ?thesis using assms(2) volume_check_result(2) [OF assms(1), of j Fetching h p' h']
    by (auto simp: volume_phase_def split: if_splits)
next
  case Rechecking
  then have "volume_check v j Preparing h = (p', h')" using assms(2) by simp
  from volume_check_result [OF assms(1) this] show ?thesis
    by (auto simp: volume_phase_def split: if_splits)
next
  case Creating
  then show ?thesis using assms(2) documented_create [OF assms(1), of "target j" h _ h' "target j"]
    by (auto simp: volume_phase_def split: prod.splits if_splits)
next
  case Uploading
  then show ?thesis using assms(2,3) documented_quiet(3) [OF assms(1), of "target j" h _ h' "target j"]
    by (auto simp: volume_phase_def split: prod.splits if_splits)
next
  case Preparing
  then show ?thesis using assms(2,3) documented_quiet(2) [OF assms(1), of j h _ h' "target j"]
    by (auto simp: volume_phase_def split: prod.splits if_splits)
qed (use assms(2) in \<open>auto simp: volume_phase_def split: prod.splits if_splits\<close>)

text \<open>A volume an upload has completed stays, and no job fills or removes it again.\<close>

definition busy :: "phase \<Rightarrow> bool" where
  "busy p \<longleftrightarrow> p \<in> {Uploading, Removing}"

definition volumes_ok :: "(volume_ref \<Rightarrow> 'h \<Rightarrow> bool) \<Rightarrow> job list \<Rightarrow> 'h staging \<Rightarrow> bool" where
  "volumes_ok has jobs s \<longleftrightarrow>
     (\<forall>i<length jobs. volume_phase has (jobs ! i) (sg_phases s ! i) (sg_host s)) \<and>
     (\<forall>u\<in>set (sg_uploads s). u < length jobs \<and> has (target (jobs ! u)) (sg_host s) \<and>
        (\<forall>k<length jobs. target (jobs ! k) = target (jobs ! u) \<longrightarrow> \<not> busy (sg_phases s ! k))) \<and>
     distinct (map (\<lambda>u. target (jobs ! u)) (sg_uploads s))"

lemma volumes_initial: "volumes_ok has jobs (initial jobs h)"
  by (simp add: volumes_ok_def initial_def volume_phase_def)

lemma proceed_busy:
  assumes "proceed v j p h = (p', h')" "busy p'"
  shows "p = Creating \<or> p = Uploading"
  using assms by (cases p) (auto simp: busy_def volume_check_def split: prod.splits option.splits if_splits)

text \<open>Jobs that stage to one volume stage one image.\<close>

definition one_image :: "job list \<Rightarrow> bool" where
  "one_image jobs \<longleftrightarrow>
     (\<forall>a\<in>set jobs. \<forall>b\<in>set jobs. target a = target b \<longrightarrow> jb_SHA256 a = jb_SHA256 b)"

lemma one_image_key:
  assumes "one_image jobs" "i < length jobs" "k < length jobs" "target (jobs ! i) = target (jobs ! k)"
  shows "uploadKey (jobs ! i) = uploadKey (jobs ! k)"
proof -
  have "jb_SHA256 (jobs ! i) = jb_SHA256 (jobs ! k)"
    using assms by (auto simp: one_image_def)
  moreover have "jb_Host (jobs ! i) = jb_Host (jobs ! k)" using assms(4) by (simp add: target_def)
  ultimately show ?thesis by (simp add: uploadKey_def)
qed

lemma same_target_exclusion:
  assumes "one_image jobs" "locks_ok jobs s" "i < length jobs" "k < length jobs"
    and "target (jobs ! i) = target (jobs ! k)" "critical (sg_phases s ! i)" "critical (sg_phases s ! k)"
  shows "i = k"
  by (rule locks_exclusion [OF assms(2-4) one_image_key [OF assms(1,3,4,5)] assms(6,7)])

text \<open>What another job may rely on while one job makes a call.\<close>

lemma others_kept:
  assumes "volumes_documented v has" "one_image jobs" "locks_ok jobs s" "i < length jobs" "k < length jobs" "k \<noteq> i"
    and "proceed v (jobs ! i) (sg_phases s ! i) (sg_host s) = (p', h')" "critical (sg_phases s ! k)"
  shows "has (target (jobs ! k)) h' = has (target (jobs ! k)) (sg_host s)"
proof (rule proceed_others [OF assms(1,7)], rule ccontr)
  assume "\<not> (target (jobs ! k) \<noteq> target (jobs ! i) \<or> sg_phases s ! i \<notin> {Creating, Removing})"
  then have "target (jobs ! i) = target (jobs ! k)" "critical (sg_phases s ! i)" by (auto simp: critical_def)
  from same_target_exclusion [OF assms(2-5) this assms(8)] assms(6) show False by simp
qed

lemma volume_phases_step:
  assumes "volumes_documented v has" "one_image jobs" "locks_ok jobs s" "volumes_ok has jobs s"
    and "stage_step v jobs i s = Some s'" "k < length jobs"
  shows "volume_phase has (jobs ! k) (sg_phases s' ! k) (sg_host s')"
  using assms(5)
proof (rule stage_stepE)
  fix p'
  assume i: "i < length jobs" and go: "proceed v (jobs ! i) (sg_phases s ! i) (sg_host s) = (p', sg_host s')"
    and s': "sg_phases s' = (sg_phases s)[i := p']"
  have before: "volume_phase has (jobs ! k) (sg_phases s ! k) (sg_host s)"
    using assms(4,6) by (simp add: volumes_ok_def)
  show ?thesis
  proof (cases "k = i")
    case True
    then show ?thesis using proceed_volume_phase [OF assms(1) go] before s' i assms(3) by (simp add: locks_ok_def)
  next
    case False
    then show ?thesis using before others_kept [OF assms(1-3) i assms(6) False go] s'
      by (auto simp: volume_phase_def critical_def)
  qed
qed

lemma volumes_step:
  assumes "volumes_documented v has" "one_image jobs" "locks_ok jobs s" "volumes_ok has jobs s"
    and "stage_step v jobs i s = Some s'"
  shows "volumes_ok has jobs s'"
  using assms(5)
proof (rule stage_stepE)
  fix p'
  let ?p = "sg_phases s ! i" and ?T = "\<lambda>k. target (jobs ! k)"
  assume i: "i < length jobs" and go: "proceed v (jobs ! i) ?p (sg_host s) = (p', sg_host s')"
    and s': "sg_phases s' = (sg_phases s)[i := p']"
      "sg_uploads s' = (if ?p = Uploading \<and> p' = Staged then sg_uploads s @ [i] else sg_uploads s)"
  have len: "length (sg_phases s) = length jobs" using assms(3) by (simp add: locks_ok_def)
  have own: "volume_phase has (jobs ! i) ?p (sg_host s)" and dist: "distinct (map ?T (sg_uploads s))"
    using assms(4) i by (auto simp: volumes_ok_def)
  have old: "u < length jobs" "has (?T u) (sg_host s)" "k < length jobs \<Longrightarrow> ?T k = ?T u \<Longrightarrow> \<not> busy (sg_phases s ! k)"
    if "u \<in> set (sg_uploads s)" for u k
    using assms(4) that by (auto simp: volumes_ok_def)
  have kept: "has (?T u) (sg_host s')" "k < length jobs \<Longrightarrow> ?T k = ?T u \<Longrightarrow> \<not> busy (sg_phases s' ! k)"
    if u: "u \<in> set (sg_uploads s)" for u k
  proof -
    have idle: "?T u \<noteq> ?T i \<or> ?p \<notin> {Creating, Removing}" and still: "?T u = ?T i \<Longrightarrow> \<not> busy p'"
      using old(2) [OF u] old(3) [OF u i] own proceed_busy [OF go] by (auto simp: volume_phase_def busy_def)
    show "has (?T u) (sg_host s')" using proceed_others [OF assms(1) go idle] old(2) [OF u] by simp
    show "\<not> busy (sg_phases s' ! k)" if "k < length jobs" "?T k = ?T u"
      using that old(3) [OF u that] still s'(1) len by (cases "k = i") auto
  qed
  have new: "has (?T i) (sg_host s')" "k < length jobs \<Longrightarrow> ?T k = ?T i \<Longrightarrow> \<not> busy (sg_phases s' ! k)"
    "?T i \<notin> set (map ?T (sg_uploads s))"
    if up: "?p = Uploading" "p' = Staged" for k
  proof -
    have "?p \<notin> {Creating, Removing}" using up by simp
    then show "has (?T i) (sg_host s')"
      using proceed_others [OF assms(1) go] own up by (auto simp: volume_phase_def)
    show "\<not> busy (sg_phases s' ! k)" if "k < length jobs" "?T k = ?T i"
      using same_target_exclusion [OF assms(2,3) i that(1)] that up s'(1) i len
      by (cases "k = i") (auto simp: busy_def critical_def)
    show "?T i \<notin> set (map ?T (sg_uploads s))" using old(3) [OF _ i] up by (auto simp: busy_def)
  qed
  show ?thesis using volume_phases_step [OF assms] kept new old(1) dist i unfolding volumes_ok_def s'(2) by (auto split: if_splits)
qed

lemma volumes_reach:
  assumes "reach v jobs h n s" "volumes_documented v has" "one_image jobs"
  shows "volumes_ok has jobs s"
  using assms(1)
proof induction
  case start
  show ?case by (rule volumes_initial)
next
  case (call n s i s')
  then show ?case using volumes_step [OF assms(2,3) locks_reach] by blast
qed


section \<open>Progress\<close>

text \<open>How many calls a job can still make.\<close>

fun calls_left :: "phase \<Rightarrow> nat" where
  "calls_left Checking = 8"
| "calls_left Fetching = 7"
| "calls_left Waiting = 6"
| "calls_left Rechecking = 5"
| "calls_left Preparing = 4"
| "calls_left Creating = 3"
| "calls_left Uploading = 2"
| "calls_left Removing = 1"
| "calls_left Staged = 0"
| "calls_left Failed = 0"

lemma proceed_calls_left:
  assumes "proceed v j p h = (p', h')" "\<not> finished p"
  shows "calls_left p' < calls_left p"
  using assms by (cases p) (auto simp: finished_def volume_check_def split: prod.splits option.splits if_splits)

lemma sum_list_update_less:
  fixes f :: "'a \<Rightarrow> nat"
  assumes "i < length xs" "f y < f (xs ! i)"
  shows "sum_list (map f (xs[i := y])) < sum_list (map f xs)"
  using assms by (induction xs arbitrary: i) (auto split: nat.splits)

lemma calls_bounded:
  assumes "reach v jobs h n s"
  shows "n + sum_list (map calls_left (sg_phases s)) \<le> 8 * length jobs"
  using assms
proof induction
  case start
  show ?case by (simp add: initial_def sum_list_replicate)
next
  case (call n s i s')
  have "length (sg_phases s) = length jobs" using locks_reach [OF call.hyps(1)] by (simp add: locks_ok_def)
  with call.hyps(2) have "sum_list (map calls_left (sg_phases s')) < sum_list (map calls_left (sg_phases s))"
    by (elim stage_stepE) (simp add: sum_list_update_less proceed_calls_left)
  with call.IH show ?case by simp
qed

lemma unblocked_step:
  assumes "i < length jobs" "\<not> finished (sg_phases s ! i)"
    and "sg_phases s ! i = Waiting \<Longrightarrow> sg_locks s (uploadKey (jobs ! i)) = None"
  shows "\<exists>s'. stage_step v jobs i s = Some s'"
  using assms by (auto simp: stage_step_def Let_def split: prod.splits)

text \<open>A job that waits for a mutex waits for a job that can go on.\<close>

lemma some_step:
  assumes "locks_ok jobs s" "i < length jobs" "\<not> finished (sg_phases s ! i)"
  shows "\<exists>k s'. stage_step v jobs k s = Some s'"
proof (cases "sg_locks s (uploadKey (jobs ! i))")
  case None
  then show ?thesis using unblocked_step [OF assms(2,3)] by blast
next
  case (Some k)
  then have "k < length jobs" "critical (sg_phases s ! k)" using assms(1) by (auto simp: locks_ok_def)
  then show ?thesis using unblocked_step [of k jobs s v] by (fastforce simp: critical_def finished_def)
qed

lemma locks_free:
  assumes "locks_ok jobs s" "\<forall>i<length jobs. finished (sg_phases s ! i)"
  shows "sg_locks s = Map.empty"
proof
  fix k
  have "\<not> critical p" if "finished p" for p using that by (auto simp: critical_def finished_def)
  then have "sg_locks s k \<noteq> Some i" for i using assms unfolding locks_ok_def by blast
  then show "sg_locks s k = None" by (cases "sg_locks s k") auto
qed


section \<open>Schedules\<close>

text \<open>A schedule names the job that makes each call.\<close>

fun run :: "'h volume_host \<Rightarrow> job list \<Rightarrow> nat list \<Rightarrow> 'h staging \<Rightarrow> 'h staging option" where
  "run v jobs [] s = Some s"
| "run v jobs (i # is) s = (case stage_step v jobs i s of None \<Rightarrow> None | Some s' \<Rightarrow> run v jobs is s')"

lemma run_reach:
  assumes "run v jobs is s = Some s'" "reach v jobs h n s"
  shows "reach v jobs h (n + length is) s'"
  using assms by (induction v jobs "is" s arbitrary: n rule: run.induct)
    (force split: option.splits dest: reach.call)+

lemma run_initial:
  assumes "run v jobs is (initial jobs h) = Some s" "n = length is"
  shows "reach v jobs h n s"
  using run_reach [OF assms(1) reach.start] assms(2) by simp

text \<open>A host that keeps its volumes in a set, on which every upload succeeds or every one fails.\<close>

definition set_host :: "bool \<Rightarrow> volume_ref set volume_host" where
  "set_host uploads = \<lparr>vh_exists = \<lambda>t h. (Some (t \<in> h), h), vh_fetch = \<lambda>j h. (True, h),
     vh_prepare = \<lambda>j h. (True, h), vh_create = \<lambda>t h. (t \<notin> h, insert t h),
     vh_upload = \<lambda>t h. (uploads, h), vh_delete = \<lambda>t h. (True, h - {t})\<rparr>"

definition worker :: job where
  "worker = \<lparr>jb_Host = ''kvm1'', jb_SHA256 = ''ab'', jb_Pool = ''default'', jb_VolumeName = ''rhcos''\<rparr>"

lemma set_host_documented: "volumes_documented (set_host b) (\<lambda>t h. t \<in> h)"
  by (auto simp: volumes_documented_def set_host_def)

lemma one_image_worker: "one_image [worker, worker]"
  by (simp add: one_image_def)

lemmas run_simps = stage_step_def Let_def initial_def set_host_def volume_check_def lock_after_def critical_def finished_def
  eval_nat_numeral


section \<open>Properties\<close>



text \<open>C14: However they interleave, the reconciliations that stage base images make at most eight calls
  each, and they never block each other for good: until all have returned, one of them can go
  on, and when all have returned every mutex is free.\<close>

theorem base_image_staging_ends:
  assumes "reach v jobs h n s"
  shows "n \<le> 8 * length jobs \<and>
    ((\<exists>i s'. stage_step v jobs i s = Some s') \<or>
     (\<forall>i<length jobs. finished (sg_phases s ! i)) \<and> sg_locks s = Map.empty)"
proof
  show "n \<le> 8 * length jobs" using calls_bounded [OF assms] by simp
  show "(\<exists>i s'. stage_step v jobs i s = Some s') \<or>
     (\<forall>i<length jobs. finished (sg_phases s ! i)) \<and> sg_locks s = Map.empty"
    using some_step [OF locks_reach [OF assms]] locks_free [OF locks_reach [OF assms]] by blast
qed

theorem base_image_staging_ends_witness:
  "\<exists>s. reach (set_host False) [worker, worker] {} 3 s \<and> (3::nat) \<le> 8 * length [worker, worker] \<and>
     ((\<exists>i s'. stage_step (set_host False) [worker, worker] i s = Some s') \<or>
      (\<forall>i<2. finished (sg_phases s ! i)) \<and> sg_locks s = Map.empty)"
proof -
  have "\<exists>s. run (set_host False) [worker, worker] [0, 1, 0] (initial [worker, worker] {}) = Some s"
    by (simp add: run_simps)
  then obtain s where go: "run (set_host False) [worker, worker] [0, 1, 0] (initial [worker, worker] {}) = Some s"
    by blast
  have s: "reach (set_host False) [worker, worker] {} 3 s" by (rule run_initial [OF go]) simp
  show ?thesis using s base_image_staging_ends [OF s] by auto
qed


end
