(* ===== verification/Spec2Isabelle.thy ===== *)
theory Spec2Isabelle
  imports Host_Controller Cluster_Controller Machine_Properties Machine_Cleanup Machine_Failure
    Machine_Admission Machine_Progress Domain_Sizing Node_Identity Iso_Builder
    Machine_Status Artifact_Cache Divergences Deep_Copy Manager Image_Staging
begin

text \<open>
  Verification of caplv, a Cluster API infrastructure provider that runs machines as libvirt
  domains on hosts it reaches over SSH.

  \<^bold>\<open>The program.\<close> A manager (\<^verbatim>\<open>cmd/main.go\<close>) runs four controllers and an admission webhook.
  The host controller probes a \<^verbatim>\<open>LibvirtHost\<close> and records its capacity. The cluster
  controller records whether the control plane endpoint of a \<^verbatim>\<open>LibvirtCluster\<close> answers. The
  machine controller turns a \<^verbatim>\<open>LibvirtMachine\<close> into volumes, bootstrap files and a domain on
  its host, and removes them again before the object may go. The CSR approver approves the
  certificate requests of the kubelets of those machines. The webhook guards the specs of
  machines. Below the controllers are the virsh client (commands over SSH), the domain XML, the
  Ignition and cloud-init data, the boot artifacts (kernel and initramfs), the cache of base
  images, and the credentials for fetching both.

  \<^bold>\<open>How it is modelled.\<close> A Go function that returns \<^verbatim>\<open>(T, error)\<close> returns a sum whose left part
  is the error, one that returns \<^verbatim>\<open>error\<close> returns an option. Effects are programs of
  \<^verbatim>\<open>State_Monad\<close> over a world \<open>'w\<close>, and every service, third-party library or system call is a
  field of a record that the program takes as a parameter: \<open>machine_env\<close>, \<open>host_env\<close>,
  \<open>cluster_env\<close>, \<open>csr_env\<close>, \<open>ssh_lib\<close>, \<open>transport\<close>, \<open>file_os\<close>, \<open>iso_env\<close>, \<open>json_lib\<close>,
  \<open>manager_lib\<close>, \<open>copy_lib\<close>. What is relied on of them is a named predicate in the statement
  that needs it, and a witness shows that it can hold. Sized integers are words. Every
  definition is total, so that no fuel is needed: the loops of the program go over finite lists.
  Interleavings are a step relation (\<open>reach\<close> of \<open>Image_Staging\<close>), as are the requests the
  webhook admits.

  \<^bold>\<open>Theories and what they show.\<close>

  \<^item> \<open>Go_Prelude\<close>, \<open>Go_Net\<close>, \<open>Go_Heap\<close>: what the sources use of Go and its standard library;
    the locale \<open>io_preorder\<close>, by which a relation between the states before and after is
    carried through a program construct by construct; memory with aliasing.
  \<^item> \<open>Api_Types\<close>, \<open>Api_Memory\<close>, \<open>Deep_Copy\<close> (\<^verbatim>\<open>api/v1alpha1\<close>): the resources as values and as
    they lie in memory. A deep copy is deeply equal to the original and independent of it.
  \<^item> \<open>Libvirt_Errors\<close>, \<open>Libvirt_Client\<close>, \<open>Virsh_Client\<close>, \<open>Domain_Xml\<close>, \<open>Qcow2\<close>
    (\<^verbatim>\<open>internal/libvirt\<close>), \<open>Ssh_Client\<close> (\<^verbatim>\<open>internal/ssh\<close>), \<open>Machine_Scope\<close> (\<^verbatim>\<open>internal/scope\<close>):
    the shell reads every command as the words that were meant; failed uploads clean up;
    missing objects are no errors; XML, node information and image headers read back.
  \<^item> \<open>Ignition\<close> (\<^verbatim>\<open>internal/ignition\<close>), \<open>Iso_Builder\<close> (\<^verbatim>\<open>internal/iso\<close>): the injected files,
    once each; sizes of images without wrap-around; no file left behind.
  \<^item> \<open>Artifact_Transport\<close>, \<open>Boot_Artifacts\<close> (\<^verbatim>\<open>internal/bootartifacts\<close>), \<open>Image_Resolvers\<close>,
    \<open>Image_Cache\<close> (\<^verbatim>\<open>internal/imagecache\<close>), \<open>Pull_Secrets\<close>, \<open>Artifact_Cache\<close> (the credentials and
    the cache of \<^verbatim>\<open>libvirtmachine_controller.go\<close>): what is fetched, cached or served has the
    digest it is named by and the one that was declared.
  \<^item> \<open>Webhook\<close> (\<^verbatim>\<open>internal/webhook/v1alpha1\<close>): along every sequence of admitted requests hosts
    are not shared, specs do not change and identifiers are safe for a shell.
  \<^item> \<open>Kube_Api\<close>, \<open>Host_Controller\<close>, \<open>Cluster_Controller\<close>, \<open>Csr_Approver\<close>
    (\<^verbatim>\<open>internal/controller\<close>): readiness is recorded exactly when it was observed; a request is
    approved only under the kubelet policy and for a managed node.
  \<^item> \<open>Machine_Env\<close>, \<open>Node_Labels\<close>, \<open>Machine_Steps\<close>, \<open>Machine_Controller\<close>
    (\<^verbatim>\<open>libvirtmachine_controller.go\<close>): the environment, the steps in the order of the source, and
    the reconciliation of a machine as a whole.
  \<^item> \<open>Host_Events\<close>, \<open>Machine_Isolation\<close>, \<open>Machine_Properties\<close>: a log of the requests to a host;
    a reconciliation touches only what belongs to its machine or is shared by its cluster.
  \<^item> \<open>Machine_Cleanup\<close>: a deletion refines a plan that is computed from the names of the
    machine, drops the finalizer exactly at its end, and gets there when the host answers.
  \<^item> \<open>Machine_Progress\<close>, \<open>Machine_Failure\<close>, \<open>Machine_Status\<close>, \<open>Domain_Sizing\<close>: a machine becomes
    ready when nothing stands in its way; a failed one is left alone; its status stays typed;
    its sizes are positive and do not wrap around.
  \<^item> \<open>Machine_Admission\<close>, \<open>Node_Identity\<close>: components together. What the machine controller
    writes is admitted by the webhook, and the CSR approver knows the nodes that the machine
    controller names.
  \<^item> \<open>Image_Staging\<close>: concurrent calls of \<^verbatim>\<open>reconcileBaseImage\<close>, call by call, with the mutex per
    host and digest. A base image is uploaded once, and the calls come to an end without a
    deadlock; the check outside the mutex can take a volume for staged too early.
  \<^item> \<open>Manager\<close> (\<^verbatim>\<open>cmd/main.go\<close>): options, wiring and the order of the start.
  \<^item> \<open>Divergences\<close>: where the program does not do what its comments say.
  \<^item> \<open>Examples\<close>: objects for the witnesses.

  \<^bold>\<open>Bounds.\<close> Case folding is that of ASCII. A slice header owns its backing array. Image sizes
  are shown not to wrap around for payloads below \<open>2 ^ 61\<close> bytes, which no memory holds. The
  collision freedom of SHA-256 is assumed for the texts of the sources at hand only.

  \<^bold>\<open>Not modelled.\<close> Apart from the staging of base images one reconciliation runs at
  a time: the merging of concurrent downloads (\<^verbatim>\<open>singleflight\<close> in the image cache), which is
  synchronisation by a library, is left out, and so are cancellation of contexts except where
  the SSH client reports it, logging and timestamps. Of the sources,
  \<^verbatim>\<open>api/v1alpha1/groupversion_info.go\<close> (registration of types), \<^verbatim>\<open>internal/mcs\<close> (an empty
  package) and \<^verbatim>\<open>test/utils\<close> (helpers of the end-to-end tests that run \<^verbatim>\<open>kubectl\<close>) have no
  model: they have no logic of the provider.
\<close>

end
